(* ===== verification/Prelude.thy ===== *)
theory Prelude
  imports Main "HOL-Library.List_Lexorder" "HOL-Library.Char_ord" "HOL-Library.Sublist"
    "HOL-Library.AList"
begin

text \<open>
  The shared vocabulary of the development: Go errors and outcomes, the state-and-error
  monad in which every effectful function is written, Go maps as association lists with
  the interface they promise (locale \<open>go_map\<close>), and the string operations of the Go
  standard library that the sources call.
\<close>

section \<open>Collections of facts\<close>

named_theorems gom \<open>unfolding rules of the outcome monad\<close>
named_theorems gom_iff \<open>what a successful run of a monadic program means\<close>
named_theorems paths \<open>the path functions of the program\<close>

section \<open>Go errors\<close>

text \<open>
  A Go \<open>error\<close>. The constructors keep what \<open>errors.As\<close> and the Kubernetes predicates
  \<open>errors.IsNotFound\<close> and friends can see: a cause formatted with \<open>%v\<close> is opaque, one
  formatted with \<open>%w\<close> can be unwrapped.
\<close>

datatype goerr =
    Errorf string "string list"
  | ErrorfV string "string list" goerr
  | ErrorfW string "string list" goerr
  | SignerNotFound string
  | OsNotExist string
  | OsError string
  | ApiNotFound string
  | ApiAlreadyExists string
  | ApiUnsupportedMediaType string
  | ExternalError string

datatype 'a outcome = Ok 'a | Err goerr | Panic string

type_synonym ('s, 'a) go = "'s \<Rightarrow> 'a outcome \<times> 's"

section \<open>The outcome monad\<close>

definition returnG :: "'a \<Rightarrow> ('s, 'a) go" where
  "returnG x = (\<lambda>s. (Ok x, s))"

definition failG :: "goerr \<Rightarrow> ('s, 'a) go" where
  "failG e = (\<lambda>s. (Err e, s))"

definition panicG :: "string \<Rightarrow> ('s, 'a) go" where
  "panicG p = (\<lambda>s. (Panic p, s))"

definition bindG :: "('s, 'a) go \<Rightarrow> ('a \<Rightarrow> ('s, 'b) go) \<Rightarrow> ('s, 'b) go" where
  "bindG m f = (\<lambda>s. case m s of
     (Ok x, t) \<Rightarrow> f x t | (Err e, t) \<Rightarrow> (Err e, t) | (Panic p, t) \<Rightarrow> (Panic p, t))"

text \<open>\<open>if err != nil { return wrap(err) }\<close>\<close>

definition wrapG :: "(goerr \<Rightarrow> goerr) \<Rightarrow> ('s, 'a) go \<Rightarrow> ('s, 'a) go" where
  "wrapG g m = (\<lambda>s. case m s of
     (Ok x, t) \<Rightarrow> (Ok x, t) | (Err e, t) \<Rightarrow> (Err (g e), t) | (Panic p, t) \<Rightarrow> (Panic p, t))"

text \<open>The pair \<open>(value, err)\<close> taken apart by the caller: an error is a value, a panic is not.\<close>

definition tryG :: "('s, 'a) go \<Rightarrow> ('a \<Rightarrow> ('s, 'b) go) \<Rightarrow> (goerr \<Rightarrow> ('s, 'b) go) \<Rightarrow> ('s, 'b) go" where
  "tryG m f h = (\<lambda>s. case m s of
     (Ok x, t) \<Rightarrow> f x t | (Err e, t) \<Rightarrow> h e t | (Panic p, t) \<Rightarrow> (Panic p, t))"

text \<open>\<open>klog.Fatalf\<close> on an error ends the process.\<close>

definition fatal :: "('s, 'a) go \<Rightarrow> ('s, 'a) go" where
  "fatal m = tryG m returnG (\<lambda>_. panicG ''exit'')"

text \<open>The result of a function that has no effect.\<close>

definition ofO :: "'a outcome \<Rightarrow> ('s, 'a) go" where
  "ofO r = (\<lambda>s. (r, s))"

text \<open>A \<open>for range\<close> loop whose body may return early with an error.\<close>

fun forG :: "'a list \<Rightarrow> ('a \<Rightarrow> ('s, unit) go) \<Rightarrow> ('s, unit) go" where
  "forG [] f = returnG ()"
| "forG (x # xs) f = bindG (f x) (\<lambda>_. forG xs f)"

text \<open>Running a program of a part of the state in the whole state.\<close>

definition zoomG :: "('t \<Rightarrow> 's) \<Rightarrow> ('s \<Rightarrow> 't \<Rightarrow> 't) \<Rightarrow> ('s, 'a) go \<Rightarrow> ('t, 'a) go" where
  "zoomG get put m = (\<lambda>t. case m (get t) of (r, s) \<Rightarrow> (r, put s t))"

definition isOk :: "'a outcome \<Rightarrow> bool" where
  "isOk r = (case r of Ok _ \<Rightarrow> True | _ \<Rightarrow> False)"

section \<open>Go maps\<close>

text \<open>
  A Go map is an association list with distinct keys; \<open>AList.update\<close> is \<open>m[k] = v\<close>.
  The iteration order of \<open>range\<close> is chosen by the runtime: where it can be observed, the
  definitions take it as a parameter.
\<close>

type_synonym 'v gomap = "(string \<times> 'v) list"

definition mapGet :: "'v gomap \<Rightarrow> string \<Rightarrow> 'v option" where
  "mapGet m k = map_of m k"

definition mapPut :: "string \<Rightarrow> 'v \<Rightarrow> 'v gomap \<Rightarrow> 'v gomap" where
  "mapPut k v m = AList.update k v m"

definition mapKeys :: "'v gomap \<Rightarrow> string list" where
  "mapKeys m = map fst m"

definition mapWf :: "'v gomap \<Rightarrow> bool" where
  "mapWf m = distinct (map fst m)"

text \<open>\<open>for k, v := range m\<close> in the order \<open>ord\<close> that the runtime picks for the keys.\<close>

definition mapRange :: "(string list \<Rightarrow> string list) \<Rightarrow> 'v gomap \<Rightarrow> (string \<times> 'v) list" where
  "mapRange ord m = List.map_filter (\<lambda>k. map_option (Pair k) (map_of m k)) (ord (map fst m))"

definition range_ok :: "(string list \<Rightarrow> string list) \<Rightarrow> bool" where
  "range_ok ord = (\<forall>ks. set (ord ks) = set ks \<and> (distinct ks \<longrightarrow> distinct (ord ks)))"

locale go_map =
  fixes get :: "'m \<Rightarrow> string \<Rightarrow> 'v option"
    and put :: "string \<Rightarrow> 'v \<Rightarrow> 'm \<Rightarrow> 'm"
    and keys :: "'m \<Rightarrow> string list"
    and wf :: "'m \<Rightarrow> bool"
  assumes get_put: "get (put k v m) k' = (if k' = k then Some v else get m k')"
    and keys_get: "set (keys m) = {k. get m k \<noteq> None}"
    and wf_distinct: "wf m \<Longrightarrow> distinct (keys m)"
    and wf_put: "wf m \<Longrightarrow> wf (put k v m)"
begin

definition ordered :: "'m \<Rightarrow> string list" where
  "ordered m = sort (keys m)"

lemma keys_put: "set (keys (put k v m)) = insert k (set (keys m))"
  by (auto simp: keys_get get_put)

lemma ordered_sorted: "sorted (ordered m)"
  by (simp add: ordered_def)

lemma ordered_set: "set (ordered m) = {k. get m k \<noteq> None}"
  by (simp add: ordered_def keys_get)

lemma ordered_distinct: "wf m \<Longrightarrow> distinct (ordered m)"
  by (simp add: ordered_def wf_distinct)

text \<open>The ordered listing depends on the keys alone, not on how the map was built.\<close>

lemma ordered_unique:
  assumes "wf m" "wf m'" "\<And>k. (get m k = None) = (get m' k = None)"
  shows "ordered m = ordered m'"
proof (rule sorted_distinct_set_unique)
  show "set (ordered m) = set (ordered m')"
    using assms(3) by (auto simp: ordered_set)
qed (simp_all add: ordered_sorted ordered_distinct assms)

lemma ordered_put_known: "wf m \<Longrightarrow> get m k \<noteq> None \<Longrightarrow> ordered (put k v m) = ordered m"
  by (rule ordered_unique) (auto simp: wf_put get_put)

end

section \<open>Strings\<close>

text \<open>\<open>strings.Split(s, string(c))\<close> for a one-character separator.\<close>

fun splitOn :: "char \<Rightarrow> string \<Rightarrow> string list" where
  "splitOn c [] = [[]]"
| "splitOn c (x # xs) =
     (if x = c then [] # splitOn c xs
      else (case splitOn c xs of [] \<Rightarrow> [[x]] | t # ts \<Rightarrow> (x # t) # ts))"

text \<open>\<open>strings.Join(ss, string(c))\<close>\<close>

fun joinWith :: "string \<Rightarrow> string list \<Rightarrow> string" where
  "joinWith sep [] = []"
| "joinWith sep [s] = s"
| "joinWith sep (s # t # ss) = s @ sep @ joinWith sep (t # ss)"

definition hasPrefix :: "string \<Rightarrow> string \<Rightarrow> bool" where
  "hasPrefix s p = prefix p s"

definition containsChar :: "string \<Rightarrow> char \<Rightarrow> bool" where
  "containsChar s c = (c \<in> set s)"

text \<open>Decimal digits, as \<open>%d\<close> prints them.\<close>

definition digitChar :: "nat \<Rightarrow> char" where
  "digitChar d = char_of (48 + d)"

fun showNat :: "nat \<Rightarrow> string" where
  "showNat n = (if n < 10 then [digitChar n] else showNat (n div 10) @ [digitChar (n mod 10)])"

definition showInt :: "int \<Rightarrow> string" where
  "showInt i = (if i < 0 then CHR ''-'' # showNat (nat (- i)) else showNat (nat i))"

declare showNat.simps [simp del]

section \<open>Laws of the monad\<close>

lemma returnG_apply [gom]: "returnG x s = (Ok x, s)"
  by (simp add: returnG_def)

lemma failG_apply [gom]: "failG e s = (Err e, s)"
  by (simp add: failG_def)

lemma panicG_apply [gom]: "panicG p s = (Panic p, s)"
  by (simp add: panicG_def)

lemma bindG_Ok: "m s = (Ok x, t) \<Longrightarrow> bindG m f s = f x t"
  by (simp add: bindG_def)

lemma bindG_Err: "m s = (Err e, t) \<Longrightarrow> bindG m f s = (Err e, t)"
  by (simp add: bindG_def)

lemma bindG_Panic: "m s = (Panic p, t) \<Longrightarrow> bindG m f s = (Panic p, t)"
  by (simp add: bindG_def)

lemmas bindG_cases = bindG_Ok bindG_Err bindG_Panic

lemma bindG_return [simp]: "bindG (returnG x) f = f x"
  by (simp add: bindG_def returnG_def fun_eq_iff)

lemma return_bindG [simp]: "bindG m returnG = m"
  by (auto simp: bindG_def returnG_def fun_eq_iff split: prod.splits outcome.splits)

lemma bindG_assoc: "bindG (bindG m f) g = bindG m (\<lambda>x. bindG (f x) g)"
  by (auto simp: bindG_def fun_eq_iff split: prod.splits outcome.splits)

lemma bindG_fail [simp]: "bindG (failG e) f = failG e"
  by (simp add: bindG_def failG_def fun_eq_iff)

lemma bindG_panic [simp]: "bindG (panicG p) f = panicG p"
  by (simp add: bindG_def panicG_def fun_eq_iff)

lemma bindG_Ok_iff [gom_iff]:
  "bindG m f s = (Ok y, u) \<longleftrightarrow> (\<exists>x t. m s = (Ok x, t) \<and> f x t = (Ok y, u))"
  by (auto simp: bindG_def split: prod.splits outcome.splits)

lemma wrapG_Ok_iff [gom_iff]: "wrapG g m s = (Ok y, u) \<longleftrightarrow> m s = (Ok y, u)"
  by (auto simp: wrapG_def split: prod.splits outcome.splits)

lemma tryG_Ok_iff [gom_iff]:
  "tryG m f h s = (Ok y, u) \<longleftrightarrow>
     (\<exists>x t. m s = (Ok x, t) \<and> f x t = (Ok y, u)) \<or> (\<exists>e t. m s = (Err e, t) \<and> h e t = (Ok y, u))"
  by (auto simp: tryG_def split: prod.splits outcome.splits)

lemma fatal_Ok [gom_iff]: "fatal m st = (Ok x, st') \<longleftrightarrow> m st = (Ok x, st')"
  by (auto simp: fatal_def tryG_def returnG_def panicG_def split: prod.splits outcome.splits)

lemma returnG_Ok_iff [gom_iff]: "returnG x s = (Ok y, u) \<longleftrightarrow> y = x \<and> u = s"
  by (auto simp: returnG_def)

lemma ofO_Ok_iff [gom_iff]: "ofO r s = (Ok x, t) \<longleftrightarrow> r = Ok x \<and> t = s"
  by (auto simp: ofO_def)

lemma failG_Ok_iff [gom_iff]: "failG e s = (Ok y, u) \<longleftrightarrow> False"
  by (simp add: failG_def)

lemma panicG_Ok_iff [gom_iff]: "panicG p s = (Ok y, u) \<longleftrightarrow> False"
  by (simp add: panicG_def)

lemma zoomG_Ok_iff [gom_iff]:
  "zoomG get put m t = (Ok y, u) \<longleftrightarrow> (\<exists>s. m (get t) = (Ok y, s) \<and> u = put s t)"
  by (auto simp: zoomG_def split: prod.splits)

lemma bindG_cong [fundef_cong]:
  assumes "m = m'" and "\<And>x s t. m' s = (Ok x, t) \<Longrightarrow> f x = f' x"
  shows "bindG m f = bindG m' f'"
  using assms by (auto simp: bindG_def fun_eq_iff split: prod.splits outcome.splits)

lemma forG_cong [fundef_cong]:
  assumes "xs = ys" and "\<And>x. x \<in> set ys \<Longrightarrow> f x = g x"
  shows "forG xs f = forG ys g"
proof -
  have "(\<And>x. x \<in> set ys \<Longrightarrow> f x = g x) \<Longrightarrow> forG ys f = forG ys g"
    by (induction ys) auto
  then show ?thesis using assms by simp
qed

lemma forG_append: "forG (xs @ ys) f = bindG (forG xs f) (\<lambda>_. forG ys f)"
  by (induction xs) (simp_all add: bindG_assoc)

text \<open>An invariant of the body is an invariant of the loop, whatever way the loop ends.\<close>

lemma forG_invariant:
  assumes "\<And>x s r t. x \<in> set xs \<Longrightarrow> I s \<Longrightarrow> f x s = (r, t) \<Longrightarrow> I t"
    and "I s" and "forG xs f s = (r, t)"
  shows "I t"
  using assms
proof (induction xs arbitrary: s)
  case (Cons x xs)
  obtain r' s' where fx: "f x s = (r', s')" by force
  with Cons.prems(1) [of x s r' s'] Cons.prems(2) have Is': "I s'" by simp
  have IH: "I t" if "forG xs f s' = (r, t)"
    by (rule Cons.IH [OF _ Is' that]) (use Cons.prems(1) in \<open>meson list.set_intros(2)\<close>)
  show ?case
    using Cons.prems(3) fx Is' IH by (cases r') (auto simp: bindG_def)
qed (simp add: returnG_def)

text \<open>The same for a preorder on states: what every iteration extends, the loop extends.\<close>

lemma forG_rel:
  assumes "\<And>x s r t. x \<in> set xs \<Longrightarrow> f x s = (r, t) \<Longrightarrow> R s t"
    and "\<And>s. R s s" and "\<And>a b c. R a b \<Longrightarrow> R b c \<Longrightarrow> R a c"
    and "forG xs f s = (r, t)"
  shows "R s t"
proof (rule forG_invariant [where I = "R s" and xs = xs and f = f])
  fix x a r' b
  assume "x \<in> set xs" "R s a" "f x a = (r', b)"
  then show "R s b" using assms(1,3) by blast
qed (use assms in auto)

lemma forG_Ok_Cons_iff [gom_iff]:
  "forG (x # xs) f s = (Ok u, t) \<longleftrightarrow> (\<exists>s'. f x s = (Ok (), s') \<and> forG xs f s' = (Ok u, t))"
  by (auto simp: bindG_Ok_iff)

text \<open>A loop that succeeds, with an invariant of the elements handled so far.\<close>

lemma forG_Ok_prefix:
  assumes "forG xs f s = (Ok u, t)" and "I [] s"
    and "\<And>done x s t. set done \<union> {x} \<subseteq> set xs \<Longrightarrow> I done s \<Longrightarrow> f x s = (Ok (), t) \<Longrightarrow> I (done @ [x]) t"
  shows "I xs t"
proof -
  have "forG ys f s = (Ok u, t) \<Longrightarrow> I zs s \<Longrightarrow> set zs \<union> set ys \<subseteq> set xs \<Longrightarrow> I (zs @ ys) t" for ys zs s
  proof (induction ys arbitrary: zs s)
    case (Cons y ys)
    from Cons.prems(1) obtain s' where y: "f y s = (Ok (), s')" and ys: "forG ys f s' = (Ok u, t)"
      by (auto simp: bindG_Ok_iff)
    have "I (zs @ [y]) s'" using Cons.prems(2,3) y by (intro assms(3) [of zs y s]) auto
    from Cons.IH [OF ys this] Cons.prems(3) show ?case by simp
  qed (simp add: returnG_def)
  from this [OF assms(1,2)] show ?thesis by simp
qed

section \<open>Invariants of programs\<close>

text \<open>The program keeps \<open>I\<close>, however it ends.\<close>

definition keeps :: "('s \<Rightarrow> bool) \<Rightarrow> ('s, 'a) go \<Rightarrow> bool" where
  "keeps I m = (\<forall>s r t. I s \<longrightarrow> m s = (r, t) \<longrightarrow> I t)"

named_theorems keep \<open>which invariants a program keeps\<close>

lemma keepsI: "(\<And>s r t. I s \<Longrightarrow> m s = (r, t) \<Longrightarrow> I t) \<Longrightarrow> keeps I m"
  by (simp add: keeps_def)

lemma keepsD: "keeps I m \<Longrightarrow> I s \<Longrightarrow> m s = (r, t) \<Longrightarrow> I t"
  by (simp add: keeps_def)

lemma keeps_return [keep]: "keeps I (returnG x)"
  by (simp add: keeps_def returnG_def)

lemma keeps_fail [keep]: "keeps I (failG e)"
  by (simp add: keeps_def failG_def)

lemma keeps_panic [keep]: "keeps I (panicG p)"
  by (simp add: keeps_def panicG_def)

lemma keeps_option [keep]: "keeps I f \<Longrightarrow> (\<And>x. keeps I (g x)) \<Longrightarrow> keeps I (case z of None \<Rightarrow> f | Some x \<Rightarrow> g x)"
  by (cases z) auto

text \<open>The value that a step returns, where the rest depends on it.\<close>

lemma keeps_bind_val:
  assumes "keeps I m" "\<And>s x t. I s \<Longrightarrow> m s = (Ok x, t) \<Longrightarrow> keeps I (f x)"
  shows "keeps I (bindG m f)"
proof (rule keepsI)
  fix s r t
  assume I: "I s" and eq: "bindG m f s = (r, t)"
  obtain a u where m: "m s = (a, u)" by force
  then have "I u" using assms(1) I by (rule_tac keepsD)
  then show "I t"
    using eq m assms(2) [OF I] by (cases a) (auto simp: bindG_def dest: keepsD)
qed

lemma keeps_bind [keep]: "keeps I m \<Longrightarrow> (\<And>x. keeps I (f x)) \<Longrightarrow> keeps I (bindG m f)"
  by (rule keeps_bind_val)

lemma keeps_wrap [keep]: "keeps I m \<Longrightarrow> keeps I (wrapG g m)"
  by (auto simp: keeps_def wrapG_def split: prod.splits outcome.splits)

lemma keeps_try [keep]:
  assumes "keeps I m" "\<And>x. keeps I (f x)" "\<And>e. keeps I (h e)"
  shows "keeps I (tryG m f h)"
proof (rule keepsI)
  fix s r t
  assume I: "I s" and eq: "tryG m f h s = (r, t)"
  obtain a u where m: "m s = (a, u)" by force
  then have "I u" using assms(1) I by (rule_tac keepsD)
  then show "I t"
    using eq m assms(2,3) by (cases a) (auto simp: tryG_def dest: keepsD)
qed

lemma keeps_for [keep]: "(\<And>x. x \<in> set xs \<Longrightarrow> keeps I (f x)) \<Longrightarrow> keeps I (forG xs f)"
  by (induction xs) (auto intro!: keep)

lemma keeps_if [keep]: "(b \<Longrightarrow> keeps I m) \<Longrightarrow> (\<not> b \<Longrightarrow> keeps I n) \<Longrightarrow> keeps I (if b then m else n)"
  by simp

section \<open>Programs that succeed\<close>

text \<open>From every state in \<open>P\<close> the program returns a value in \<open>R\<close>, in a state in \<open>P\<close>.\<close>

definition succeeds :: "('s \<Rightarrow> bool) \<Rightarrow> ('a \<Rightarrow> bool) \<Rightarrow> ('s, 'a) go \<Rightarrow> bool" where
  "succeeds P R m = (\<forall>s. P s \<longrightarrow> (\<exists>x t. m s = (Ok x, t) \<and> R x \<and> P t))"

named_theorems succeed \<open>programs that succeed\<close>

lemma succeedsD: "succeeds P R m \<Longrightarrow> P s \<Longrightarrow> \<exists>x t. m s = (Ok x, t) \<and> R x \<and> P t"
  by (simp add: succeeds_def)

lemma succeeds_return [succeed]: "R x \<Longrightarrow> succeeds P R (returnG x)"
  by (simp add: succeeds_def returnG_def)

lemma succeeds_bind [succeed]:
  assumes "succeeds P Q m" "\<And>x. Q x \<Longrightarrow> succeeds P R (f x)"
  shows "succeeds P R (bindG m f)"
  unfolding succeeds_def
proof (intro allI impI)
  fix s
  assume "P s"
  then obtain x t where m: "m s = (Ok x, t)" "Q x" "P t" using succeedsD [OF assms(1)] by blast
  from succeedsD [OF assms(2) [OF m(2)] m(3)] show "\<exists>y u. bindG m f s = (Ok y, u) \<and> R y \<and> P u"
    by (simp add: bindG_def m(1))
qed

lemma succeeds_wrap [succeed]: "succeeds P R m \<Longrightarrow> succeeds P R (wrapG g m)"
  by (fastforce simp: succeeds_def wrapG_def)

lemma succeeds_for [succeed]:
  "(\<And>x. x \<in> set xs \<Longrightarrow> succeeds P (\<lambda>_. True) (f x)) \<Longrightarrow> succeeds P (\<lambda>_. True) (forG xs f)"
  by (induction xs) (auto intro!: succeed)

lemma succeeds_if [succeed]: "(b \<Longrightarrow> succeeds P R m) \<Longrightarrow> (\<not> b \<Longrightarrow> succeeds P R n) \<Longrightarrow> succeeds P R (if b then m else n)"
  by simp

lemma succeeds_weaken: "succeeds P Q m \<Longrightarrow> (\<And>x. Q x \<Longrightarrow> R x) \<Longrightarrow> succeeds P R m"
  unfolding succeeds_def by blast

text \<open>A program that may fail, but does not panic.\<close>

definition answers :: "('s \<Rightarrow> bool) \<Rightarrow> ('a \<Rightarrow> bool) \<Rightarrow> ('s, 'a) go \<Rightarrow> bool" where
  "answers P R m = (\<forall>s. P s \<longrightarrow> (\<exists>x t. m s = (Ok x, t) \<and> R x \<and> P t) \<or> (\<exists>e t. m s = (Err e, t) \<and> P t))"

lemma succeeds_try [succeed]:
  assumes "answers P Q m" "\<And>x. Q x \<Longrightarrow> succeeds P R (f x)" "\<And>e. succeeds P R (h e)"
  shows "succeeds P R (tryG m f h)"
  unfolding succeeds_def
proof (intro allI impI)
  fix s
  assume "P s"
  then consider x t where "m s = (Ok x, t)" "Q x" "P t" | e t where "m s = (Err e, t)" "P t"
    using assms(1) unfolding answers_def by blast
  then show "\<exists>y u. tryG m f h s = (Ok y, u) \<and> R y \<and> P u"
    by cases (use succeedsD [OF assms(2)] succeedsD [OF assms(3)] in \<open>auto simp: tryG_def\<close>)
qed

lemma answers_bind:
  assumes "answers P Q m" "\<And>x. Q x \<Longrightarrow> succeeds P R (f x)"
  shows "answers P R (bindG m f)"
  unfolding answers_def
proof (intro allI impI)
  fix s
  assume "P s"
  then consider x t where "m s = (Ok x, t)" "Q x" "P t" | e t where "m s = (Err e, t)" "P t"
    using assms(1) unfolding answers_def by blast
  then show "(\<exists>y u. bindG m f s = (Ok y, u) \<and> R y \<and> P u) \<or> (\<exists>e u. bindG m f s = (Err e, u) \<and> P u)"
    by cases (use succeedsD [OF assms(2)] in \<open>auto simp: bindG_def\<close>)
qed

section \<open>Laws of Go maps\<close>

interpretation gm: go_map "mapGet :: 'v gomap \<Rightarrow> _" mapPut mapKeys mapWf
proof unfold_locales
  fix k k' v and m :: "'v gomap"
  show "mapGet (mapPut k v m) k' = (if k' = k then Some v else mapGet m k')"
    by (simp add: mapGet_def mapPut_def update_conv')
  show "set (mapKeys m) = {k. mapGet m k \<noteq> None}"
    by (auto simp: mapKeys_def mapGet_def map_of_eq_None_iff)
  show "mapWf m \<Longrightarrow> distinct (mapKeys m)"
    by (simp add: mapWf_def mapKeys_def)
  show "mapWf m \<Longrightarrow> mapWf (mapPut k v m)"
    by (simp add: mapWf_def mapPut_def distinct_update)
qed

declare gm.get_put [simp]

lemma mapGet_Nil [simp]: "mapGet [] k = None"
  by (simp add: mapGet_def)

lemma mapWf_Nil [simp]: "mapWf []"
  by (simp add: mapWf_def)

lemma mapKeys_Nil [simp]: "mapKeys [] = []"
  by (simp add: mapKeys_def)

lemma set_mapRange:
  assumes "range_ok ord" "mapWf m"
  shows "set (mapRange ord m) = set m"
proof -
  have "set (ord (map fst m)) = fst ` set m"
    using assms(1) by (auto simp: range_ok_def)
  then show ?thesis
    using assms(2)
    by (fastforce simp: mapRange_def List.map_filter_def mapWf_def image_iff)
qed

section \<open>Laws of strings\<close>

lemma splitOn_nonempty [simp]: "splitOn c s \<noteq> []"
  by (induction s) (auto split: list.splits)

lemma joinWith_splitOn: "joinWith [c] (splitOn c s) = s"
proof (induction s)
  case (Cons x xs)
  then show ?case
    by (cases "splitOn c xs" rule: list.exhaust; cases "tl (splitOn c xs)")
      (auto split: list.splits)
qed simp

lemma splitOn_no_sep: "c \<notin> set s \<Longrightarrow> splitOn c s = [s]"
  by (induction s) auto

lemma splitOn_append_sep: "c \<notin> set s \<Longrightarrow> splitOn c (s @ c # t) = s # splitOn c t"
  by (induction s) auto

lemma splitOn_tokens_no_sep: "t \<in> set (splitOn c s) \<Longrightarrow> c \<notin> set t"
  by (induction s arbitrary: t) (auto split: list.splits if_splits)

end
