(* ===== verification/Paths.thy ===== *)
theory Paths
  imports Prelude
begin

text \<open>
  The part of Go's \<open>path/filepath\<close> (Unix) that the sources use: \<open>Clean\<close>, \<open>Join\<close> and
  \<open>Dir\<close> on strings, with the facts the file-layout proofs rest on: \<open>Clean\<close> is idempotent,
  and joining a plain file name to a clean directory is concatenation with a slash, so
  paths built from different names differ and paths below a directory are recognised by
  their prefix.
\<close>

section \<open>Clean, Join, Dir\<close>

text \<open>One component of the path, on the stack of components kept so far (top first).\<close>

definition cleanStep :: "bool \<Rightarrow> string list \<Rightarrow> string \<Rightarrow> string list" where
  "cleanStep rooted st c =
     (if c = [] \<or> c = ''.'' then st
      else if c = ''..'' then
        (case st of
           [] \<Rightarrow> if rooted then [] else [''..'']
         | x # xs \<Rightarrow> if x = ''..'' then ''..'' # st else xs)
      else c # st)"

definition rootedPath :: "string \<Rightarrow> bool" where
  "rootedPath p = (case p of [] \<Rightarrow> False | c # _ \<Rightarrow> c = CHR ''/'')"

definition render :: "bool \<Rightarrow> string list \<Rightarrow> string" where
  "render rooted cs =
     (if rooted then CHR ''/'' # joinWith ''/'' cs
      else if cs = [] then ''.'' else joinWith ''/'' cs)"

definition cleanStack :: "string \<Rightarrow> string list" where
  "cleanStack p = foldl (cleanStep (rootedPath p)) [] (splitOn (CHR ''/'') p)"

definition Clean :: "string \<Rightarrow> string" where
  "Clean p = (if p = [] then ''.'' else render (rootedPath p) (rev (cleanStack p)))"

definition Join :: "string list \<Rightarrow> string" where
  "Join es = (case dropWhile (\<lambda>e. e = []) es of [] \<Rightarrow> [] | fs \<Rightarrow> Clean (joinWith ''/'' fs))"

definition Dir :: "string \<Rightarrow> string" where
  "Dir p = Clean (rev (dropWhile (\<lambda>c. c \<noteq> CHR ''/'') (rev p)))"

text \<open>A file name that is one component of a path.\<close>

definition plain :: "string \<Rightarrow> bool" where
  "plain n = (n \<noteq> [] \<and> n \<noteq> ''.'' \<and> n \<noteq> ''..'' \<and> CHR ''/'' \<notin> set n)"

text \<open>A clean directory other than the root and the working directory.\<close>

definition cleanDir :: "string \<Rightarrow> bool" where
  "cleanDir d = (Clean d = d \<and> d \<noteq> [] \<and> d \<noteq> ''.'' \<and> d \<noteq> ''/'')"

text \<open>\<open>p\<close> is the file or directory \<open>d\<close> itself or lies below it.\<close>

definition below :: "string \<Rightarrow> string \<Rightarrow> bool" where
  "below d p = (p = d \<or> prefix (d @ ''/'') p)"

section \<open>Facts about Clean\<close>

definition stackOk :: "bool \<Rightarrow> string list \<Rightarrow> bool" where
  "stackOk rooted st =
     (\<exists>ps k. st = ps @ replicate k ''..'' \<and> (\<forall>p\<in>set ps. plain p) \<and> (rooted \<longrightarrow> k = 0))"

lemma stackOk_Nil [simp]: "stackOk rooted []"
  unfolding stackOk_def by (rule exI [of _ "[]"], rule exI [of _ 0]) simp

lemma stackOk_Cons_plain: "plain c \<Longrightarrow> stackOk rooted st \<Longrightarrow> stackOk rooted (c # st)"
proof -
  assume c: "plain c" and "stackOk rooted st"
  then obtain ps k where *: "st = ps @ replicate k ''..''" "\<forall>p\<in>set ps. plain p" "rooted \<longrightarrow> k = 0"
    unfolding stackOk_def by blast
  show ?thesis
    unfolding stackOk_def
    by (rule exI [of _ "c # ps"], rule exI [of _ k]) (use c * in simp)
qed

lemma stackOk_dotdot:
  assumes "stackOk False st" "st = [] \<or> hd st = ''..''"
  shows "stackOk False (''..'' # st)"
proof -
  obtain ps k where *: "st = ps @ replicate k ''..''" "\<forall>p\<in>set ps. plain p"
    using assms(1) by (auto simp: stackOk_def)
  have "ps = []"
    using assms(2) * by (cases ps) (auto simp: plain_def)
  then show ?thesis
    unfolding stackOk_def
    by (intro exI [of _ "[]"] exI [of _ "Suc k"]) (use * in simp)
qed

lemma stackOk_tl: "stackOk rooted (x # st) \<Longrightarrow> x \<noteq> ''..'' \<Longrightarrow> stackOk rooted st"
proof -
  assume "stackOk rooted (x # st)" and x: "x \<noteq> ''..''"
  then obtain ps k where *: "x # st = ps @ replicate k ''..''" "\<forall>p\<in>set ps. plain p" "rooted \<longrightarrow> k = 0"
    unfolding stackOk_def by blast
  then obtain qs where "ps = x # qs" "st = qs @ replicate k ''..''"
    using x by (cases ps; cases k) auto
  with * show ?thesis unfolding stackOk_def by auto
qed

lemma stackOk_rooted_no_dotdot: "stackOk True (x # st) \<Longrightarrow> x \<noteq> ''..''"
  unfolding stackOk_def by (auto simp: plain_def Cons_eq_append_conv)

lemma stackOk_step:
  assumes "stackOk rooted st" "CHR ''/'' \<notin> set c"
  shows "stackOk rooted (cleanStep rooted st c)"
proof (cases "c = [] \<or> c = ''.''")
  case True
  then show ?thesis using assms by (simp add: cleanStep_def)
next
  case False
  show ?thesis
  proof (cases "c = ''..''")
    case True
    show ?thesis
    proof (cases st)
      case Nil
      then show ?thesis
        using True stackOk_dotdot [of "[]"] by (cases rooted) (simp_all add: cleanStep_def)
    next
      case (Cons x xs)
      then show ?thesis
        using True assms stackOk_dotdot [of st] stackOk_tl [of rooted x xs]
          stackOk_rooted_no_dotdot [of x xs]
        by (cases rooted) (auto simp: cleanStep_def)
    qed
  next
    case nodot: False
    with False assms show ?thesis
      by (auto simp: cleanStep_def plain_def intro!: stackOk_Cons_plain)
  qed
qed

lemma stackOk_foldl:
  "stackOk rooted st \<Longrightarrow> \<forall>c\<in>set cs. CHR ''/'' \<notin> set c \<Longrightarrow> stackOk rooted (foldl (cleanStep rooted) st cs)"
  by (induction cs arbitrary: st) (auto simp: stackOk_step)

lemma stackOk_cleanStack: "stackOk (rootedPath p) (cleanStack p)"
  unfolding cleanStack_def by (rule stackOk_foldl) (auto dest: splitOn_tokens_no_sep)

text \<open>Cleaning the components of a clean stack gives the stack back.\<close>

lemma foldl_plain: "\<forall>p\<in>set ps. plain p \<Longrightarrow> foldl (cleanStep rooted) st ps = rev ps @ st"
  by (induction ps arbitrary: st) (auto simp: cleanStep_def plain_def)

lemma foldl_dotdots: "foldl (cleanStep False) (replicate j ''..'') (replicate k ''..'') = replicate (j + k) ''..''"
proof (induction k arbitrary: j)
  case (Suc k)
  have "cleanStep False (replicate j ''..'') ''..'' = replicate (Suc j) ''..''"
    by (cases j) (auto simp: cleanStep_def)
  with Suc [of "Suc j"] show ?case by simp
qed simp

lemma foldl_stack: "stackOk rooted st \<Longrightarrow> foldl (cleanStep rooted) [] (rev st) = st"
proof -
  assume "stackOk rooted st"
  then obtain ps k where *: "st = ps @ replicate k ''..''" "\<forall>p\<in>set ps. plain p" "rooted \<longrightarrow> k = 0"
    unfolding stackOk_def by blast
  show ?thesis
  proof (cases rooted)
    case True
    with * show ?thesis by (simp add: foldl_plain)
  next
    case False
    with * foldl_dotdots [of 0 k] show ?thesis by (simp add: foldl_plain)
  qed
qed

lemma stackOk_no_slash:
  assumes "stackOk rooted st" "c \<in> set st" shows "CHR ''/'' \<notin> set c \<and> c \<noteq> []"
proof -
  obtain ps k where "st = ps @ replicate k ''..''" and plain: "\<forall>p\<in>set ps. plain p"
    using assms(1) unfolding stackOk_def by blast
  then consider "c \<in> set ps" | "c = ''..''" using assms(2) by auto
  then show ?thesis using plain by cases (auto simp: plain_def)
qed

lemma splitOn_sep: "splitOn c (s @ c # t) = splitOn c s @ splitOn c t"
  by (induction s) (auto split: list.splits)

lemma splitOn_joinWith:
  "cs \<noteq> [] \<Longrightarrow> \<forall>x\<in>set cs. c \<notin> set x \<Longrightarrow> splitOn c (joinWith [c] cs) = cs"
proof (induction cs)
  case (Cons s cs)
  then show ?case
    by (cases cs) (simp_all add: splitOn_append_sep splitOn_no_sep)
qed simp

lemma joinWith_nonempty: "cs \<noteq> [] \<Longrightarrow> \<forall>c\<in>set cs. c \<noteq> [] \<Longrightarrow> joinWith sep cs \<noteq> []"
  by (induction sep cs rule: joinWith.induct) auto

lemma rootedPath_append: "d \<noteq> [] \<Longrightarrow> rootedPath (d @ e) = rootedPath d"
  by (cases d) (simp_all add: rootedPath_def)

lemma rootedPath_join:
  assumes "cs \<noteq> []" "\<forall>c\<in>set cs. c \<noteq> [] \<and> CHR ''/'' \<notin> set c"
  shows "\<not> rootedPath (joinWith sep cs)"
proof -
  obtain c cs' where cs: "cs = c # cs'" using assms(1) by (cases cs) auto
  have "\<exists>r. joinWith sep cs = c @ r" unfolding cs by (cases cs') auto
  moreover have "\<not> rootedPath c" "c \<noteq> []" using assms(2) cs by (cases c; auto simp: rootedPath_def)+
  ultimately show ?thesis by (auto simp: rootedPath_append)
qed

lemma render_nonempty:
  assumes "stackOk rooted st" shows "render rooted (rev st) \<noteq> []"
  using assms joinWith_nonempty [of "rev st" "''/''"] stackOk_no_slash [OF assms]
  by (auto simp: render_def)

lemma rootedPath_render: "stackOk rooted st \<Longrightarrow> rootedPath (render rooted (rev st)) = rooted"
  using rootedPath_join [of "rev st" "''/''"] stackOk_no_slash [of rooted st]
  by (auto simp: render_def rootedPath_def)

lemma cleanStack_render:
  assumes "stackOk rooted st" shows "cleanStack (render rooted (rev st)) = st"
proof -
  have sl: "\<forall>x\<in>set (rev st). CHR ''/'' \<notin> set x" using stackOk_no_slash [OF assms] by auto
  have "foldl (cleanStep rooted) [] (splitOn (CHR ''/'') (render rooted (rev st)))
      = foldl (cleanStep rooted) [] (rev st)"
  proof (cases "st = []")
    case True
    then show ?thesis by (simp add: render_def cleanStep_def)
  next
    case False
    then have "splitOn (CHR ''/'') (joinWith ''/'' (rev st)) = rev st"
      using splitOn_joinWith [OF _ sl] by simp
    with False show ?thesis by (simp add: render_def cleanStep_def)
  qed
  then show ?thesis
    using foldl_stack [OF assms] rootedPath_render [OF assms] by (simp add: cleanStack_def)
qed

lemma Clean_render: "stackOk rooted st \<Longrightarrow> Clean (render rooted (rev st)) = render rooted (rev st)"
  by (simp add: Clean_def render_nonempty cleanStack_render rootedPath_render)

lemma Clean_idem: "Clean (Clean p) = Clean p"
proof (cases "p = []")
  case True
  then show ?thesis by (simp add: Clean_def rootedPath_def cleanStack_def cleanStep_def render_def)
next
  case False
  then show ?thesis using Clean_render [OF stackOk_cleanStack [of p]] by (simp add: Clean_def)
qed

lemma Clean_nonempty [simp]: "Clean p \<noteq> []"
  using render_nonempty [OF stackOk_cleanStack [of p]] by (auto simp: Clean_def)

section \<open>Joining\<close>

lemma Clean_snoc:
  assumes "d \<noteq> []" "plain n"
  shows "Clean (d @ ''/'' @ n) = render (rootedPath d) (rev (cleanStack d) @ [n])"
proof -
  have "splitOn (CHR ''/'') n = [n]" using assms(2) by (simp add: plain_def splitOn_no_sep)
  then have "cleanStack (d @ ''/'' @ n) = n # cleanStack d"
    using assms by (simp add: cleanStack_def splitOn_sep rootedPath_append cleanStep_def plain_def)
  then show ?thesis using assms by (simp add: Clean_def rootedPath_append)
qed

lemma joinWith_snoc: "cs \<noteq> [] \<Longrightarrow> joinWith sep (cs @ [n]) = joinWith sep cs @ sep @ n"
  by (induction sep cs rule: joinWith.induct) auto

lemma Join_Cons: "d \<noteq> [] \<Longrightarrow> Join (d # es) = Clean (joinWith ''/'' (d # es))"
  by (simp add: Join_def)

lemma cleanDir_stack: "cleanDir d \<Longrightarrow> cleanStack d \<noteq> []"
proof
  assume "cleanDir d" and "cleanStack d = []"
  then have "d = render (rootedPath d) []" by (simp add: cleanDir_def Clean_def split: if_splits)
  with \<open>cleanDir d\<close> show False by (auto simp: cleanDir_def render_def split: if_splits)
qed

lemma Clean_cleanDir:
  assumes "cleanDir d" "plain n" shows "Clean (d @ ''/'' @ n) = d @ ''/'' @ n"
proof -
  from assms have d: "d \<noteq> []" "d = render (rootedPath d) (rev (cleanStack d))"
    by (auto simp: cleanDir_def Clean_def split: if_splits)
  have "Clean (d @ ''/'' @ n) = render (rootedPath d) (rev (cleanStack d) @ [n])"
    using d(1) assms(2) by (rule Clean_snoc)
  also have "\<dots> = render (rootedPath d) (rev (cleanStack d)) @ ''/'' @ n"
    using cleanDir_stack [OF assms(1)] by (simp add: render_def joinWith_snoc)
  also have "\<dots> = d @ ''/'' @ n" using d(2) by simp
  finally show ?thesis .
qed

text \<open>The one equation the rest of the development uses: a clean directory and a plain name.\<close>

lemma Join_plain [paths]: "cleanDir d \<Longrightarrow> plain n \<Longrightarrow> Join [d, n] = d @ ''/'' @ n"
  using Clean_cleanDir by (simp add: Join_Cons cleanDir_def)

lemma cleanDir_append [paths]: "cleanDir d \<Longrightarrow> plain n \<Longrightarrow> cleanDir (d @ ''/'' @ n)"
  unfolding cleanDir_def
proof (intro conjI)
  assume d: "Clean d = d \<and> d \<noteq> [] \<and> d \<noteq> ''.'' \<and> d \<noteq> ''/''" and n: "plain n"
  show "Clean (d @ ''/'' @ n) = d @ ''/'' @ n" using d n Clean_cleanDir by (simp add: cleanDir_def)
  show "d @ ''/'' @ n \<noteq> []" by simp
  show "d @ ''/'' @ n \<noteq> ''.''" using d by (auto simp: append_eq_Cons_conv)
  show "d @ ''/'' @ n \<noteq> ''/''" using d by (auto simp: append_eq_Cons_conv)
qed

lemma Join_plain3 [paths]: "cleanDir d \<Longrightarrow> plain n \<Longrightarrow> plain m \<Longrightarrow> Join [d, n, m] = d @ ''/'' @ n @ ''/'' @ m"
  using Clean_cleanDir [OF cleanDir_append, of d n m] by (simp add: Join_Cons cleanDir_def)

text \<open>Whatever the base directory, joining a plain name to it gives a clean directory.\<close>

lemma render_snoc_cleanDir:
  assumes "stackOk rooted st" "plain n"
  shows "cleanDir (render rooted (rev (n # st)))"
proof -
  have ok: "stackOk rooted (n # st)" using assms by (simp add: stackOk_Cons_plain)
  have "render rooted (rev (n # st)) \<noteq> ''.''"
  proof
    assume eq: "render rooted (rev (n # st)) = ''.''"
    have "n # st = cleanStack ''.''" using cleanStack_render [OF ok] eq by simp
    then show False by (simp add: cleanStack_def rootedPath_def cleanStep_def)
  qed
  moreover have "render rooted (rev (n # st)) \<noteq> ''/''"
  proof
    assume eq: "render rooted (rev (n # st)) = ''/''"
    have "n # st = cleanStack ''/''" using cleanStack_render [OF ok] eq by simp
    then show False by (simp add: cleanStack_def rootedPath_def cleanStep_def)
  qed
  ultimately show ?thesis
    using Clean_render [OF ok] render_nonempty [OF ok] by (simp add: cleanDir_def)
qed

lemma cleanDir_Join: "plain n \<Longrightarrow> cleanDir (Join [base, n])"
proof (cases "base = []")
  case True
  assume n: "plain n"
  have "cleanStack n = [n]"
    using n by (simp add: cleanStack_def plain_def splitOn_no_sep cleanStep_def)
  moreover have "\<not> rootedPath n" using n by (cases n) (auto simp: plain_def rootedPath_def)
  ultimately have "Join [base, n] = render False (rev [n])"
    using True n by (simp add: Join_def Clean_def plain_def)
  then show ?thesis using render_snoc_cleanDir [OF stackOk_Nil n, of False] by simp
next
  case False
  assume n: "plain n"
  have "Join [base, n] = render (rootedPath base) (rev (n # cleanStack base))"
    using False Clean_snoc [OF False n] by (simp add: Join_Cons)
  then show ?thesis using render_snoc_cleanDir [OF stackOk_cleanStack n] by simp
qed

lemma below_refl [simp]: "below d d"
  by (simp add: below_def)

lemma below_append [simp]: "below d (d @ ''/'' @ r)"
  by (simp add: below_def)

lemma slash_split_inj:
  assumes "CHR ''/'' \<notin> set a" "CHR ''/'' \<notin> set b" "b @ CHR ''/'' # r = a @ CHR ''/'' # z"
  shows "a = b"
proof -
  have "splitOn (CHR ''/'') (b @ CHR ''/'' # r) = splitOn (CHR ''/'') (a @ CHR ''/'' # z)"
    using assms(3) by simp
  then show ?thesis using assms(1,2) by (simp add: splitOn_append_sep)
qed

lemma not_below_sibling:
  assumes "plain a" "plain b" "a \<noteq> b"
  shows "\<not> below (d @ ''/'' @ a) (d @ ''/'' @ b)" "\<not> below (d @ ''/'' @ a) (d @ ''/'' @ b @ ''/'' @ r)"
proof -
  show "\<not> below (d @ ''/'' @ a) (d @ ''/'' @ b)"
  proof
    assume "below (d @ ''/'' @ a) (d @ ''/'' @ b)"
    then obtain z where "b = a @ CHR ''/'' # z"
      using assms(3) by (auto simp: below_def prefix_def)
    then show False using assms(2) by (simp add: plain_def)
  qed
  show "\<not> below (d @ ''/'' @ a) (d @ ''/'' @ b @ ''/'' @ r)"
  proof
    assume "below (d @ ''/'' @ a) (d @ ''/'' @ b @ ''/'' @ r)"
    then consider "b @ CHR ''/'' # r = a" | z where "b @ CHR ''/'' # r = a @ CHR ''/'' # z"
      by (auto simp: below_def prefix_def)
    then show False
      using assms slash_split_inj [of a b r] by cases (auto simp: plain_def)
  qed
qed

end
