(* ===== verification/World.thy ===== *)
theory World
  imports Paths
begin

text \<open>
  What the certificate code runs on: the file system and the clock as an explicit state
  (record \<open>world\<close>), the calls of Go's \<open>os\<close> and \<open>time\<close> packages on it, and the record
  \<open>env\<close> of everything that is not under \<open>src/\<close>: the functions of
  \<open>library-go/pkg/crypto\<close>, the faults of the operating system and the iteration order of
  Go maps. Every definition that needs one of them takes the record as its first argument.
  The predicate \<open>lib_frame\<close> states the documented effect of the library on files.
\<close>

section \<open>Certificates\<close>

record pkixName =
  CommonName :: string
  NameSerial :: string
  Organization :: "string list"

datatype extKeyUsage = ExtKeyUsageClientAuth | ExtKeyUsageServerAuth

text \<open>
  Times are nanoseconds since the zero \<open>time.Time\<close>. \<open>SerialNumber\<close> is a pointer to a
  \<open>big.Int\<close>: its address and the number it points to.
\<close>

record x509 =
  Subject :: pkixName
  Issuer :: pkixName
  SerialNumber :: "nat \<times> int"
  NotBefore :: int
  NotAfter :: int
  ExtKeyUsage :: "extKeyUsage list"

record userInfo =
  u_Name :: string
  u_UID :: string
  u_Groups :: "string list"

record tlsConfig =
  Certs :: "x509 list"
  Key :: string

datatype serialGenerator = SerialFileGenerator string | RandomSerialGenerator

record CA =
  Config :: tlsConfig
  SerialGenerator :: serialGenerator

text \<open>File contents: plain text, or the PEM blocks that the library writes and reads.\<close>

datatype bytes = Text string | CertPEM "x509 list" | KeyPEM string

definition bytesEmpty :: "bytes \<Rightarrow> bool" where
  "bytesEmpty b = (b = Text [] \<or> b = CertPEM [])"

section \<open>The state of the machine\<close>

record world =
  files :: "string \<Rightarrow> bytes option"
  nextPtr :: nat
  clockAt :: "nat \<Rightarrow> int"
  ticks :: nat

datatype osCall =
    CallReadFile string | CallWriteFile string | CallRemoveAll string | CallMkdirAll string
  | CallStat string | CallOpenFile string | CallWrite string

section \<open>Code outside the repository\<close>

record env =
  range_order :: "string list \<Rightarrow> string list"
  os_fault :: "osCall \<Rightarrow> world \<Rightarrow> goerr option"
  lib_EnsureCA :: "string \<Rightarrow> string \<Rightarrow> string \<Rightarrow> string \<Rightarrow> int \<Rightarrow> (world, CA) go"
  lib_GetCA :: "string \<Rightarrow> string \<Rightarrow> string \<Rightarrow> (world, CA) go"
  lib_MakeCAConfigForDuration :: "string \<Rightarrow> int \<Rightarrow> CA \<Rightarrow> (world, tlsConfig) go"
  lib_WriteCertConfigFile :: "tlsConfig \<Rightarrow> string \<Rightarrow> string \<Rightarrow> (world, unit) go"
  lib_NewSerialFileGenerator :: "string \<Rightarrow> (world, serialGenerator) go"
  lib_EnsureClientCertificate :: "CA \<Rightarrow> string \<Rightarrow> string \<Rightarrow> userInfo \<Rightarrow> int \<Rightarrow> (world, tlsConfig) go"
  lib_EnsureServerCert :: "CA \<Rightarrow> string \<Rightarrow> string \<Rightarrow> string list \<Rightarrow> int \<Rightarrow> (world, tlsConfig) go"
  lib_GetServerCert :: "string \<Rightarrow> string \<Rightarrow> string list \<Rightarrow> (world, tlsConfig) go"
  lib_MakeServerCertForDuration :: "CA \<Rightarrow> string list \<Rightarrow> int \<Rightarrow> (x509 \<Rightarrow> x509) \<Rightarrow> (world, tlsConfig) go"
  lib_CertsFromPEM :: "bytes \<Rightarrow> (world, x509 list) go"
  lib_EncodeCertificates :: "x509 list \<Rightarrow> (world, bytes) go"
  lib_GetPEMBytes :: "tlsConfig \<Rightarrow> (bytes \<times> bytes) outcome"
  lib_GenerateRSAKeyPEM :: "int \<Rightarrow> (world, bytes) go"

section \<open>The packages os and time\<close>

definition faultG :: "env \<Rightarrow> osCall \<Rightarrow> (world, 'a) go \<Rightarrow> (world, 'a) go" where
  "faultG E c m = (\<lambda>w. case os_fault E c w of Some e \<Rightarrow> (Err e, w) | None \<Rightarrow> m w)"

definition putFile :: "string \<Rightarrow> bytes \<Rightarrow> world \<Rightarrow> world" where
  "putFile p b w = w\<lparr>files := (files w)(p \<mapsto> b)\<rparr>"

definition purgeDir :: "string \<Rightarrow> world \<Rightarrow> world" where
  "purgeDir d w = w\<lparr>files := (\<lambda>p. if below d p then None else files w p)\<rparr>"

definition os_ReadFile :: "env \<Rightarrow> string \<Rightarrow> (world, bytes) go" where
  "os_ReadFile E p = faultG E (CallReadFile p)
     (\<lambda>w. case files w p of None \<Rightarrow> (Err (OsNotExist p), w) | Some b \<Rightarrow> (Ok b, w))"

definition os_WriteFile :: "env \<Rightarrow> string \<Rightarrow> bytes \<Rightarrow> (world, unit) go" where
  "os_WriteFile E p b = faultG E (CallWriteFile p) (\<lambda>w. (Ok (), putFile p b w))"

text \<open>\<open>os.OpenFile\<close> with \<open>O_WRONLY|O_CREATE|O_TRUNC\<close>, and writing through the handle.\<close>

definition os_OpenTrunc :: "env \<Rightarrow> string \<Rightarrow> (world, unit) go" where
  "os_OpenTrunc E p = faultG E (CallOpenFile p) (\<lambda>w. (Ok (), putFile p (Text []) w))"

definition os_WriteHandle :: "env \<Rightarrow> string \<Rightarrow> bytes \<Rightarrow> (world, unit) go" where
  "os_WriteHandle E p b = faultG E (CallWrite p) (\<lambda>w. (Ok (), putFile p b w))"

definition os_MkdirAll :: "env \<Rightarrow> string \<Rightarrow> (world, unit) go" where
  "os_MkdirAll E d = faultG E (CallMkdirAll d) (returnG ())"

text \<open>\<open>os.RemoveAll\<close>: nothing on the empty path, an error on a path that ends in a dot.\<close>

definition os_RemoveAll :: "env \<Rightarrow> string \<Rightarrow> (world, unit) go" where
  "os_RemoveAll E d =
     (if d = [] then returnG ()
      else if d = ''.'' \<or> suffix ''/.'' d then failG (OsError ''invalid argument'')
      else faultG E (CallRemoveAll d) (\<lambda>w. (Ok (), purgeDir d w)))"

definition os_Stat :: "env \<Rightarrow> string \<Rightarrow> (world, unit) go" where
  "os_Stat E p = faultG E (CallStat p)
     (\<lambda>w. case files w p of Some _ \<Rightarrow> (Ok (), w) | None \<Rightarrow> (Err (OsNotExist p), w))"

definition os_IsNotExist :: "goerr \<Rightarrow> bool" where
  "os_IsNotExist e = (case e of OsNotExist _ \<Rightarrow> True | _ \<Rightarrow> False)"

text \<open>\<open>time.Now\<close> reads the clock; \<open>int64\<close> arithmetic of \<open>time.Duration\<close> wraps, \<open>Sub\<close> saturates.\<close>

definition time_Now :: "(world, int) go" where
  "time_Now = (\<lambda>w. (Ok (clockAt w (ticks w)), w\<lparr>ticks := Suc (ticks w)\<rparr>))"

definition wrap64 :: "int \<Rightarrow> int" where
  "wrap64 i = (i + 2 ^ 63) mod 2 ^ 64 - 2 ^ 63"

definition time_Sub :: "int \<Rightarrow> int \<Rightarrow> int" where
  "time_Sub t u = max (- (2 ^ 63)) (min (2 ^ 63 - 1) (t - u))"

definition time_Hour :: int where
  "time_Hour = 3600000000000"

definition time_Second :: int where "time_Second = 1000000000"

definition time_Minute :: int where "time_Minute = 60 * time_Second"

text \<open>The operating system says that a file does not exist only when there is none.\<close>

definition os_honest :: "env \<Rightarrow> bool" where
  "os_honest E = (\<forall>c w e. os_fault E c w = Some e \<longrightarrow> \<not> os_IsNotExist e)"

section \<open>The file store and its frame\<close>

locale file_store =
  fixes look :: "'w \<Rightarrow> string \<Rightarrow> 'b option"
    and put :: "string \<Rightarrow> 'b \<Rightarrow> 'w \<Rightarrow> 'w"
    and purge :: "string \<Rightarrow> 'w \<Rightarrow> 'w"
  assumes look_put: "look (put p b w) q = (if q = p then Some b else look w q)"
    and look_purge: "look (purge d w) q = (if below d q then None else look w q)"
begin

text \<open>The two states hold the same files outside \<open>S\<close>.\<close>

definition agree :: "string set \<Rightarrow> 'w \<Rightarrow> 'w \<Rightarrow> bool" where
  "agree S w w' = (\<forall>p. p \<notin> S \<longrightarrow> look w' p = look w p)"

lemma agree_refl: "agree S w w"
  by (simp add: agree_def)

lemma agree_trans: "agree S u v \<Longrightarrow> agree S v w \<Longrightarrow> agree S u w"
  by (simp add: agree_def)

lemma agree_mono: "agree S u v \<Longrightarrow> S \<subseteq> T \<Longrightarrow> agree T u v"
  by (auto simp: agree_def)

lemma agree_put: "p \<in> S \<Longrightarrow> agree S w (put p b w)"
  by (auto simp: agree_def look_put)

lemma agree_purge: "{p. below d p} \<subseteq> S \<Longrightarrow> agree S w (purge d w)"
  by (auto simp: agree_def look_purge)

lemma agreeD: "agree S u v \<Longrightarrow> p \<notin> S \<Longrightarrow> look v p = look u p"
  by (simp add: agree_def)

lemma purge_gone: "agree S (purge d w) v \<Longrightarrow> below d p \<Longrightarrow> p \<notin> S \<Longrightarrow> look v p = None"
  by (simp add: agree_def look_purge)

end

interpretation fs: file_store files putFile purgeDir
  by unfold_locales (simp_all add: putFile_def purgeDir_def)

text \<open>A program that, however it ends, changes no file outside \<open>S\<close>.\<close>

definition touches :: "string set \<Rightarrow> (world, 'a) go \<Rightarrow> bool" where
  "touches S m = (\<forall>w r w'. m w = (r, w') \<longrightarrow> fs.agree S w w')"

section \<open>Documented behaviour of the library\<close>

text \<open>The file in which a certificate authority counts its serial numbers, if it has one.\<close>

definition serialFiles :: "CA \<Rightarrow> string set" where
  "serialFiles ca = (case SerialGenerator ca of SerialFileGenerator f \<Rightarrow> {f} | RandomSerialGenerator \<Rightarrow> {})"

text \<open>
  The library writes the files it is given, and the serial file of the authority that
  signs; reading functions write nothing.
\<close>

definition lib_frame :: "env \<Rightarrow> bool" where
  "lib_frame E =
     ((\<forall>c k s n d. touches {c, k, s} (lib_EnsureCA E c k s n d)) \<and>
      (\<forall>c k s. touches {} (lib_GetCA E c k s)) \<and>
      (\<forall>n d ca. touches (serialFiles ca) (lib_MakeCAConfigForDuration E n d ca)) \<and>
      (\<forall>t c k. touches {c, k} (lib_WriteCertConfigFile E t c k)) \<and>
      (\<forall>f. touches {} (lib_NewSerialFileGenerator E f)) \<and>
      (\<forall>ca c k u d. touches ({c, k} \<union> serialFiles ca) (lib_EnsureClientCertificate E ca c k u d)) \<and>
      (\<forall>ca c k h d. touches ({c, k} \<union> serialFiles ca) (lib_EnsureServerCert E ca c k h d)) \<and>
      (\<forall>c k h. touches {} (lib_GetServerCert E c k h)) \<and>
      (\<forall>ca h d f. touches (serialFiles ca) (lib_MakeServerCertForDuration E ca h d f)) \<and>
      (\<forall>b. touches {} (lib_CertsFromPEM E b)) \<and>
      (\<forall>cs. touches {} (lib_EncodeCertificates E cs)) \<and>
      (\<forall>n. touches {} (lib_GenerateRSAKeyPEM E n)))"

text \<open>An authority that the library reads or makes counts its serial numbers in the file it is given.\<close>

definition lib_serials :: "env \<Rightarrow> bool" where
  "lib_serials E =
     ((\<forall>c k s n d w ca w'. lib_EnsureCA E c k s n d w = (Ok ca, w') \<longrightarrow> serialFiles ca \<subseteq> {s}) \<and>
      (\<forall>c k s w ca w'. lib_GetCA E c k s w = (Ok ca, w') \<longrightarrow> serialFiles ca \<subseteq> {s}) \<and>
      (\<forall>f w g w'. lib_NewSerialFileGenerator E f w = (Ok g, w') \<longrightarrow> g = SerialFileGenerator f))"

text \<open>A certificate without the address of its serial number.\<close>

definition unptr :: "x509 \<Rightarrow> x509" where
  "unptr c = c\<lparr>SerialNumber := (0, snd (SerialNumber c))\<rparr>"

text \<open>
  PEM encoding and decoding are inverse; decoding allocates the serial numbers it returns,
  and encoding allocates nothing that is visible.
\<close>

definition lib_pem :: "env \<Rightarrow> bool" where
  "lib_pem E =
     ((\<forall>cs w b w'. lib_EncodeCertificates E cs w = (Ok b, w') \<longrightarrow> b = CertPEM cs \<and> nextPtr w \<le> nextPtr w') \<and>
      (\<forall>cs w cs' w'. lib_CertsFromPEM E (CertPEM cs) w = (Ok cs', w') \<longrightarrow>
         map unptr cs' = map unptr cs \<and> nextPtr w \<le> nextPtr w' \<and>
         (\<forall>c\<in>set cs'. nextPtr w \<le> fst (SerialNumber c))))"

lemma lib_pemD:
  assumes "lib_pem E"
  shows "lib_EncodeCertificates E cs w = (Ok b, w') \<Longrightarrow> b = CertPEM cs \<and> nextPtr w \<le> nextPtr w'"
    and "lib_CertsFromPEM E (CertPEM cs) w = (Ok cs', w') \<Longrightarrow>
      map unptr cs' = map unptr cs \<and> nextPtr w \<le> nextPtr w' \<and> (\<forall>c\<in>set cs'. nextPtr w \<le> fst (SerialNumber c))"
  using assms unfolding lib_pem_def by blast+

text \<open>Nothing goes wrong: no fault of the operating system, and a library that makes what it is asked for.\<close>

definition lib_total :: "env \<Rightarrow> bool" where
  "lib_total E =
     ((\<forall>c w. os_fault E c w = None) \<and>
      (\<forall>c k f n d. succeeds (\<lambda>_. True) (\<lambda>ca. Certs (Config ca) \<noteq> []) (lib_EnsureCA E c k f n d)) \<and>
      (\<forall>c k f. answers (\<lambda>_. True) (\<lambda>ca. Certs (Config ca) \<noteq> []) (lib_GetCA E c k f)) \<and>
      (\<forall>n d ca. succeeds (\<lambda>_. True) (\<lambda>t. Certs t \<noteq> []) (lib_MakeCAConfigForDuration E n d ca)) \<and>
      (\<forall>t c k. succeeds (\<lambda>_. True) (\<lambda>_. True) (lib_WriteCertConfigFile E t c k)) \<and>
      (\<forall>f. succeeds (\<lambda>_. True) (\<lambda>_. True) (lib_NewSerialFileGenerator E f)) \<and>
      (\<forall>ca c k u d. succeeds (\<lambda>_. True) (\<lambda>_. True) (lib_EnsureClientCertificate E ca c k u d)) \<and>
      (\<forall>ca c k h d. succeeds (\<lambda>_. True) (\<lambda>_. True) (lib_EnsureServerCert E ca c k h d)) \<and>
      (\<forall>c k h. answers (\<lambda>_. True) (\<lambda>_. True) (lib_GetServerCert E c k h)) \<and>
      (\<forall>ca h d f. succeeds (\<lambda>_. True) (\<lambda>_. True) (lib_MakeServerCertForDuration E ca h d f)) \<and>
      (\<forall>cs. succeeds (\<lambda>_. True) (\<lambda>_. True) (lib_EncodeCertificates E cs)))"

lemma lib_serialsD:
  assumes "lib_serials E"
  shows "lib_EnsureCA E c k s n d w = (Ok ca, w') \<Longrightarrow> serialFiles ca \<subseteq> {s}"
    and "lib_GetCA E c k s w = (Ok ca, w') \<Longrightarrow> serialFiles ca \<subseteq> {s}"
    and "lib_NewSerialFileGenerator E s w = (Ok g, w') \<Longrightarrow> g = SerialFileGenerator s"
  using assms unfolding lib_serials_def by blast+

section \<open>What the building blocks touch\<close>

named_theorems touch \<open>which files a program may change\<close>

lemma touchesI: "(\<And>w r w'. m w = (r, w') \<Longrightarrow> fs.agree S w w') \<Longrightarrow> touches S m"
  by (simp add: touches_def)

lemma touchesD: "touches S m \<Longrightarrow> m w = (r, w') \<Longrightarrow> fs.agree S w w'"
  by (simp add: touches_def)

lemma touches_mono: "touches S m \<Longrightarrow> S \<subseteq> T \<Longrightarrow> touches T m"
  unfolding touches_def using fs.agree_mono by blast

lemma touches_return [touch]: "touches S (returnG x)"
  by (auto simp: touches_def returnG_def fs.agree_refl)

lemma touches_fail [touch]: "touches S (failG e)"
  by (auto simp: touches_def failG_def fs.agree_refl)

lemma touches_panic [touch]: "touches S (panicG p)"
  by (auto simp: touches_def panicG_def fs.agree_refl)

lemma touches_bind [touch]:
  assumes "touches S m" "\<And>x. touches S (f x)"
  shows "touches S (bindG m f)"
proof (rule touchesI)
  fix w r w'
  assume eq: "bindG m f w = (r, w')"
  obtain a u where m: "m w = (a, u)" by force
  then have mu: "fs.agree S w u" using assms(1) by (rule_tac touchesD)
  show "fs.agree S w w'"
  proof (cases a)
    case (Ok x)
    then have "f x u = (r, w')" using eq m by (simp add: bindG_def)
    then have "fs.agree S u w'" using assms(2) by (rule_tac touchesD)
    then show ?thesis using mu by (rule_tac fs.agree_trans)
  qed (use eq m mu in \<open>auto simp: bindG_def\<close>)
qed

lemma touches_wrap [touch]: "touches S m \<Longrightarrow> touches S (wrapG g m)"
  by (auto simp: touches_def wrapG_def split: prod.splits outcome.splits)

lemma touches_try [touch]:
  assumes "touches S m" "\<And>x. touches S (f x)" "\<And>e. touches S (h e)"
  shows "touches S (tryG m f h)"
proof (rule touchesI)
  fix w r w'
  assume eq: "tryG m f h w = (r, w')"
  obtain a u where m: "m w = (a, u)" by force
  then have mu: "fs.agree S w u" using assms(1) by (rule_tac touchesD)
  have "fs.agree S u w'"
    using eq m assms(2,3) by (cases a) (auto simp: tryG_def fs.agree_refl intro: touchesD)
  then show "fs.agree S w w'" using mu by (rule_tac fs.agree_trans)
qed

lemma touches_for [touch]: "(\<And>x. x \<in> set xs \<Longrightarrow> touches S (f x)) \<Longrightarrow> touches S (forG xs f)"
  by (induction xs) (auto intro!: touch)

lemma touches_fault [touch]: "touches S m \<Longrightarrow> touches S (faultG E c m)"
  by (auto simp: touches_def faultG_def fs.agree_refl split: option.splits)

lemma touches_if [touch]: "(b \<Longrightarrow> touches S m) \<Longrightarrow> (\<not> b \<Longrightarrow> touches S n) \<Longrightarrow> touches S (if b then m else n)"
  by simp

lemma touches_ReadFile [touch]: "touches S (os_ReadFile E p)"
  unfolding os_ReadFile_def
  by (rule touches_fault) (auto simp: touches_def fs.agree_refl split: option.splits)

lemma touches_WriteFile [touch]: "p \<in> S \<Longrightarrow> touches S (os_WriteFile E p b)"
  unfolding os_WriteFile_def by (rule touches_fault) (auto simp: touches_def intro: fs.agree_put)

lemma touches_OpenTrunc [touch]: "p \<in> S \<Longrightarrow> touches S (os_OpenTrunc E p)"
  unfolding os_OpenTrunc_def by (rule touches_fault) (auto simp: touches_def intro: fs.agree_put)

lemma touches_WriteHandle [touch]: "p \<in> S \<Longrightarrow> touches S (os_WriteHandle E p b)"
  unfolding os_WriteHandle_def by (rule touches_fault) (auto simp: touches_def intro: fs.agree_put)

lemma touches_MkdirAll [touch]: "touches S (os_MkdirAll E d)"
  unfolding os_MkdirAll_def by (intro touch)

lemma touches_RemoveAll [touch]: "{p. below d p} \<subseteq> S \<Longrightarrow> touches S (os_RemoveAll E d)"
  unfolding os_RemoveAll_def
  by (intro touch) (auto simp: touches_def intro: fs.agree_purge)

lemma touches_Stat [touch]: "touches S (os_Stat E p)"
  unfolding os_Stat_def by (rule touches_fault) (auto simp: touches_def fs.agree_refl split: option.splits)

lemma touches_lib:
  assumes "lib_frame E"
  shows "{c, k, f} \<subseteq> S \<Longrightarrow> touches S (lib_EnsureCA E c k f n d)"
    and "touches S (lib_GetCA E c k f)"
    and "serialFiles ca \<subseteq> S \<Longrightarrow> touches S (lib_MakeCAConfigForDuration E n d ca)"
    and "{c, k} \<subseteq> S \<Longrightarrow> touches S (lib_WriteCertConfigFile E t c k)"
    and "touches S (lib_NewSerialFileGenerator E f)"
    and "{c, k} \<union> serialFiles ca \<subseteq> S \<Longrightarrow> touches S (lib_EnsureClientCertificate E ca c k u d)"
    and "{c, k} \<union> serialFiles ca \<subseteq> S \<Longrightarrow> touches S (lib_EnsureServerCert E ca c k h d)"
    and "touches S (lib_GetServerCert E c k h)"
    and "serialFiles ca \<subseteq> S \<Longrightarrow> touches S (lib_MakeServerCertForDuration E ca h d g)"
    and "touches S (lib_CertsFromPEM E b)"
    and "touches S (lib_EncodeCertificates E cs)"
    and "touches S (lib_GenerateRSAKeyPEM E m)"
proof -
  have F: "(\<forall>c k s n d. touches {c, k, s} (lib_EnsureCA E c k s n d))"
    "(\<forall>c k s. touches {} (lib_GetCA E c k s))"
    "(\<forall>n d ca. touches (serialFiles ca) (lib_MakeCAConfigForDuration E n d ca))"
    "(\<forall>t c k. touches {c, k} (lib_WriteCertConfigFile E t c k))"
    "(\<forall>f. touches {} (lib_NewSerialFileGenerator E f))"
    "(\<forall>ca c k u d. touches ({c, k} \<union> serialFiles ca) (lib_EnsureClientCertificate E ca c k u d))"
    "(\<forall>ca c k h d. touches ({c, k} \<union> serialFiles ca) (lib_EnsureServerCert E ca c k h d))"
    "(\<forall>c k h. touches {} (lib_GetServerCert E c k h))"
    "(\<forall>ca h d f. touches (serialFiles ca) (lib_MakeServerCertForDuration E ca h d f))"
    "(\<forall>b. touches {} (lib_CertsFromPEM E b))"
    "(\<forall>cs. touches {} (lib_EncodeCertificates E cs))"
    "(\<forall>n. touches {} (lib_GenerateRSAKeyPEM E n))"
    using assms unfolding lib_frame_def by simp_all
  show "{c, k, f} \<subseteq> S \<Longrightarrow> touches S (lib_EnsureCA E c k f n d)"
    using F(1) by (blast intro: touches_mono)
  show "touches S (lib_GetCA E c k f)" using F(2) by (blast intro: touches_mono)
  show "serialFiles ca \<subseteq> S \<Longrightarrow> touches S (lib_MakeCAConfigForDuration E n d ca)"
    using F(3) by (blast intro: touches_mono)
  show "{c, k} \<subseteq> S \<Longrightarrow> touches S (lib_WriteCertConfigFile E t c k)"
    using F(4) by (blast intro: touches_mono)
  show "touches S (lib_NewSerialFileGenerator E f)" using F(5) by (blast intro: touches_mono)
  show "{c, k} \<union> serialFiles ca \<subseteq> S \<Longrightarrow> touches S (lib_EnsureClientCertificate E ca c k u d)"
    using F(6) by (blast intro: touches_mono)
  show "{c, k} \<union> serialFiles ca \<subseteq> S \<Longrightarrow> touches S (lib_EnsureServerCert E ca c k h d)"
    using F(7) by (blast intro: touches_mono)
  show "touches S (lib_GetServerCert E c k h)" using F(8) by (blast intro: touches_mono)
  show "serialFiles ca \<subseteq> S \<Longrightarrow> touches S (lib_MakeServerCertForDuration E ca h d g)"
    using F(9) by (blast intro: touches_mono)
  show "touches S (lib_CertsFromPEM E b)" using F(10) by (blast intro: touches_mono)
  show "touches S (lib_EncodeCertificates E cs)" using F(11) by (blast intro: touches_mono)
  show "touches S (lib_GenerateRSAKeyPEM E m)" using F(12) by (blast intro: touches_mono)
qed

section \<open>Arithmetic of durations\<close>

lemma wrap64_bounds: "- (2 ^ 63) \<le> wrap64 i \<and> wrap64 i < 2 ^ 63"
proof -
  have "0 \<le> (i + 2 ^ 63) mod 2 ^ 64" "(i + 2 ^ 63) mod 2 ^ 64 < (2 ^ 64 :: int)"
    by simp_all
  then show ?thesis by (simp add: wrap64_def)
qed

lemma wrap64_id: "- (2 ^ 63) \<le> i \<Longrightarrow> i < 2 ^ 63 \<Longrightarrow> wrap64 i = i"
  by (simp add: wrap64_def)

lemma time_Sub_exact: "- (2 ^ 63) \<le> t - u \<Longrightarrow> t - u < 2 ^ 63 \<Longrightarrow> time_Sub t u = t - u"
  by (simp add: time_Sub_def)

text \<open>Saturation never changes how a difference compares with an \<open>int64\<close> bound.\<close>

lemma time_Sub_less: "- (2 ^ 63) < b \<Longrightarrow> b < 2 ^ 63 \<Longrightarrow> time_Sub t u < b \<longleftrightarrow> t - u < b"
  by (auto simp: time_Sub_def)

end
