(* ===== verification/Signers.thy ===== *)
theory Signers
  imports World
begin

text \<open>
  Package \<open>certchains\<close>, the part below a whole set of chains: file names and paths
  (\<open>util.go\<close>), errors (\<open>errors.go\<close>), the information about a root authority
  (\<open>cainfo.go\<close>), the builder of a signer (\<open>signerbuilder.go\<close>) and the signer with its tree
  of intermediate authorities and certificates (\<open>signers.go\<close>).

  A method of \<open>*CertificateSigner\<close> runs on the pair of the signer and the world, and what it
  changed before an error stays changed. The builder is a value: every builder is completed
  at most once in the program, so that the mutation in \<open>WithSignerConfig\<close> is not shared.
\<close>

section \<open>util.go\<close>

definition CACertFileName :: string where "CACertFileName = ''ca.crt''"
definition CAKeyFileName :: string where "CAKeyFileName = ''ca.key''"
definition CABundleFileName :: string where "CABundleFileName = ''ca-bundle.crt''"
definition CASerialsFileName :: string where "CASerialsFileName = ''serial.txt''"
definition ServerCertFileName :: string where "ServerCertFileName = ''server.crt''"
definition ServerKeyFileName :: string where "ServerKeyFileName = ''server.key''"
definition ClientCertFileName :: string where "ClientCertFileName = ''client.crt''"
definition ClientKeyFileName :: string where "ClientKeyFileName = ''client.key''"
definition PeerCertFileName :: string where "PeerCertFileName = ''peer.crt''"
definition PeerKeyFileName :: string where "PeerKeyFileName = ''peer.key''"

definition LongLivedCertificateValidityDays :: int where
  "LongLivedCertificateValidityDays = 365 * 10"

definition ShortLivedCertificateValidityDays :: int where
  "ShortLivedCertificateValidityDays = 365"

definition IsCertShortLived :: "x509 \<Rightarrow> bool" where
  "IsCertShortLived c =
     (let totalTime = time_Sub (NotAfter c) (NotBefore c) in totalTime < 5 * 365 * time_Hour * 24)"

definition CACertPath :: "string \<Rightarrow> string" where "CACertPath dir = Join [dir, CACertFileName]"
definition CAKeyPath :: "string \<Rightarrow> string" where "CAKeyPath dir = Join [dir, CAKeyFileName]"
definition CASerialsPath :: "string \<Rightarrow> string" where "CASerialsPath dir = Join [dir, CASerialsFileName]"
definition CABundlePath :: "string \<Rightarrow> string" where "CABundlePath dir = Join [dir, CABundleFileName]"
definition ClientCertPath :: "string \<Rightarrow> string" where "ClientCertPath dir = Join [dir, ClientCertFileName]"
definition ClientKeyPath :: "string \<Rightarrow> string" where "ClientKeyPath dir = Join [dir, ClientKeyFileName]"
definition ServingCertPath :: "string \<Rightarrow> string" where "ServingCertPath dir = Join [dir, ServerCertFileName]"
definition ServingKeyPath :: "string \<Rightarrow> string" where "ServingKeyPath dir = Join [dir, ServerKeyFileName]"
definition PeerCertPath :: "string \<Rightarrow> string" where "PeerCertPath dir = Join [dir, PeerCertFileName]"
definition PeerKeyPath :: "string \<Rightarrow> string" where "PeerKeyPath dir = Join [dir, PeerKeyFileName]"

section \<open>errors.go\<close>

definition NewSignerNotFound :: "string \<Rightarrow> goerr" where
  "NewSignerNotFound n = SignerNotFound n"

text \<open>\<open>errors.As\<close> follows only the causes that were wrapped with \<open>%w\<close>.\<close>

fun IsSignerNotFoundError :: "goerr \<Rightarrow> bool" where
  "IsSignerNotFoundError (SignerNotFound _) = True"
| "IsSignerNotFoundError (ErrorfW _ _ e) = IsSignerNotFoundError e"
| "IsSignerNotFoundError _ = False"

section \<open>cainfo.go\<close>

record CAInfo =
  ca_signerName :: string
  ca_validityDays :: int
  ca_certFile :: string
  ca_keyFile :: string
  ca_serialFile :: string

definition NewCAInfo :: CAInfo where
  "NewCAInfo = \<lparr>ca_signerName = [], ca_validityDays = 0, ca_certFile = [], ca_keyFile = [], ca_serialFile = []\<rparr>"

definition SetSignerName :: "string \<Rightarrow> CAInfo \<Rightarrow> CAInfo" where
  "SetSignerName n i = i\<lparr>ca_signerName := n\<rparr>"

definition SetValidityDays :: "int \<Rightarrow> CAInfo \<Rightarrow> CAInfo" where
  "SetValidityDays d i = i\<lparr>ca_validityDays := d\<rparr>"

definition SetCertFile :: "string \<Rightarrow> CAInfo \<Rightarrow> CAInfo" where
  "SetCertFile f i = i\<lparr>ca_certFile := f\<rparr>"

definition SetKeyFile :: "string \<Rightarrow> CAInfo \<Rightarrow> CAInfo" where
  "SetKeyFile f i = i\<lparr>ca_keyFile := f\<rparr>"

definition SetSerialFile :: "string \<Rightarrow> CAInfo \<Rightarrow> CAInfo" where
  "SetSerialFile f i = i\<lparr>ca_serialFile := f\<rparr>"

definition EnsureCA :: "env \<Rightarrow> CAInfo \<Rightarrow> (world, CA) go" where
  "EnsureCA E i =
     lib_EnsureCA E (ca_certFile i) (ca_keyFile i) (ca_serialFile i) (ca_signerName i) (ca_validityDays i)"

section \<open>Signing requests\<close>

record CSRMeta =
  metaName :: string
  metaValidityDays :: int

text \<open>The implementations of the interface \<open>CSRInfo\<close>; \<open>OtherCSR\<close> stands for any further one.\<close>

datatype CSRInfo =
    ClientCSR CSRMeta userInfo
  | ServingCSR CSRMeta "string list"
  | PeerCSR CSRMeta userInfo "string list"
  | OtherCSR CSRMeta

fun GetMeta :: "CSRInfo \<Rightarrow> CSRMeta" where
  "GetMeta (ClientCSR m _) = m"
| "GetMeta (ServingCSR m _) = m"
| "GetMeta (PeerCSR m _ _) = m"
| "GetMeta (OtherCSR m) = m"

record signedCertificateInfo =
  csrInfo :: CSRInfo
  certTlsConfig :: tlsConfig

section \<open>signerbuilder.go: the builder\<close>

datatype certificateSigner = Builder
  (bName: string) (bDir: string) (bValidityDays: int) (bConfig: "CA option")
  (bSubCAs: "certificateSigner list") (bCerts: "CSRInfo list") (bBundles: "string list")
  (bCAInfo: "CAInfo option")

definition NewCertificateSigner :: "string \<Rightarrow> string \<Rightarrow> int \<Rightarrow> certificateSigner" where
  "NewCertificateSigner n d v = Builder n d v None [] [] [] None"

fun WithSignerConfig :: "CA \<Rightarrow> certificateSigner \<Rightarrow> certificateSigner" where
  "WithSignerConfig c (Builder n d v _ ss cs bs i) = Builder n d v (Some c) ss cs bs i"

fun WithCABundlePaths :: "string list \<Rightarrow> certificateSigner \<Rightarrow> certificateSigner" where
  "WithCABundlePaths ps (Builder n d v c ss cs bs i) = Builder n d v c ss cs (bs @ ps) i"

fun withCSRs :: "CSRInfo list \<Rightarrow> certificateSigner \<Rightarrow> certificateSigner" where
  "withCSRs is (Builder n d v c ss cs bs i) = Builder n d v c ss (cs @ is) bs i"

definition WithClientCertificates :: "(CSRMeta \<times> userInfo) list \<Rightarrow> certificateSigner \<Rightarrow> certificateSigner" where
  "WithClientCertificates is = withCSRs (map (\<lambda>(m, u). ClientCSR m u) is)"

definition WithServingCertificates :: "(CSRMeta \<times> string list) list \<Rightarrow> certificateSigner \<Rightarrow> certificateSigner" where
  "WithServingCertificates is = withCSRs (map (\<lambda>(m, h). ServingCSR m h) is)"

definition WithPeerCertificiates :: "(CSRMeta \<times> userInfo \<times> string list) list \<Rightarrow> certificateSigner \<Rightarrow> certificateSigner" where
  "WithPeerCertificiates is = withCSRs (map (\<lambda>(m, u, h). PeerCSR m u h) is)"

fun WithSubCAs :: "certificateSigner list \<Rightarrow> certificateSigner \<Rightarrow> certificateSigner" where
  "WithSubCAs us (Builder n d v c ss cs bs i) = Builder n d v c (ss @ us) cs bs i"

fun WithCAInfo :: "CAInfo \<Rightarrow> certificateSigner \<Rightarrow> certificateSigner" where
  "WithCAInfo j (Builder n d v c ss cs bs i) = Builder n d v c ss cs bs (Some j)"

text \<open>The number of builders in the tree, the measure of completion.\<close>

fun nodes :: "certificateSigner \<Rightarrow> nat" where
  "nodes (Builder n d v c ss cs bs i) = Suc (sum_list (map nodes ss))"

section \<open>signers.go: the signer\<close>

datatype CertificateSigner = Signer
  (signerName: string) (signerConfig: CA) (signerDir: string) (signerValidityDays: int)
  (subCAs: "(string \<times> CertificateSigner) list")
  (signedCertificates: "(string \<times> signedCertificateInfo) list")
  (caBundlePaths: "string list")

type_synonym 'a signerM = "(CertificateSigner \<times> world, 'a) go"

definition setSignerConfig :: "CA \<Rightarrow> CertificateSigner \<Rightarrow> CertificateSigner" where
  "setSignerConfig c s = Signer (signerName s) c (signerDir s) (signerValidityDays s) (subCAs s)
     (signedCertificates s) (caBundlePaths s)"

definition putSubCA :: "string \<Rightarrow> CertificateSigner \<Rightarrow> CertificateSigner \<Rightarrow> CertificateSigner" where
  "putSubCA n u s = Signer (signerName s) (signerConfig s) (signerDir s) (signerValidityDays s)
     (mapPut n u (subCAs s)) (signedCertificates s) (caBundlePaths s)"

definition putCert :: "string \<Rightarrow> signedCertificateInfo \<Rightarrow> CertificateSigner \<Rightarrow> CertificateSigner" where
  "putCert n i s = Signer (signerName s) (signerConfig s) (signerDir s) (signerValidityDays s)
     (subCAs s) (mapPut n i (signedCertificates s)) (caBundlePaths s)"

definition insertBundle :: "string \<Rightarrow> CertificateSigner \<Rightarrow> CertificateSigner" where
  "insertBundle p s = Signer (signerName s) (signerConfig s) (signerDir s) (signerValidityDays s)
     (subCAs s) (signedCertificates s) (List.insert p (caBundlePaths s))"

definition getS :: "CertificateSigner signerM" where
  "getS = (\<lambda>sw. (Ok (fst sw), sw))"

definition modS :: "(CertificateSigner \<Rightarrow> CertificateSigner) \<Rightarrow> unit signerM" where
  "modS f = (\<lambda>(s, w). (Ok (), (f s, w)))"

definition liftW :: "(world, 'a) go \<Rightarrow> 'a signerM" where
  "liftW m = zoomG snd (\<lambda>w sw. (fst sw, w)) m"

text \<open>Running methods on a new signer, which is returned when they succeed.\<close>

definition runSigner :: "CertificateSigner \<Rightarrow> unit signerM \<Rightarrow> (world, CertificateSigner) go" where
  "runSigner s m = (\<lambda>w. case m (s, w) of
     (Ok _, (s', w')) \<Rightarrow> (Ok s', w') | (Err e, (_, w')) \<Rightarrow> (Err e, w') | (Panic p, (_, w')) \<Rightarrow> (Panic p, w'))"

text \<open>Running methods on the signer below \<open>n\<close>, in place.\<close>

definition onSubCA :: "string \<Rightarrow> CertificateSigner \<Rightarrow> unit signerM \<Rightarrow> unit signerM" where
  "onSubCA n u m = (\<lambda>(s, w). case m (u, w) of (r, (u', w')) \<Rightarrow> (r, (putSubCA n u' s, w')))"

text \<open>\<open>Config.Certs[0]\<close>\<close>

definition firstCert :: "tlsConfig \<Rightarrow> x509 outcome" where
  "firstCert t = (case Certs t of [] \<Rightarrow> Panic ''index out of range'' | c # _ \<Rightarrow> Ok c)"

definition GetSignerCertPEM :: "env \<Rightarrow> CertificateSigner \<Rightarrow> bytes outcome" where
  "GetSignerCertPEM E s = (case lib_GetPEMBytes E (Config (signerConfig s)) of
     Ok (c, _) \<Rightarrow> Ok c | Err e \<Rightarrow> Err e | Panic p \<Rightarrow> Panic p)"

definition certificateSignersMapKeysOrdered :: "CertificateSigner gomap \<Rightarrow> string list" where
  "certificateSignersMapKeysOrdered m = sort (mapKeys m)"

definition signedCertificateInfoMapKeysOrdered :: "signedCertificateInfo gomap \<Rightarrow> string list" where
  "signedCertificateInfoMapKeysOrdered m = sort (mapKeys m)"

definition GetCertNames :: "CertificateSigner \<Rightarrow> string list" where
  "GetCertNames s = signedCertificateInfoMapKeysOrdered (signedCertificates s)"

definition GetSubCANames :: "CertificateSigner \<Rightarrow> string list" where
  "GetSubCANames s = certificateSignersMapKeysOrdered (subCAs s)"

definition GetSubCA :: "CertificateSigner \<Rightarrow> string \<Rightarrow> CertificateSigner option" where
  "GetSubCA s n = mapGet (subCAs s) n"

definition signerGetCertKey :: "env \<Rightarrow> CertificateSigner \<Rightarrow> string \<Rightarrow> (bytes \<times> bytes) outcome" where
  "signerGetCertKey E s n = (case mapGet (signedCertificates s) n of
     None \<Rightarrow> Err (Errorf ''no certificate with name %q was found'' [n])
   | Some i \<Rightarrow> lib_GetPEMBytes E (certTlsConfig i))"

subsection \<open>The subject of a user\<close>

text \<open>\<open>sortedForDER\<close>: shorter names first, names of one length in the order of their bytes.\<close>

definition derLess :: "string \<Rightarrow> string \<Rightarrow> bool" where
  "derLess a b = (let l1 = length a; l2 = length b in if l1 = l2 then a < b else l1 < l2)"

text \<open>A name in this order, which sorting uses by \<open>Less\<close> alone.\<close>

datatype der = Der (theName: string)

instantiation der :: linorder
begin

definition less_der :: "der \<Rightarrow> der \<Rightarrow> bool" where
  "less_der a b = derLess (theName a) (theName b)"

definition less_eq_der :: "der \<Rightarrow> der \<Rightarrow> bool" where
  "less_eq_der a b = (\<not> derLess (theName b) (theName a))"

instance
  by standard
    (auto simp: less_eq_der_def less_der_def derLess_def Let_def split: if_splits intro: der.expand)

end

definition userToSubject :: "userInfo \<Rightarrow> pkixName" where
  "userToSubject u = \<lparr>CommonName = u_Name u, NameSerial = u_UID u,
     Organization = map theName (sort (map Der (u_Groups u)))\<rparr>"

subsection \<open>Bundles\<close>

text \<open>\<open>pkix.Name.String\<close>: the RFC 2253 form, with its escapes.\<close>

definition escapeAt :: "nat \<Rightarrow> nat \<Rightarrow> char \<Rightarrow> string" where
  "escapeAt k n c =
     (if c \<in> set [CHR '','', CHR ''+'', CHR 0x22, CHR 0x5C, CHR ''<'', CHR ''>'', CHR '';'']
        \<or> (c = CHR ''#'' \<and> k = 0) \<or> (c = CHR '' '' \<and> (k = 0 \<or> Suc k = n))
      then [CHR 0x5C, c] else [c])"

definition escapeRDN :: "string \<Rightarrow> string" where
  "escapeRDN s = concat (map (\<lambda>(k, c). escapeAt k (length s) c) (enumerate 0 s))"

definition nameString :: "pkixName \<Rightarrow> string" where
  "nameString n = joinWith '',''
     ((if NameSerial n = [] then [] else [''SERIALNUMBER='' @ escapeRDN (NameSerial n)]) @
      (if CommonName n = [] then [] else [''CN='' @ escapeRDN (CommonName n)]) @
      (if Organization n = [] then []
       else [joinWith ''+'' (map (\<lambda>g. ''O='' @ escapeRDN g) (Organization n))]))"

definition sameName :: "x509 \<Rightarrow> x509 \<Rightarrow> bool" where
  "sameName c d = (nameString (Subject c) = nameString (Subject d) \<and>
                   nameString (Issuer c) = nameString (Issuer d))"

text \<open>
  The loop over the certificates of a bundle: whether one was found, whether it was
  replaced, and the certificates afterwards. The serial numbers are compared as pointers.
\<close>

fun scanBundle :: "x509 \<Rightarrow> x509 list \<Rightarrow> bool \<times> bool \<times> x509 list" where
  "scanBundle cert [] = (False, False, [])"
| "scanBundle cert (c # cs) =
     (if sameName c cert then
        (if fst (SerialNumber c) \<noteq> fst (SerialNumber cert) then (True, True, cert # cs)
         else (True, False, c # cs))
      else (case scanBundle cert cs of (found, changed, cs') \<Rightarrow> (found, changed, c # cs')))"

definition addToBundle :: "env \<Rightarrow> x509 \<Rightarrow> string \<Rightarrow> unit signerM" where
  "addToBundle E cert bundlePath =
     bindG (tryG (liftW (os_ReadFile E bundlePath)) returnG
              (\<lambda>e. if os_IsNotExist e then returnG (Text []) else failG e)) (\<lambda>bundlePEMs.
     bindG (if bytesEmpty bundlePEMs then returnG [] else liftW (lib_CertsFromPEM E bundlePEMs)) (\<lambda>certs.
     case scanBundle cert certs of (certFound, certsChanged, certs') \<Rightarrow>
       if certFound \<and> \<not> certsChanged then returnG ()
       else
         let certs'' = (if certFound then certs' else certs' @ [cert]) in
         bindG (liftW (os_MkdirAll E (Dir bundlePath))) (\<lambda>_.
         bindG (liftW (os_OpenTrunc E bundlePath)) (\<lambda>_.
         bindG (liftW (lib_EncodeCertificates E certs'')) (\<lambda>bs.
         bindG (liftW (os_WriteHandle E bundlePath bs)) (\<lambda>_.
         modS (insertBundle bundlePath)))))))"

definition AddToBundles :: "env \<Rightarrow> string list \<Rightarrow> unit signerM" where
  "AddToBundles E bundlePaths =
     bindG getS (\<lambda>s. bindG (ofO (firstCert (Config (signerConfig s)))) (\<lambda>cert.
       forG bundlePaths (addToBundle E cert)))"

subsection \<open>Signing\<close>

definition daysDuration :: "int \<Rightarrow> int" where
  "daysDuration d = wrap64 (wrap64 (d * time_Hour) * 24)"

definition peerDuration :: "int \<Rightarrow> int" where
  "peerDuration d = wrap64 (wrap64 (d * 24) * time_Hour)"

definition libraryGoMakeAndWriteSubCA ::
  "env \<Rightarrow> CA \<Rightarrow> string \<Rightarrow> string \<Rightarrow> string \<Rightarrow> string \<Rightarrow> int \<Rightarrow> (world, CA) go" where
  "libraryGoMakeAndWriteSubCA E ca certFile keyFile serialFile name expireDays =
     bindG (lib_MakeCAConfigForDuration E name (daysDuration expireDays) ca) (\<lambda>subCAConfig.
     bindG (lib_WriteCertConfigFile E subCAConfig certFile keyFile) (\<lambda>_.
     bindG (if serialFile \<noteq> [] then
              bindG (os_WriteFile E serialFile (Text (''00'' @ [CHR 0x0A]))) (\<lambda>_.
                lib_NewSerialFileGenerator E serialFile)
            else returnG RandomSerialGenerator) (\<lambda>serialGenerator.
     returnG \<lparr>Config = subCAConfig, SerialGenerator = serialGenerator\<rparr>)))"

definition libraryGoEnsureSubCA ::
  "env \<Rightarrow> CA \<Rightarrow> string \<Rightarrow> string \<Rightarrow> string \<Rightarrow> string \<Rightarrow> int \<Rightarrow> (world, CA) go" where
  "libraryGoEnsureSubCA E ca certFile keyFile serialFile name expireDays =
     tryG (lib_GetCA E certFile keyFile serialFile) returnG
       (\<lambda>_. libraryGoMakeAndWriteSubCA E ca certFile keyFile serialFile name expireDays)"

definition SignClientCertificate :: "env \<Rightarrow> CSRMeta \<Rightarrow> userInfo \<Rightarrow> unit signerM" where
  "SignClientCertificate E m u = bindG getS (\<lambda>s.
     let certDir = Join [signerDir s, metaName m] in
     bindG (wrapG (ErrorfW ''failed to generate client certificate for %q: %w'' [metaName m])
              (liftW (lib_EnsureClientCertificate E (signerConfig s) (ClientCertPath certDir)
                        (ClientKeyPath certDir) u (metaValidityDays m)))) (\<lambda>tls.
     modS (putCert (metaName m) \<lparr>csrInfo = ClientCSR m u, certTlsConfig = tls\<rparr>)))"

definition SignServingCertificate :: "env \<Rightarrow> CSRMeta \<Rightarrow> string list \<Rightarrow> unit signerM" where
  "SignServingCertificate E m hosts = bindG getS (\<lambda>s.
     let certDir = Join [signerDir s, metaName m] in
     bindG (wrapG (ErrorfW ''failed to generate serving certificate for %q: %w'' [metaName m])
              (liftW (lib_EnsureServerCert E (signerConfig s) (ServingCertPath certDir)
                        (ServingKeyPath certDir) hosts (metaValidityDays m)))) (\<lambda>tls.
     modS (putCert (metaName m) \<lparr>csrInfo = ServingCSR m hosts, certTlsConfig = tls\<rparr>)))"

definition peerTemplate :: "userInfo \<Rightarrow> x509 \<Rightarrow> x509" where
  "peerTemplate u t = t\<lparr>Subject := userToSubject u,
     ExtKeyUsage := [ExtKeyUsageClientAuth, ExtKeyUsageServerAuth]\<rparr>"

definition SignPeerCertificate :: "env \<Rightarrow> CSRMeta \<Rightarrow> userInfo \<Rightarrow> string list \<Rightarrow> unit signerM" where
  "SignPeerCertificate E m u hosts = bindG getS (\<lambda>s.
     let certDir = Join [signerDir s, metaName m] in
     tryG (liftW (lib_GetServerCert E (PeerCertPath certDir) (PeerKeyPath certDir) hosts))
       (\<lambda>_. returnG ())
       (\<lambda>_.
         bindG (wrapG (ErrorfW ''failed to generate peer certificate for %q: %w'' [metaName m])
                  (liftW (lib_MakeServerCertForDuration E (signerConfig s) hosts
                            (peerDuration (metaValidityDays m)) (peerTemplate u)))) (\<lambda>tls.
         bindG (wrapG (ErrorfW ''failed to write peer certificate for %q: %w'' [metaName m])
                  (liftW (lib_WriteCertConfigFile E tls (PeerCertPath certDir) (PeerKeyPath certDir)))) (\<lambda>_.
         modS (putCert (metaName m) \<lparr>csrInfo = PeerCSR m u hosts, certTlsConfig = tls\<rparr>)))))"

definition SignCertificate :: "env \<Rightarrow> CSRInfo \<Rightarrow> unit signerM" where
  "SignCertificate E i = (case i of
     ClientCSR m u \<Rightarrow> SignClientCertificate E m u
   | ServingCSR m h \<Rightarrow> SignServingCertificate E m h
   | PeerCSR m u h \<Rightarrow> SignPeerCertificate E m u h
   | OtherCSR m \<Rightarrow> failG (Errorf ''unknown CSR info type: %T'' []))"

subsection \<open>Completing a builder, signing an intermediate authority\<close>

definition newSigner :: "certificateSigner \<Rightarrow> CA \<Rightarrow> CertificateSigner" where
  "newSigner b cfg = Signer (bName b) cfg (bDir b) (bValidityDays b) [] [] []"

definition ensureConfig :: "env \<Rightarrow> certificateSigner \<Rightarrow> (world, CA) go" where
  "ensureConfig E b = (case bConfig b of
     Some c \<Rightarrow> returnG c
   | None \<Rightarrow>
       (case bCAInfo b of
          None \<Rightarrow> panicG ''nil pointer dereference''
        | Some i \<Rightarrow> wrapG (ErrorfW ''failed to generate %s CA certificate: %w'' [bName b]) (EnsureCA E i)))"

text \<open>The file with the single certificate of an intermediate authority.\<close>

definition writeSubCACert :: "env \<Rightarrow> string \<Rightarrow> string \<Rightarrow> CA \<Rightarrow> (world, unit) go" where
  "writeSubCACert E subSignerName subCACertPath subCA =
     (let write =
        bindG (ofO (firstCert (Config subCA))) (\<lambda>c.
        bindG (wrapG (ErrorfW ''failed to encode sub-CA %q certs to pem: %w'' [subSignerName])
                 (lib_EncodeCertificates E [c])) (\<lambda>certPEM.
        wrapG (ErrorfW ''failed to write certificate for sub-CA %q: %w'' [subSignerName])
          (os_WriteFile E subCACertPath certPEM)))
      in tryG (os_Stat E subCACertPath) (\<lambda>_. write)
           (\<lambda>e. if os_IsNotExist e then write else returnG ()))"

definition ensureSubCA :: "env \<Rightarrow> certificateSigner \<Rightarrow> CA signerM" where
  "ensureSubCA E b = bindG getS (\<lambda>s.
     wrapG (ErrorfW ''failed to generate sub-CA %q: %w'' [bName b])
       (liftW (libraryGoEnsureSubCA E (signerConfig s) (CABundlePath (bDir b)) (CAKeyPath (bDir b))
                 (CASerialsPath (bDir b)) (bName b) (bValidityDays b))))"

lemma nodes_WithSignerConfig [simp]: "nodes (WithSignerConfig c b) = nodes b"
  by (cases b) simp

lemma nodes_sub: "sub \<in> set (bSubCAs b) \<Longrightarrow> nodes sub < nodes b"
  by (cases b) (simp add: less_Suc_eq_le member_le_sum_list)

function (sequential) Complete :: "env \<Rightarrow> certificateSigner \<Rightarrow> (world, CertificateSigner) go"
  and SignSubCA :: "env \<Rightarrow> certificateSigner \<Rightarrow> unit signerM" where
  "Complete E b =
     bindG (ensureConfig E b) (\<lambda>cfg.
     runSigner (newSigner b cfg)
       (bindG (forG (bSubCAs b) (\<lambda>sub. SignSubCA E sub)) (\<lambda>_.
        bindG (forG (bCerts b) (SignCertificate E)) (\<lambda>_.
        AddToBundles E (bBundles b)))))"
| "SignSubCA E b =
     bindG (ensureSubCA E b) (\<lambda>subCA.
     bindG (liftW (writeSubCACert E (bName b) (CACertPath (bDir b)) subCA)) (\<lambda>_.
     bindG (liftW (Complete E (WithSignerConfig subCA b))) (\<lambda>sub.
     modS (putSubCA (signerName sub) sub))))"
  by pat_completeness auto

termination
proof (relation "measure (\<lambda>x. case x of Inl (E, b) \<Rightarrow> 2 * nodes b | Inr (E, b) \<Rightarrow> Suc (2 * nodes b))",
    goal_cases)
  case (2 E b)
  show ?case using nodes_sub [of _ b] 2 by fastforce
qed simp_all

declare Complete.simps [simp del] SignSubCA.simps [simp del]

subsection \<open>From a signer back to its builder\<close>

text \<open>Collecting outcomes from left to right.\<close>

fun sequenceO :: "'a outcome list \<Rightarrow> 'a list outcome" where
  "sequenceO [] = Ok []"
| "sequenceO (r # rs) = (case r of
     Ok x \<Rightarrow> (case sequenceO rs of Ok xs \<Rightarrow> Ok (x # xs) | Err e \<Rightarrow> Err e | Panic p \<Rightarrow> Panic p)
   | Err e \<Rightarrow> Err e | Panic p \<Rightarrow> Panic p)"

fun handledCSR :: "CSRInfo \<Rightarrow> bool" where
  "handledCSR (OtherCSR _) = False"
| "handledCSR _ = True"

lemma mapRange_mem: "(k, v) \<in> set (mapRange ord m) \<Longrightarrow> (k, v) \<in> set m"
  by (auto simp: mapRange_def map_filter_def dest: map_of_SomeD)

lemma size_subCA: "(k, sub) \<in> set (subCAs s) \<Longrightarrow> size sub < size s"
proof (cases s)
  case (Signer n c d v us cs bs)
  assume "(k, sub) \<in> set (subCAs s)"
  then have "(k, sub) \<in> set us" by (simp add: Signer)
  then have "size sub \<le> size_list (size_prod (\<lambda>_. 0) size) us"
    by (rule size_list_estimation') simp
  then show ?thesis by (simp add: Signer)
qed

function toBuilder :: "env \<Rightarrow> CertificateSigner \<Rightarrow> certificateSigner outcome" where
  "toBuilder E s =
     (case sequenceO (map (\<lambda>(_, sub). toBuilder E sub) (mapRange (range_order E) (subCAs s))) of
        Err e \<Rightarrow> Err e
      | Panic p \<Rightarrow> Panic p
      | Ok bs \<Rightarrow>
          (let csrs = map (\<lambda>(_, i). csrInfo i) (mapRange (range_order E) (signedCertificates s)) in
           if \<forall>c\<in>set csrs. handledCSR c then
             Ok (WithCABundlePaths (range_order E (caBundlePaths s))
                   (withCSRs csrs (WithSubCAs bs
                     (NewCertificateSigner (signerName s) (signerDir s) (signerValidityDays s)))))
           else Panic ''failed to handle type %T as a CSRInfo''))"
  by pat_completeness auto

termination
  by (relation "measure (\<lambda>(E, s). size s)") (auto dest!: mapRange_mem size_subCA)

declare toBuilder.simps [simp del]

subsection \<open>Regeneration\<close>

definition regenerateSelf :: "env \<Rightarrow> unit signerM" where
  "regenerateSelf E = bindG getS (\<lambda>s.
     bindG (wrapG (ErrorfV ''failed to regenerate CA %q: %v'' [signerName s])
              (liftW (os_RemoveAll E (signerDir s)))) (\<lambda>_.
     bindG (wrapG (ErrorfW ''failed to regenerate %s CA certificate: %w'' [signerName s])
              (liftW (lib_EnsureCA E (CACertPath (signerDir s)) (CAKeyPath (signerDir s))
                        (CASerialsPath (signerDir s)) (signerName s) (signerValidityDays s)))) (\<lambda>ca.
     bindG (modS (setSignerConfig ca)) (\<lambda>_.
     AddToBundles E (range_order E (caBundlePaths s))))))"

definition regenerateSubCA :: "env \<Rightarrow> string \<Rightarrow> unit signerM" where
  "regenerateSubCA E subCAName = bindG getS (\<lambda>s.
     case GetSubCA s subCAName of
       None \<Rightarrow> failG (NewSignerNotFound subCAName)
     | Some subCA \<Rightarrow>
         bindG (wrapG (ErrorfV ''failed to remove subCA dir %q: %v'' [signerDir subCA])
                  (liftW (os_RemoveAll E (signerDir subCA)))) (\<lambda>_.
         wrapG (ErrorfV ''failed to regenerate subCA %q certificate: %v'' [signerName subCA])
           (bindG (ofO (toBuilder E subCA)) (SignSubCA E))))"

definition regenerateCertificate :: "env \<Rightarrow> string \<Rightarrow> unit signerM" where
  "regenerateCertificate E certName = bindG getS (\<lambda>s.
     case mapGet (signedCertificates s) certName of
       None \<Rightarrow> failG (Errorf ''no certificate with name %q was found'' [certName])
     | Some certInfo \<Rightarrow>
         let name = metaName (GetMeta (csrInfo certInfo)); certDir = Join [signerDir s, name] in
         bindG (wrapG (ErrorfV ''failed to remove cert dir %q: %v'' [certDir])
                  (liftW (os_RemoveAll E certDir))) (\<lambda>_.
         wrapG (ErrorfV ''failed to regenerate cert %q: %v'' [name])
           (SignCertificate E (csrInfo certInfo))))"

text \<open>The names are read before each loop: \<open>GetSubCANames\<close> and \<open>GetCertNames\<close> copy them.\<close>

fun signerRegenerate :: "env \<Rightarrow> string list \<Rightarrow> unit signerM" where
  "signerRegenerate E [] = bindG getS (\<lambda>s.
     bindG (if length (Certs (Config (signerConfig s))) = 1
            then wrapG (ErrorfV ''failed to regenerate CA %q: %v'' [signerName s]) (regenerateSelf E)
            else returnG ()) (\<lambda>_.
     bindG getS (\<lambda>s. bindG (forG (GetSubCANames s) (\<lambda>n.
       wrapG (ErrorfV ''failed to regenerate subCA %q: %v'' [n]) (regenerateSubCA E n))) (\<lambda>_.
     bindG getS (\<lambda>s. forG (GetCertNames s) (regenerateCertificate E))))))"
| "signerRegenerate E [n] =
     tryG (regenerateSubCA E n) returnG
       (\<lambda>e. if IsSignerNotFoundError e then regenerateCertificate E n else failG e)"
| "signerRegenerate E (n # m # rest) = bindG getS (\<lambda>s.
     case GetSubCA s n of
       Some subCA \<Rightarrow> onSubCA n subCA (signerRegenerate E (m # rest))
     | None \<Rightarrow> failG (Errorf ''%q is not an intermediary signer'' [n]))"

end
