(* ===== verification/Chains.thy ===== *)
theory Chains
  imports Signers
begin

text \<open>
  Package \<open>certchains\<close>, the chains: \<open>certchains.go\<close> (lookup, regeneration, the walk over all
  certificates, the earliest rotation) and \<open>chainsbuilder.go\<close>.

  \<open>WalkChains\<close> hands its visitor the path as a Go slice, which the visitor may keep, and makes
  the path of a child with \<open>append\<close>. Slices are therefore modelled with their backing arrays:
  an \<open>append\<close> writes in place when there is spare capacity and otherwise allocates an array
  whose capacity is given by \<open>grow\<close>. The walk recurses along paths it reads from this heap, and
  is given fuel; \<open>WalkChains\<close> supplies more than the depth of the chains.
\<close>

section \<open>The chains\<close>

record SigningConfig =
  ApiHost :: string

record CertificateChains =
  signers :: "CertificateSigner gomap"
  chainsSigningConfig :: "SigningConfig option"

type_synonym 'a chainsM = "(CertificateChains \<times> world, 'a) go"

definition GetSignerNames :: "CertificateChains \<Rightarrow> string list" where
  "GetSignerNames cs = certificateSignersMapKeysOrdered (signers cs)"

fun getSignerFrom :: "CertificateSigner option \<Rightarrow> string list \<Rightarrow> CertificateSigner option" where
  "getSignerFrom cur [] = cur"
| "getSignerFrom cur (fragment # rest) = (case cur of
     Some s \<Rightarrow> getSignerFrom (GetSubCA s fragment) rest
   | None \<Rightarrow> None)"

definition GetSigner :: "CertificateChains \<Rightarrow> string list \<Rightarrow> CertificateSigner option" where
  "GetSigner cs path = (case path of
     [] \<Rightarrow> None
   | n # rest \<Rightarrow> getSignerFrom (mapGet (signers cs) n) rest)"

definition GetCertKey :: "env \<Rightarrow> CertificateChains \<Rightarrow> string list \<Rightarrow> (bytes \<times> bytes) outcome" where
  "GetCertKey E cs certPath =
     (if length certPath = 0 then Err (Errorf ''empty certificate path'' [])
      else if length certPath = 1 then
        Err (Errorf ''the CertificateChains struct only stores signers, the path must be at least 1 level deep'' [])
      else
        let signerPath = take (length certPath - 1) certPath in
        case GetSigner cs signerPath of
          None \<Rightarrow> Err (Errorf ''no such signer in the path: %v'' signerPath)
        | Some s \<Rightarrow> signerGetCertKey E s (last certPath))"

text \<open>A method run on the signer found under \<open>n\<close>, which is changed in place.\<close>

definition onSigner :: "string \<Rightarrow> CertificateSigner \<Rightarrow> unit signerM \<Rightarrow> unit chainsM" where
  "onSigner n u m = (\<lambda>(cs, w). case m (u, w) of
     (r, (u', w')) \<Rightarrow> (r, (cs\<lparr>signers := mapPut n u' (signers cs)\<rparr>, w')))"

definition Regenerate :: "env \<Rightarrow> string list \<Rightarrow> unit chainsM" where
  "Regenerate E certPath = (case certPath of
     [] \<Rightarrow> panicG ''index out of range''
   | n # rest \<Rightarrow> (\<lambda>(cs, w). case GetSigner cs [n] of
         Some s \<Rightarrow> onSigner n s (signerRegenerate E rest) (cs, w)
       | None \<Rightarrow> (Err (Errorf ''no such signer: %s'' [n]), (cs, w))))"

section \<open>Slices\<close>

record slice =
  s_arr :: nat
  s_len :: nat
  s_cap :: nat

record heap =
  arrays :: "nat \<Rightarrow> string list"
  nextArr :: nat

type_synonym 'v walkS = "heap \<times> 'v"

definition nilSlice :: slice where
  "nilSlice = \<lparr>s_arr = 0, s_len = 0, s_cap = 0\<rparr>"

definition emptyHeap :: heap where
  "emptyHeap = \<lparr>arrays = (\<lambda>_. []), nextArr = 0\<rparr>"

definition sliceList :: "heap \<Rightarrow> slice \<Rightarrow> string list" where
  "sliceList h p = take (s_len p) (arrays h (s_arr p))"

definition readS :: "slice \<Rightarrow> ('v walkS, string list) go" where
  "readS p = (\<lambda>(h, v). (Ok (sliceList h p), (h, v)))"

text \<open>\<open>[]string{x}\<close>\<close>

definition newS :: "string \<Rightarrow> ('v walkS, slice) go" where
  "newS x = (\<lambda>(h, v). (Ok \<lparr>s_arr = nextArr h, s_len = 1, s_cap = 1\<rparr>,
     (\<lparr>arrays = (arrays h)(nextArr h := [x]), nextArr = Suc (nextArr h)\<rparr>, v)))"

text \<open>\<open>append(p, x)\<close>\<close>

definition appendS :: "(nat \<Rightarrow> nat) \<Rightarrow> slice \<Rightarrow> string \<Rightarrow> ('v walkS, slice) go" where
  "appendS grow p x = (\<lambda>(h, v).
     if s_len p < s_cap p then
       (Ok (p\<lparr>s_len := Suc (s_len p)\<rparr>),
        (h\<lparr>arrays := (arrays h)(s_arr p := (arrays h (s_arr p))[s_len p := x])\<rparr>, v))
     else
       (Ok \<lparr>s_arr = nextArr h, s_len = Suc (s_len p), s_cap = grow (s_cap p)\<rparr>,
        (\<lparr>arrays = (arrays h)(nextArr h :=
            sliceList h p @ x # replicate (grow (s_cap p) - Suc (s_len p)) []),
          nextArr = Suc (nextArr h)\<rparr>, v)))"

section \<open>The walk\<close>

type_synonym 'v CertWalkFunc = "slice \<Rightarrow> x509 \<Rightarrow> ('v walkS, unit) go"

fun walkF :: "nat \<Rightarrow> (nat \<Rightarrow> nat) \<Rightarrow> CertificateChains \<Rightarrow> slice \<Rightarrow> 'v CertWalkFunc \<Rightarrow> ('v walkS, unit) go" where
  "walkF 0 grow cs p fn = panicG ''out of fuel''"
| "walkF (Suc n) grow cs p fn = bindG (readS p) (\<lambda>rootPath.
     if rootPath = [] then
       forG (GetSignerNames cs) (\<lambda>name. bindG (newS name) (\<lambda>q. walkF n grow cs q fn))
     else case GetSigner cs rootPath of
       Some signer \<Rightarrow>
         bindG (ofO (firstCert (Config (signerConfig signer)))) (\<lambda>c.
         bindG (wrapG (ErrorfV ''failed to execute walk function on %v: %v'' rootPath) (fn p c)) (\<lambda>_.
         forG (GetSubCANames signer @ GetCertNames signer) (\<lambda>name.
           bindG (appendS grow p name) (\<lambda>q. walkF n grow cs q fn))))
     | None \<Rightarrow>
         if length rootPath = 1 then failG (Errorf ''%v is not a path to a signer'' rootPath)
         else case GetSigner cs (take (length rootPath - 1) rootPath) of
           Some signer \<Rightarrow>
             (case mapGet (signedCertificates signer) (last rootPath) of
                None \<Rightarrow> failG (Errorf ''the requested element does not exist'' [])
              | Some i \<Rightarrow> bindG (ofO (firstCert (certTlsConfig i))) (fn p))
         | None \<Rightarrow> failG (Errorf ''a non-leaf fragment of the path '%v' either is not a signer or it doesn't exist'' rootPath))"

function (sequential) depth :: "CertificateSigner \<Rightarrow> nat" where
  "depth s = Suc (fold max (map (\<lambda>p. depth (snd p)) (subCAs s)) 0)"
  by pat_completeness auto
termination
  by (relation "measure size") (auto dest: size_subCA)

declare depth.simps [simp del]

definition chainsDepth :: "CertificateChains \<Rightarrow> nat" where
  "chainsDepth cs = fold max (map (\<lambda>p. depth (snd p)) (signers cs)) 0"

definition WalkChains :: "(nat \<Rightarrow> nat) \<Rightarrow> CertificateChains \<Rightarrow> slice \<Rightarrow> 'v CertWalkFunc \<Rightarrow> ('v walkS, unit) go" where
  "WalkChains grow cs p fn = walkF (Suc (Suc (chainsDepth cs))) grow cs p fn"

section \<open>The earliest rotation\<close>

definition month :: int where
  "month = 30 * time_Hour * 24"

text \<open>The closure of \<open>WhenToRotateAtEarliest\<close>, on the path and the date it captures. The zero time is 0.\<close>

definition rotateAtOf :: "x509 \<Rightarrow> int" where
  "rotateAtOf c = (if \<not> IsCertShortLived c then NotAfter c + (- 12 * month) else NotAfter c + (- 4 * month))"

definition rotateVisit :: "(slice \<times> int) CertWalkFunc" where
  "rotateVisit currentPath c = (\<lambda>(h, (certPath, rotationDate)).
     let rotateAt = rotateAtOf c in
     if rotationDate = 0 then (Ok (), (h, (currentPath, rotateAt)))
     else if rotateAt < rotationDate then (Ok (), (h, (currentPath, rotateAt)))
     else (Ok (), (h, (certPath, rotationDate))))"

definition WhenToRotateAtEarliest :: "(nat \<Rightarrow> nat) \<Rightarrow> CertificateChains \<Rightarrow> (string list \<times> int \<times> unit outcome)" where
  "WhenToRotateAtEarliest grow cs =
     (case WalkChains grow cs nilSlice rotateVisit (emptyHeap, (nilSlice, 0)) of
        (r, (h, (certPath, rotationDate))) \<Rightarrow> (sliceList h certPath, rotationDate, r))"

section \<open>chainsbuilder.go\<close>

record certificateChains =
  cb_signers :: "certificateSigner list"
  cb_fileBundles :: "string list list gomap"

definition NewCertificateChains :: "certificateSigner list \<Rightarrow> certificateChains" where
  "NewCertificateChains ss = \<lparr>cb_signers = ss, cb_fileBundles = []\<rparr>"

definition WithSigners :: "certificateSigner list \<Rightarrow> certificateChains \<Rightarrow> certificateChains" where
  "WithSigners ss b = b\<lparr>cb_signers := cb_signers b @ ss\<rparr>"

definition WithCABundle :: "string \<Rightarrow> string list list \<Rightarrow> certificateChains \<Rightarrow> certificateChains" where
  "WithCABundle bundlePath signerNames b = b\<lparr>cb_fileBundles := mapPut bundlePath signerNames (cb_fileBundles b)\<rparr>"

text \<open>The signer at a path, replaced in the tree.\<close>

fun putIn :: "CertificateSigner \<Rightarrow> string list \<Rightarrow> CertificateSigner \<Rightarrow> CertificateSigner" where
  "putIn u [] s = s"
| "putIn u (n # rest) s = (case GetSubCA u n of None \<Rightarrow> u | Some v \<Rightarrow> putSubCA n (putIn v rest s) u)"

definition putSignerAt :: "string list \<Rightarrow> CertificateSigner \<Rightarrow> CertificateChains \<Rightarrow> CertificateChains" where
  "putSignerAt path s cs = (case path of
     [] \<Rightarrow> cs
   | n # rest \<Rightarrow> (case mapGet (signers cs) n of
        None \<Rightarrow> cs | Some u \<Rightarrow> cs\<lparr>signers := mapPut n (putIn u rest s) (signers cs)\<rparr>))"

definition onSignerAt :: "string list \<Rightarrow> CertificateSigner \<Rightarrow> unit signerM \<Rightarrow> unit chainsM" where
  "onSignerAt path u m = (\<lambda>(cs, w). case m (u, w) of (r, (u', w')) \<Rightarrow> (r, (putSignerAt path u' cs, w')))"

definition liftCW :: "(world, 'a) go \<Rightarrow> 'a chainsM" where
  "liftCW m = zoomG snd (\<lambda>w sw. (fst sw, w)) m"

definition getC :: "CertificateChains chainsM" where
  "getC = (\<lambda>cw. (Ok (fst cw), cw))"

definition addSigner :: "env \<Rightarrow> certificateSigner \<Rightarrow> unit chainsM" where
  "addSigner E signer = bindG getC (\<lambda>cs.
     if mapGet (signers cs) (bName signer) \<noteq> None then failG (Errorf ''signer name clash: %s'' [bName signer])
     else
       bindG (wrapG (ErrorfW ''failed to complete signer %q: %w'' [bName signer]) (liftCW (Complete E signer))) (\<lambda>s.
       (\<lambda>(cs, w). (Ok (), (cs\<lparr>signers := mapPut (signerName s) s (signers cs)\<rparr>, w)))))"

definition addBundleEntry :: "env \<Rightarrow> string \<Rightarrow> string list \<Rightarrow> unit chainsM" where
  "addBundleEntry E bundle path = bindG getC (\<lambda>cs.
     case GetSigner cs path of
       None \<Rightarrow> panicG ''nil pointer dereference''
     | Some s \<Rightarrow>
         wrapG (ErrorfV ''failed adding the signer %q to CA bundle %q: %v'' [signerName s, bundle])
           (onSignerAt path s (AddToBundles E [bundle])))"

definition completeBody :: "env \<Rightarrow> certificateChains \<Rightarrow> unit chainsM" where
  "completeBody E b =
     bindG (forG (cb_signers b) (addSigner E)) (\<lambda>_.
     forG (mapRange (range_order E) (cb_fileBundles b)) (\<lambda>(bundle, ss).
       forG ss (addBundleEntry E bundle)))"

text \<open>
  The redirection of \<open>os.Stderr\<close> to \<open>/dev/null\<close> only silences the library's warnings; it has
  no effect on the state.
\<close>

definition chainsComplete :: "env \<Rightarrow> certificateChains \<Rightarrow> SigningConfig option \<Rightarrow> (world, CertificateChains) go" where
  "chainsComplete E b cfg = (\<lambda>w.
     case completeBody E b (\<lparr>signers = [], chainsSigningConfig = cfg\<rparr>, w) of
       (Ok _, (cs, w')) \<Rightarrow> (Ok cs, w') | (Err e, (_, w')) \<Rightarrow> (Err e, w') | (Panic p, (_, w')) \<Rightarrow> (Panic p, w'))"

end
