(* ===== verification/KubeUtil.thy ===== *)
theory KubeUtil
  imports World
begin

text \<open>
  Package \<open>util\<close> (\<open>util.go\<close>): writing kubeconfigs to files and secrets, finding the external
  host, the service account key, the namespace and name of the control plane, and loading a
  serving signer. The hosting cluster is behind the record \<open>kubeApi\<close> of client calls, on a
  state \<open>'k\<close> of its own; everything here runs on the machine and the cluster together.
\<close>

section \<open>Objects of the hosting cluster\<close>

text \<open>The data of a secret is a Go map and may be nil.\<close>

record secret =
  sec_Name :: string
  sec_Data :: "bytes gomap option"

datatype serviceType = ServiceTypeClusterIP | ServiceTypeLoadBalancer | OtherServiceType string

record ingress =
  ing_Hostname :: string
  ing_IP :: string

record service =
  svc_Type :: serviceType
  svc_Ingress :: "ingress list"

record cluster =
  cl_Server :: string
  cl_CertificateAuthorityData :: bytes

record kubeContext =
  kc_Cluster :: string
  kc_Namespace :: string
  kc_AuthInfo :: string

record authInfo =
  ai_ClientCertificateData :: bytes
  ai_ClientKeyData :: bytes

record kubeConfigDoc =
  CurrentContext :: string
  Clusters :: "cluster gomap"
  Contexts :: "kubeContext gomap"
  AuthInfos :: "authInfo gomap"

type_synonym 'k hosted = "world \<times> 'k"

text \<open>
  The client libraries: whether the process runs inside a cluster, errors of making clients,
  the calls, the encoder of kubeconfigs, and \<open>retry.OnError\<close> with the default backoff and every
  error retriable, on the captured host name.
\<close>

record 'k kubeApi =
  InClusterConfig :: "goerr option"
  kube_NewForConfig :: "goerr option"
  route_NewForConfig :: "goerr option"
  ocpconfig_NewForConfig :: "goerr option"
  ResolveBindAddress :: "string \<times> goerr option"
  api_GetSecret :: "string \<Rightarrow> string \<Rightarrow> ('k, secret) go"
  api_CreateSecret :: "string \<Rightarrow> secret \<Rightarrow> ('k, unit) go"
  api_UpdateSecret :: "string \<Rightarrow> secret \<Rightarrow> ('k, unit) go"
  api_GetService :: "string \<Rightarrow> string \<Rightarrow> ('k, service) go"
  api_GetRouteIngress :: "string \<Rightarrow> string \<Rightarrow> ('k, string list) go"
  api_GetClusterVersion :: "string \<Rightarrow> ('k, string) go"
  api_GetNamespaceUID :: "string \<Rightarrow> ('k, string) go"
  uuid_NewUUID :: "('k, string) go"
  clientcmd_Write :: "kubeConfigDoc \<Rightarrow> bytes outcome"
  retry_OnError :: "('k hosted \<times> string, unit) go \<Rightarrow> ('k hosted \<times> string, unit) go"
  pem_text :: "bytes \<Rightarrow> string"

definition onFS :: "(world, 'a) go \<Rightarrow> ('k hosted, 'a) go" where
  "onFS m = zoomG fst (\<lambda>w s. (w, snd s)) m"

definition onK :: "('k, 'a) go \<Rightarrow> ('k hosted, 'a) go" where
  "onK m = zoomG snd (\<lambda>k s. (fst s, k)) m"

definition errG :: "goerr option \<Rightarrow> ('s, unit) go" where
  "errG e = (case e of None \<Rightarrow> returnG () | Some x \<Rightarrow> failG x)"

section \<open>Kubeconfigs\<close>

definition toKubeconfig :: "'k kubeApi \<Rightarrow> string \<Rightarrow> bytes \<Rightarrow> bytes \<Rightarrow> bytes \<Rightarrow> bytes outcome" where
  "toKubeconfig K clusterURL clusterTrustBundle clientCertPEM clientKeyPEM =
     (let mcName = ''multicluster-controlplane'';
          cl = \<lparr>cl_Server = clusterURL, cl_CertificateAuthorityData = clusterTrustBundle\<rparr>;
          mcContext = \<lparr>kc_Cluster = mcName, kc_Namespace = ''default'', kc_AuthInfo = ''user''\<rparr>;
          mcUser = \<lparr>ai_ClientCertificateData = clientCertPEM, ai_ClientKeyData = clientKeyPEM\<rparr>
      in clientcmd_Write K \<lparr>CurrentContext = mcName, Clusters = [(mcName, cl)],
           Contexts = [(mcName, mcContext)], AuthInfos = [(''user'', mcUser)]\<rparr>)"

text \<open>Directories are not part of the file state: \<open>Stat\<close> of one that holds no file of that name fails.\<close>

definition KubeconfigWriteToFile ::
  "env \<Rightarrow> 'k kubeApi \<Rightarrow> string \<Rightarrow> string \<Rightarrow> bytes \<Rightarrow> bytes \<Rightarrow> bytes \<Rightarrow> ('k hosted, unit) go" where
  "KubeconfigWriteToFile E K filename clusterURL bundle cert key =
     bindG (ofO (toKubeconfig K clusterURL bundle cert key)) (\<lambda>config.
     let dir = Dir filename in
     bindG (tryG (onFS (os_Stat E dir)) returnG
              (\<lambda>e. if os_IsNotExist e then onFS (os_MkdirAll E dir) else returnG ())) (\<lambda>_.
     onFS (os_WriteFile E filename config)))"

definition isNotFound :: "goerr \<Rightarrow> bool" where
  "isNotFound e = (case e of ApiNotFound _ \<Rightarrow> True | _ \<Rightarrow> False)"

definition defaultComponentNamespace :: string where
  "defaultComponentNamespace = ''multicluster-controlplane''"

definition bytesString :: "'k kubeApi \<Rightarrow> bytes \<Rightarrow> string" where
  "bytesString K b = (case b of Text s \<Rightarrow> s | _ \<Rightarrow> pem_text K b)"

definition GetComponentNamespace :: "env \<Rightarrow> 'k kubeApi \<Rightarrow> ('k hosted, string) go" where
  "GetComponentNamespace E K =
     tryG (onFS (os_ReadFile E ''/var/run/secrets/kubernetes.io/serviceaccount/namespace''))
       (\<lambda>nsBytes. returnG (bytesString K nsBytes)) (\<lambda>_. returnG defaultComponentNamespace)"

text \<open>\<open>bytes.Equal\<close>, and a read of a map that may be nil: a missing entry is the empty slice.\<close>

definition bytesEqual :: "bytes \<Rightarrow> bytes \<Rightarrow> bool" where
  "bytesEqual a b = (a = b \<or> bytesEmpty a \<and> bytesEmpty b)"

definition dataEntry :: "bytes gomap option \<Rightarrow> string \<Rightarrow> bytes" where
  "dataEntry m key = (case m of None \<Rightarrow> Text [] | Some d \<Rightarrow> (case mapGet d key of None \<Rightarrow> Text [] | Some b \<Rightarrow> b))"

text \<open>Writing into the nil map of a secret without data panics.\<close>

definition KubeconfigWroteToSecret ::
  "env \<Rightarrow> 'k kubeApi \<Rightarrow> string \<Rightarrow> string \<Rightarrow> bytes \<Rightarrow> bytes \<Rightarrow> bytes \<Rightarrow> ('k hosted, unit) go" where
  "KubeconfigWroteToSecret E K secretName clusterURL bundle cert key =
     bindG (ofO (toKubeconfig K clusterURL bundle cert key)) (\<lambda>kubeconfig.
     bindG (errG (kube_NewForConfig K)) (\<lambda>_.
     bindG (GetComponentNamespace E K) (\<lambda>ns.
     tryG (onK (api_GetSecret K ns secretName))
       (\<lambda>sec.
          if bytesEqual (dataEntry (sec_Data sec) ''kubeconfig'') kubeconfig then returnG ()
          else case sec_Data sec of
            None \<Rightarrow> panicG ''assignment to entry in nil map''
          | Some d \<Rightarrow> onK (api_UpdateSecret K ns (sec\<lparr>sec_Data := Some (mapPut ''kubeconfig'' kubeconfig d)\<rparr>)))
       (\<lambda>e. if isNotFound e
            then onK (api_CreateSecret K ns \<lparr>sec_Name = secretName, sec_Data = Some [(''kubeconfig'', kubeconfig)]\<rparr>)
            else failG e))))"

section \<open>The external host\<close>

definition defaultServiceName :: string where "defaultServiceName = ''multicluster-controlplane''"
definition defaultRouteName :: string where "defaultRouteName = ''multicluster-controlplane''"

definition onHosted :: "('k hosted, 'a) go \<Rightarrow> ('k hosted \<times> string, 'a) go" where
  "onHosted m = zoomG fst (\<lambda>s sh. (s, snd sh)) m"

definition setHost :: "string \<Rightarrow> ('k hosted \<times> string, unit) go" where
  "setHost h = (\<lambda>(s, _). (Ok (), (s, h)))"

definition routeHostTry :: "'k kubeApi \<Rightarrow> string \<Rightarrow> ('k hosted \<times> string, unit) go" where
  "routeHostTry K ns = bindG (onHosted (onK (api_GetRouteIngress K ns defaultRouteName))) (\<lambda>hosts.
     case hosts of
       [] \<Rightarrow> failG (Errorf ''ingress not found, retrying'' [])
     | host # _ \<Rightarrow> bindG (setHost host) (\<lambda>_.
         if host = [] then failG (Errorf ''failed to find the host from the route %s/%s ingress, retrying'' [ns, defaultRouteName])
         else returnG ()))"

definition serviceHostTry :: "'k kubeApi \<Rightarrow> string \<Rightarrow> ('k hosted \<times> string, unit) go" where
  "serviceHostTry K ns = bindG (onHosted (onK (api_GetService K ns defaultServiceName))) (\<lambda>s.
     case svc_Ingress s of
       [] \<Rightarrow> failG (Errorf ''ingress not found, retrying'' [])
     | i # _ \<Rightarrow>
         let host = (if ing_Hostname i = [] then ing_IP i else ing_Hostname i) in
         bindG (setHost host) (\<lambda>_.
         if host = [] then failG (Errorf ''failed to find the host from the service %s/%s ingress, retrying'' [ns, defaultServiceName])
         else returnG ()))"

text \<open>Running the retried function on a fresh variable \<open>host\<close> and returning what it holds.\<close>

definition withHost :: "('k hosted \<times> string, unit) go \<Rightarrow> ('k hosted, string) go" where
  "withHost m = (\<lambda>s. case m (s, []) of
     (Ok _, (s', h)) \<Rightarrow> (Ok h, s') | (Err e, (s', _)) \<Rightarrow> (Err e, s') | (Panic p, (s', _)) \<Rightarrow> (Panic p, s'))"

definition GetExternalHost :: "env \<Rightarrow> 'k kubeApi \<Rightarrow> ('k hosted, string) go" where
  "GetExternalHost E K = (case InClusterConfig K of
     Some _ \<Rightarrow> (case ResolveBindAddress K of (ip, None) \<Rightarrow> returnG ip | (_, Some e) \<Rightarrow> failG e)
   | None \<Rightarrow>
       bindG (errG (kube_NewForConfig K)) (\<lambda>_.
       bindG (errG (route_NewForConfig K)) (\<lambda>_.
       bindG (GetComponentNamespace E K) (\<lambda>ns.
       bindG (onK (api_GetService K ns defaultServiceName)) (\<lambda>svc.
       case svc_Type svc of
         ServiceTypeClusterIP \<Rightarrow> withHost (retry_OnError K (routeHostTry K ns))
       | ServiceTypeLoadBalancer \<Rightarrow> withHost (retry_OnError K (serviceHostTry K ns))
       | OtherServiceType _ \<Rightarrow>
           failG (Errorf ''the type of current service %s/%s is not suppored'' [ns, defaultServiceName]))))))"

section \<open>Keys, names, the serving signer\<close>

definition GenerateServiceAccountKey :: "env \<Rightarrow> string \<Rightarrow> (world, unit) go" where
  "GenerateServiceAccountKey E file =
     bindG (lib_GenerateRSAKeyPEM E 2048) (\<lambda>keyPEM. os_WriteFile E file keyPEM)"

definition GenerateSelfManagedClusterName :: "'k kubeApi \<Rightarrow> ('k, string) go" where
  "GenerateSelfManagedClusterName K =
     bindG (errG (kube_NewForConfig K)) (\<lambda>_.
     bindG (errG (ocpconfig_NewForConfig K)) (\<lambda>_.
     tryG (api_GetClusterVersion K ''version'') returnG
       (\<lambda>e. if isNotFound e then
              tryG (api_GetNamespaceUID K ''kube-system'') returnG (\<lambda>_. uuid_NewUUID K)
            else failG e)))"

definition LoadServingSigner :: "env \<Rightarrow> 'k kubeApi \<Rightarrow> string \<Rightarrow> ('k hosted, bool) go" where
  "LoadServingSigner E K signerPath = (case InClusterConfig K of
     Some _ \<Rightarrow> returnG False
   | None \<Rightarrow>
       bindG (errG (kube_NewForConfig K)) (\<lambda>_.
       let ns = ''openshift-kube-apiserver-operator''; name = ''loadbalancer-serving-signer'' in
       tryG (onK (api_GetSecret K ns name))
         (\<lambda>sec.
            let data = (case sec_Data sec of None \<Rightarrow> [] | Some d \<Rightarrow> d) in
            bindG (onFS (os_MkdirAll E signerPath)) (\<lambda>_.
            case mapGet data ''tls.crt'' of
              None \<Rightarrow> failG (Errorf ''there is no `tls.crt` in %s/%s'' [ns, name])
            | Some certBlock \<Rightarrow>
                (case mapGet data ''tls.key'' of
                   None \<Rightarrow> failG (Errorf ''there is no `tls.key` in %s/%s'' [ns, name])
                 | Some keyBlock \<Rightarrow>
                     let certFile = Join [signerPath, ''ca.crt'']; keyFile = Join [signerPath, ''ca.key''] in
                     bindG (onFS (os_OpenTrunc E certFile)) (\<lambda>_.
                     bindG (onFS (os_OpenTrunc E keyFile)) (\<lambda>_.
                     bindG (onFS (os_WriteHandle E certFile certBlock)) (\<lambda>_.
                     bindG (onFS (os_WriteHandle E keyFile keyBlock)) (\<lambda>_.
                     returnG True)))))))
         (\<lambda>e. if isNotFound e then returnG False else failG e)))"

section \<open>Laws of the client libraries\<close>

text \<open>\<open>retry.OnError\<close> returns nil only when the last run of the function did.\<close>

definition retry_law :: "'k kubeApi \<Rightarrow> bool" where
  "retry_law K = (\<forall>fn s s'. retry_OnError K fn s = (Ok (), s') \<longrightarrow> (\<exists>t. fn t = (Ok (), s')))"

text \<open>The secrets of the cluster, as the calls see them, are the map \<open>look\<close> of its state.\<close>

definition secret_law :: "'k kubeApi \<Rightarrow> ('k \<Rightarrow> string \<times> string \<Rightarrow> secret option) \<Rightarrow> bool" where
  "secret_law K look =
     ((\<forall>ns n k s k'. api_GetSecret K ns n k = (Ok s, k') \<longrightarrow> look k (ns, n) = Some s \<and> sec_Name s = n \<and> look k' = look k) \<and>
      (\<forall>ns n k e k'. api_GetSecret K ns n k = (Err e, k') \<longrightarrow>
         look k' = look k \<and> (isNotFound e \<longrightarrow> look k (ns, n) = None)) \<and>
      (\<forall>ns s k k'. api_CreateSecret K ns s k = (Ok (), k') \<longrightarrow> look k' = (look k)((ns, sec_Name s) \<mapsto> s)) \<and>
      (\<forall>ns s k k'. api_UpdateSecret K ns s k = (Ok (), k') \<longrightarrow> look k' = (look k)((ns, sec_Name s) \<mapsto> s)))"

section \<open>Facts\<close>

lemma onFS_iff [gom_iff]: "onFS m (w, k) = (r, (w', k')) \<longleftrightarrow> k' = k \<and> m w = (r, w')"
  by (auto simp: onFS_def zoomG_def split: prod.splits)

lemma onK_iff [gom_iff]: "onK m (w, k) = (r, (w', k')) \<longleftrightarrow> w' = w \<and> m k = (r, k')"
  by (auto simp: onK_def zoomG_def split: prod.splits)

lemma errG_Ok_iff [gom_iff]: "errG e s = (Ok u, t) \<longleftrightarrow> e = None \<and> t = s"
  by (cases e) (auto simp: errG_def returnG_def failG_def)

lemma setHost_iff [gom_iff]: "setHost h sh = (Ok u, sh') \<longleftrightarrow> sh' = (fst sh, h)"
  by (cases sh) (auto simp: setHost_def)

lemma routeHostTry_nonempty: "routeHostTry K ns t = (Ok (), (s, h)) \<Longrightarrow> h \<noteq> []"
proof -
  assume "routeHostTry K ns t = (Ok (), (s, h))"
  then obtain hosts t' where "(case hosts of
       [] \<Rightarrow> failG (Errorf ''ingress not found, retrying'' [])
     | host # _ \<Rightarrow> bindG (setHost host) (\<lambda>_.
         if host = [] then failG (Errorf ''failed to find the host from the route %s/%s ingress, retrying'' [ns, defaultRouteName])
         else returnG ())) t' = (Ok (), (s, h))"
    unfolding routeHostTry_def bindG_Ok_iff by (elim exE conjE)
  then show ?thesis by (cases hosts) (auto simp: gom_iff split: if_splits)
qed

lemma serviceHostTry_nonempty: "serviceHostTry K ns t = (Ok (), (s, h)) \<Longrightarrow> h \<noteq> []"
proof -
  assume "serviceHostTry K ns t = (Ok (), (s, h))"
  then obtain svc :: service and t' where "(case svc_Ingress svc of
       [] \<Rightarrow> failG (Errorf ''ingress not found, retrying'' [])
     | i # _ \<Rightarrow>
         let host = (if ing_Hostname i = [] then ing_IP i else ing_Hostname i) in
         bindG (setHost host) (\<lambda>_.
         if host = [] then failG (Errorf ''failed to find the host from the service %s/%s ingress, retrying'' [ns, defaultServiceName])
         else returnG ())) t' = (Ok (), (s, h))"
    unfolding serviceHostTry_def bindG_Ok_iff by (elim exE conjE)
  then show ?thesis by (cases "svc_Ingress svc") (auto simp: gom_iff Let_def split: if_splits)
qed

lemma withHost_retry_nonempty:
  assumes "retry_law K" "\<And>t s h. fn t = (Ok (), (s, h)) \<Longrightarrow> h \<noteq> []" "withHost (retry_OnError K fn) s = (Ok h, s')"
  shows "h \<noteq> []"
proof -
  from assms(3) have "retry_OnError K fn (s, []) = (Ok (), (s', h))"
    by (auto simp: withHost_def split: prod.splits outcome.splits)
  with assms(1) obtain t where "fn t = (Ok (), (s', h))" unfolding retry_law_def by blast
  then show ?thesis by (rule assms(2))
qed

lemma GetComponentNamespace_pure:
  "GetComponentNamespace E K (w, k) = (r, (w', k')) \<Longrightarrow> w' = w \<and> k' = k \<and> (\<exists>ns. r = Ok ns)"
  by (auto simp: GetComponentNamespace_def tryG_def onFS_def zoomG_def os_ReadFile_def faultG_def returnG_def
      split: prod.splits outcome.splits option.splits)

lemma GetExternalHost_nonempty:
  assumes law: "retry_law K" and "InClusterConfig K = None" "GetExternalHost E K s = (Ok h, s')"
  shows "h \<noteq> []"
proof -
  from assms(3) obtain svc :: service and ns t where "(case svc_Type svc of
         ServiceTypeClusterIP \<Rightarrow> withHost (retry_OnError K (routeHostTry K ns))
       | ServiceTypeLoadBalancer \<Rightarrow> withHost (retry_OnError K (serviceHostTry K ns))
       | OtherServiceType _ \<Rightarrow>
           failG (Errorf ''the type of current service %s/%s is not suppored'' [ns, defaultServiceName])) t = (Ok h, s')"
    unfolding GetExternalHost_def assms(2) option.case bindG_Ok_iff by (elim exE conjE)
  then show ?thesis
    using withHost_retry_nonempty [OF law, where fn = "routeHostTry K ns", OF routeHostTry_nonempty]
      withHost_retry_nonempty [OF law, where fn = "serviceHostTry K ns", OF serviceHostTry_nonempty]
    by (cases "svc_Type svc") (simp_all add: gom_iff)
qed

text \<open>After a successful write the secret holds the kubeconfig, and nothing else has changed.\<close>

lemma secret_lawD:
  assumes "secret_law K look"
  shows "api_GetSecret K ns n k = (Ok s, k') \<Longrightarrow> look k (ns, n) = Some s \<and> sec_Name s = n \<and> look k' = look k"
    and "api_GetSecret K ns n k = (Err e, k') \<Longrightarrow> look k' = look k \<and> (isNotFound e \<longrightarrow> look k (ns, n) = None)"
    and "api_CreateSecret K ns s k = (Ok (), k') \<Longrightarrow> look k' = (look k)((ns, sec_Name s) \<mapsto> s)"
    and "api_UpdateSecret K ns s k = (Ok (), k') \<Longrightarrow> look k' = (look k)((ns, sec_Name s) \<mapsto> s)"
  using assms unfolding secret_law_def by blast+

definition holdsKubeconfig :: "secret option \<Rightarrow> bytes \<Rightarrow> secret \<Rightarrow> bool" where
  "holdsKubeconfig old doc s = (\<exists>d. sec_Data s = Some d \<and> mapGet d ''kubeconfig'' = Some doc \<and>
     (\<forall>s0 d0. old = Some s0 \<longrightarrow> sec_Data s0 = Some d0 \<longrightarrow> (\<forall>x. x \<noteq> ''kubeconfig'' \<longrightarrow> mapGet d x = mapGet d0 x)))"

lemma KubeconfigWroteToSecret_effect:
  assumes law: "secret_law K look" and cfg: "toKubeconfig K url b c y = Ok doc"
    and ns: "GetComponentNamespace E K (w, k) = (Ok ns, (w, k))"
    and run: "KubeconfigWroteToSecret E K n url b c y (w, k) = (Ok (), (w', k'))" and ne: "\<not> bytesEmpty doc"
  shows "w' = w \<and> (\<exists>s. look k' = (look k)((ns, n) \<mapsto> s) \<and> holdsKubeconfig (look k (ns, n)) doc s)"
proof -
  note D = secret_lawD [OF law]
  from run have ok: "tryG (onK (api_GetSecret K ns n))
       (\<lambda>sec.
          if bytesEqual (dataEntry (sec_Data sec) ''kubeconfig'') doc then returnG ()
          else case sec_Data sec of
            None \<Rightarrow> panicG ''assignment to entry in nil map''
          | Some d \<Rightarrow> onK (api_UpdateSecret K ns (sec\<lparr>sec_Data := Some (mapPut ''kubeconfig'' doc d)\<rparr>)))
       (\<lambda>e. if isNotFound e
            then onK (api_CreateSecret K ns \<lparr>sec_Name = n, sec_Data = Some [(''kubeconfig'', doc)]\<rparr>)
            else failG e) (w, k) = (Ok (), (w', k'))"
    using cfg ns by (auto simp: KubeconfigWroteToSecret_def gom_iff)
  obtain q k1 where get: "api_GetSecret K ns n k = (q, k1)" by force
  show ?thesis
  proof (cases q)
    case (Ok s)
    note g = D(1) [OF get [unfolded Ok]]
    show ?thesis
    proof (cases "sec_Data s")
      case None
      then show ?thesis using ok get Ok ne by (auto simp: gom_iff bytesEqual_def dataEntry_def bytesEmpty_def split: if_splits)
    next
      case (Some d)
      then consider "mapGet d ''kubeconfig'' = Some doc" "w' = w" "k' = k1"
        | "w' = w" "api_UpdateSecret K ns (s\<lparr>sec_Data := Some (mapPut ''kubeconfig'' doc d)\<rparr>) k1 = (Ok (), k')"
        using ok get Ok ne by (auto simp: gom_iff bytesEqual_def dataEntry_def bytesEmpty_def split: if_splits option.splits)
      then show ?thesis
      proof cases
        case 1
        then show ?thesis using g Some by (auto simp: holdsKubeconfig_def intro!: exI [of _ s])
      next
        case 2
        from D(4) [OF 2(2)] show ?thesis
          using g Some 2(1) by (auto simp: holdsKubeconfig_def)
      qed
    qed
  next
    case (Err e)
    then have nf: "isNotFound e" "w' = w"
      and cr: "api_CreateSecret K ns \<lparr>sec_Name = n, sec_Data = Some [(''kubeconfig'', doc)]\<rparr> k1 = (Ok (), k')"
      using ok get by (auto simp: gom_iff split: if_splits)
    show ?thesis
      using D(2) [OF get [unfolded Err]] nf D(3) [OF cr] by (auto simp: holdsKubeconfig_def mapGet_def)
  next
    case (Panic p)
    then show ?thesis using ok get by (auto simp: gom_iff)
  qed
qed

end
