(* ===== verification/Configs.thy ===== *)
theory Configs
  imports KubeUtil
begin

text \<open>
  Package \<open>configs\<close> (\<open>configs.go\<close>): the run configuration of the control plane, its defaults and
  the values it looks up in the environment. The YAML decoder is a parameter.
\<close>

section \<open>The configuration\<close>

record ApiserverConfig =
  ExternalHostname :: string
  Port :: int
  CAFile :: string
  CAKeyFile :: string

record EtcdConfig =
  Mode :: string
  Servers :: "string list"
  EtcdCAFile :: string
  EtcdCertFile :: string
  EtcdKeyFile :: string
  Prefix :: string

record AggregatorConfig =
  ProxyClientCertFile :: string
  ProxyClientKeyFile :: string
  RequestHeaderClientCAFile :: string
  RequestHeaderUsernameHeaders :: "string list"
  RequestHeaderGroupHeaders :: "string list"
  RequestHeaderExtraHeaderPrefixes :: "string list"
  RequestHeaderAllowedNames :: "string list"

record ControlplaneRunConfig =
  DataDirectory :: string
  Apiserver :: ApiserverConfig
  Etcd :: EtcdConfig
  Aggregator :: AggregatorConfig

definition DefaultAPIServerPort :: int where "DefaultAPIServerPort = 9443"
definition defaultControlPlaneDataDir :: string where "defaultControlPlaneDataDir = ''/.ocm''"
definition defaultControlPlaneCADir :: string where "defaultControlPlaneCADir = ''/.ocm/cert/controlplane-ca''"
definition defaultETCDMode :: string where "defaultETCDMode = ''embed''"
definition defaultETCDPrefix :: string where "defaultETCDPrefix = ''/registry''"

definition IsCAProvided :: "ControlplaneRunConfig \<Rightarrow> bool" where
  "IsCAProvided c = (CAFile (Apiserver c) \<noteq> [] \<and> CAKeyFile (Apiserver c) \<noteq> [])"

definition IsEmbedEtcd :: "ControlplaneRunConfig \<Rightarrow> bool" where
  "IsEmbedEtcd c = (Mode (Etcd c) = ''embed'')"

section \<open>Loading\<close>

definition withDefaults :: "ControlplaneRunConfig \<Rightarrow> ControlplaneRunConfig" where
  "withDefaults c =
     (let c1 = (if DataDirectory c = [] then c\<lparr>DataDirectory := defaultControlPlaneDataDir\<rparr> else c);
          c2 = (if Mode (Etcd c1) = [] then c1\<lparr>Etcd := (Etcd c1)\<lparr>Mode := defaultETCDMode\<rparr>\<rparr> else c1);
          c3 = (if Prefix (Etcd c2) = [] then c2\<lparr>Etcd := (Etcd c2)\<lparr>Prefix := defaultETCDPrefix\<rparr>\<rparr> else c2)
      in if Servers (Etcd c3) = [] then c3\<lparr>Etcd := (Etcd c3)\<lparr>Servers := [''http://127.0.0.1:2379'']\<rparr>\<rparr> else c3)"

definition LoadConfig ::
  "env \<Rightarrow> 'k kubeApi \<Rightarrow> (bytes \<Rightarrow> ControlplaneRunConfig outcome) \<Rightarrow> string \<Rightarrow> ('k hosted, ControlplaneRunConfig) go" where
  "LoadConfig E K unmarshal configDir =
     (let configFile = Join [configDir, ''ocmconfig.yaml''] in
      bindG (onFS (os_ReadFile E configFile)) (\<lambda>configFileData.
      bindG (ofO (unmarshal configFileData)) (\<lambda>c0.
      let c = withDefaults c0 in
      bindG (if ExternalHostname (Apiserver c) = [] then
               bindG (wrapG (ErrorfV ''failed to find external host name from runtime environment, %v'' []) (GetExternalHost E K))
                 (\<lambda>hostname. returnG (c\<lparr>Apiserver := (Apiserver c)\<lparr>ExternalHostname := hostname\<rparr>\<rparr>))
             else returnG c) (\<lambda>c.
      if \<not> IsCAProvided c then
        bindG (wrapG (ErrorfV ''failed to load server ca from runtime enviroment, %v'' [])
                 (LoadServingSigner E K defaultControlPlaneCADir)) (\<lambda>loaded.
        if loaded then
          returnG (c\<lparr>Apiserver := (Apiserver c)\<lparr>CAFile := Join [defaultControlPlaneCADir, ''ca.crt''],
                                             CAKeyFile := Join [defaultControlPlaneCADir, ''ca.key'']\<rparr>\<rparr>)
        else returnG c)
      else returnG c))))"

section \<open>Facts\<close>

lemma withDefaults_filled:
  "DataDirectory (withDefaults c) \<noteq> []" "Mode (Etcd (withDefaults c)) \<noteq> []"
  "Prefix (Etcd (withDefaults c)) \<noteq> []" "Servers (Etcd (withDefaults c)) \<noteq> []"
  by (auto simp: withDefaults_def Let_def defaultControlPlaneDataDir_def defaultETCDMode_def defaultETCDPrefix_def)

lemma withDefaults_keeps:
  "Apiserver (withDefaults c) = Apiserver c" "Aggregator (withDefaults c) = Aggregator c"
  "DataDirectory c \<noteq> [] \<Longrightarrow> DataDirectory (withDefaults c) = DataDirectory c"
  "Mode (Etcd c) \<noteq> [] \<Longrightarrow> Mode (Etcd (withDefaults c)) = Mode (Etcd c)"
  "Prefix (Etcd c) \<noteq> [] \<Longrightarrow> Prefix (Etcd (withDefaults c)) = Prefix (Etcd c)"
  "Servers (Etcd c) \<noteq> [] \<Longrightarrow> Servers (Etcd (withDefaults c)) = Servers (Etcd c)"
  by (auto simp: withDefaults_def Let_def)

lemma LoadServingSigner_loaded:
  assumes "LoadServingSigner E K d (w, k) = (Ok True, (w', k'))"
  shows "files w' (Join [d, ''ca.crt'']) \<noteq> None \<and> files w' (Join [d, ''ca.key'']) \<noteq> None"
proof (cases "InClusterConfig K")
  case None
  with assms obtain sec k1 where "(let data = (case sec_Data (sec :: secret) of None \<Rightarrow> [] | Some d \<Rightarrow> d) in
            bindG (onFS (os_MkdirAll E d)) (\<lambda>_.
            case mapGet data ''tls.crt'' of
              None \<Rightarrow> failG (Errorf ''there is no `tls.crt` in %s/%s'' [''openshift-kube-apiserver-operator'', ''loadbalancer-serving-signer''])
            | Some certBlock \<Rightarrow>
                (case mapGet data ''tls.key'' of
                   None \<Rightarrow> failG (Errorf ''there is no `tls.key` in %s/%s'' [''openshift-kube-apiserver-operator'', ''loadbalancer-serving-signer''])
                 | Some keyBlock \<Rightarrow>
                     let certFile = Join [d, ''ca.crt'']; keyFile = Join [d, ''ca.key''] in
                     bindG (onFS (os_OpenTrunc E certFile)) (\<lambda>_.
                     bindG (onFS (os_OpenTrunc E keyFile)) (\<lambda>_.
                     bindG (onFS (os_WriteHandle E certFile certBlock)) (\<lambda>_.
                     bindG (onFS (os_WriteHandle E keyFile keyBlock)) (\<lambda>_.
                     returnG True))))))) (w, k1) = (Ok True, (w', k'))"
    by (auto simp: LoadServingSigner_def gom_iff Let_def split: if_split_asm)
  then show ?thesis
    by (auto simp: Let_def gom_iff putFile_def faultG_def os_OpenTrunc_def os_WriteHandle_def
        split: option.split_asm if_split_asm)
qed (use assms in \<open>simp add: LoadServingSigner_def gom_iff\<close>)

end
