(* ===== verification/Certificates.thy ===== *)
theory Certificates
  imports Chains Configs
begin

text \<open>
  Package \<open>certificate\<close>: the layout of the certificate directory (\<open>certificateinfo.go\<close>), and the
  certificates of the control plane (\<open>certificate.go\<close>): which chains are set up, which
  certificates are rotated at the start, and the kubeconfigs that are written.
\<close>

section \<open>certificateinfo.go\<close>

definition ServiceAccountKeyFileName :: string where "ServiceAccountKeyFileName = ''kube-serviceaccount.key''"
definition KubeconfigFileName :: string where "KubeconfigFileName = ''kube-aggregator.kubeconfig''"
definition InclusterKubeconfigFileName :: string where "InclusterKubeconfigFileName = ''incluster.kubeconfig''"
definition UserAdmin :: string where "UserAdmin = ''system:admin''"
definition UserKubeApiserver :: string where "UserKubeApiserver = ''kube-apiserver''"
definition UserAuthProxy :: string where "UserAuthProxy = ''system:auth-proxy''"
definition GroupMasters :: string where "GroupMasters = ''system:masters''"
definition UserEtcd :: string where "UserEtcd = ''etcd''"
definition GroupEtcd :: string where "GroupEtcd = ''etcd''"
definition UserEtcdPeer :: string where "UserEtcdPeer = ''system:etcd-peer:client''"
definition GroupEtcdPeer :: string where "GroupEtcdPeer = ''system:etcd-peers''"
definition CABundleDirName :: string where "CABundleDirName = ''ca-bundle''"
definition RootCABundleFileName :: string where "RootCABundleFileName = ''root-ca-bundle.crt''"
definition ServerCABundleFileName :: string where "ServerCABundleFileName = ''server-ca-bundle.crt''"
definition ClientCABundleFileName :: string where "ClientCABundleFileName = ''client-ca-bundle.crt''"
definition RequestHeaderCABundleFileName :: string where "RequestHeaderCABundleFileName = ''request-header-ca-bundle.crt''"
definition EtcdCABundleFileName :: string where "EtcdCABundleFileName = ''etcd-ca-bundle.crt''"
definition RootCACertDirName :: string where "RootCACertDirName = ''root-ca''"
definition ServerCACertDirName :: string where "ServerCACertDirName = ''server-ca''"
definition ClientCACertDirName :: string where "ClientCACertDirName = ''client-ca''"
definition RequestHeaderCACertDirName :: string where "RequestHeaderCACertDirName = ''request-header-ca''"
definition EtcdCACertDirName :: string where "EtcdCACertDirName = ''etcd-ca''"
definition AdminCertDirName :: string where "AdminCertDirName = ''admin''"
definition KubeApiserverCertDirName :: string where "KubeApiserverCertDirName = ''kube-apiserver''"
definition KubeAggregatorCertDirName :: string where "KubeAggregatorCertDirName = ''kube-aggregator''"
definition AuthProxyCertDirName :: string where "AuthProxyCertDirName = ''auth-proxy''"
definition PeerCertDirName :: string where "PeerCertDirName = ''peer''"
definition ClientCertDirName :: string where "ClientCertDirName = ''client''"

lemmas nameDefs = ServiceAccountKeyFileName_def KubeconfigFileName_def InclusterKubeconfigFileName_def
  UserAdmin_def UserKubeApiserver_def UserAuthProxy_def GroupMasters_def UserEtcd_def GroupEtcd_def
  UserEtcdPeer_def GroupEtcdPeer_def CABundleDirName_def RootCABundleFileName_def ServerCABundleFileName_def
  ClientCABundleFileName_def RequestHeaderCABundleFileName_def EtcdCABundleFileName_def RootCACertDirName_def
  ServerCACertDirName_def ClientCACertDirName_def RequestHeaderCACertDirName_def EtcdCACertDirName_def
  AdminCertDirName_def KubeApiserverCertDirName_def KubeAggregatorCertDirName_def AuthProxyCertDirName_def
  PeerCertDirName_def ClientCertDirName_def

text \<open>The validity of long-lived certificates here differs from the constant of \<open>certchains\<close>.\<close>

definition longLivedDays :: int where "longLivedDays = 365 * 5"
definition shortLivedDays :: int where "shortLivedDays = 365"

definition CertsDirectory :: "string \<Rightarrow> string" where "CertsDirectory basePath = Join [basePath, ''cert'']"
definition ServiceAccountKeyFile :: "string \<Rightarrow> string" where
  "ServiceAccountKeyFile d = Join [d, ServiceAccountKeyFileName]"
definition KubeConfigFile :: "string \<Rightarrow> string" where "KubeConfigFile d = Join [d, KubeconfigFileName]"
definition InclusterKubeconfigFile :: "string \<Rightarrow> string" where
  "InclusterKubeconfigFile d = Join [d, InclusterKubeconfigFileName]"
definition DefaultRootCAFile :: "string \<Rightarrow> string" where
  "DefaultRootCAFile d = Join [d, RootCACertDirName, CACertFileName]"
definition DefaultRootCAKeyFile :: "string \<Rightarrow> string" where
  "DefaultRootCAKeyFile d = Join [d, RootCACertDirName, CAKeyFileName]"
definition DefaultRootCASerialFile :: "string \<Rightarrow> string" where
  "DefaultRootCASerialFile d = Join [d, RootCACertDirName, CASerialsFileName]"
definition RootCACertDir :: "string \<Rightarrow> string" where "RootCACertDir d = Join [d, RootCACertDirName]"
definition ServerCACertDir :: "string \<Rightarrow> string" where "ServerCACertDir d = Join [d, ServerCACertDirName]"
definition ClientCACertDir :: "string \<Rightarrow> string" where "ClientCACertDir d = Join [d, ClientCACertDirName]"
definition RequestHeaderCACertDir :: "string \<Rightarrow> string" where
  "RequestHeaderCACertDir d = Join [d, RequestHeaderCACertDirName]"
definition ServingCertFile :: "string \<Rightarrow> string" where
  "ServingCertFile d = Join [ServerCACertDir d, KubeApiserverCertDirName, ServerCertFileName]"
definition ServingKeyFile :: "string \<Rightarrow> string" where
  "ServingKeyFile d = Join [ServerCACertDir d, KubeApiserverCertDirName, ServerKeyFileName]"
definition ClientCACertFile :: "string \<Rightarrow> string" where
  "ClientCACertFile d = Join [ClientCACertDir d, CACertFileName]"
definition ClientCAKeyFile :: "string \<Rightarrow> string" where
  "ClientCAKeyFile d = Join [ClientCACertDir d, CAKeyFileName]"
definition EtcdCACertDir :: "string \<Rightarrow> string" where "EtcdCACertDir d = Join [d, EtcdCACertDirName]"
definition EtcdPeerCertDir :: "string \<Rightarrow> string" where
  "EtcdPeerCertDir d = Join [EtcdCACertDir d, PeerCertDirName]"
definition EtcdClientCertDir :: "string \<Rightarrow> string" where
  "EtcdClientCertDir d = Join [EtcdCACertDir d, ClientCertDirName]"
definition CABundleDir :: "string \<Rightarrow> string" where "CABundleDir d = Join [d, CABundleDirName]"
definition RootCABundlePath :: "string \<Rightarrow> string" where
  "RootCABundlePath d = Join [CABundleDir d, RootCABundleFileName]"
definition TotalServerCABundlePath :: "string \<Rightarrow> string" where
  "TotalServerCABundlePath d = Join [CABundleDir d, ServerCABundleFileName]"
definition TotalClientCABundlePath :: "string \<Rightarrow> string" where
  "TotalClientCABundlePath d = Join [CABundleDir d, ClientCABundleFileName]"
definition RequestHeaderCABundlePath :: "string \<Rightarrow> string" where
  "RequestHeaderCABundlePath d = Join [CABundleDir d, RequestHeaderCABundleFileName]"
definition EtcdCABundlePath :: "string \<Rightarrow> string" where
  "EtcdCABundlePath d = Join [CABundleDir d, EtcdCABundleFileName]"

section \<open>certificate.go: the chains of the control plane\<close>

definition meta :: "string \<Rightarrow> CSRMeta" where
  "meta n = \<lparr>metaName = n, metaValidityDays = shortLivedDays\<rparr>"

definition defaultInfo :: "string \<Rightarrow> string list \<Rightarrow> userInfo" where
  "defaultInfo n gs = \<lparr>u_Name = n, u_UID = [], u_Groups = gs\<rparr>"

definition serverSigner :: "ControlplaneRunConfig \<Rightarrow> string \<Rightarrow> string \<Rightarrow> certificateSigner" where
  "serverSigner cfg ns dir =
     WithServingCertificates
       [(meta KubeApiserverCertDirName,
         [ExternalHostname (Apiserver cfg), ''kubernetes.default'', ''kubernetes.default.svc'',
          ''multicluster-controlplane.'' @ ns, ''multicluster-controlplane.'' @ ns @ ''.svc'',
          ''localhost'', ''127.0.0.1'', ''10.0.0.1'']),
        (meta KubeAggregatorCertDirName, [''api.kube-public.svc'', ''localhost'', ''127.0.0.1''])]
       (NewCertificateSigner ServerCACertDirName (ServerCACertDir dir) shortLivedDays)"

definition requestheaderSigner :: "string \<Rightarrow> certificateSigner" where
  "requestheaderSigner dir =
     WithClientCertificates [(meta AuthProxyCertDirName, defaultInfo UserAuthProxy [])]
       (NewCertificateSigner RequestHeaderCACertDirName (RequestHeaderCACertDir dir) shortLivedDays)"

definition clientSigner :: "string \<Rightarrow> certificateSigner" where
  "clientSigner dir =
     WithClientCertificates
       [(meta AdminCertDirName, defaultInfo UserAdmin [GroupMasters]),
        (meta KubeApiserverCertDirName, defaultInfo UserKubeApiserver []),
        (meta KubeAggregatorCertDirName, defaultInfo UserAdmin [GroupMasters])]
       (NewCertificateSigner ClientCACertDirName (ClientCACertDir dir) shortLivedDays)"

definition etcdSigner :: "string \<Rightarrow> certificateSigner" where
  "etcdSigner dir =
     WithPeerCertificiates [(meta PeerCertDirName, defaultInfo UserEtcdPeer [GroupEtcdPeer], [''localhost''])]
       (WithClientCertificates [(meta ClientCertDirName, defaultInfo UserEtcd [GroupEtcd])]
         (NewCertificateSigner EtcdCACertDirName (EtcdCACertDir dir) shortLivedDays))"

definition rootCAInfo :: "ControlplaneRunConfig \<Rightarrow> string \<Rightarrow> CAInfo" where
  "rootCAInfo cfg dir =
     (if IsCAProvided cfg
      then SetKeyFile (CAKeyFile (Apiserver cfg)) (SetCertFile (CAFile (Apiserver cfg)) NewCAInfo)
      else SetSerialFile (DefaultRootCASerialFile dir) (SetKeyFile (DefaultRootCAKeyFile dir)
             (SetCertFile (DefaultRootCAFile dir) NewCAInfo)))"

definition caSigner :: "ControlplaneRunConfig \<Rightarrow> string \<Rightarrow> string \<Rightarrow> certificateSigner" where
  "caSigner cfg ns dir =
     WithSubCAs ([serverSigner cfg ns dir, requestheaderSigner dir, clientSigner dir] @
                 (if IsEmbedEtcd cfg then [etcdSigner dir] else []))
       (WithCAInfo (rootCAInfo cfg dir)
         (NewCertificateSigner RootCACertDirName (RootCACertDir dir) longLivedDays))"

definition controlplaneChains :: "ControlplaneRunConfig \<Rightarrow> string \<Rightarrow> string \<Rightarrow> certificateChains" where
  "controlplaneChains cfg ns dir =
     (let cc = WithCABundle (TotalClientCABundlePath dir) [[RootCACertDirName, ClientCACertDirName]]
                (WithCABundle (RequestHeaderCABundlePath dir) [[RootCACertDirName, RequestHeaderCACertDirName]]
                (WithCABundle (TotalServerCABundlePath dir) [[RootCACertDirName, ServerCACertDirName]]
                (WithCABundle (Join [CABundleDir dir, RootCABundleFileName]) [[RootCACertDirName]]
                (NewCertificateChains [caSigner cfg ns dir]))))
      in if IsEmbedEtcd cfg
         then WithCABundle (EtcdCABundlePath dir) [[RootCACertDirName, EtcdCACertDirName]] cc
         else cc)"

definition certSetup :: "env \<Rightarrow> 'k kubeApi \<Rightarrow> ControlplaneRunConfig \<Rightarrow> ('k hosted, CertificateChains) go" where
  "certSetup E K cfg =
     (let certificateDirectory = CertsDirectory (DataDirectory cfg) in
      bindG (GetComponentNamespace E K) (\<lambda>ns.
      bindG (onFS (chainsComplete E (controlplaneChains cfg ns certificateDirectory)
               (Some \<lparr>ApiHost = ExternalHostname (Apiserver cfg)\<rparr>))) (\<lambda>certChains.
      bindG (onFS (GenerateServiceAccountKey E (ServiceAccountKeyFile certificateDirectory))) (\<lambda>_.
      returnG certChains))))"

section \<open>Rotation\<close>

text \<open>
  The closure of \<open>certsToRegenerate\<close>, on the clock and the paths collected so far. It reads the
  clock twice, and an expired certificate is collected twice.
\<close>

record rotateState =
  rs_world :: world
  regenCerts :: "slice list"

definition tick :: "rotateState \<Rightarrow> int \<times> rotateState" where
  "tick v = (case time_Now (rs_world v) of
     (Ok t, w) \<Rightarrow> (t, v\<lparr>rs_world := w\<rparr>) | (_, w) \<Rightarrow> (0, v\<lparr>rs_world := w\<rparr>))"

definition regenStep :: "slice \<Rightarrow> x509 \<Rightarrow> rotateState \<Rightarrow> rotateState" where
  "regenStep certPath c v0 =
     (case tick v0 of (now, v1) \<Rightarrow>
      let v2 = (if now < NotBefore c \<or> now > NotAfter c
                then v1\<lparr>regenCerts := regenCerts v1 @ [certPath]\<rparr> else v1) in
      case tick v2 of (now', v3) \<Rightarrow>
      let timeLeft = time_Sub (NotAfter c) now' in
      if IsCertShortLived c then
        (let until = 7 * month in
         if timeLeft < until then v3\<lparr>regenCerts := regenCerts v3 @ [certPath]\<rparr> else v3)
      else if timeLeft < 18 * month then v3\<lparr>regenCerts := regenCerts v3 @ [certPath]\<rparr> else v3)"

definition regenVisit :: "rotateState CertWalkFunc" where
  "regenVisit certPath c = (\<lambda>(h, v). (Ok (), (h, regenStep certPath c v)))"

definition certsToRegenerate :: "(nat \<Rightarrow> nat) \<Rightarrow> CertificateChains \<Rightarrow> (world, string list list) go" where
  "certsToRegenerate grow cs = (\<lambda>w.
     case WalkChains grow cs nilSlice regenVisit (emptyHeap, \<lparr>rs_world = w, regenCerts = []\<rparr>) of
       (Ok _, (h, v)) \<Rightarrow> (Ok (map (sliceList h) (regenCerts v)), rs_world v)
     | (Err e, (h, v)) \<Rightarrow> (Err e, rs_world v)
     | (Panic p, (h, v)) \<Rightarrow> (Panic p, rs_world v))"

text \<open>Running the regenerations on the chains, which are returned.\<close>

definition regenerateAll :: "env \<Rightarrow> string list list \<Rightarrow> CertificateChains \<Rightarrow> (world, CertificateChains) go" where
  "regenerateAll E paths cs = (\<lambda>w. case forG paths (Regenerate E) (cs, w) of
     (Ok _, (cs', w')) \<Rightarrow> (Ok cs', w') | (Err e, (_, w')) \<Rightarrow> (Err e, w') | (Panic p, (_, w')) \<Rightarrow> (Panic p, w'))"

definition InitCerts ::
  "env \<Rightarrow> 'k kubeApi \<Rightarrow> (nat \<Rightarrow> nat) \<Rightarrow> ControlplaneRunConfig \<Rightarrow> ('k hosted, CertificateChains) go" where
  "InitCerts E K grow cfg =
     bindG (certSetup E K cfg) (\<lambda>certChains.
     bindG (onFS (certsToRegenerate grow certChains)) (\<lambda>regenCerts.
     onFS (regenerateAll E regenCerts certChains)))"

section \<open>Kubeconfigs\<close>

definition hostPortURL :: "string \<Rightarrow> int \<Rightarrow> string" where
  "hostPortURL host port = ''https://'' @ host @ '':'' @ showInt port @ ''/''"

definition serviceURL :: "string \<Rightarrow> string" where
  "serviceURL ns = ''https://multicluster-controlplane.'' @ ns @ ''.svc/''"

definition InitKubeconfig ::
  "env \<Rightarrow> 'k kubeApi \<Rightarrow> ControlplaneRunConfig \<Rightarrow> CertificateChains \<Rightarrow> ('k hosted, unit) go" where
  "InitKubeconfig E K cfg certChains =
     (let certDir = CertsDirectory (DataDirectory cfg); host = ExternalHostname (Apiserver cfg);
          port = Port (Apiserver cfg) in
      bindG (wrapG (ErrorfV ''failed to load the in-cluster trust bundle: %v'' [])
               (onFS (os_ReadFile E (TotalServerCABundlePath certDir)))) (\<lambda>bundle.
      bindG (ofO (GetCertKey E certChains [RootCACertDirName, ClientCACertDirName, KubeAggregatorCertDirName])) (\<lambda>(cert, key).
      case InClusterConfig K of
        Some _ \<Rightarrow> KubeconfigWriteToFile E K (KubeConfigFile certDir) (hostPortURL host port) bundle cert key
      | None \<Rightarrow>
          bindG (KubeconfigWriteToFile E K (KubeConfigFile certDir)
                   (hostPortURL ''127.0.0.1'' DefaultAPIServerPort) bundle cert key) (\<lambda>_.
          bindG (GetComponentNamespace E K) (\<lambda>ns.
          bindG (KubeconfigWriteToFile E K (InclusterKubeconfigFile certDir) (serviceURL ns) bundle cert key) (\<lambda>_.
          bindG (GetComponentNamespace E K) (\<lambda>ns.
          bindG (KubeconfigWroteToSecret E K ''multicluster-controlplane-svc-kubeconfig''
                   (serviceURL ns) bundle cert key) (\<lambda>_.
          let externalHost = (if port = 0 then ''https://'' @ host @ ''/'' else hostPortURL host port) in
          KubeconfigWroteToSecret E K ''multicluster-controlplane-kubeconfig'' externalHost bundle cert key)))))))) "

end
