(* ===== verification/Simulation.thy ===== *)
theory Simulation
  imports World
begin

text \<open>
  A small library of certificates that satisfies the laws of \<open>World\<close>: the concrete environment
  on which the theorems with hypotheses on \<open>env\<close> are evaluated. It is not a model of code; it
  shows that the laws can hold together.
\<close>

section \<open>The environment\<close>

definition simName :: "string \<Rightarrow> pkixName" where
  "simName n = \<lparr>CommonName = n, NameSerial = [], Organization = []\<rparr>"

definition simCert :: "string \<Rightarrow> string \<Rightarrow> int \<Rightarrow> world \<Rightarrow> x509" where
  "simCert n issuer dur w = \<lparr>Subject = simName n, Issuer = simName issuer,
     SerialNumber = (nextPtr w, int (nextPtr w)), NotBefore = clockAt w (ticks w),
     NotAfter = clockAt w (ticks w) + dur, ExtKeyUsage = []\<rparr>"

definition bumpPtr :: "nat \<Rightarrow> world \<Rightarrow> world" where
  "bumpPtr k w = w\<lparr>nextPtr := nextPtr w + k\<rparr>"

text \<open>Decoding gives every certificate a fresh address for its serial number.\<close>

definition simReload :: "x509 list \<Rightarrow> world \<Rightarrow> x509 list" where
  "simReload cs w = map (\<lambda>(k, c). c\<lparr>SerialNumber := (nextPtr w + k, snd (SerialNumber c))\<rparr>) (enumerate 0 cs)"

definition simGen :: "string \<Rightarrow> serialGenerator" where
  "simGen f = (if f = [] then RandomSerialGenerator else SerialFileGenerator f)"

definition simLoad :: "string \<Rightarrow> string \<Rightarrow> (world, tlsConfig) go" where
  "simLoad c k = (\<lambda>w. case (files w c, files w k) of
     (Some (CertPEM (c # cs)), Some (KeyPEM key)) \<Rightarrow>
       (Ok \<lparr>Certs = simReload (c # cs) w, Key = key\<rparr>, bumpPtr (Suc (length cs)) w)
   | _ \<Rightarrow> (Err (OsNotExist c), w))"

definition simWrite :: "tlsConfig \<Rightarrow> string \<Rightarrow> string \<Rightarrow> (world, unit) go" where
  "simWrite t c k = (\<lambda>w. (Ok (), putFile k (KeyPEM (Key t)) (putFile c (CertPEM (Certs t)) w)))"

definition simGetCA :: "string \<Rightarrow> string \<Rightarrow> string \<Rightarrow> (world, CA) go" where
  "simGetCA c k f = bindG (simLoad c k) (\<lambda>t. returnG \<lparr>Config = t, SerialGenerator = simGen f\<rparr>)"

definition simIssuer :: "CA \<Rightarrow> string" where
  "simIssuer ca = (case Certs (Config ca) of [] \<Rightarrow> [] | c # _ \<Rightarrow> CommonName (Subject c))"

definition simIssue :: "string \<Rightarrow> string \<Rightarrow> int \<Rightarrow> x509 list \<Rightarrow> (world, tlsConfig) go" where
  "simIssue n issuer dur chain = (\<lambda>w. (Ok \<lparr>Certs = simCert n issuer dur w # chain, Key = n\<rparr>, bumpPtr 1 w))"

definition simOr :: "(world, 'a) go \<Rightarrow> (world, 'a) go \<Rightarrow> (world, 'a) go" where
  "simOr a b = tryG a returnG (\<lambda>_. b)"

definition simDays :: "int \<Rightarrow> int" where
  "simDays d = d * 24 * time_Hour"

definition simEnv :: env where
  "simEnv = \<lparr>range_order = (\<lambda>ks. ks), os_fault = (\<lambda>_ _. None),
     lib_EnsureCA = (\<lambda>c k f n d. simOr (simGetCA c k f)
       (bindG (simIssue n n (simDays d) []) (\<lambda>t. bindG (simWrite t c k) (\<lambda>_.
          returnG \<lparr>Config = t, SerialGenerator = simGen f\<rparr>)))),
     lib_GetCA = simGetCA,
     lib_MakeCAConfigForDuration = (\<lambda>n d ca. simIssue n (simIssuer ca) d (Certs (Config ca))),
     lib_WriteCertConfigFile = simWrite,
     lib_NewSerialFileGenerator = (\<lambda>f. returnG (SerialFileGenerator f)),
     lib_EnsureClientCertificate = (\<lambda>ca c k u d. simOr (simLoad c k)
       (bindG (simIssue (u_Name u) (simIssuer ca) (simDays d) []) (\<lambda>t. bindG (simWrite t c k) (\<lambda>_. returnG t)))),
     lib_EnsureServerCert = (\<lambda>ca c k h d. simOr (simLoad c k)
       (bindG (simIssue (hd (h @ [[]])) (simIssuer ca) (simDays d) []) (\<lambda>t. bindG (simWrite t c k) (\<lambda>_. returnG t)))),
     lib_GetServerCert = (\<lambda>c k h. simLoad c k),
     lib_MakeServerCertForDuration = (\<lambda>ca h d f. bindG (simIssue (hd (h @ [[]])) (simIssuer ca) d [])
       (\<lambda>t. returnG \<lparr>Certs = map f (Certs t), Key = Key t\<rparr>)),
     lib_CertsFromPEM = (\<lambda>b w. case b of
         CertPEM cs \<Rightarrow> (Ok (simReload cs w), bumpPtr (length cs) w)
       | _ \<Rightarrow> (Err (ExternalError ''data does not contain any valid certificates''), w)),
     lib_EncodeCertificates = (\<lambda>cs. returnG (CertPEM cs)),
     lib_GetPEMBytes = (\<lambda>t. Ok (CertPEM (Certs t), KeyPEM (Key t))),
     lib_GenerateRSAKeyPEM = (\<lambda>n. returnG (KeyPEM (showInt n)))\<rparr>"

text \<open>A machine with no files, whose clock stands at the second day.\<close>

definition simWorld :: world where
  "simWorld = \<lparr>files = (\<lambda>_. None), nextPtr = 0, clockAt = (\<lambda>_. 2 * 24 * time_Hour), ticks = 0\<rparr>"

section \<open>It satisfies the laws\<close>

lemma touches_simLoad [touch]: "touches S (simLoad c k)"
  by (auto simp: touches_def simLoad_def bumpPtr_def fs.agree_def split: option.splits bytes.splits list.splits)

lemma touches_simWrite [touch]: "{c, k} \<subseteq> S \<Longrightarrow> touches S (simWrite t c k)"
  by (auto simp: touches_def simWrite_def putFile_def fs.agree_def)

lemma touches_simIssue [touch]: "touches S (simIssue n i d ch)"
  by (auto simp: touches_def simIssue_def bumpPtr_def fs.agree_def)

lemma touches_simOr [touch]: "touches S a \<Longrightarrow> touches S b \<Longrightarrow> touches S (simOr a b)"
  unfolding simOr_def by (intro touch)

lemma touches_simGetCA [touch]: "touches S (simGetCA c k f)"
  unfolding simGetCA_def by (intro touch)

lemma simEnv_frame [simp]: "lib_frame simEnv"
proof -
  have "touches {} (\<lambda>w. case b of CertPEM cs \<Rightarrow> (Ok (simReload cs w), bumpPtr (length cs) w)
      | _ \<Rightarrow> (Err (ExternalError e), w))" for b e
    by (auto simp: touches_def bumpPtr_def fs.agree_def split: bytes.splits)
  then show ?thesis
    unfolding lib_frame_def simEnv_def env.simps by (intro conjI allI touch) auto
qed

lemma simEnv_serials [simp]: "lib_serials simEnv"
  by (auto simp: lib_serials_def simEnv_def simGetCA_def simOr_def gom_iff serialFiles_def simGen_def)

lemma simReload_unptr: "map unptr (simReload cs w) = map unptr cs"
  by (rule nth_equalityI) (auto simp: simReload_def unptr_def nth_enumerate_eq)

lemma simReload_fresh: "c \<in> set (simReload cs w) \<Longrightarrow> nextPtr w \<le> fst (SerialNumber c)"
  by (auto simp: simReload_def)

lemma simEnv_pem [simp]: "lib_pem simEnv"
  by (auto simp: lib_pem_def simEnv_def gom_iff bumpPtr_def simReload_unptr dest: simReload_fresh)

lemma range_ok_id [simp]: "range_ok (\<lambda>ks. ks)"
  by (simp add: range_ok_def)

lemma simEnv_range [simp]: "range_ok (range_order simEnv)" "range_order simEnv = (\<lambda>ks. ks)"
  by (simp_all add: range_ok_def simEnv_def)

lemma simEnv_honest [simp]: "os_honest simEnv"
  by (simp add: os_honest_def simEnv_def)

lemma simReload_nonempty [simp]: "simReload (c # cs) w \<noteq> []"
  by (simp add: simReload_def)

lemma simLoad_answers: "answers (\<lambda>_. True) (\<lambda>t. Certs t \<noteq> []) (simLoad c k)"
  by (auto simp: answers_def simLoad_def split: option.splits bytes.splits list.splits)

lemma simWrite_succeeds [succeed]: "succeeds (\<lambda>_. True) (\<lambda>_. True) (simWrite t c k)"
  by (simp add: succeeds_def simWrite_def)

lemma simIssue_succeeds: "succeeds (\<lambda>_. True) (\<lambda>t. Certs t \<noteq> []) (simIssue n i d ch)"
  by (simp add: succeeds_def simIssue_def)

lemma simGetCA_answers: "answers (\<lambda>_. True) (\<lambda>ca. Certs (Config ca) \<noteq> []) (simGetCA c k f)"
  unfolding simGetCA_def by (rule answers_bind [OF simLoad_answers]) (auto intro: succeeds_return)

lemma simOr_succeeds: "answers P R a \<Longrightarrow> succeeds P R b \<Longrightarrow> succeeds P R (simOr a b)"
  unfolding simOr_def by (rule succeeds_try [where Q = R]) (auto intro: succeeds_return)

lemma simMake_succeeds:
  assumes "\<And>t. Certs t \<noteq> [] \<Longrightarrow> R (g t)"
  shows "succeeds (\<lambda>_. True) R (bindG (simIssue n i d ch) (\<lambda>t. bindG (simWrite t c k) (\<lambda>_. returnG (g t))))"
  by (rule succeeds_bind [OF simIssue_succeeds], rule succeeds_bind [OF simWrite_succeeds], rule succeeds_return)
    (rule assms)

lemma simLoad_answers_any: "answers (\<lambda>_. True) (\<lambda>_. True) (simLoad c k)"
  using simLoad_answers [of c k] unfolding answers_def by blast

lemma simEnv_total [simp]: "lib_total simEnv"
proof -
  have "succeeds (\<lambda>_. True) (\<lambda>_. True) (bindG (simIssue n i d []) (\<lambda>t. returnG (g t)))" for n i d and g :: "tlsConfig \<Rightarrow> tlsConfig"
    by (rule succeeds_bind [OF simIssue_succeeds], rule succeeds_return) simp
  then show ?thesis
    unfolding lib_total_def simEnv_def env.simps
    by (intro conjI allI simOr_succeeds simGetCA_answers simLoad_answers_any simMake_succeeds simWrite_succeeds
        simIssue_succeeds succeeds_return) simp_all
qed

end
