(* ===== verification/SignerProofs.thy ===== *)
theory SignerProofs
  imports Signers Simulation "HOL-Library.Multiset"
begin

text \<open>
  The theory of signers: the predicate \<open>framed P S m\<close> (method \<open>m\<close> keeps \<open>P\<close> of the signer and
  changes no file outside \<open>S\<close>) with its rules, the footprint of a tree of signers on disk,
  what completing a builder yields, and the effect of bundles and regeneration.
\<close>

section \<open>Methods with a frame\<close>

definition framed :: "(CertificateSigner \<Rightarrow> bool) \<Rightarrow> string set \<Rightarrow> 'a signerM \<Rightarrow> bool" where
  "framed P S m = (\<forall>w0. keeps (\<lambda>(s, w). P s \<and> fs.agree S w0 w) m)"

named_theorems frame \<open>methods with a frame\<close>

lemma framedD:
  assumes "framed P S m" "m (s, w) = (r, (s', w'))" "P s"
  shows "P s' \<and> fs.agree S w w'"
proof -
  have "keeps (\<lambda>(s, v). P s \<and> fs.agree S w v) m" using assms(1) by (simp add: framed_def)
  from keepsD [OF this _ assms(2)] show ?thesis using assms(3) by (simp add: fs.agree_refl)
qed

lemma framedI:
  assumes "\<And>s w r s' w'. P s \<Longrightarrow> m (s, w) = (r, (s', w')) \<Longrightarrow> P s' \<and> fs.agree S w w'"
  shows "framed P S m"
  unfolding framed_def keeps_def using assms by (blast intro: fs.agree_trans)

lemma framed_return [frame]: "framed P S (returnG x)"
  by (simp add: framed_def keep)

lemma framed_fail [frame]: "framed P S (failG e)"
  by (simp add: framed_def keep)

lemma framed_panic [frame]: "framed P S (panicG p)"
  by (simp add: framed_def keep)

lemma framed_bind [frame]: "framed P S m \<Longrightarrow> (\<And>x. framed P S (f x)) \<Longrightarrow> framed P S (bindG m f)"
  unfolding framed_def by (blast intro: keep)

lemma framed_wrap [frame]: "framed P S m \<Longrightarrow> framed P S (wrapG g m)"
  unfolding framed_def by (blast intro: keep)

lemma framed_try [frame]:
  "framed P S m \<Longrightarrow> (\<And>x. framed P S (f x)) \<Longrightarrow> (\<And>e. framed P S (h e)) \<Longrightarrow> framed P S (tryG m f h)"
  unfolding framed_def by (blast intro: keep)

lemma framed_for [frame]: "(\<And>x. x \<in> set xs \<Longrightarrow> framed P S (f x)) \<Longrightarrow> framed P S (forG xs f)"
  unfolding framed_def by (blast intro: keep)

lemma framed_if [frame]: "(b \<Longrightarrow> framed P S m) \<Longrightarrow> (\<not> b \<Longrightarrow> framed P S n) \<Longrightarrow> framed P S (if b then m else n)"
  by simp

lemma framed_liftW [frame]: "touches S m \<Longrightarrow> framed P S (liftW m)"
  by (rule framedI) (auto simp: liftW_def zoomG_def dest: touchesD split: prod.splits)

lemma framed_ofO [frame]: "framed P S (ofO r)"
  by (rule framedI) (simp add: ofO_def fs.agree_refl)

lemma framed_modS [frame]: "(\<And>s. P s \<Longrightarrow> P (f s)) \<Longrightarrow> framed P S (modS f)"
  by (rule framedI) (auto simp: modS_def fs.agree_refl)

lemma framed_getS [frame]: "framed P S getS"
  by (rule framedI) (auto simp: getS_def fs.agree_refl)

lemma bindG_getS: "bindG getS f (s, w) = f s (s, w)"
  by (simp add: bindG_def getS_def)

lemma framed_bind_getS: "(\<And>s. P s \<Longrightarrow> framed P S (f s)) \<Longrightarrow> framed P S (bindG getS f)"
  by (rule framedI) (metis bindG_getS framedD)

lemma framed_onSubCA:
  assumes "framed Q S m" "Q u" "\<And>s u'. P s \<Longrightarrow> Q u' \<Longrightarrow> P (putSubCA n u' s)"
  shows "framed P S (onSubCA n u m)"
  by (rule framedI) (use assms framedD [OF assms(1)] in \<open>auto simp: onSubCA_def split: prod.splits\<close>)

lemma touches_runSigner:
  assumes "framed P S m" "P s"
  shows "touches S (runSigner s m)"
  by (rule touchesI)
    (use framedD [OF assms(1) _ assms(2)] in \<open>auto simp: runSigner_def split: prod.splits outcome.splits\<close>)

lemma framed_mono: "framed P S m \<Longrightarrow> S \<subseteq> T \<Longrightarrow> framed P T m"
  by (rule framedI) (meson framedD fs.agree_mono)

lemma touches_ofO [touch]: "touches S (ofO r)"
  by (auto simp: touches_def ofO_def fs.agree_refl)

section \<open>Selectors of an updated signer\<close>

lemma signer_upd_simps [simp]:
  "signerName (setSignerConfig c s) = signerName s" "signerConfig (setSignerConfig c s) = c"
  "signerDir (setSignerConfig c s) = signerDir s" "signerValidityDays (setSignerConfig c s) = signerValidityDays s"
  "subCAs (setSignerConfig c s) = subCAs s" "signedCertificates (setSignerConfig c s) = signedCertificates s"
  "caBundlePaths (setSignerConfig c s) = caBundlePaths s"
  "signerName (putSubCA n u s) = signerName s" "signerConfig (putSubCA n u s) = signerConfig s"
  "signerDir (putSubCA n u s) = signerDir s" "signerValidityDays (putSubCA n u s) = signerValidityDays s"
  "subCAs (putSubCA n u s) = mapPut n u (subCAs s)" "signedCertificates (putSubCA n u s) = signedCertificates s"
  "caBundlePaths (putSubCA n u s) = caBundlePaths s"
  "signerName (putCert n i s) = signerName s" "signerConfig (putCert n i s) = signerConfig s"
  "signerDir (putCert n i s) = signerDir s" "signerValidityDays (putCert n i s) = signerValidityDays s"
  "subCAs (putCert n i s) = subCAs s" "signedCertificates (putCert n i s) = mapPut n i (signedCertificates s)"
  "caBundlePaths (putCert n i s) = caBundlePaths s"
  "signerName (insertBundle p s) = signerName s" "signerConfig (insertBundle p s) = signerConfig s"
  "signerDir (insertBundle p s) = signerDir s" "signerValidityDays (insertBundle p s) = signerValidityDays s"
  "subCAs (insertBundle p s) = subCAs s" "signedCertificates (insertBundle p s) = signedCertificates s"
  "caBundlePaths (insertBundle p s) = List.insert p (caBundlePaths s)"
  by (simp_all add: setSignerConfig_def putSubCA_def putCert_def insertBundle_def)

lemma newSigner_simps [simp]:
  "signerName (newSigner b c) = bName b" "signerConfig (newSigner b c) = c" "signerDir (newSigner b c) = bDir b"
  "signerValidityDays (newSigner b c) = bValidityDays b" "subCAs (newSigner b c) = []"
  "signedCertificates (newSigner b c) = []" "caBundlePaths (newSigner b c) = []"
  by (simp_all add: newSigner_def)

lemma WithSignerConfig_simps [simp]:
  "bName (WithSignerConfig c b) = bName b" "bDir (WithSignerConfig c b) = bDir b"
  "bValidityDays (WithSignerConfig c b) = bValidityDays b" "bConfig (WithSignerConfig c b) = Some c"
  "bSubCAs (WithSignerConfig c b) = bSubCAs b" "bCerts (WithSignerConfig c b) = bCerts b"
  "bBundles (WithSignerConfig c b) = bBundles b" "bCAInfo (WithSignerConfig c b) = bCAInfo b"
  by (cases b; simp)+

section \<open>Paths of the files of a signer\<close>

lemma plain_names [simp]:
  "plain CACertFileName" "plain CAKeyFileName" "plain CABundleFileName" "plain CASerialsFileName"
  "plain ServerCertFileName" "plain ServerKeyFileName" "plain ClientCertFileName"
  "plain ClientKeyFileName" "plain PeerCertFileName" "plain PeerKeyFileName"
  by (simp_all add: plain_def CACertFileName_def CAKeyFileName_def CABundleFileName_def
      CASerialsFileName_def ServerCertFileName_def ServerKeyFileName_def ClientCertFileName_def
      ClientKeyFileName_def PeerCertFileName_def PeerKeyFileName_def)

lemma below_Join: "cleanDir d \<Longrightarrow> plain f \<Longrightarrow> below d (Join [d, f])"
  using below_append [of d f] by (simp add: paths)

lemma below_trans: "below a b \<Longrightarrow> below b c \<Longrightarrow> below a c"
  by (auto simp: below_def prefix_def)

lemmas pathDefs = CACertPath_def CAKeyPath_def CASerialsPath_def CABundlePath_def
  ClientCertPath_def ClientKeyPath_def ServingCertPath_def ServingKeyPath_def
  PeerCertPath_def PeerKeyPath_def

lemma below_paths:
  assumes "cleanDir d"
  shows "below d (CACertPath d)" "below d (CAKeyPath d)" "below d (CASerialsPath d)"
    "below d (CABundlePath d)" "below d (ClientCertPath d)" "below d (ClientKeyPath d)"
    "below d (ServingCertPath d)" "below d (ServingKeyPath d)" "below d (PeerCertPath d)"
    "below d (PeerKeyPath d)"
  using assms by (simp_all add: pathDefs below_Join)

section \<open>The footprint of a builder\<close>

text \<open>The files that completing a builder may change: those below the directories of its tree and its bundles.\<close>

fun footprint :: "certificateSigner \<Rightarrow> string set" where
  "footprint (Builder n d v c ss cs bs i) = {p. below d p} \<union> set bs \<union> (\<Union>s\<in>set ss. footprint s)"

fun dirsOk :: "certificateSigner \<Rightarrow> bool" where
  "dirsOk (Builder n d v c ss cs bs i) =
     (cleanDir d \<and> (\<forall>c\<in>set cs. plain (metaName (GetMeta c))) \<and> (\<forall>s\<in>set ss. dirsOk s))"

lemma footprint_sel: "footprint b = {p. below (bDir b) p} \<union> set (bBundles b) \<union> (\<Union>s\<in>set (bSubCAs b). footprint s)"
  by (cases b) simp

lemma dirsOk_sel: "dirsOk b \<longleftrightarrow>
    cleanDir (bDir b) \<and> (\<forall>c\<in>set (bCerts b). plain (metaName (GetMeta c))) \<and> (\<forall>s\<in>set (bSubCAs b). dirsOk s)"
  by (cases b) simp

lemma footprint_WithSignerConfig [simp]: "footprint (WithSignerConfig c b) = footprint b"
  by (simp add: footprint_sel [of b] footprint_sel [of "WithSignerConfig c b"])

lemma dirsOk_WithSignerConfig [simp]: "dirsOk (WithSignerConfig c b) = dirsOk b"
  by (simp add: dirsOk_sel [of b] dirsOk_sel [of "WithSignerConfig c b"])

section \<open>Frames of the operations\<close>

text \<open>A predicate that holds the directory and the authority of the signer fixed.\<close>

definition pins :: "string \<Rightarrow> CA \<Rightarrow> (CertificateSigner \<Rightarrow> bool) \<Rightarrow> bool" where
  "pins D C P = (\<forall>s. P s \<longrightarrow> signerDir s = D \<and> signerConfig s = C)"

lemma pinsD: "pins D C P \<Longrightarrow> P s \<Longrightarrow> signerDir s = D \<and> signerConfig s = C"
  by (simp add: pins_def)

lemma framed_bind_val:
  assumes "framed P S m"
    "\<And>s w x s' w'. P s \<Longrightarrow> m (s, w) = (Ok x, (s', w')) \<Longrightarrow> framed P S (f x)"
  shows "framed P S (bindG m f)"
  unfolding framed_def
  by (intro allI keeps_bind_val) (use assms in \<open>auto simp: framed_def\<close>)

lemma framed_SignCertificate:
  assumes lib: "lib_frame E" and plain: "plain (metaName (GetMeta i))" and pins: "pins D C P"
    and sub: "{p. below (Join [D, metaName (GetMeta i)]) p} \<union> serialFiles C \<subseteq> S"
    and put: "\<And>s j. P s \<Longrightarrow> csrInfo j = i \<Longrightarrow> P (putCert (metaName (GetMeta i)) j s)"
  shows "framed P S (SignCertificate E i)"
proof -
  note T = touches_lib [OF lib]
  have B: "below (Join [D, metaName (GetMeta i)]) p \<Longrightarrow> p \<in> S" for p using sub by auto
  note bp = below_paths [OF cleanDir_Join [OF plain]]
  show ?thesis
  proof (cases i)
    case (ClientCSR m u)
    show ?thesis
      unfolding SignCertificate_def ClientCSR CSRInfo.case SignClientCertificate_def Let_def
      by (intro framed_bind_getS frame T)
        (use sub pinsD [OF pins] bp B put in \<open>auto simp: ClientCSR\<close>)
  next
    case (ServingCSR m h)
    show ?thesis
      unfolding SignCertificate_def ServingCSR CSRInfo.case SignServingCertificate_def Let_def
      by (intro framed_bind_getS frame T)
        (use sub pinsD [OF pins] bp B put in \<open>auto simp: ServingCSR\<close>)
  next
    case (PeerCSR m u h)
    show ?thesis
      unfolding SignCertificate_def PeerCSR CSRInfo.case SignPeerCertificate_def Let_def
      by (intro framed_bind_getS frame T)
        (use sub pinsD [OF pins] bp B put in \<open>auto simp: PeerCSR\<close>)
  qed (auto simp: SignCertificate_def intro: frame)
qed

lemma framed_AddToBundles:
  assumes lib: "lib_frame E" and sub: "set ps \<subseteq> S" and ins: "\<And>s p. P s \<Longrightarrow> p \<in> set ps \<Longrightarrow> P (insertBundle p s)"
  shows "framed P S (AddToBundles E ps)"
  unfolding AddToBundles_def
proof (intro frame)
  fix s cert p
  assume p: "p \<in> set ps"
  show "framed P S (addToBundle E cert p)"
    unfolding addToBundle_def Let_def
    by (intro frame touches_lib(10,11) [OF lib] touch, simp split: prod.split)
      (use p sub ins in \<open>auto intro!: frame touch touches_lib(11) [OF lib]\<close>)
qed

lemma touches_libraryGoEnsureSubCA:
  assumes lib: "lib_frame E" and sub: "{c, k, f} \<union> serialFiles ca \<subseteq> S"
  shows "touches S (libraryGoEnsureSubCA E ca c k f n d)"
  unfolding libraryGoEnsureSubCA_def libraryGoMakeAndWriteSubCA_def
  by (intro touch touches_lib [OF lib]) (use sub in auto)

lemma libraryGoEnsureSubCA_serial:
  assumes "lib_serials E" "libraryGoEnsureSubCA E ca c k f n d w = (Ok ca', w')"
  shows "serialFiles ca' \<subseteq> {f}"
  using assms(2) lib_serialsD [OF assms(1)]
  by (auto simp: libraryGoEnsureSubCA_def libraryGoMakeAndWriteSubCA_def gom_iff
      dest!: lib_serialsD [OF assms(1)] simp: serialFiles_def split: if_splits)

lemma touches_writeSubCACert:
  assumes lib: "lib_frame E" and sub: "p \<in> S"
  shows "touches S (writeSubCACert E n p ca)"
  unfolding writeSubCACert_def Let_def
  by (intro touch touches_lib [OF lib]) (use sub in auto)

lemma framed_ensureSubCA:
  assumes "lib_frame E" "pins D C P" "cleanDir (bDir b)" "{p. below (bDir b) p} \<union> serialFiles C \<subseteq> S"
  shows "framed P S (ensureSubCA E b)"
  unfolding ensureSubCA_def
  by (intro framed_bind_getS frame touches_libraryGoEnsureSubCA [OF assms(1)])
    (use assms(4) pinsD [OF assms(2)] below_paths [OF assms(3)] in auto)

lemma ensureSubCA_serial:
  assumes "lib_serials E" "ensureSubCA E b (s, w) = (Ok ca, sw)"
  shows "serialFiles ca \<subseteq> {CASerialsPath (bDir b)}"
  using assms(2)
  by (auto simp: ensureSubCA_def bindG_getS gom_iff liftW_def
      dest!: libraryGoEnsureSubCA_serial [OF assms(1)])

text \<open>Completing a builder that has its authority, and signing an intermediate authority.\<close>

definition atSigner :: "string \<Rightarrow> CA \<Rightarrow> CertificateSigner \<Rightarrow> bool" where
  "atSigner D C s = (signerDir s = D \<and> signerConfig s = C)"

lemma pins_atSigner: "pins D C (atSigner D C)"
  by (simp add: pins_def atSigner_def)

lemma Complete_framed:
  assumes lib: "lib_frame E" "lib_serials E"
  shows "dirsOk b \<Longrightarrow> bConfig b = Some C \<Longrightarrow> footprint b \<union> serialFiles C \<subseteq> S \<Longrightarrow> touches S (Complete E b)"
    and "dirsOk b \<Longrightarrow> footprint b \<union> serialFiles C \<subseteq> S \<Longrightarrow> framed (atSigner D C) S (SignSubCA E b)"
  using lib
proof (induction E b and E b arbitrary: C and C D rule: Complete_SignSubCA.induct)
  case (1 E b)
  have subs: "footprint u \<subseteq> S" if "u \<in> set (bSubCAs b)" for u
    using 1(4) that footprint_sel [of b] by auto
  have dir: "{p. below (bDir b) p} \<subseteq> S" "set (bBundles b) \<subseteq> S"
    using 1(4) footprint_sel [of b] by auto
  have ok: "cleanDir (bDir b)" "\<forall>c\<in>set (bCerts b). plain (metaName (GetMeta c))" "\<forall>u\<in>set (bSubCAs b). dirsOk u"
    using 1(2) dirsOk_sel [of b] by auto
  have certs: "framed (atSigner (bDir b) C) S (SignCertificate E c)" if "c \<in> set (bCerts b)" for c
  proof (rule framed_SignCertificate [OF 1(5) _ pins_atSigner])
    show "plain (metaName (GetMeta c))" using ok that by simp
    then have "below (bDir b) (Join [bDir b, metaName (GetMeta c)])" using ok by (simp add: below_Join)
    then show "{p. below (Join [bDir b, metaName (GetMeta c)]) p} \<union> serialFiles C \<subseteq> S"
      using dir 1(4) below_trans by blast
  qed (simp add: atSigner_def)
  have cfg: "ensureConfig E b w = (Ok C, w)" for w by (simp add: ensureConfig_def 1(3) returnG_def)
  have "framed (atSigner (bDir b) C) S
      (bindG (forG (bSubCAs b) (\<lambda>sub. SignSubCA E sub)) (\<lambda>_.
       bindG (forG (bCerts b) (SignCertificate E)) (\<lambda>_. AddToBundles E (bBundles b))))"
    using 1(4) by (intro frame 1(1) [OF cfg _ _ _ 1(5,6)] certs framed_AddToBundles [OF 1(5) dir(2)])
      (auto simp: ok subs atSigner_def dest: subsetD [OF subs])
  from touches_runSigner [OF this, of "newSigner b C"] show ?case
    by (simp add: Complete.simps ensureConfig_def 1(3) atSigner_def)
next
  case (2 E b)
  have dir: "{p. below (bDir b) p} \<subseteq> S" "cleanDir (bDir b)"
    using 2(2,3) footprint_sel [of b] dirsOk_sel [of b] by auto
  show ?case
    unfolding SignSubCA.simps [of E b]
  proof (rule framed_bind_val)
    show "framed (atSigner D C) S (ensureSubCA E b)"
      using dir 2(3) by (intro framed_ensureSubCA [OF 2(4) pins_atSigner]) auto
    fix s w ca s' w'
    assume ens: "ensureSubCA E b (s, w) = (Ok ca, (s', w'))"
    then have ser: "serialFiles ca \<subseteq> S"
      using ensureSubCA_serial [OF 2(5)] below_paths(3) [OF dir(2)] dir(1) by blast
    note IH = 2(1) [OF ens _ _ _ _ 2(4,5)]
    show "framed (atSigner D C) S
       (bindG (liftW (writeSubCACert E (bName b) (CACertPath (bDir b)) ca)) (\<lambda>_.
        bindG (liftW (Complete E (WithSignerConfig ca b))) (\<lambda>sub. modS (putSubCA (signerName sub) sub))))"
    proof (rule framed_bind_val)
      show "framed (atSigner D C) S (liftW (writeSubCACert E (bName b) (CACertPath (bDir b)) ca))"
        using below_paths(1) [OF dir(2)] dir by (intro frame touches_writeSubCACert [OF 2(4)]) auto
      fix s w x s' w'
      assume "liftW (writeSubCACert E (bName b) (CACertPath (bDir b)) ca) (s, w) = (Ok x, (s', w'))"
      from IH [OF this] show "framed (atSigner D C) S
          (bindG (liftW (Complete E (WithSignerConfig ca b))) (\<lambda>sub. modS (putSubCA (signerName sub) sub)))"
        using 2(2,3) ser by (intro frame) (auto simp: atSigner_def)
    qed
  qed
qed

section \<open>Frames of regeneration\<close>

lemma framed_regenerateCertificate:
  assumes lib: "lib_frame E" and plain: "plain (metaName (GetMeta c))" and pins: "pins D C P"
    and sub: "{p. below (Join [D, metaName (GetMeta c)]) p} \<union> serialFiles C \<subseteq> S"
    and at: "\<And>s. P s \<Longrightarrow> map_option csrInfo (mapGet (signedCertificates s) n) = Some c"
    and put: "\<And>s j. P s \<Longrightarrow> csrInfo j = c \<Longrightarrow> P (putCert (metaName (GetMeta c)) j s)"
  shows "framed P S (regenerateCertificate E n)"
  unfolding regenerateCertificate_def
proof (rule framed_bind_getS)
  fix s
  assume P: "P s"
  then obtain i where i: "mapGet (signedCertificates s) n = Some i" "csrInfo i = c" using at by fastforce
  show "framed P S (case mapGet (signedCertificates s) n of
      None \<Rightarrow> failG (Errorf ''no certificate with name %q was found'' [n])
    | Some certInfo \<Rightarrow>
        let name = metaName (GetMeta (csrInfo certInfo)); certDir = Join [signerDir s, name] in
        bindG (wrapG (ErrorfV ''failed to remove cert dir %q: %v'' [certDir])
                 (liftW (os_RemoveAll E certDir))) (\<lambda>_.
        wrapG (ErrorfV ''failed to regenerate cert %q: %v'' [name])
          (SignCertificate E (csrInfo certInfo))))"
    unfolding i option.case Let_def
    by (intro frame touch framed_SignCertificate [OF lib plain pins])
      (use pinsD [OF pins P] sub put in auto)
qed

section \<open>What a completed signer looks like\<close>

fun isPeer :: "CSRInfo \<Rightarrow> bool" where
  "isPeer (PeerCSR _ _ _) = True"
| "isPeer _ = False"

definition csrName :: "CSRInfo \<Rightarrow> string" where
  "csrName i = metaName (GetMeta i)"

text \<open>
  The signer has the identity of the builder; below it there is one intermediate authority
  for each name of a builder below, realising such a builder; every recorded certificate
  comes from a request under its name, and every request but one for a peer is recorded.
\<close>

definition certsRealised :: "CSRInfo list \<Rightarrow> CSRInfo list \<Rightarrow> signedCertificateInfo gomap \<Rightarrow> bool" where
  "certsRealised handled all m =
     (mapWf m \<and> (\<forall>p\<in>set m. csrInfo (snd p) \<in> set all \<and> csrName (csrInfo (snd p)) = fst p) \<and>
      (\<forall>i\<in>set handled. handledCSR i \<and> (isPeer i \<or> mapGet m (csrName i) \<noteq> None)))"

definition sameIdent :: "certificateSigner \<Rightarrow> CertificateSigner \<Rightarrow> bool" where
  "sameIdent b s = (signerName s = bName b \<and> signerDir s = bDir b \<and> signerValidityDays s = bValidityDays b)"

function (sequential) realises :: "certificateSigner \<Rightarrow> CertificateSigner \<Rightarrow> bool" where
  "realises b s =
     (sameIdent b s \<and> mapWf (subCAs s) \<and>
      (\<forall>sub\<in>set (bSubCAs b). mapGet (subCAs s) (bName sub) \<noteq> None) \<and>
      (\<forall>p\<in>set (subCAs s). \<exists>sub\<in>set (bSubCAs b). bName sub = fst p \<and> realises sub (snd p)) \<and>
      certsRealised (bCerts b) (bCerts b) (signedCertificates s) \<and>
      set (caBundlePaths s) \<subseteq> set (bBundles b))"
  by pat_completeness auto
termination
  by (relation "measure (nodes \<circ> fst)") (auto dest: nodes_sub)

declare realises.simps [simp del]

lemma realises_WithSignerConfig [simp]: "realises (WithSignerConfig c b) s = realises b s"
  by (simp add: realises.simps [of b] realises.simps [of "WithSignerConfig c b"] sameIdent_def)

lemma mapPut_mem: "mapWf m \<Longrightarrow> (k, v) \<in> set (mapPut k' v' m) \<Longrightarrow> (k = k' \<and> v = v') \<or> (k, v) \<in> set m"
  by (metis gm.get_put gm.wf_put mapGet_def mapWf_def map_of_SomeD map_of_is_SomeI option.inject)

lemma liftW_iff [gom_iff]: "liftW m (s, w) = (r, (s', w')) \<longleftrightarrow> s' = s \<and> m w = (r, w')"
  by (auto simp: liftW_def zoomG_def split: prod.splits)

lemma runSigner_Ok_iff [gom_iff]: "runSigner s m w = (Ok s', w') \<longleftrightarrow> m (s, w) = (Ok (), (s', w'))"
  by (auto simp: runSigner_def split: prod.splits outcome.splits)

lemma putCert_ex [simp]: "\<exists>j. csrInfo j = i \<and> putCert n \<lparr>csrInfo = i, certTlsConfig = t\<rparr> s = putCert n j s"
  by (rule exI [of _ "\<lparr>csrInfo = i, certTlsConfig = t\<rparr>"]) simp

lemma SignSubCA_OkE:
  assumes "SignSubCA E b (s, w) = (Ok u, (s', w'))"
  obtains ca sub w1 where "Complete E (WithSignerConfig ca b) w1 = (Ok sub, w')"
    "s' = putSubCA (signerName sub) sub s" "\<exists>w0. ensureSubCA E b (s, w) = (Ok ca, (s, w0))"
  using assms
  by (auto simp: SignSubCA.simps ensureSubCA_def gom_iff liftW_def modS_def bindG_getS)

lemma SignCertificate_Ok:
  assumes "SignCertificate E i (s, w) = (Ok u, (s', w'))"
  shows "handledCSR i \<and> ((isPeer i \<and> s' = s) \<or> (\<exists>j. csrInfo j = i \<and> s' = putCert (csrName i) j s))"
  using assms
  by (cases i)
    (auto simp: SignCertificate_def SignClientCertificate_def SignServingCertificate_def
      SignPeerCertificate_def Let_def bindG_getS gom_iff modS_def csrName_def)

lemma AddToBundles_Ok:
  assumes "AddToBundles E ps (s, w) = (r, (s', w'))"
  shows "signerName s' = signerName s \<and> signerConfig s' = signerConfig s \<and> signerDir s' = signerDir s \<and>
    signerValidityDays s' = signerValidityDays s \<and> subCAs s' = subCAs s \<and>
    signedCertificates s' = signedCertificates s \<and> set (caBundlePaths s) \<subseteq> set (caBundlePaths s') \<and>
    set (caBundlePaths s') \<subseteq> set (caBundlePaths s) \<union> set ps"
proof -
  let ?P = "\<lambda>t. signerName t = signerName s \<and> signerConfig t = signerConfig s \<and> signerDir t = signerDir s \<and>
    signerValidityDays t = signerValidityDays s \<and> subCAs t = subCAs s \<and>
    signedCertificates t = signedCertificates s \<and> set (caBundlePaths s) \<subseteq> set (caBundlePaths t) \<and>
    set (caBundlePaths t) \<subseteq> set (caBundlePaths s) \<union> set ps"
  have any: "touches UNIV (m :: (world, 'x) go)" for m by (simp add: touches_def fs.agree_def)
  have "framed ?P UNIV (addToBundle E cert p)" if "p \<in> set ps" for cert p
    unfolding addToBundle_def Let_def
    by (intro frame any, simp split: prod.split) (use that in \<open>auto intro!: frame any\<close>)
  then have "framed ?P UNIV (AddToBundles E ps)"
    unfolding AddToBundles_def by (intro frame) auto
  from framedD [OF this assms] show ?thesis by simp
qed

lemma certsRealised_step:
  assumes "SignCertificate E x (s, w) = (Ok u, (s', w'))" "certsRealised handled all (signedCertificates s)" "x \<in> set all"
  shows "certsRealised (handled @ [x]) all (signedCertificates s') \<and> subCAs s' = subCAs s \<and>
    caBundlePaths s' = caBundlePaths s \<and> sameIdent b s' = sameIdent b s"
  using SignCertificate_Ok [OF assms(1)] assms(2,3)
  by (auto simp: certsRealised_def sameIdent_def gm.wf_put dest!: mapPut_mem [rotated] split: if_splits)

lemma certs_loop:
  assumes "forG cs (SignCertificate E) (s, w) = (Ok u, (s', w'))" "signedCertificates s = []"
  shows "certsRealised cs cs (signedCertificates s') \<and> subCAs s' = subCAs s \<and>
    caBundlePaths s' = caBundlePaths s \<and> sameIdent b s' = sameIdent b s"
proof -
  let ?I = "\<lambda>handled. \<lambda>(t, _). certsRealised handled cs (signedCertificates t) \<and> subCAs t = subCAs s \<and>
    caBundlePaths t = caBundlePaths s \<and> sameIdent b t = sameIdent b s"
  have "?I cs (s', w')"
  proof (rule forG_Ok_prefix [where I = ?I, OF assms(1)])
    fix handled x t t'
    assume "set handled \<union> {x} \<subseteq> set cs" "?I handled t" "SignCertificate E x t = (Ok (), t')"
    then show "?I (handled @ [x]) t'"
      by (cases t, cases t') (auto dest: certsRealised_step)
  qed (use assms(2) in \<open>simp add: certsRealised_def\<close>)
  then show ?thesis by simp
qed

definition subsRealised :: "certificateSigner list \<Rightarrow> certificateSigner list \<Rightarrow> CertificateSigner gomap \<Rightarrow> bool" where
  "subsRealised handled all m =
     (mapWf m \<and> (\<forall>sub\<in>set handled. mapGet m (bName sub) \<noteq> None) \<and>
      (\<forall>p\<in>set m. \<exists>sub\<in>set all. bName sub = fst p \<and> realises sub (snd p)))"

lemma subs_loop:
  assumes step: "\<And>x s w s' w'. x \<in> set bs \<Longrightarrow> SignSubCA E x (s, w) = (Ok (), (s', w')) \<Longrightarrow>
      \<exists>sub. realises x sub \<and> s' = putSubCA (bName x) sub s"
    and run: "forG bs (\<lambda>x. SignSubCA E x) (s, w) = (Ok u, (s', w'))" and "subCAs s = []"
  shows "subsRealised bs bs (subCAs s') \<and> signedCertificates s' = signedCertificates s \<and>
    caBundlePaths s' = caBundlePaths s \<and> sameIdent b s' = sameIdent b s"
proof -
  let ?I = "\<lambda>handled. \<lambda>(t, _). subsRealised handled bs (subCAs t) \<and>
    signedCertificates t = signedCertificates s \<and> caBundlePaths t = caBundlePaths s \<and> sameIdent b t = sameIdent b s"
  have "?I bs (s', w')"
  proof (rule forG_Ok_prefix [where I = ?I, OF run])
    fix handled x t t'
    assume x: "set handled \<union> {x} \<subseteq> set bs" and I: "?I handled t" and f: "SignSubCA E x t = (Ok (), t')"
    obtain a v a' v' where t: "t = (a, v)" "t' = (a', v')" by force
    with step [of x a v a' v'] x f obtain sub where "realises x sub" "a' = putSubCA (bName x) sub a" by auto
    then show "?I (handled @ [x]) t'"
      using I x by (auto simp: t subsRealised_def sameIdent_def gm.wf_put dest!: mapPut_mem [rotated] split: if_splits)
  qed (use assms(3) in \<open>simp add: subsRealised_def\<close>)
  then show ?thesis by simp
qed

lemma Complete_realises: "Complete E b w = (Ok s, w') \<Longrightarrow> realises b s"
  and SignSubCA_realises:
    "SignSubCA E b (s, w) = (Ok u, (s', w')) \<Longrightarrow> \<exists>sub. realises b sub \<and> s' = putSubCA (bName b) sub s"
proof (induction E b and E b arbitrary: w s w' and s w u s' w' rule: Complete_SignSubCA.induct)
  case (1 E b)
  from 1(2) obtain cfg w0 s1 w1 s2 w2 where cfg: "ensureConfig E b w = (Ok cfg, w0)" and
    f1: "forG (bSubCAs b) (\<lambda>sub. SignSubCA E sub) (newSigner b cfg, w0) = (Ok (), (s1, w1))" and
    f2: "forG (bCerts b) (SignCertificate E) (s1, w1) = (Ok (), (s2, w2))" and
    f3: "AddToBundles E (bBundles b) (s2, w2) = (Ok (), (s, w'))"
    by (auto simp: Complete.simps [of E b] gom_iff)
  have s1: "subsRealised (bSubCAs b) (bSubCAs b) (subCAs s1)" "signedCertificates s1 = []"
      "caBundlePaths s1 = []" "sameIdent b s1"
    using subs_loop [where b = b, OF 1(1) [OF cfg] f1] by (simp_all add: sameIdent_def)
  show ?case
    using s1 certs_loop [where b = b, OF f2 s1(2)] AddToBundles_Ok [OF f3]
    by (simp add: realises.simps [of b] subsRealised_def sameIdent_def)
next
  case (2 E b)
  from 2(2) obtain ca w0 w1 sub where ens: "ensureSubCA E b (s, w) = (Ok ca, (s, w0))"
    and wr: "liftW (writeSubCACert E (bName b) (CACertPath (bDir b)) ca) (s, w0) = (Ok (), (s, w1))"
    and co: "Complete E (WithSignerConfig ca b) w1 = (Ok sub, w')" and s': "s' = putSubCA (signerName sub) sub s"
    by (auto simp: SignSubCA.simps [of E b] ensureSubCA_def bindG_getS gom_iff modS_def)
  from 2(1) [OF ens wr co] have "realises b sub" by simp
  moreover from this have "signerName sub = bName b" by (simp add: realises.simps [of b sub] sameIdent_def)
  ultimately show ?case by (intro exI [of _ sub]) (simp add: s')
qed

section \<open>Well-formed signers\<close>

text \<open>Every intermediate authority and every certificate is filed under its own name.\<close>

function (sequential) wfSigner :: "CertificateSigner \<Rightarrow> bool" where
  "wfSigner s =
     (mapWf (subCAs s) \<and> (\<forall>p\<in>set (subCAs s). signerName (snd p) = fst p \<and> wfSigner (snd p)) \<and>
      mapWf (signedCertificates s) \<and>
      (\<forall>p\<in>set (signedCertificates s). csrName (csrInfo (snd p)) = fst p \<and> handledCSR (csrInfo (snd p))))"
  by pat_completeness auto
termination
  by (relation "measure size") (auto dest: size_subCA)

text \<open>The footprint of a signer, and the names and directories in its tree, as for a builder.\<close>

function (sequential) footprintS :: "CertificateSigner \<Rightarrow> string set" where
  "footprintS s = {p. below (signerDir s) p} \<union> set (caBundlePaths s) \<union> (\<Union>q\<in>set (subCAs s). footprintS (snd q))"
  by pat_completeness auto
termination
  by (relation "measure size") (auto dest: size_subCA)

function (sequential) dirsOkS :: "CertificateSigner \<Rightarrow> bool" where
  "dirsOkS s =
     (cleanDir (signerDir s) \<and> (\<forall>p\<in>set (signedCertificates s). plain (fst p)) \<and>
      (\<forall>q\<in>set (subCAs s). dirsOkS (snd q)))"
  by pat_completeness auto
termination
  by (relation "measure size") (auto dest: size_subCA)

declare wfSigner.simps [simp del] footprintS.simps [simp del] dirsOkS.simps [simp del]

lemma realises_wf:
  "realises b s \<Longrightarrow> wfSigner s"
  "realises b s \<Longrightarrow> dirsOk b \<Longrightarrow> dirsOkS s"
  "realises b s \<Longrightarrow> footprintS s \<subseteq> footprint b"
proof (induction b s rule: realises.induct)
  case (1 b s)
  { case 1
    then have "sub \<in> set (bSubCAs b) \<Longrightarrow> realises sub u \<Longrightarrow> signerName u = bName sub" for sub u
      by (simp add: realises.simps [of sub u] sameIdent_def)
    with 1 show ?case
      using "1.IH"(1)
      by (fastforce simp: realises.simps [of b s] wfSigner.simps [of s] certsRealised_def)
  next
    case 2
    then show ?case using "1.IH"(2)
      by (fastforce simp: realises.simps [of b s] dirsOkS.simps [of s] dirsOk_sel [of b] sameIdent_def
          certsRealised_def csrName_def)
  next
    case 3
    then show ?case using "1.IH"(3)
      by (fastforce simp: realises.simps [of b s] footprintS.simps [of s] footprint_sel [of b] sameIdent_def) }
qed

lemma sequenceO_Ok:
  "(\<And>x. x \<in> set xs \<Longrightarrow> \<exists>y. f x = Ok y \<and> R x y) \<Longrightarrow>
   \<exists>ys. sequenceO (map f xs) = Ok ys \<and> (\<forall>x\<in>set xs. \<exists>y\<in>set ys. R x y) \<and> (\<forall>y\<in>set ys. \<exists>x\<in>set xs. R x y)"
proof (induction xs)
  case (Cons x xs)
  from Cons.prems [of x] obtain y where "f x = Ok y" "R x y" by auto
  moreover from Cons.IH Cons.prems obtain ys where
    "sequenceO (map f xs) = Ok ys" "\<forall>x\<in>set xs. \<exists>y\<in>set ys. R x y" "\<forall>y\<in>set ys. \<exists>x\<in>set xs. R x y" by auto
  ultimately show ?case by auto
qed simp

text \<open>\<open>b\<close> is the builder of \<open>s\<close>, and describes it.\<close>

definition builtFrom :: "env \<Rightarrow> CertificateSigner \<Rightarrow> certificateSigner \<Rightarrow> bool" where
  "builtFrom E s b = (toBuilder E s = Ok b \<and> realises b s \<and> bConfig b = None \<and> bCAInfo b = None \<and>
     footprint b = footprintS s \<and> dirsOk b = dirsOkS s)"

lemma builtFrom_name: "builtFrom E s b \<Longrightarrow> bName b = signerName s"
  by (simp add: builtFrom_def realises.simps [of b s] sameIdent_def)

lemma certsRealised_self:
  assumes "mapWf m" "\<forall>p\<in>set m. csrName (csrInfo (snd p)) = fst p \<and> handledCSR (csrInfo (snd p))"
    and "set cs = (\<lambda>p. csrInfo (snd p)) ` set m"
  shows "certsRealised cs cs m"
  unfolding certsRealised_def assms(3) using assms(1,2)
  by (auto simp: mapGet_def mapWf_def intro: map_of_is_SomeI)

lemma builtFrom_node:
  assumes wf: "wfSigner s" and "toBuilder E s = Ok b"
    and b: "b = Builder (signerName s) (signerDir s) (signerValidityDays s) None bs cs ps None"
    and fwd: "\<forall>q\<in>set (subCAs s). \<exists>u\<in>set bs. builtFrom E (snd q) u"
    and bwd: "\<forall>u\<in>set bs. \<exists>q\<in>set (subCAs s). builtFrom E (snd q) u"
    and cs: "set cs = (\<lambda>p. csrInfo (snd p)) ` set (signedCertificates s)"
    and ps: "set ps = set (caBundlePaths s)"
  shows "builtFrom E s b"
proof -
  note wf' = wf [unfolded wfSigner.simps [of s]]
  have certs: "certsRealised cs cs (signedCertificates s)"
    using wf' cs by (intro certsRealised_self) auto
  have names: "mapGet (subCAs s) (bName u) \<noteq> None" if "u \<in> set bs" for u
    using bwd that wf' builtFrom_name
    by (metis map_of_is_SomeI mapGet_def mapWf_def option.distinct(1) prod.collapse)
  have subs: "\<exists>u\<in>set bs. bName u = fst q \<and> realises u (snd q)" if "q \<in> set (subCAs s)" for q
    using fwd that wf' by (metis builtFrom_def builtFrom_name)
  have "realises b s"
    using certs names subs wf' by (simp add: b realises.simps [of _ s] sameIdent_def ps)
  moreover have "(\<Union>u\<in>set bs. footprint u) = (\<Union>q\<in>set (subCAs s). footprintS (snd q))"
    using fwd bwd unfolding builtFrom_def by blast
  moreover have "(\<forall>u\<in>set bs. dirsOk u) = (\<forall>q\<in>set (subCAs s). dirsOkS (snd q))"
    using fwd bwd unfolding builtFrom_def by blast
  moreover have "(\<forall>p\<in>set (signedCertificates s). plain (csrName (csrInfo (snd p)))) =
      (\<forall>p\<in>set (signedCertificates s). plain (fst p))"
    using wf' by (intro ball_cong) simp_all
  ultimately show ?thesis
    using assms(2)
    by (simp add: builtFrom_def b footprintS.simps [of s] dirsOkS.simps [of s] ps cs csrName_def)
qed

lemma toBuilder_builtFrom:
  assumes ord: "range_ok (range_order E)"
  shows "wfSigner s \<Longrightarrow> \<exists>b. builtFrom E s b"
  using ord
proof (induction E s rule: toBuilder.induct)
  case (1 E s)
  note wf = 1(2) [unfolded wfSigner.simps [of s]]
  let ?subs = "mapRange (range_order E) (subCAs s)"
  let ?csrs = "map (\<lambda>(_, i). csrInfo i) (mapRange (range_order E) (signedCertificates s))"
  have subs: "set ?subs = set (subCAs s)"
    and csrs: "set ?csrs = (\<lambda>p. csrInfo (snd p)) ` set (signedCertificates s)"
    using wf set_mapRange [OF 1(3)] by (auto simp: case_prod_beta')
  have bun: "set (range_order E (caBundlePaths s)) = set (caBundlePaths s)"
    using 1(3) by (simp add: range_ok_def)
  have IH: "\<exists>b. toBuilder E (snd q) = Ok b \<and> builtFrom E (snd q) b" if "q \<in> set ?subs" for q
    using 1(1) [OF that, of "fst q" "snd q"] that wf subs 1(3) by (auto simp: builtFrom_def)
  obtain bs where bs: "sequenceO (map (\<lambda>q. toBuilder E (snd q)) ?subs) = Ok bs"
    and fwd: "\<forall>q\<in>set ?subs. \<exists>b\<in>set bs. builtFrom E (snd q) b"
    and bwd: "\<forall>b\<in>set bs. \<exists>q\<in>set ?subs. builtFrom E (snd q) b"
    using sequenceO_Ok [where R = "\<lambda>q. builtFrom E (snd q)" and xs = ?subs and f = "\<lambda>q. toBuilder E (snd q)"] IH
    by blast
  have handled: "\<forall>c\<in>set ?csrs. handledCSR c" using wf csrs by auto
  then have tb: "toBuilder E s = Ok (Builder (signerName s) (signerDir s) (signerValidityDays s) None bs ?csrs
      (range_order E (caBundlePaths s)) None)"
    using bs by (simp add: toBuilder.simps [of E s] NewCertificateSigner_def case_prod_beta')
  show ?case
    using builtFrom_node [OF 1(2) tb refl _ _ csrs bun] fwd bwd subs by blast
qed

section \<open>Regenerating an intermediate authority\<close>

lemma bindG_apply:
  "bindG m f s = (case m s of (Ok x, t) \<Rightarrow> f x t | (Err e, t) \<Rightarrow> (Err e, t) | (Panic p, t) \<Rightarrow> (Panic p, t))"
  by (simp add: bindG_def)

text \<open>A program that fails or panics leaves the signer alone, and one that succeeds puts one authority below it.\<close>

lemma SignSubCA_outcome:
  assumes "SignSubCA E b (s, w) = (r, (s', w'))"
  shows "s' = s \<or> (r = Ok () \<and> (\<exists>sub. realises b sub \<and> s' = putSubCA (bName b) sub s))"
proof (cases r)
  case (Ok u)
  then show ?thesis using SignSubCA_realises [of E b s w u s' w'] assms by auto
qed (use assms in \<open>auto simp: SignSubCA.simps [of E b] ensureSubCA_def bindG_apply getS_def wrapG_def
      liftW_def zoomG_def modS_def split: prod.splits outcome.splits\<close>)

lemma guarded_step_fail:
  assumes "bindG (wrapG g (liftW m)) (\<lambda>_. wrapG h n) (s, w) = (r, (s', w'))" "r \<noteq> Ok ()"
    and "\<And>v q t v'. n (s, v) = (q, (t, v')) \<Longrightarrow> q \<noteq> Ok () \<Longrightarrow> t = s"
  shows "s' = s"
proof -
  obtain a v where m: "m w = (a, v)" by force
  obtain q t v' where n: "n (s, v) = (q, (t, v'))" by (metis surj_pair)
  show ?thesis
    using assms(1,2) assms(3) [OF n] m n
    by (cases a; cases q) (auto simp: bindG_def wrapG_def liftW_def zoomG_def)
qed

lemma regenerateSubCA_missing:
  "GetSubCA s n = None \<Longrightarrow> regenerateSubCA E n (s, w) = (Err (SignerNotFound n), (s, w))"
  by (simp add: regenerateSubCA_def bindG_getS failG_def NewSignerNotFound_def)

lemma ofO_return [simp]: "ofO (Ok x) = returnG x"
  by (simp add: ofO_def returnG_def)

lemma regenerateSubCA_known:
  assumes "GetSubCA s n = Some u"
  shows "regenerateSubCA E n (s, w) =
    bindG (wrapG (ErrorfV ''failed to remove subCA dir %q: %v'' [signerDir u]) (liftW (os_RemoveAll E (signerDir u))))
      (\<lambda>_. wrapG (ErrorfV ''failed to regenerate subCA %q certificate: %v'' [signerName u])
              (bindG (ofO (toBuilder E u)) (SignSubCA E))) (s, w)"
  using assms by (simp add: regenerateSubCA_def bindG_getS)

lemma regenerateSubCA_opaque:
  assumes "GetSubCA s n = Some u" "regenerateSubCA E n (s, w) = (Err e, sw)"
  shows "\<not> IsSignerNotFoundError e"
  using assms(2) unfolding regenerateSubCA_known [OF assms(1)]
  by (auto simp: bindG_apply wrapG_def split: prod.splits outcome.splits)

lemma regenerateSubCA_effect:
  assumes lib: "lib_frame E" "lib_serials E" "range_ok (range_order E)"
    and wf: "wfSigner s" "dirsOkS s" and sub: "GetSubCA s n = Some u"
    and run: "regenerateSubCA E n (s, w) = (r, (s', w'))"
  shows "fs.agree (footprintS u \<union> serialFiles (signerConfig s)) w w' \<and>
    (s' = s \<and> r \<noteq> Ok () \<or> (\<exists>b u'. builtFrom E u b \<and> realises b u' \<and> s' = putSubCA n u' s \<and> r = Ok ()))"
proof -
  let ?S = "footprintS u \<union> serialFiles (signerConfig s)"
  have mem: "(n, u) \<in> set (subCAs s)" using sub by (auto simp: GetSubCA_def mapGet_def dest: map_of_SomeD)
  then have u: "wfSigner u" "dirsOkS u" "signerName u = n"
    using wf by (auto simp: wfSigner.simps [of s] dirsOkS.simps [of s])
  obtain b where b: "builtFrom E u b" using toBuilder_builtFrom [OF lib(3) u(1)] by blast
  then have bn: "bName b = n" "footprint b = footprintS u" "dirsOk b" "toBuilder E u = Ok b"
    using u builtFrom_name [OF b] by (auto simp: builtFrom_def)
  let ?m = "bindG (wrapG (ErrorfV ''failed to remove subCA dir %q: %v'' [signerDir u]) (liftW (os_RemoveAll E (signerDir u))))
      (\<lambda>_. wrapG (ErrorfV ''failed to regenerate subCA %q certificate: %v'' [signerName u]) (SignSubCA E b))"
  have run': "?m (s, w) = (r, (s', w'))"
    using run bn(4) by (simp add: regenerateSubCA_known [OF sub])
  have "framed (atSigner (signerDir s) (signerConfig s)) ?S (SignSubCA E b)"
    using Complete_framed(2) [OF lib(1,2) bn(3)] bn(2) by simp
  then have "framed (atSigner (signerDir s) (signerConfig s)) ?S ?m"
    by (intro frame touch) (auto simp: footprintS.simps [of u])
  from framedD [OF this run'] have "fs.agree ?S w w'" by (simp add: atSigner_def)
  moreover have "s' = s \<and> r \<noteq> Ok () \<or> (\<exists>u'. realises b u' \<and> s' = putSubCA n u' s \<and> r = Ok ())"
  proof (cases "r = Ok ()")
    case True
    then show ?thesis using run' SignSubCA_realises [of E b s _ "()" s' w'] bn(1) by (auto simp: gom_iff)
  next
    case False
    then show ?thesis using guarded_step_fail [OF run' False] SignSubCA_outcome by blast
  qed
  ultimately show ?thesis using b by blast
qed

section \<open>Regeneration as a whole\<close>

text \<open>The well-formed signers named \<open>N\<close> whose tree lies in \<open>F\<close>, and whose serial file is in \<open>S\<close>.\<close>

definition tended :: "string \<Rightarrow> string set \<Rightarrow> string set \<Rightarrow> CertificateSigner \<Rightarrow> bool" where
  "tended N F S s = (signerName s = N \<and> wfSigner s \<and> dirsOkS s \<and> footprintS s \<subseteq> F \<and>
     F \<union> serialFiles (signerConfig s) \<subseteq> S)"

lemma tended_sel: "tended N F S s \<longleftrightarrow>
    signerName s = N \<and> mapWf (subCAs s) \<and> mapWf (signedCertificates s) \<and> cleanDir (signerDir s) \<and>
    (\<forall>p\<in>set (subCAs s). signerName (snd p) = fst p \<and> wfSigner (snd p) \<and> dirsOkS (snd p) \<and> footprintS (snd p) \<subseteq> F) \<and>
    (\<forall>p\<in>set (signedCertificates s). csrName (csrInfo (snd p)) = fst p \<and> handledCSR (csrInfo (snd p)) \<and> plain (fst p)) \<and>
    {p. below (signerDir s) p} \<subseteq> F \<and> set (caBundlePaths s) \<subseteq> F \<and> F \<subseteq> S \<and> serialFiles (signerConfig s) \<subseteq> S"
  unfolding tended_def wfSigner.simps [of s] dirsOkS.simps [of s] footprintS.simps [of s]
    ball_conj_distrib Un_subset_iff UN_subset_iff by blast

lemma mapPut_all:
  "mapWf m \<Longrightarrow> (\<forall>p\<in>set m. Q p) \<Longrightarrow> Q (k, v) \<Longrightarrow> \<forall>p\<in>set (mapPut k v m). Q p"
  using mapPut_mem by fastforce

lemma tended_putSubCA:
  assumes "tended N F S s" "wfSigner u" "dirsOkS u" "signerName u = n" "footprintS u \<subseteq> F"
  shows "tended N F S (putSubCA n u s)"
  using assms unfolding tended_sel signer_upd_simps
  by (intro conjI mapPut_all gm.wf_put) simp_all

lemma tended_putCert:
  assumes "tended N F S s" "csrName (csrInfo j) = n" "handledCSR (csrInfo j)" "plain n"
  shows "tended N F S (putCert n j s)"
  using assms unfolding tended_sel signer_upd_simps
  by (intro conjI mapPut_all gm.wf_put) simp_all

lemma tended_setSignerConfig:
  "tended N F S s \<Longrightarrow> serialFiles c \<subseteq> S \<Longrightarrow> tended N F S (setSignerConfig c s)"
  by (simp add: tended_sel)

lemma tended_insertBundle: "tended N F S s \<Longrightarrow> p \<in> F \<Longrightarrow> tended N F S (insertBundle p s)"
  by (simp add: tended_sel)

lemma framed_regenerateSubCA:
  assumes lib: "lib_frame E" "lib_serials E" "range_ok (range_order E)"
  shows "framed (tended N F S) S (regenerateSubCA E n)"
proof (rule framedI)
  fix s w r s' w'
  assume t: "tended N F S s" and run: "regenerateSubCA E n (s, w) = (r, (s', w'))"
  show "tended N F S s' \<and> fs.agree S w w'"
  proof (cases "GetSubCA s n")
    case None
    then show ?thesis using run t by (simp add: regenerateSubCA_missing fs.agree_refl)
  next
    case (Some u)
    then have "(n, u) \<in> set (subCAs s)" by (auto simp: GetSubCA_def mapGet_def dest: map_of_SomeD)
    then have u: "signerName u = n" "dirsOkS u" "footprintS u \<subseteq> F" "F \<subseteq> S"
      using t unfolding tended_sel by force+
    note eff = regenerateSubCA_effect [OF lib _ _ Some run]
    have "tended N F S (putSubCA n u' s)" if "builtFrom E u b" "realises b u'" for b u'
    proof (rule tended_putSubCA [OF t])
      show "signerName u' = n"
        using that u builtFrom_name [OF that(1)] by (simp add: realises.simps [of b u'] sameIdent_def)
    qed (use realises_wf [OF that(2)] that(1) u in \<open>auto simp: builtFrom_def\<close>)
    moreover have "footprintS u \<union> serialFiles (signerConfig s) \<subseteq> S"
      using u(3,4) t by (auto simp: tended_def)
    ultimately show ?thesis
      using eff t fs.agree_mono unfolding tended_def by blast
  qed
qed

lemma framed_regenerateCert:
  assumes lib: "lib_frame E"
  shows "framed (tended N F S) S (regenerateCertificate E n)"
proof (rule framedI)
  fix s w r s' w'
  assume t: "tended N F S s" and run: "regenerateCertificate E n (s, w) = (r, (s', w'))"
  show "tended N F S s' \<and> fs.agree S w w'"
  proof (cases "mapGet (signedCertificates s) n")
    case None
    then show ?thesis using run t by (auto simp: regenerateCertificate_def bindG_getS failG_def fs.agree_refl)
  next
    case (Some i)
    let ?c = "csrInfo i" and ?D = "signerDir s" and ?C = "signerConfig s"
    let ?P = "\<lambda>t. tended N F S t \<and> atSigner ?D ?C t \<and> map_option csrInfo (mapGet (signedCertificates t) n) = Some ?c"
    have "(n, i) \<in> set (signedCertificates s)" using Some by (auto simp: mapGet_def dest: map_of_SomeD)
    then have i: "csrName ?c = n" "handledCSR ?c" "plain n" "cleanDir ?D" "{p. below ?D p} \<union> serialFiles ?C \<subseteq> S"
      using t unfolding tended_sel by force+
    have "framed ?P S (regenerateCertificate E n)"
    proof (rule framed_regenerateCertificate [OF lib, where c = ?c and D = ?D and C = ?C])
      show "{p. below (Join [?D, metaName (GetMeta ?c)]) p} \<union> serialFiles ?C \<subseteq> S"
        using i below_Join [of ?D n] below_trans by (auto simp: csrName_def)
    qed (use i tended_putCert in \<open>auto simp: pins_def atSigner_def csrName_def\<close>)
    from framedD [OF this run] show ?thesis using t Some by (simp add: atSigner_def)
  qed
qed

lemma framed_regenerateSelf:
  assumes lib: "lib_frame E" "lib_serials E" "range_ok (range_order E)"
  shows "framed (tended N F S) S (regenerateSelf E)"
  unfolding regenerateSelf_def
proof (rule framed_bind_getS)
  fix s
  assume t: "tended N F S s"
  then have d: "cleanDir (signerDir s)" "{p. below (signerDir s) p} \<subseteq> S" "set (caBundlePaths s) \<subseteq> F" "F \<subseteq> S"
    by (auto simp: tended_sel)
  note bp = below_paths [OF d(1)]
  have ps: "set (range_order E (caBundlePaths s)) \<subseteq> F" using d(3) lib(3) by (simp add: range_ok_def)
  have rest: "framed (tended N F S) S (bindG (modS (setSignerConfig ca)) (\<lambda>_. AddToBundles E (range_order E (caBundlePaths s))))"
    if "serialFiles ca \<subseteq> S" for ca
    using that ps d(4) by (intro frame framed_AddToBundles [OF lib(1)]) (auto intro: tended_setSignerConfig tended_insertBundle)
  have ens: "framed (tended N F S) S (wrapG (ErrorfW ''failed to regenerate %s CA certificate: %w'' [signerName s])
       (liftW (lib_EnsureCA E (CACertPath (signerDir s)) (CAKeyPath (signerDir s))
                 (CASerialsPath (signerDir s)) (signerName s) (signerValidityDays s))))"
    using d(2) bp by (intro frame touches_lib(1) [OF lib(1)]) auto
  have rm: "touches S (os_RemoveAll E (signerDir s))" using d(2) by (rule touch)
  show "framed (tended N F S) S
      (bindG (wrapG (ErrorfV ''failed to regenerate CA %q: %v'' [signerName s]) (liftW (os_RemoveAll E (signerDir s)))) (\<lambda>_.
       bindG (wrapG (ErrorfW ''failed to regenerate %s CA certificate: %w'' [signerName s])
         (liftW (lib_EnsureCA E (CACertPath (signerDir s)) (CAKeyPath (signerDir s))
                   (CASerialsPath (signerDir s)) (signerName s) (signerValidityDays s)))) (\<lambda>ca.
       bindG (modS (setSignerConfig ca)) (\<lambda>_. AddToBundles E (range_order E (caBundlePaths s))))))"
    using bp(3) d(2)
    by (intro framed_bind framed_wrap framed_liftW rm framed_bind_val [OF ens] rest)
      (auto simp: gom_iff dest!: lib_serialsD(1) [OF lib(2)])
qed

lemma framed_bindS:
  "(\<And>s. framed P S (f s)) \<Longrightarrow> framed P S (bindG getS f)"
  by (intro frame)

lemma framed_regenerateAll:
  assumes "lib_frame E" "lib_serials E" "range_ok (range_order E)"
  shows "framed (tended N F S) S (signerRegenerate E [])"
  unfolding signerRegenerate.simps
  by (intro frame framed_regenerateSelf framed_regenerateSubCA framed_regenerateCert assms)

text \<open>The files that regenerating the element at a path may change.\<close>

fun regenFootprint :: "CertificateSigner \<Rightarrow> string list \<Rightarrow> string set" where
  "regenFootprint s [] = footprintS s \<union> serialFiles (signerConfig s)"
| "regenFootprint s [n] =
     (case GetSubCA s n of Some u \<Rightarrow> footprintS u | None \<Rightarrow> {p. below (Join [signerDir s, n]) p})
     \<union> serialFiles (signerConfig s)"
| "regenFootprint s (n # m # rest) =
     (case GetSubCA s n of Some u \<Rightarrow> regenFootprint u (m # rest) | None \<Rightarrow> {})"

text \<open>The error that starts the search for a certificate can only say that no authority has the name.\<close>

lemma signerRegenerate_one:
  "signerRegenerate E [n] (s, w) =
     (if GetSubCA s n = None then regenerateCertificate E n (s, w) else regenerateSubCA E n (s, w))"
proof (cases "GetSubCA s n")
  case None
  then show ?thesis by (simp add: tryG_def regenerateSubCA_missing)
next
  case (Some u)
  then show ?thesis
    using regenerateSubCA_opaque [OF Some]
    by (auto simp: tryG_def returnG_def failG_def split: prod.splits outcome.splits)
qed

lemma tended_self:
  "wfSigner s \<Longrightarrow> dirsOkS s \<Longrightarrow>
   tended (signerName s) (footprintS s) (footprintS s \<union> serialFiles (signerConfig s)) s"
  by (simp add: tended_def)

lemma GetSubCA_parts:
  assumes "wfSigner s" "dirsOkS s" "GetSubCA s n = Some u"
  shows "wfSigner u" "dirsOkS u" "signerName u = n" "footprintS u \<subseteq> footprintS s"
proof -
  have "(n, u) \<in> set (subCAs s)" using assms(3) by (auto simp: GetSubCA_def mapGet_def dest: map_of_SomeD)
  then show "wfSigner u" "dirsOkS u" "signerName u = n" "footprintS u \<subseteq> footprintS s"
    using tended_self [OF assms(1,2)] assms(1,2)
    by (force simp: wfSigner.simps [of s] dirsOkS.simps [of s] footprintS.simps [of s])+
qed

lemma regenerateCertificate_frame:
  assumes lib: "lib_frame E" and wf: "wfSigner s" "dirsOkS s"
    and run: "regenerateCertificate E n (s, w) = (r, (s', w'))"
  shows "fs.agree ({p. below (Join [signerDir s, n]) p} \<union> serialFiles (signerConfig s)) w w'"
proof (cases "mapGet (signedCertificates s) n")
  case None
  then show ?thesis using run by (simp add: regenerateCertificate_def bindG_getS failG_def fs.agree_refl)
next
  case (Some i)
  let ?S = "{p. below (Join [signerDir s, n]) p} \<union> serialFiles (signerConfig s)"
  let ?P = "\<lambda>t. atSigner (signerDir s) (signerConfig s) t \<and> map_option csrInfo (mapGet (signedCertificates t) n) = Some (csrInfo i)"
  have "(n, i) \<in> set (signedCertificates s)" using Some by (auto simp: mapGet_def dest: map_of_SomeD)
  then have i: "csrName (csrInfo i) = n" "plain n"
    using tended_self [OF wf] unfolding tended_sel by force+
  then have "framed ?P ?S (regenerateCertificate E n)"
    by (intro framed_regenerateCertificate [OF lib, where c = "csrInfo i" and D = "signerDir s" and C = "signerConfig s"])
      (auto simp: csrName_def pins_def atSigner_def)
  from framedD [OF this run] show ?thesis using Some by (simp add: atSigner_def)
qed

lemma signerRegenerate_effect:
  assumes lib: "lib_frame E" "lib_serials E" "range_ok (range_order E)"
  shows "wfSigner s \<Longrightarrow> dirsOkS s \<Longrightarrow> signerRegenerate E path (s, w) = (r, (s', w')) \<Longrightarrow>
    wfSigner s' \<and> dirsOkS s' \<and> signerName s' = signerName s \<and> footprintS s' \<subseteq> footprintS s \<and>
    fs.agree (regenFootprint s path) w w'"
  using lib
proof (induction E path arbitrary: s s' w w' r rule: signerRegenerate.induct)
  case (1 E)
  from framedD [OF framed_regenerateAll [OF 1(4-6)] 1(3) tended_self [OF 1(1,2)]]
  show ?case by (simp add: tended_def)
next
  case (2 E n)
  note t = tended_self [OF 2(1,2)]
  show ?case
  proof (cases "GetSubCA s n")
    case None
    then have run: "regenerateCertificate E n (s, w) = (r, (s', w'))"
      using 2(3) unfolding signerRegenerate_one by simp
    show ?thesis
      using framedD [OF framed_regenerateCert [OF 2(4)] run t] regenerateCertificate_frame [OF 2(4,1,2) run] None
      by (simp add: tended_def)
  next
    case (Some u)
    then have run: "regenerateSubCA E n (s, w) = (r, (s', w'))"
      using 2(3) unfolding signerRegenerate_one by simp
    show ?thesis
      using framedD [OF framed_regenerateSubCA [OF 2(4-6)] run t] regenerateSubCA_effect [OF 2(4-6,1,2) Some run] Some
      by (simp add: tended_def)
  qed
next
  case (3 E n m rest)
  show ?case
  proof (cases "GetSubCA s n")
    case None
    then show ?thesis using 3(2-4) by (auto simp: bindG_getS failG_def fs.agree_refl)
  next
    case (Some u)
    note u = GetSubCA_parts [OF 3(2,3) Some]
    obtain q u' v where run: "signerRegenerate E (m # rest) (u, w) = (q, (u', v))" by (metis surj_pair)
    then have s': "s' = putSubCA n u' s" "w' = v" using 3(4) Some by (auto simp: bindG_getS onSubCA_def)
    have "getS (s, w) = (Ok s, (s, w))" by (simp add: getS_def)
    note IH = 3(1) [OF this Some u(1,2) run 3(5-7)]
    have "tended (signerName s) (footprintS s) (footprintS s \<union> serialFiles (signerConfig s)) s'"
      unfolding s' using IH u by (intro tended_putSubCA [OF tended_self [OF 3(2,3)]]) auto
    then show ?thesis using IH s'(2) Some by (simp add: tended_def)
  qed
qed

section \<open>Bundles\<close>

text \<open>The certificates a bundle should hold after a signer is added: its entry replaced, or appended.\<close>

fun bundleWith :: "x509 \<Rightarrow> x509 list \<Rightarrow> x509 list" where
  "bundleWith cert [] = [cert]"
| "bundleWith cert (c # cs) = (if sameName c cert then cert # cs else c # bundleWith cert cs)"

text \<open>The certificates in a bundle file; a missing or empty file holds none.\<close>

definition bundleAt :: "world \<Rightarrow> string \<Rightarrow> x509 list option" where
  "bundleAt w p = (case files w p of
     None \<Rightarrow> Some [] | Some b \<Rightarrow> (if bytesEmpty b then Some []
       else case b of CertPEM cs \<Rightarrow> Some cs | _ \<Rightarrow> None))"

lemma sameName_unptr: "unptr c = unptr d \<Longrightarrow> sameName c e = sameName d e"
  by (cases c, cases d) (auto simp: unptr_def sameName_def)

lemma bundleWith_unptr:
  "map unptr cs = map unptr ds \<Longrightarrow> map unptr (bundleWith cert cs) = map unptr (bundleWith cert ds)"
proof (induction cs arbitrary: ds)
  case (Cons c cs)
  then obtain d ds' where "ds = d # ds'" "unptr c = unptr d" "map unptr cs = map unptr ds'" by auto
  then show ?case using Cons.IH [of ds'] sameName_unptr [of c d cert] by simp
qed simp

lemma scanBundle_fresh:
  assumes "\<forall>c\<in>set cs. fst (SerialNumber c) \<noteq> fst (SerialNumber cert)" "scanBundle cert cs = (found, changed, cs')"
  shows "changed = found \<and> (if found then cs' else cs' @ [cert]) = bundleWith cert cs"
  using assms by (induction cs arbitrary: cs') (auto split: prod.splits if_splits)

lemma os_nextPtr [simp]:
  "nextPtr (putFile p b w) = nextPtr w" "nextPtr (purgeDir d w) = nextPtr w"
  by (simp_all add: putFile_def purgeDir_def)

lemma os_Ok_iff [gom_iff]:
  "os_ReadFile E p w = (Ok b, w') \<longleftrightarrow> os_fault E (CallReadFile p) w = None \<and> files w p = Some b \<and> w' = w"
  "os_WriteFile E p b w = (Ok u, w') \<longleftrightarrow> os_fault E (CallWriteFile p) w = None \<and> w' = putFile p b w"
  "os_OpenTrunc E p w = (Ok u, w') \<longleftrightarrow> os_fault E (CallOpenFile p) w = None \<and> w' = putFile p (Text []) w"
  "os_WriteHandle E p b w = (Ok u, w') \<longleftrightarrow> os_fault E (CallWrite p) w = None \<and> w' = putFile p b w"
  "os_MkdirAll E p w = (Ok u, w') \<longleftrightarrow> os_fault E (CallMkdirAll p) w = None \<and> w' = w"
  by (auto simp: os_ReadFile_def os_WriteFile_def os_OpenTrunc_def os_WriteHandle_def os_MkdirAll_def
      faultG_def returnG_def split: option.splits)

lemma os_ReadFile_notExist:
  "os_ReadFile E p w = (Err e, w') \<Longrightarrow> w' = w \<and> (files w p = None \<or> os_fault E (CallReadFile p) w = Some e)"
  by (auto simp: os_ReadFile_def faultG_def split: option.splits)

text \<open>Reading the certificates of a bundle.\<close>

lemma readBundle_Ok:
  assumes pem: "lib_pem E" "lib_frame E" and os: "os_honest E" and at: "bundleAt w p = Some cs"
    and run: "bindG (tryG (liftW (os_ReadFile E p)) returnG
              (\<lambda>e. if os_IsNotExist e then returnG (Text []) else failG e)) (\<lambda>bundlePEMs.
         if bytesEmpty bundlePEMs then returnG [] else liftW (lib_CertsFromPEM E bundlePEMs)) (s, w) = (Ok ds, (s', w'))"
  shows "s' = s \<and> map unptr ds = map unptr cs \<and> nextPtr w \<le> nextPtr w' \<and> fs.agree {} w w' \<and>
    (\<forall>c\<in>set ds. nextPtr w \<le> fst (SerialNumber c))"
proof (cases "files w p")
  case None
  then have "s' = s \<and> ds = [] \<and> w' = w"
    using run os by (auto simp: gom_iff bytesEmpty_def os_honest_def dest!: os_ReadFile_notExist split: if_splits)
  then show ?thesis using None at by (simp add: bundleAt_def fs.agree_refl)
next
  case (Some b)
  have rd: "(if bytesEmpty b then returnG [] else liftW (lib_CertsFromPEM E b)) (s, w) = (Ok ds, (s', w'))"
    using run Some os by (auto simp: gom_iff os_honest_def dest!: os_ReadFile_notExist split: if_splits)
  show ?thesis
  proof (cases "bytesEmpty b")
    case True
    then show ?thesis using rd Some at by (auto simp: bundleAt_def gom_iff fs.agree_refl)
  next
    case False
    then have b: "b = CertPEM cs" using Some at by (auto simp: bundleAt_def split: bytes.splits)
    then have "s' = s" and l: "lib_CertsFromPEM E (CertPEM cs) w = (Ok ds, w')" using rd False by (auto simp: gom_iff)
    moreover have "fs.agree {} w w'" using touches_lib(10) [OF pem(2)] l by (rule touchesD)
    ultimately show ?thesis using lib_pemD(2) [OF pem(1) l] by simp
  qed
qed

lemma addToBundle_Ok:
  assumes pem: "lib_pem E" "lib_frame E" and os: "os_honest E" and at: "bundleAt w p = Some cs"
    and ptr: "fst (SerialNumber cert) < nextPtr w"
    and run: "addToBundle E cert p (s, w) = (Ok (), (s', w'))"
  shows "\<exists>cs'. files w' p = Some (CertPEM cs') \<and> map unptr cs' = map unptr (bundleWith cert cs) \<and>
    s' = insertBundle p s \<and> nextPtr w \<le> nextPtr w' \<and> fs.agree {p} w w'"
proof -
  from run obtain ds s1 w1 where
    rd: "bindG (tryG (liftW (os_ReadFile E p)) returnG
              (\<lambda>e. if os_IsNotExist e then returnG (Text []) else failG e)) (\<lambda>bundlePEMs.
         if bytesEmpty bundlePEMs then returnG [] else liftW (lib_CertsFromPEM E bundlePEMs)) (s, w) = (Ok ds, (s1, w1))"
    and wr: "(case scanBundle cert ds of (certFound, certsChanged, certs') \<Rightarrow>
       if certFound \<and> \<not> certsChanged then returnG ()
       else
         let certs'' = (if certFound then certs' else certs' @ [cert]) in
         bindG (liftW (os_MkdirAll E (Dir p))) (\<lambda>_. bindG (liftW (os_OpenTrunc E p)) (\<lambda>_.
         bindG (liftW (lib_EncodeCertificates E certs'')) (\<lambda>bs.
         bindG (liftW (os_WriteHandle E p bs)) (\<lambda>_. modS (insertBundle p)))))) (s1, w1) = (Ok (), (s', w'))"
    unfolding addToBundle_def bindG_assoc [symmetric] by (auto simp: bindG_Ok_iff [of "bindG _ _"])
  note r = readBundle_Ok [OF pem os at rd]
  obtain f ch ds' where scan: "scanBundle cert ds = (f, ch, ds')" by (metis surj_pair)
  have "\<forall>c\<in>set ds. fst (SerialNumber c) \<noteq> fst (SerialNumber cert)" using r ptr by fastforce
  from scanBundle_fresh [OF this scan] have ds': "ch = f" "(if f then ds' else ds' @ [cert]) = bundleWith cert ds" by auto
  from wr obtain bs w2 where enc: "lib_EncodeCertificates E (bundleWith cert ds) (putFile p (Text []) w1) = (Ok bs, w2)"
    and w': "w' = putFile p bs w2" "s' = insertBundle p s"
    using r by (auto simp: scan ds' gom_iff modS_def Let_def split: if_splits)
  have ag: "fs.agree {} (putFile p (Text []) w1) w2"
    using touches_lib(11) [OF pem(2)] enc by (rule touchesD)
  have "fs.agree {p} w w'"
    using r ag by (auto simp: w' fs.agree_def fs.look_put)
  then show ?thesis
    using lib_pemD(1) [OF pem(1) enc] r bundleWith_unptr [of ds cs cert] by (auto simp: w' putFile_def)
qed

lemma bundles_loop:
  assumes pem: "lib_pem E" "lib_frame E" and os: "os_honest E"
    and at: "\<forall>p\<in>set ps. bundleAt w p \<noteq> None" and "distinct ps"
    and ptr: "fst (SerialNumber cert) < nextPtr w"
    and run: "forG ps (addToBundle E cert) (s, w) = (Ok (), (s', w'))"
  shows "(\<forall>p\<in>set ps. p \<in> set (caBundlePaths s') \<and> (\<exists>cs'. files w' p = Some (CertPEM cs') \<and>
      map unptr cs' = map unptr (bundleWith cert (the (bundleAt w p))))) \<and> fs.agree (set ps) w w'"
  using at \<open>distinct ps\<close> ptr run
proof (induction ps arbitrary: s w)
  case Nil
  then show ?case by (simp add: returnG_def fs.agree_refl)
next
  case (Cons p ps)
  from Cons.prems(4) obtain s1 w1 where one: "addToBundle E cert p (s, w) = (Ok (), (s1, w1))"
    and rest: "forG ps (addToBundle E cert) (s1, w1) = (Ok (), (s', w'))"
    by (auto simp: bindG_Ok_iff)
  from Cons.prems(1) obtain cs where cs: "bundleAt w p = Some cs" by auto
  note o1 = addToBundle_Ok [OF pem os cs Cons.prems(3) one]
  have same: "bundleAt w1 q = bundleAt w q" if "q \<in> set ps" for q
    using o1 Cons.prems(2) that by (auto simp: bundleAt_def fs.agree_def)
  have IH: "(\<forall>q\<in>set ps. q \<in> set (caBundlePaths s') \<and> (\<exists>cs'. files w' q = Some (CertPEM cs') \<and>
      map unptr cs' = map unptr (bundleWith cert (the (bundleAt w1 q))))) \<and> fs.agree (set ps) w1 w'"
    using Cons.prems(1-3) o1 same by (intro Cons.IH [OF _ _ _ rest]) auto
  have "set (caBundlePaths s1) \<subseteq> set (caBundlePaths s')"
  proof -
    have any: "touches UNIV (m :: (world, 'x) go)" for m by (simp add: touches_def fs.agree_def)
    have "framed (\<lambda>t. set (caBundlePaths s1) \<subseteq> set (caBundlePaths t)) UNIV (addToBundle E cert q)" for q
      unfolding addToBundle_def Let_def by (intro frame any, simp split: prod.split) (auto intro!: frame any)
    then have "framed (\<lambda>t. set (caBundlePaths s1) \<subseteq> set (caBundlePaths t)) UNIV (forG ps (addToBundle E cert))"
      by (intro frame)
    from framedD [OF this rest] show ?thesis by simp
  qed
  moreover have "files w' p = files w1 p" using IH Cons.prems(2) by (auto simp: fs.agree_def)
  moreover have "fs.agree (set (p # ps)) w w'"
    using IH o1 by (auto intro: fs.agree_trans fs.agree_mono)
  ultimately show ?case using IH o1 cs same by fastforce
qed

section \<open>Subjects\<close>

lemma sorted_der: "sorted_wrt (\<lambda>a b. length a < length b \<or> length a = length b \<and> a \<le> b) (Organization (userToSubject u))"
  unfolding userToSubject_def pkixName.simps sorted_wrt_map
  by (rule sorted_wrt_mono_rel [OF _ sorted_sort]) (auto simp: less_eq_der_def derLess_def Let_def split: if_splits)

lemma mset_der: "mset (Organization (userToSubject u)) = mset (u_Groups u)"
  by (simp add: userToSubject_def image_mset.compositionality o_def)

section \<open>Completing a root\<close>

lemma Complete_unfold: "Complete E b = bindG (ensureConfig E b) (\<lambda>cfg. Complete E (WithSignerConfig cfg b))"
  by (simp add: Complete.simps [of E b] Complete.simps [of E "WithSignerConfig _ b"] ensureConfig_def newSigner_def)

lemma Complete_root_framed:
  assumes lib: "lib_frame E" "lib_serials E" and b: "dirsOk b" "bConfig b = None" "bCAInfo b = Some i"
  shows "touches (footprint b \<union> {ca_certFile i, ca_keyFile i, ca_serialFile i}) (Complete E b)"
proof (rule touchesI)
  let ?S = "footprint b \<union> {ca_certFile i, ca_keyFile i, ca_serialFile i}"
  fix w r w'
  assume run: "Complete E b w = (r, w')"
  obtain q v where ens: "ensureConfig E b w = (q, v)" by force
  have "touches ?S (ensureConfig E b)"
    unfolding ensureConfig_def b option.case EnsureCA_def by (intro touch touches_lib(1) [OF lib(1)]) auto
  from touchesD [OF this ens] have 1: "fs.agree ?S w v" .
  show "fs.agree ?S w w'"
  proof (cases q)
    case (Ok cfg)
    then have "serialFiles cfg \<subseteq> {ca_serialFile i}"
      using ens b by (auto simp: ensureConfig_def EnsureCA_def gom_iff dest!: lib_serialsD(1) [OF lib(2)])
    then have "touches ?S (Complete E (WithSignerConfig cfg b))"
      by (intro Complete_framed(1) [OF lib, where C = cfg]) (use b in auto)
    moreover have "Complete E (WithSignerConfig cfg b) v = (r, w')"
      using run ens Ok Complete_unfold [of E b] by (simp add: bindG_def)
    ultimately show ?thesis using 1 fs.agree_trans touchesD by blast
  qed (use run ens 1 Complete_unfold [of E b] in \<open>simp_all add: bindG_def\<close>)
qed

section \<open>Where the authorities of a tree count their serial numbers\<close>

function (sequential) serialsIn :: "string set \<Rightarrow> CertificateSigner \<Rightarrow> bool" where
  "serialsIn S s = (serialFiles (signerConfig s) \<subseteq> S \<and> (\<forall>q\<in>set (subCAs s). serialsIn S (snd q)))"
  by pat_completeness auto
termination
  by (relation "measure (size \<circ> snd)") (auto dest: size_subCA)

declare serialsIn.simps [simp del]

lemma serialsIn_upd:
  "serialsIn S s \<Longrightarrow> serialsIn S (putCert n i s)"
  "serialsIn S s \<Longrightarrow> serialsIn S (insertBundle p s)"
  "serialsIn S s \<Longrightarrow> serialFiles c \<subseteq> S \<Longrightarrow> serialsIn S (setSignerConfig c s)"
  by (simp_all add: serialsIn.simps [of S s] serialsIn.simps [of S "putCert n i s"]
      serialsIn.simps [of S "insertBundle p s"] serialsIn.simps [of S "setSignerConfig c s"])

lemma serialsIn_putSubCA:
  assumes "serialsIn S s" "serialsIn S u" "mapWf (subCAs s)"
  shows "serialsIn S (putSubCA n u s)"
proof -
  have "\<forall>q\<in>set (mapPut n u (subCAs s)). serialsIn S (snd q)"
    using assms by (intro mapPut_all) (simp_all add: serialsIn.simps [of S s])
  then show ?thesis
    using assms(1) by (simp add: serialsIn.simps [of S s] serialsIn.simps [of S "putSubCA n u s"])
qed

text \<open>Any state predicate that signing certificates and adding to bundles keep.\<close>

definition stable :: "(CertificateSigner \<Rightarrow> bool) \<Rightarrow> bool" where
  "stable P = (\<forall>s n i p. P s \<longrightarrow> P (putCert n i s) \<and> P (insertBundle p s))"

lemma touches_UNIV: "touches UNIV m"
  by (simp add: touches_def fs.agree_def)

lemma stable_SignCertificate: "stable P \<Longrightarrow> framed P UNIV (SignCertificate E i)"
  unfolding SignCertificate_def SignClientCertificate_def SignServingCertificate_def SignPeerCertificate_def Let_def
  by (cases i) (auto simp: stable_def intro!: frame touches_UNIV)

lemma stable_AddToBundles: "stable P \<Longrightarrow> framed P UNIV (AddToBundles E ps)"
  unfolding AddToBundles_def addToBundle_def Let_def
  by (intro frame touches_UNIV, simp split: prod.split) (auto simp: stable_def intro!: frame touches_UNIV)

definition serialWf :: "string set \<Rightarrow> CertificateSigner \<Rightarrow> bool" where
  "serialWf S s = (serialsIn S s \<and> mapWf (subCAs s))"

lemma stable_serialWf: "stable (serialWf S)"
  by (simp add: stable_def serialWf_def serialsIn_upd)

lemma runSigner_invariant: "framed P S m \<Longrightarrow> P s \<Longrightarrow> runSigner s m w = (Ok s', w') \<Longrightarrow> P s'"
  by (auto simp: runSigner_Ok_iff dest: framedD)

lemma serialWf_putSubCA: "serialWf S s \<Longrightarrow> serialWf S u \<Longrightarrow> serialWf S (putSubCA n u s)"
  by (simp add: serialWf_def serialsIn_putSubCA gm.wf_put)

lemma Complete_serialWf:
  assumes lib: "lib_serials E"
  shows "dirsOk b \<Longrightarrow> bConfig b = Some C \<Longrightarrow> footprint b \<union> serialFiles C \<subseteq> S \<Longrightarrow> Complete E b w = (Ok s, w') \<Longrightarrow> serialWf S s"
    and "dirsOk b \<Longrightarrow> footprint b \<subseteq> S \<Longrightarrow> framed (serialWf S) UNIV (SignSubCA E b)"
  using lib
proof (induction E b and E b arbitrary: C w s w' and rule: Complete_SignSubCA.induct)
  case (1 E b)
  have cfg: "ensureConfig E b v = (Ok C, v)" for v by (simp add: ensureConfig_def 1(3) returnG_def)
  have "framed (serialWf S) UNIV
      (bindG (forG (bSubCAs b) (\<lambda>sub. SignSubCA E sub)) (\<lambda>_.
       bindG (forG (bCerts b) (SignCertificate E)) (\<lambda>_. AddToBundles E (bBundles b))))"
    using 1(2,4) dirsOk_sel [of b] footprint_sel [of b]
    by (intro frame 1(1) [OF cfg _ _ _ 1(6)] stable_SignCertificate stable_AddToBundles stable_serialWf) blast+
  moreover have "serialWf S (newSigner b C)"
    using 1(4) by (simp add: serialWf_def serialsIn.simps [of S "newSigner b C"])
  ultimately show ?case
    using runSigner_invariant 1(5) unfolding Complete.simps [of E b] bindG_def cfg by simp blast
next
  case (2 E b)
  have dir: "{p. below (bDir b) p} \<subseteq> S" "cleanDir (bDir b)"
    using 2(2,3) footprint_sel [of b] dirsOk_sel [of b] by auto
  show ?case
  proof (rule framedI)
    fix s w r s' w'
    assume P: "serialWf S s" and run: "SignSubCA E b (s, w) = (r, (s', w'))"
    show "serialWf S s' \<and> fs.agree UNIV w w'"
    proof (cases "r = Ok ()")
      case True
      with run obtain ca w0 w1 sub where ens: "ensureSubCA E b (s, w) = (Ok ca, (s, w0))"
        and wr: "liftW (writeSubCACert E (bName b) (CACertPath (bDir b)) ca) (s, w0) = (Ok (), (s, w1))"
        and co: "Complete E (WithSignerConfig ca b) w1 = (Ok sub, w')" and s': "s' = putSubCA (signerName sub) sub s"
        by (auto simp: SignSubCA.simps [of E b] ensureSubCA_def bindG_getS gom_iff modS_def)
      have "serialFiles ca \<subseteq> S"
        using ensureSubCA_serial [OF 2(4) ens] below_paths(3) [OF dir(2)] dir(1) by blast
      with 2(1) [OF ens wr _ _ _ co 2(4)] 2(2,3) have "serialWf S sub" by simp
      then show ?thesis using P s' by (simp add: serialWf_putSubCA fs.agree_def)
    next
      case False
      then show ?thesis using SignSubCA_outcome [OF run] P by (auto simp: fs.agree_def)
    qed
  qed
qed

lemma regenerateSubCA_serialWf:
  assumes lib: "lib_serials E" "range_ok (range_order E)" and wf: "wfSigner s" "dirsOkS s" "footprintS s \<subseteq> S" "serialWf S s"
    and run: "regenerateSubCA E n (s, w) = (r, (s', w'))"
  shows "serialWf S s'"
proof (cases "GetSubCA s n")
  case None
  then show ?thesis using run wf by (simp add: regenerateSubCA_missing)
next
  case (Some u)
  note u = GetSubCA_parts [OF wf(1,2) Some]
  obtain b where b: "builtFrom E u b" using toBuilder_builtFrom [OF lib(2) u(1)] by blast
  then have "dirsOk b" "footprint b \<subseteq> S" "toBuilder E u = Ok b"
    using u wf(3) by (auto simp: builtFrom_def)
  then have "framed (serialWf S) UNIV (SignSubCA E b)" by (intro Complete_serialWf(2) [OF lib(1)])
  then have "framed (serialWf S) UNIV (\<lambda>sw. bindG (wrapG (ErrorfV ''failed to remove subCA dir %q: %v'' [signerDir u])
      (liftW (os_RemoveAll E (signerDir u)))) (\<lambda>_. wrapG (ErrorfV ''failed to regenerate subCA %q certificate: %v'' [signerName u])
        (bindG (ofO (toBuilder E u)) (SignSubCA E))) sw)"
    unfolding \<open>toBuilder E u = Ok b\<close> ofO_return bindG_return by (intro frame touches_UNIV)
  from framedD [OF this run [unfolded regenerateSubCA_known [OF Some]] wf(4)] show ?thesis by simp
qed

lemma regenerateSelf_serialWf:
  assumes lib: "lib_serials E" and dir: "cleanDir (signerDir s)" "{p. below (signerDir s) p} \<subseteq> S" and P: "serialWf S s"
    and run: "regenerateSelf E (s, w) = (r, (s', w'))"
  shows "serialWf S s'"
proof -
  let ?ens = "wrapG (ErrorfW ''failed to regenerate %s CA certificate: %w'' [signerName s])
       (liftW (lib_EnsureCA E (CACertPath (signerDir s)) (CAKeyPath (signerDir s))
                 (CASerialsPath (signerDir s)) (signerName s) (signerValidityDays s)))"
  have ens: "framed (serialWf S) UNIV ?ens" by (intro frame touches_UNIV)
  have rest: "framed (serialWf S) UNIV (bindG (modS (setSignerConfig ca)) (\<lambda>_. AddToBundles E (range_order E (caBundlePaths s))))"
    if "serialFiles ca \<subseteq> S" for ca
    using that by (intro frame stable_AddToBundles stable_serialWf) (simp add: serialWf_def serialsIn_upd)
  have "framed (serialWf S) UNIV
      (bindG (wrapG (ErrorfV ''failed to regenerate CA %q: %v'' [signerName s]) (liftW (os_RemoveAll E (signerDir s)))) (\<lambda>_.
       bindG ?ens (\<lambda>ca. bindG (modS (setSignerConfig ca)) (\<lambda>_. AddToBundles E (range_order E (caBundlePaths s))))))"
    using below_paths(3) [OF dir(1)] dir(2)
    by (intro framed_bind framed_wrap framed_liftW touches_UNIV framed_bind_val [OF ens] rest)
      (auto simp: gom_iff dest!: lib_serialsD(1) [OF lib])
  from framedD [OF this run [unfolded regenerateSelf_def bindG_getS] P] show ?thesis by simp
qed

lemma regenerateCertificate_stable: "stable P \<Longrightarrow> framed P UNIV (regenerateCertificate E n)"
  unfolding regenerateCertificate_def Let_def
  by (intro frame, simp split: option.split) (auto intro!: frame stable_SignCertificate touches_UNIV)

text \<open>The state of a root between regenerations: well-formed, and everything it writes lies in \<open>S\<close>.\<close>

definition homed :: "string set \<Rightarrow> CertificateSigner \<Rightarrow> bool" where
  "homed S s = (wfSigner s \<and> dirsOkS s \<and> footprintS s \<subseteq> S \<and> serialWf S s)"

lemma homed_tended: "homed S s \<Longrightarrow> tended (signerName s) S S s"
  by (simp add: homed_def tended_def serialWf_def serialsIn.simps [of S s])

lemma tended_homed: "tended N S S s \<Longrightarrow> serialWf S s \<Longrightarrow> homed S s"
  by (simp add: homed_def tended_def)

lemma framed_homed:
  assumes "\<And>N. framed (tended N S S) S m" "\<And>s w r s' w'. homed S s \<Longrightarrow> m (s, w) = (r, (s', w')) \<Longrightarrow> serialWf S s'"
  shows "framed (homed S) S m"
  by (rule framedI) (metis assms framedD homed_tended tended_homed)

lemma homed_dir: "homed S s \<Longrightarrow> cleanDir (signerDir s) \<and> {p. below (signerDir s) p} \<subseteq> S"
  by (auto simp: homed_def dirsOkS.simps [of s] footprintS.simps [of s])

lemma homed_regenerate:
  assumes lib: "lib_frame E" "lib_serials E" "range_ok (range_order E)"
  shows "framed (homed S) S (regenerateSelf E)" "framed (homed S) S (regenerateSubCA E n)"
    "framed (homed S) S (regenerateCertificate E n)"
proof -
  show "framed (homed S) S (regenerateSelf E)"
    by (rule framed_homed [OF framed_regenerateSelf [OF lib]])
      (metis homed_def homed_dir lib(2) regenerateSelf_serialWf)
  show "framed (homed S) S (regenerateSubCA E n)"
    by (rule framed_homed [OF framed_regenerateSubCA [OF lib]])
      (metis homed_def lib(2,3) regenerateSubCA_serialWf)
  show "framed (homed S) S (regenerateCertificate E n)"
    by (rule framed_homed [OF framed_regenerateCert [OF lib(1)]])
      (metis homed_def framedD regenerateCertificate_stable stable_serialWf)
qed

lemma homed_sub: "homed S s \<Longrightarrow> GetSubCA s n = Some u \<Longrightarrow> homed S u"
proof -
  assume h: "homed S s" and g: "GetSubCA s n = Some u"
  then have "(n, u) \<in> set (subCAs s)" by (auto simp: GetSubCA_def mapGet_def dest: map_of_SomeD)
  then have "serialsIn S u" using h by (force simp: homed_def serialWf_def serialsIn.simps [of S s])
  then show ?thesis
    using h GetSubCA_parts [OF _ _ g] unfolding homed_def serialWf_def wfSigner.simps [of u] by auto
qed

lemma homed_putSubCA: "homed S s \<Longrightarrow> homed S u \<Longrightarrow> signerName u = n \<Longrightarrow> homed S (putSubCA n u s)"
  using tended_putSubCA [OF homed_tended] serialWf_putSubCA tended_homed unfolding homed_def by metis

lemma signerRegenerate_homed:
  assumes lib: "lib_frame E" "lib_serials E" "range_ok (range_order E)"
  shows "framed (homed S) S (signerRegenerate E path)"
  using lib
proof (induction E path rule: signerRegenerate.induct)
  case (1 E)
  show ?case
    unfolding signerRegenerate.simps by (intro frame homed_regenerate 1)
next
  case (2 E n)
  show ?case
    unfolding signerRegenerate.simps by (intro frame homed_regenerate 2)
next
  case (3 E n m rest)
  show ?case
    unfolding signerRegenerate.simps(3)
  proof (rule framed_bind_getS)
    fix s
    assume h: "homed S s"
    show "framed (homed S) S (case GetSubCA s n of
        None \<Rightarrow> failG (Errorf ''%q is not an intermediary signer'' [n])
      | Some subCA \<Rightarrow> onSubCA n subCA (signerRegenerate E (m # rest)))"
    proof (cases "GetSubCA s n")
      case (Some u)
      have get: "getS (s, w) = (Ok s, (s, w))" for w by (simp add: getS_def)
      note IH = 3(1) [OF get Some 3(2-4)]
      have nm: "signerName u = n" using GetSubCA_parts(3) [OF _ _ Some] h by (simp add: homed_def)
      have "framed (\<lambda>t. homed S t \<and> signerName t = n) S (signerRegenerate E (m # rest))"
      proof (rule framedI)
        fix t w r t' w'
        assume t: "homed S t \<and> signerName t = n" and run: "signerRegenerate E (m # rest) (t, w) = (r, (t', w'))"
        have "signerName t' = signerName t"
          using signerRegenerate_effect [OF 3(2-4) _ _ run] t by (simp add: homed_def)
        then show "(homed S t' \<and> signerName t' = n) \<and> fs.agree S w w'"
          using framedD [OF IH run] t by simp
      qed
      then show ?thesis
        unfolding Some option.case using nm homed_sub [OF h Some] homed_putSubCA
        by (intro framed_onSubCA [where Q = "\<lambda>t. homed S t \<and> signerName t = n"]) auto
    qed (simp add: frame)
  qed
qed

end
