(* ===== verification/ChainProofs.thy ===== *)
theory ChainProofs
  imports Chains SignerProofs
begin

text \<open>
  The theory of chains. The walk is compared with a listing of the tree (\<open>treeCerts\<close>); what it
  needs of a visitor is the locale \<open>walk_visitor\<close>, interpreted for the closures of the program.
  The heap lemmas say when a path that a visitor keeps still reads the same after the walk.
\<close>

section \<open>The heap of slices\<close>

definition growOk :: "(nat \<Rightarrow> nat) \<Rightarrow> bool" where
  "growOk grow = (grow 1 = 2 \<and> (\<forall>k. k < grow k))"

text \<open>
  A slice with the content \<open>path\<close>: its array is allocated and as long as its capacity. A slice
  of at most two elements has no spare capacity, so that an append to it allocates.
\<close>

definition good :: "heap \<Rightarrow> slice \<Rightarrow> string list \<Rightarrow> bool" where
  "good h p path = (s_arr p < nextArr h \<and> length (arrays h (s_arr p)) = s_cap p \<and> s_len p \<le> s_cap p \<and>
     sliceList h p = path \<and> (s_len p \<le> 2 \<longrightarrow> s_cap p = s_len p))"

text \<open>What a walk below \<open>p\<close> may change of the heap: arrays it allocates, and the spare room behind \<open>p\<close>.\<close>

definition heapExt :: "slice \<Rightarrow> heap \<Rightarrow> heap \<Rightarrow> bool" where
  "heapExt p h h' = (nextArr h \<le> nextArr h' \<and> (\<forall>a<nextArr h. a \<noteq> s_arr p \<longrightarrow> arrays h' a = arrays h a) \<and>
     take (s_len p) (arrays h' (s_arr p)) = take (s_len p) (arrays h (s_arr p)) \<and>
     length (arrays h' (s_arr p)) = length (arrays h (s_arr p)))"

lemma heapExt_refl [simp]: "heapExt p h h"
  by (simp add: heapExt_def)

lemma heapExt_trans: "heapExt p a b \<Longrightarrow> heapExt p b c \<Longrightarrow> heapExt p a c"
  by (auto simp: heapExt_def)

lemma good_len: "good h p path \<Longrightarrow> s_len p = length path"
  by (auto simp: good_def sliceList_def)

lemma good_ext: "good h p path \<Longrightarrow> heapExt p h h' \<Longrightarrow> good h' p path"
  by (auto simp: good_def heapExt_def sliceList_def)

lemma bindG_readS: "bindG (readS p) f (h, v) = f (sliceList h p) (h, v)"
  by (simp add: bindG_def readS_def)

lemma newS_good:
  "\<exists>q h1. newS x (h, v) = (Ok q, (h1, v)) \<and> good h1 q [x] \<and> s_arr q = nextArr h \<and> nextArr h1 = Suc (nextArr h) \<and>
    (\<forall>a<nextArr h. arrays h1 a = arrays h a)"
  by (simp add: newS_def good_def sliceList_def)

lemma appendS_good:
  assumes "growOk grow" "good h p path" "path \<noteq> []"
  shows "\<exists>q h1. appendS grow p x (h, v) = (Ok q, (h1, v)) \<and> good h1 q (path @ [x]) \<and> heapExt p h h1 \<and>
    (s_arr q = s_arr p \<and> s_len p \<le> s_len q \<or> s_arr q = nextArr h) \<and> (length path \<le> 2 \<longrightarrow> s_arr q = nextArr h)"
proof (cases "s_len p < s_cap p")
  case True
  have len: "2 < length path" using True assms(2) good_len [OF assms(2)] by (auto simp: good_def)
  then show ?thesis
    using True assms(2) good_len [OF assms(2)]
    by (auto simp: appendS_def good_def heapExt_def sliceList_def take_Suc_conv_app_nth)
next
  case False
  then have cap: "s_cap p = length path" using assms(2) good_len [OF assms(2)] by (auto simp: good_def)
  have g: "length path < grow (length path)" using assms(1) by (simp add: growOk_def)
  have g2: "length path \<le> 1 \<Longrightarrow> grow (length path) = Suc (length path)"
    using assms(1,3) by (cases "length path") (auto simp: growOk_def)
  show ?thesis
    using False assms(2) good_len [OF assms(2)] cap g g2
    by (auto simp: appendS_def good_def heapExt_def sliceList_def)
qed

section \<open>The listing of a tree\<close>

lemma GetSubCA_mem: "GetSubCA s n = Some u \<Longrightarrow> (n, u) \<in> set (subCAs s)"
  by (auto simp: GetSubCA_def mapGet_def dest: map_of_SomeD)

text \<open>Every certificate below a signer with its path, in the order of the names, authorities first.\<close>

function (sequential) treeCerts :: "string list \<Rightarrow> CertificateSigner \<Rightarrow> (string list \<times> x509) list" where
  "treeCerts path s = (path, hd (Certs (Config (signerConfig s)))) #
     concat (map (\<lambda>n. case GetSubCA s n of
         Some u \<Rightarrow> treeCerts (path @ [n]) u
       | None \<Rightarrow> (case mapGet (signedCertificates s) n of
            Some i \<Rightarrow> [(path @ [n], hd (Certs (certTlsConfig i)))] | None \<Rightarrow> []))
       (GetSubCANames s @ GetCertNames s))"
  by pat_completeness auto
termination
  by (relation "measure (size \<circ> snd)") (auto dest!: GetSubCA_mem dest: size_subCA)

definition allCerts :: "CertificateChains \<Rightarrow> (string list \<times> x509) list" where
  "allCerts cs = concat (map (\<lambda>n. case mapGet (signers cs) n of Some s \<Rightarrow> treeCerts [n] s | None \<Rightarrow> [])
     (GetSignerNames cs))"

text \<open>No certificate list is empty.\<close>

function (sequential) certsOk :: "CertificateSigner \<Rightarrow> bool" where
  "certsOk s = (Certs (Config (signerConfig s)) \<noteq> [] \<and>
     (\<forall>p\<in>set (signedCertificates s). Certs (certTlsConfig (snd p)) \<noteq> []) \<and>
     (\<forall>p\<in>set (subCAs s). certsOk (snd p)))"
  by pat_completeness auto
termination
  by (relation "measure size") (auto dest: size_subCA)

definition chainsOk :: "CertificateChains \<Rightarrow> bool" where
  "chainsOk cs = (\<forall>p\<in>set (signers cs). certsOk (snd p))"

declare treeCerts.simps [simp del] certsOk.simps [simp del]

lemma fold_max_ge: "x \<in> set xs \<or> x \<le> a \<Longrightarrow> x \<le> fold max xs (a :: nat)"
proof (induction xs arbitrary: a)
  case (Cons b xs)
  then show ?case using Cons.IH [of "max b a"] by (auto simp: le_max_iff_disj)
qed simp

lemma depth_sub: "GetSubCA s n = Some u \<Longrightarrow> depth u < depth s"
proof -
  assume "GetSubCA s n = Some u"
  then have "depth u \<in> set (map (\<lambda>p. depth (snd p)) (subCAs s))"
    using GetSubCA_mem [of s n u] by (auto intro!: image_eqI [of _ _ "(n, u)"])
  then have "depth u \<le> fold max (map (\<lambda>p. depth (snd p)) (subCAs s)) 0" by (intro fold_max_ge disjI1)
  then show ?thesis by (simp add: depth.simps [of s])
qed

lemma depth_pos: "0 < depth s"
  by (simp add: depth.simps [of s])

lemma certsOk_sub: "certsOk s \<Longrightarrow> GetSubCA s n = Some u \<Longrightarrow> certsOk u"
  by (force simp: certsOk.simps [of s] dest: GetSubCA_mem)

lemma getSignerFrom_None [simp]: "getSignerFrom None rest = None"
  by (cases rest) simp_all

lemma getSignerFrom_snoc:
  "getSignerFrom cur (path @ [n]) = (case getSignerFrom cur path of Some s \<Rightarrow> GetSubCA s n | None \<Rightarrow> None)"
  by (induction path arbitrary: cur) (auto split: option.splits)

lemma GetSigner_snoc:
  "path \<noteq> [] \<Longrightarrow> GetSigner cs (path @ [n]) = (case GetSigner cs path of Some s \<Rightarrow> GetSubCA s n | None \<Rightarrow> None)"
  by (cases path) (auto simp: GetSigner_def getSignerFrom_snoc)

definition childCerts :: "string list \<Rightarrow> CertificateSigner \<Rightarrow> string \<Rightarrow> (string list \<times> x509) list" where
  "childCerts path s n = (case GetSubCA s n of
     Some u \<Rightarrow> treeCerts (path @ [n]) u
   | None \<Rightarrow> (case mapGet (signedCertificates s) n of
        Some i \<Rightarrow> [(path @ [n], hd (Certs (certTlsConfig i)))] | None \<Rightarrow> []))"

lemma treeCerts_unfold: "treeCerts path s = (path, hd (Certs (Config (signerConfig s)))) #
    concat (map (childCerts path s) (GetSubCANames s @ GetCertNames s))"
  by (simp add: treeCerts.simps [of path s] childCerts_def [abs_def])

lemma treeCerts_prefix: "it \<in> set (treeCerts path s) \<Longrightarrow> prefix path (fst it)"
proof (induction path s rule: treeCerts.induct)
  case (1 path s)
  from "1.prems" consider "it = (path, hd (Certs (Config (signerConfig s))))"
    | n where "n \<in> set (GetSubCANames s @ GetCertNames s)" "it \<in> set (childCerts path s n)"
    by (auto simp: treeCerts_unfold [of path s])
  then show ?case
  proof cases
    case 2
    then show ?thesis
      using "1.IH" [OF 2(1)] by (fastforce simp: childCerts_def split: option.splits dest: append_prefixD)
  qed simp
qed

lemma childCerts_longer: "it \<in> set (childCerts path s n) \<Longrightarrow> length path < length (fst it)"
  by (auto simp: childCerts_def split: option.splits dest!: treeCerts_prefix prefix_length_le)

lemma set_names:
  "set (GetSubCANames s) = {n. GetSubCA s n \<noteq> None}" "set (GetCertNames s) = {n. mapGet (signedCertificates s) n \<noteq> None}"
  by (simp_all add: GetSubCANames_def GetCertNames_def certificateSignersMapKeysOrdered_def
      signedCertificateInfoMapKeysOrdered_def gm.keys_get GetSubCA_def)

lemma firstCert_Ok: "Certs t \<noteq> [] \<Longrightarrow> firstCert t = Ok (hd (Certs t))"
  by (cases "Certs t") (auto simp: firstCert_def)

lemma certsOk_cert: "certsOk s \<Longrightarrow> mapGet (signedCertificates s) n = Some i \<Longrightarrow> Certs (certTlsConfig i) \<noteq> []"
  by (force simp: certsOk.simps [of s] mapGet_def dest: map_of_SomeD)

section \<open>Visitors\<close>

text \<open>
  The paths that were visited with the slices \<open>qs\<close>: those of at most three names can still be
  read from their slices, which are \<open>p\<close> or were allocated since \<open>h\<close>.
\<close>

definition kept :: "slice \<Rightarrow> heap \<Rightarrow> heap \<Rightarrow> slice list \<Rightarrow> (string list \<times> x509) list \<Rightarrow> bool" where
  "kept p h h' qs items = list_all2 (\<lambda>q it. length (fst it) \<le> 3 \<longrightarrow>
     (q = p \<or> nextArr h \<le> s_arr q) \<and> s_arr q < nextArr h' \<and> sliceList h' q = fst it) qs items"

text \<open>A visitor that never fails and leaves the heap alone.\<close>

locale walk_visitor =
  fixes fn :: "'v CertWalkFunc"
    and step :: "slice \<Rightarrow> string list \<Rightarrow> x509 \<Rightarrow> 'v \<Rightarrow> 'v"
  assumes visit: "fn q c (h, v) = (Ok (), (h, step q (sliceList h q) c v))"
begin

definition visits :: "slice list \<Rightarrow> (string list \<times> x509) list \<Rightarrow> 'v \<Rightarrow> 'v" where
  "visits qs items = fold (\<lambda>(q, pa, c). step q pa c) (zip qs items)"

lemma visits_append:
  "length qs = length xs \<Longrightarrow> visits (qs @ rs) (xs @ ys) v = visits rs ys (visits qs xs v)"
  by (simp add: visits_def)

text \<open>The program has visited \<open>items\<close> with some slices, from the heap \<open>h\<close> on.\<close>

definition walked :: "slice \<Rightarrow> heap \<Rightarrow> 'v \<Rightarrow> (string list \<times> x509) list \<Rightarrow> unit outcome \<times> 'v walkS \<Rightarrow> bool" where
  "walked p h v items res = (\<exists>h' qs. res = (Ok (), (h', visits qs items v)) \<and> length qs = length items \<and>
     heapExt p h h' \<and> kept p h h' qs items)"

end

context walk_visitor
begin

lemma kept_later:
  assumes "kept q h1 h2 qs items" "heapExt p h2 h3" "heapExt p h h1"
    and "\<forall>it\<in>set items. length (fst it) \<le> 3 \<longrightarrow> s_arr q = nextArr h \<and> s_arr p < nextArr h"
  shows "kept p h h3 qs items"
  unfolding kept_def
proof (rule list_all2I, unfold split_beta, intro ballI impI)
  fix z
  assume z: "z \<in> set (zip qs items)" and len: "length (fst (snd z)) \<le> 3"
  obtain r it where rit: "z = (r, it)" by (cases z)
  with z have "it \<in> set items" by (simp add: set_zip_rightD)
  then have q: "s_arr q = nextArr h" "s_arr p < nextArr h" using bspec [OF assms(4)] len rit by auto
  have r: "(r = q \<or> nextArr h1 \<le> s_arr r)" "s_arr r < nextArr h2" "sliceList h2 r = fst it"
    using assms(1) z len rit by (auto simp: kept_def list_all2_iff)
  have ge: "nextArr h \<le> s_arr r" using r(1) q assms(3) by (auto simp: heapExt_def)
  then have "s_arr r \<noteq> s_arr p" using q(2) by simp
  then show "(fst z = p \<or> nextArr h \<le> s_arr (fst z)) \<and> s_arr (fst z) < nextArr h3 \<and> sliceList h3 (fst z) = fst (snd z)"
    using r ge assms(2) rit by (simp add: heapExt_def sliceList_def)
qed (use assms(1) in \<open>simp add: kept_def list_all2_lengthD\<close>)

lemma heapExt_child:
  assumes "heapExt p h h1" "heapExt q h1 h2" "s_arr p < nextArr h"
    and "s_arr q = s_arr p \<and> s_len p \<le> s_len q \<or> s_arr q = nextArr h"
  shows "heapExt p h h2"
proof -
  have "take (s_len p) (arrays h2 (s_arr p)) = take (s_len p) (arrays h1 (s_arr p))"
  proof (cases "s_arr q = s_arr p")
    case True
    then have "s_len p \<le> s_len q" using assms(3,4) by auto
    then have "take (s_len p) xs = take (s_len p) (take (s_len q) xs)" for xs :: "string list"
      by (simp add: min_absorb1)
    then show ?thesis using assms(2) True unfolding heapExt_def by metis
  qed (use assms in \<open>auto simp: heapExt_def\<close>)
  then show ?thesis using assms by (auto simp: heapExt_def)
qed

text \<open>The loop over the names below a signer.\<close>

lemma walk_children:
  assumes grow: "growOk grow" and path: "path \<noteq> []"
    and child: "\<And>n h q v. n \<in> set ns \<Longrightarrow> good h q (path @ [n]) \<Longrightarrow> walked q h v (items n) (walk q (h, v))"
    and long: "\<And>n it. n \<in> set ns \<Longrightarrow> it \<in> set (items n) \<Longrightarrow> length path < length (fst it)"
    and good: "good h p path"
  shows "walked p h v (concat (map items ns)) (forG ns (\<lambda>n. bindG (appendS grow p n) walk) (h, v))"
  using child long good
proof (induction ns arbitrary: h v)
  case Nil
  then show ?case by (auto simp: walked_def visits_def kept_def returnG_def)
next
  case (Cons n ns)
  obtain q h1 where app: "appendS grow p n (h, v) = (Ok q, (h1, v))" and q: "good h1 q (path @ [n])"
    and e1: "heapExt p h h1" and arr: "s_arr q = s_arr p \<and> s_len p \<le> s_len q \<or> s_arr q = nextArr h"
    and fresh: "length path \<le> 2 \<longrightarrow> s_arr q = nextArr h"
    using appendS_good [OF grow Cons.prems(3) path, of n v] by (elim exE conjE) (rule that; assumption)
  obtain h2 qs where w: "walk q (h1, v) = (Ok (), (h2, visits qs (items n) v))" "length qs = length (items n)"
    "heapExt q h1 h2" "kept q h1 h2 qs (items n)"
    using Cons.prems(1) [OF _ q, of v] by (auto simp: walked_def)
  have p: "s_arr p < nextArr h" using Cons.prems(3) by (simp add: good_def)
  have e2: "heapExt p h h2" by (rule heapExt_child [OF e1 w(3) p arr])
  have IH: "walked p h2 v (concat (map items ns)) (forG ns (\<lambda>n. bindG (appendS grow p n) walk) (h2, v))" for v
    by (rule Cons.IH [OF _ _ good_ext [OF Cons.prems(3) e2]]) (meson Cons.prems(1) list.set_intros(2), meson Cons.prems(2) list.set_intros(2))
  obtain h3 rs where r: "forG ns (\<lambda>n. bindG (appendS grow p n) walk) (h2, visits qs (items n) v)
      = (Ok (), (h3, visits rs (concat (map items ns)) (visits qs (items n) v)))"
    "length rs = length (concat (map items ns))" "heapExt p h2 h3" "kept p h2 h3 rs (concat (map items ns))"
    using IH [of "visits qs (items n) v"] by (auto simp: walked_def)
  have "\<forall>it\<in>set (items n). length (fst it) \<le> 3 \<longrightarrow> s_arr q = nextArr h \<and> s_arr p < nextArr h"
    using Cons.prems(2) [of n] fresh p by fastforce
  then have "kept p h h3 qs (items n)" by (rule kept_later [OF w(4) r(3) e1])
  moreover have "kept p h h3 rs (concat (map items ns))"
    using r(4) e2 by (auto simp: kept_def heapExt_def elim!: list_all2_mono)
  ultimately have "kept p h h3 (qs @ rs) (concat (map items (n # ns)))"
    by (simp add: kept_def list_all2_appendI)
  then show ?case
    using app w r heapExt_trans [OF e2 r(3)]
    by (auto simp: walked_def bindG_def visits_append intro!: exI [of _ h3] exI [of _ "qs @ rs"])
qed

lemma kept_self: "good h' p path \<Longrightarrow> kept p h h' [p] [(path, c)]"
  by (simp add: kept_def good_def)

lemma walked_Cons:
  assumes "walked p h (step p path c v) items res" "good h p path"
  shows "walked p h v ((path, c) # items) res"
proof -
  from assms(1) obtain h' qs where r: "res = (Ok (), (h', visits qs items (step p path c v)))"
    "length qs = length items" "heapExt p h h'" "kept p h h' qs items"
    by (auto simp: walked_def)
  then have "kept p h h' (p # qs) ((path, c) # items)"
    using kept_self [OF good_ext [OF assms(2) r(3)], of h c] by (simp add: kept_def)
  then show ?thesis
    using r by (auto simp: walked_def visits_def intro!: exI [of _ h'] exI [of _ "p # qs"])
qed

lemma walk_leaf:
  assumes "GetSigner cs path = Some s" "path \<noteq> []" "GetSubCA s n = None"
    "mapGet (signedCertificates s) n = Some i" "certsOk s" "good h q (path @ [n])" "0 < m"
  shows "walked q h v [(path @ [n], hd (Certs (certTlsConfig i)))] (walkF m grow cs q fn (h, v))"
proof -
  have path: "sliceList h q = path @ [n]" using assms(6) by (simp add: good_def)
  have "walkF m grow cs q fn (h, v) = fn q (hd (Certs (certTlsConfig i))) (h, v)"
    using assms path firstCert_Ok [OF certsOk_cert [OF assms(5,4)]]
    by (cases m) (simp_all add: bindG_readS GetSigner_snoc)
  moreover have "walked q h (step q (path @ [n]) (hd (Certs (certTlsConfig i))) v) []
      (fn q (hd (Certs (certTlsConfig i))) (h, v))"
    by (simp add: walked_def visit path visits_def kept_def)
  ultimately show ?thesis using walked_Cons [OF _ assms(6)] by simp
qed

lemma walk_tree:
  "GetSigner cs path = Some s \<Longrightarrow> path \<noteq> [] \<Longrightarrow> certsOk s \<Longrightarrow> good h p path \<Longrightarrow> growOk grow \<Longrightarrow> depth s < m \<Longrightarrow>
   walked p h v (treeCerts path s) (walkF m grow cs p fn (h, v))"
proof (induction m arbitrary: path s h p v)
  case (Suc m)
  let ?c = "hd (Certs (Config (signerConfig s)))"
  let ?ns = "GetSubCANames s @ GetCertNames s"
  have path: "sliceList h p = path" using Suc.prems(4) by (simp add: good_def)
  have c: "firstCert (Config (signerConfig s)) = Ok ?c"
    using Suc.prems(3) by (intro firstCert_Ok) (simp add: certsOk.simps [of s])
  have run: "walkF (Suc m) grow cs p fn (h, v) =
      forG ?ns (\<lambda>n. bindG (appendS grow p n) (\<lambda>q. walkF m grow cs q fn)) (h, step p path ?c v)"
    using Suc.prems(1,2) path c by (simp add: bindG_readS) (simp add: bindG_def wrapG_def visit path)
  have child: "walked q h' v' (childCerts path s n) (walkF m grow cs q fn (h', v'))"
    if n: "n \<in> set ?ns" and q: "good h' q (path @ [n])" for n h' q v'
  proof (cases "GetSubCA s n")
    case None
    then obtain i where i: "mapGet (signedCertificates s) n = Some i" using n by (auto simp: set_names)
    have "0 < m" using Suc.prems(6) depth_pos [of s] by simp
    from walk_leaf [OF Suc.prems(1,2) None i Suc.prems(3) q this] show ?thesis
      by (simp add: childCerts_def None i)
  next
    case (Some u)
    have "walked q h' v' (treeCerts (path @ [n]) u) (walkF m grow cs q fn (h', v'))"
      using Suc.prems Some q depth_sub [OF Some] certsOk_sub [OF Suc.prems(3) Some]
      by (intro Suc.IH) (auto simp: GetSigner_snoc)
    then show ?thesis by (simp add: childCerts_def Some)
  qed
  have "walked p h (step p path ?c v) (concat (map (childCerts path s) ?ns))
      (forG ?ns (\<lambda>n. bindG (appendS grow p n) (\<lambda>q. walkF m grow cs q fn)) (h, step p path ?c v))"
    by (rule walk_children [OF Suc.prems(5,2) child _ Suc.prems(4)]) (auto dest: childCerts_longer)
  from walked_Cons [OF this Suc.prems(4)] show ?case
    unfolding run treeCerts_unfold by simp
qed simp

text \<open>The loop over the names of the roots, each walked with a new slice.\<close>

lemma walk_roots:
  assumes "\<And>n h q v. n \<in> set ns \<Longrightarrow> good h q [n] \<Longrightarrow> walked q h v (items n) (walk q (h, v))"
  shows "\<exists>h' qs. forG ns (\<lambda>n. bindG (newS n) walk) (h, v) = (Ok (), (h', visits qs (concat (map items ns)) v)) \<and>
    length qs = length (concat (map items ns)) \<and> nextArr h \<le> nextArr h' \<and>
    (\<forall>a<nextArr h. arrays h' a = arrays h a) \<and>
    list_all2 (\<lambda>q it. length (fst it) \<le> 3 \<longrightarrow> s_arr q < nextArr h' \<and> sliceList h' q = fst it) qs (concat (map items ns))"
  using assms
proof (induction ns arbitrary: h v)
  case Nil
  then show ?case by (simp add: visits_def returnG_def)
next
  case (Cons n ns)
  obtain q h1 where q: "newS n (h, v) = (Ok q, (h1, v))" "good h1 q [n]" "s_arr q = nextArr h"
    "nextArr h1 = Suc (nextArr h)" "\<forall>a<nextArr h. arrays h1 a = arrays h a"
    using newS_good [of n h v] by (elim exE conjE) (rule that; assumption)
  obtain h2 qs where w: "walk q (h1, v) = (Ok (), (h2, visits qs (items n) v))" "length qs = length (items n)"
    "heapExt q h1 h2" "kept q h1 h2 qs (items n)"
    using Cons.prems [OF _ q(2), of v] by (auto simp: walked_def)
  have old: "nextArr h \<le> nextArr h2" "\<forall>a<nextArr h. arrays h2 a = arrays h a"
    using w(3) q by (auto simp: heapExt_def)
  obtain h3 rs where r: "forG ns (\<lambda>n. bindG (newS n) walk) (h2, visits qs (items n) v)
      = (Ok (), (h3, visits rs (concat (map items ns)) (visits qs (items n) v)))"
    "length rs = length (concat (map items ns))" "nextArr h2 \<le> nextArr h3" "\<forall>a<nextArr h2. arrays h3 a = arrays h2 a"
    "list_all2 (\<lambda>q it. length (fst it) \<le> 3 \<longrightarrow> s_arr q < nextArr h3 \<and> sliceList h3 q = fst it) rs (concat (map items ns))"
    using Cons.IH [of h2 "visits qs (items n) v"] Cons.prems by auto
  have "list_all2 (\<lambda>q it. length (fst it) \<le> 3 \<longrightarrow> s_arr q < nextArr h3 \<and> sliceList h3 q = fst it) qs (items n)"
    using w(4) unfolding kept_def
    by (rule list_all2_mono) (use r(3,4) in \<open>auto simp: sliceList_def\<close>)
  then show ?case
    using q(1) w(1,2) r old
    by (auto simp: bindG_def visits_append intro!: exI [of _ h3] exI [of _ "qs @ rs"] list_all2_appendI)
qed

lemma walk_all:
  assumes "chainsOk cs" "growOk grow"
  shows "\<exists>h' qs. WalkChains grow cs nilSlice fn (h, v) = (Ok (), (h', visits qs (allCerts cs) v)) \<and>
    length qs = length (allCerts cs) \<and>
    list_all2 (\<lambda>q it. length (fst it) \<le> 3 \<longrightarrow> sliceList h' q = fst it) qs (allCerts cs)"
proof -
  let ?items = "\<lambda>n. case mapGet (signers cs) n of Some s \<Rightarrow> treeCerts [n] s | None \<Rightarrow> []"
  have child: "walked q h' v' (?items n) (walkF (Suc (chainsDepth cs)) grow cs q fn (h', v'))"
    if n: "n \<in> set (GetSignerNames cs)" and q: "good h' q [n]" for n h' q v'
  proof -
    obtain s where s: "mapGet (signers cs) n = Some s"
      using n by (auto simp: GetSignerNames_def certificateSignersMapKeysOrdered_def gm.keys_get)
    then have mem: "(n, s) \<in> set (signers cs)" by (auto simp: mapGet_def dest: map_of_SomeD)
    then have "depth s \<le> chainsDepth cs"
      unfolding chainsDepth_def by (intro fold_max_ge disjI1) (auto intro!: image_eqI [of _ _ "(n, s)"])
    moreover have "certsOk s" using mem assms(1) by (force simp: chainsOk_def)
    ultimately show ?thesis
      using walk_tree [OF _ _ _ q assms(2)] s by (simp add: GetSigner_def del: walkF.simps)
  qed
  have "WalkChains grow cs nilSlice fn (h, v) =
      forG (GetSignerNames cs) (\<lambda>n. bindG (newS n) (\<lambda>q. walkF (Suc (chainsDepth cs)) grow cs q fn)) (h, v)"
    by (simp add: WalkChains_def bindG_readS sliceList_def nilSlice_def)
  moreover note walk_roots [where h = h and v = v and ns = "GetSignerNames cs" and items = ?items, OF child]
  ultimately show ?thesis
    unfolding allCerts_def by (auto simp del: walkF.simps elim!: list_all2_mono)
qed

end

section \<open>The earliest rotation\<close>

definition rotateStep :: "slice \<Rightarrow> string list \<Rightarrow> x509 \<Rightarrow> slice \<times> int \<Rightarrow> slice \<times> int" where
  "rotateStep q path c v =
     (if snd v = 0 \<or> rotateAtOf c < snd v then (q, rotateAtOf c) else v)"

interpretation rv: walk_visitor rotateVisit rotateStep
  by unfold_locales (auto simp: rotateVisit_def rotateStep_def Let_def)

lemma rotate_fold:
  assumes "length qs = length items" "\<forall>it\<in>set items. rotateAtOf (snd it) \<noteq> 0" "snd v \<noteq> 0" "r = rv.visits qs items v"
  shows "snd r \<noteq> 0 \<and> snd r \<le> snd v \<and> (\<forall>it\<in>set items. snd r \<le> rotateAtOf (snd it)) \<and>
    (r = v \<or> (\<exists>z\<in>set (zip qs items). r = (fst z, rotateAtOf (snd (snd z)))))"
  using assms
proof (induction qs items arbitrary: v rule: list_induct2)
  case (Cons q qs it items)
  let ?v = "rotateStep q (fst it) (snd it) v"
  have r: "r = rv.visits qs items ?v" using Cons.prems(3) by (simp add: rv.visits_def case_prod_beta)
  have v: "snd ?v \<noteq> 0" "snd ?v \<le> snd v" "snd ?v \<le> rotateAtOf (snd it)"
    "?v = v \<or> ?v = (q, rotateAtOf (snd it))"
    using Cons.prems(1,2) by (auto simp: rotateStep_def)
  have "snd r \<noteq> 0 \<and> snd r \<le> snd ?v \<and> (\<forall>it\<in>set items. snd r \<le> rotateAtOf (snd it)) \<and>
    (r = ?v \<or> (\<exists>z\<in>set (zip qs items). r = (fst z, rotateAtOf (snd (snd z)))))"
    using Cons.prems(1) by (intro Cons.IH [OF _ v(1) r]) simp
  then show ?case using v by auto
qed (simp add: rv.visits_def)

lemma rotation_earliest:
  assumes ok: "chainsOk cs" "growOk grow" and some: "allCerts cs \<noteq> []"
    and short: "\<forall>it\<in>set (allCerts cs). length (fst it) \<le> 3"
    and nz: "\<forall>it\<in>set (allCerts cs). rotateAtOf (snd it) \<noteq> 0"
  shows "\<exists>path c. WhenToRotateAtEarliest grow cs = (path, rotateAtOf c, Ok ()) \<and> (path, c) \<in> set (allCerts cs) \<and>
    (\<forall>it\<in>set (allCerts cs). rotateAtOf c \<le> rotateAtOf (snd it))"
proof -
  obtain h qs where run: "WalkChains grow cs nilSlice rotateVisit (emptyHeap, (nilSlice, 0)) =
      (Ok (), (h, rv.visits qs (allCerts cs) (nilSlice, 0)))" and len: "length qs = length (allCerts cs)"
    and kept: "list_all2 (\<lambda>q it. length (fst it) \<le> 3 \<longrightarrow> sliceList h q = fst it) qs (allCerts cs)"
    using rv.walk_all [OF ok, of emptyHeap "(nilSlice, 0)"] by auto
  obtain it its where its: "allCerts cs = it # its" using some by (cases "allCerts cs") auto
  obtain q qs' where qs: "qs = q # qs'" using len its by (cases qs) auto
  let ?v = "(q, rotateAtOf (snd it))"
  let ?r = "rv.visits qs' its ?v"
  have r: "rv.visits qs (allCerts cs) (nilSlice, 0) = ?r"
    by (simp add: rv.visits_def its qs rotateStep_def case_prod_beta)
  have f: "snd ?r \<noteq> 0 \<and> snd ?r \<le> snd ?v \<and> (\<forall>it\<in>set its. snd ?r \<le> rotateAtOf (snd it)) \<and>
    (?r = ?v \<or> (\<exists>z\<in>set (zip qs' its). ?r = (fst z, rotateAtOf (snd (snd z)))))"
    using len nz by (intro rotate_fold) (simp_all add: its qs)
  then obtain z where z: "z \<in> set (zip qs (allCerts cs))" "?r = (fst z, rotateAtOf (snd (snd z)))"
    by (metis fst_conv its list.set_intros qs snd_conv zip_Cons_Cons)
  have "snd z \<in> set (allCerts cs)" using z(1) by (metis prod.collapse set_zip_rightD)
  moreover from this have "sliceList h (fst z) = fst (snd z)"
    using kept short z(1) by (auto simp: list_all2_iff case_prod_beta)
  moreover have "WhenToRotateAtEarliest grow cs = (sliceList h (fst z), rotateAtOf (snd (snd z)), Ok ())"
    using run z(2) r by (simp add: WhenToRotateAtEarliest_def)
  moreover have "\<forall>it\<in>set (allCerts cs). rotateAtOf (snd (snd z)) \<le> rotateAtOf (snd it)"
    using f z(2) by (auto simp: its)
  ultimately show ?thesis by (intro exI [of _ "fst (snd z)"] exI [of _ "snd (snd z)"]) simp
qed

section \<open>Chains that live in a set of files\<close>

definition chainsHomed :: "string set \<Rightarrow> CertificateChains \<Rightarrow> bool" where
  "chainsHomed S cs = (mapWf (signers cs) \<and> (\<forall>q\<in>set (signers cs). signerName (snd q) = fst q \<and> homed S (snd q)))"

definition chainsInv :: "string set \<Rightarrow> world \<Rightarrow> CertificateChains \<times> world \<Rightarrow> bool" where
  "chainsInv S w0 = (\<lambda>(cs, w). chainsHomed S cs \<and> fs.agree S w0 w)"

lemma chainsHomed_get: "chainsHomed S cs \<Longrightarrow> mapGet (signers cs) n = Some u \<Longrightarrow> homed S u \<and> signerName u = n"
  by (force simp: chainsHomed_def mapGet_def dest: map_of_SomeD)

lemma chainsHomed_put:
  "chainsHomed S cs \<Longrightarrow> homed S u \<Longrightarrow> signerName u = n \<Longrightarrow> chainsHomed S (cs\<lparr>signers := mapPut n u (signers cs)\<rparr>)"
  using mapPut_all [of "signers cs" "\<lambda>q. signerName (snd q) = fst q \<and> homed S (snd q)" n u]
  by (simp add: chainsHomed_def gm.wf_put)

lemma framed_named:
  assumes lib: "lib_frame E" "lib_serials E" "range_ok (range_order E)"
  shows "framed (\<lambda>s. homed S s \<and> signerName s = n) S (signerRegenerate E path)"
proof (rule framedI)
  fix s w r s' w'
  assume h: "homed S s \<and> signerName s = n" and run: "signerRegenerate E path (s, w) = (r, (s', w'))"
  have "signerName s' = signerName s"
    using signerRegenerate_effect [OF lib _ _ run] h by (simp add: homed_def)
  then show "(homed S s' \<and> signerName s' = n) \<and> fs.agree S w w'"
    using framedD [OF signerRegenerate_homed [OF lib] run] h by simp
qed

lemma Regenerate_keeps:
  assumes lib: "lib_frame E" "lib_serials E" "range_ok (range_order E)"
  shows "keeps (chainsInv S w0) (Regenerate E path)"
proof (rule keepsI)
  fix a r b
  assume I: "chainsInv S w0 a" and run: "Regenerate E path a = (r, b)"
  obtain cs w where a: "a = (cs, w)" by force
  show "chainsInv S w0 b"
  proof (cases "\<exists>n rest u. path = n # rest \<and> mapGet (signers cs) n = Some u")
    case True
    then obtain n rest u where p: "path = n # rest" "mapGet (signers cs) n = Some u" by blast
    obtain u' w' where m: "signerRegenerate E rest (u, w) = (r, (u', w'))"
      and b: "b = (cs\<lparr>signers := mapPut n u' (signers cs)\<rparr>, w')"
      using run p by (auto simp: a Regenerate_def GetSigner_def onSigner_def split: prod.splits)
    have u: "homed S u \<and> signerName u = n" using chainsHomed_get [of S cs, OF _ p(2)] I by (simp add: a chainsInv_def)
    from framedD [OF framed_named [OF lib] m u] show ?thesis
      using I by (auto simp: a b chainsInv_def intro: chainsHomed_put fs.agree_trans)
  qed (use run I in \<open>auto simp: a Regenerate_def GetSigner_def panicG_def split: list.splits option.splits\<close>)
qed

section \<open>Completing chains\<close>

lemma homed_insertBundle: "homed S s \<Longrightarrow> p \<in> S \<Longrightarrow> homed S (insertBundle p s)"
  by (rule tended_homed [OF tended_insertBundle [OF homed_tended]])
    (simp_all add: homed_def serialWf_def serialsIn_upd)

text \<open>A root of the program: it gets its authority from files in \<open>S\<close>.\<close>

definition rootIn :: "string set \<Rightarrow> certificateSigner \<Rightarrow> bool" where
  "rootIn S b = (dirsOk b \<and> bConfig b = None \<and>
     (\<exists>i. bCAInfo b = Some i \<and> footprint b \<union> {ca_certFile i, ca_keyFile i, ca_serialFile i} \<subseteq> S))"

lemma Complete_homed:
  assumes lib: "lib_serials E" and b: "rootIn S b" and run: "Complete E b w = (Ok s, w')"
  shows "homed S s \<and> signerName s = bName b"
proof -
  from b obtain i where i: "bCAInfo b = Some i" "footprint b \<union> {ca_certFile i, ca_keyFile i, ca_serialFile i} \<subseteq> S"
    "dirsOk b" "bConfig b = None" by (auto simp: rootIn_def)
  from run obtain cfg v where ens: "ensureConfig E b w = (Ok cfg, v)"
    and co: "Complete E (WithSignerConfig cfg b) v = (Ok s, w')"
    unfolding Complete_unfold [of E b] by (auto simp: bindG_Ok_iff)
  have "serialFiles cfg \<subseteq> {ca_serialFile i}"
    using ens i by (auto simp: ensureConfig_def EnsureCA_def gom_iff dest!: lib_serialsD(1) [OF lib])
  then have "serialWf S s" using i by (intro Complete_serialWf(1) [OF lib _ _ _ co, where C = cfg]) auto
  moreover have r: "realises b s" using Complete_realises [OF run] .
  ultimately show ?thesis
    using realises_wf [OF r] i by (auto simp: homed_def realises.simps [of b s] sameIdent_def)
qed

lemma addSigner_keeps:
  assumes lib: "lib_frame E" "lib_serials E" and b: "rootIn S b"
  shows "keeps (chainsInv S w0) (addSigner E b)"
proof (rule keepsI)
  fix x r y
  assume I: "chainsInv S w0 x" and run: "addSigner E b x = (r, y)"
  obtain cs w where x: "x = (cs, w)" by force
  from b obtain i where i: "bCAInfo b = Some i" "footprint b \<union> {ca_certFile i, ca_keyFile i, ca_serialFile i} \<subseteq> S"
    "dirsOk b" "bConfig b = None" by (auto simp: rootIn_def)
  have t: "touches S (Complete E b)"
    by (rule touches_mono [OF Complete_root_framed [OF lib i(3,4,1)] i(2)])
  obtain q w' where co: "Complete E b w = (q, w')" by force
  have ag: "fs.agree S w0 w'" using touchesD [OF t co] I by (auto simp: x chainsInv_def intro: fs.agree_trans)
  show "chainsInv S w0 y"
    using run I ag co Complete_homed [OF lib(2) b, of w]
    by (cases q) (auto simp: x addSigner_def getC_def liftCW_def zoomG_def bindG_def wrapG_def failG_def chainsInv_def
        intro: chainsHomed_put split: if_splits)
qed

lemma homed_getSignerFrom:
  "homed S v \<Longrightarrow> getSignerFrom (Some v) rest = Some u \<Longrightarrow> homed S u"
proof (induction rest arbitrary: v)
  case (Cons n rest)
  then obtain t where t: "GetSubCA v n = Some t" by (cases "GetSubCA v n") auto
  then show ?case using Cons.IH [OF homed_sub [OF Cons.prems(1) t]] Cons.prems(2) by simp
qed simp

lemma homed_putIn:
  "homed S v \<Longrightarrow> getSignerFrom (Some v) rest = Some u \<Longrightarrow> homed S u' \<Longrightarrow> signerName u' = signerName u \<Longrightarrow>
   homed S (putIn v rest u') \<and> signerName (putIn v rest u') = signerName v"
proof (induction rest arbitrary: v)
  case (Cons n rest)
  then obtain t where t: "GetSubCA v n = Some t" by (cases "GetSubCA v n") auto
  have "signerName t = n" using GetSubCA_parts(3) [OF _ _ t] Cons.prems(1) by (simp add: homed_def)
  then show ?case
    using Cons.IH [OF homed_sub [OF Cons.prems(1) t]] Cons.prems t by (simp add: homed_putSubCA)
qed simp

lemma AddToBundles_homed:
  assumes "lib_frame E" "set ps \<subseteq> S"
  shows "framed (\<lambda>s. homed S s \<and> signerName s = n) S (AddToBundles E ps)"
  using assms by (intro framed_AddToBundles) (auto intro: homed_insertBundle)

lemma addBundleEntry_keeps:
  assumes lib: "lib_frame E" and S: "bundle \<in> S"
  shows "keeps (chainsInv S w0) (addBundleEntry E bundle path)"
proof (rule keepsI)
  fix x r y
  assume I: "chainsInv S w0 x" and run: "addBundleEntry E bundle path x = (r, y)"
  obtain cs w where x: "x = (cs, w)" by force
  show "chainsInv S w0 y"
  proof (cases "GetSigner cs path")
    case None
    then show ?thesis using run I by (simp add: x addBundleEntry_def getC_def bindG_def panicG_def)
  next
    case (Some u)
    then obtain n rest v where p: "path = n # rest" "mapGet (signers cs) n = Some v" "getSignerFrom (Some v) rest = Some u"
      by (cases path; cases "mapGet (signers cs) (hd path)") (auto simp: GetSigner_def)
    have v: "homed S v \<and> signerName v = n" using chainsHomed_get [of S cs, OF _ p(2)] I by (simp add: x chainsInv_def)
    have u: "homed S u \<and> signerName u = signerName u" using homed_getSignerFrom [OF _ p(3)] v by simp
    obtain q u' w' where m: "AddToBundles E [bundle] (u, w) = (q, (u', w'))" by (metis surj_pair)
    have u': "(homed S u' \<and> signerName u' = signerName u) \<and> fs.agree S w w'"
      using framedD [OF AddToBundles_homed [OF lib] m u] S by simp
    have y: "y = (putSignerAt path u' cs, w')"
      using run m Some by (cases q) (auto simp: x addBundleEntry_def getC_def bindG_def wrapG_def onSignerAt_def)
    have "chainsHomed S (putSignerAt path u' cs)"
      using homed_putIn [OF _ p(3), of S u'] v u' I p
      by (auto simp: putSignerAt_def x chainsInv_def intro!: chainsHomed_put)
    then show ?thesis using u' I by (auto simp: y x chainsInv_def intro: fs.agree_trans)
  qed
qed

lemma chainsComplete_homed:
  assumes lib: "lib_frame E" "lib_serials E" and roots: "\<forall>b\<in>set (cb_signers b). rootIn S b"
    and bundles: "\<forall>q\<in>set (cb_fileBundles b). fst q \<in> S"
    and run: "chainsComplete E b cfg w = (r, w')"
  shows "fs.agree S w w' \<and> (\<forall>cs. r = Ok cs \<longrightarrow> chainsHomed S cs)"
proof -
  have "keeps (chainsInv S w) (completeBody E b)"
    unfolding completeBody_def using roots bundles
    by (intro keep addSigner_keeps [OF lib] addBundleEntry_keeps [OF lib(1)])
      (auto intro!: keep addBundleEntry_keeps [OF lib(1)] dest!: mapRange_mem)
  moreover have "chainsInv S w (\<lparr>signers = [], chainsSigningConfig = cfg\<rparr>, w)"
    by (simp add: chainsInv_def chainsHomed_def fs.agree_refl)
  moreover obtain q c v where body: "completeBody E b (\<lparr>signers = [], chainsSigningConfig = cfg\<rparr>, w) = (q, (c, v))"
    by (metis surj_pair)
  ultimately have "chainsInv S w (c, v)" by (rule keepsD)
  then show ?thesis using run body by (cases q) (auto simp: chainsComplete_def chainsInv_def)
qed

end
