(* ===== verification/CertificateProofs.thy ===== *)
theory CertificateProofs
  imports Certificates ChainProofs
begin

text \<open>
  The theory of the control plane's certificates: the layout of the directory, the rotation
  decision, and what starting up may change on disk.
\<close>

section \<open>Rotation\<close>

definition outOfValidity :: "int \<Rightarrow> x509 \<Rightarrow> bool" where
  "outOfValidity now c = (now < NotBefore c \<or> now > NotAfter c)"

definition expiresSoon :: "int \<Rightarrow> x509 \<Rightarrow> bool" where
  "expiresSoon now c = (NotAfter c - now < (if IsCertShortLived c then 7 * month else 18 * month))"

text \<open>
  The rotation list: one entry for a certificate that is out of its validity, one for a
  certificate that expires soon, with the two readings of the clock for each certificate.
\<close>

fun dueList :: "(nat \<Rightarrow> int) \<Rightarrow> nat \<Rightarrow> (string list \<times> x509) list \<Rightarrow> string list list" where
  "dueList clock t [] = []"
| "dueList clock t (it # its) =
     (if outOfValidity (clock t) (snd it) then [fst it] else []) @
     (if expiresSoon (clock (Suc t)) (snd it) then [fst it] else []) @ dueList clock (Suc (Suc t)) its"

definition regenLog :: "slice \<Rightarrow> string list \<Rightarrow> x509 \<Rightarrow> rotateState \<Rightarrow> rotateState" where
  "regenLog q path c = regenStep q c"

interpretation cv: walk_visitor regenVisit regenLog
  by unfold_locales (simp add: regenVisit_def regenLog_def)

definition wticks :: "nat \<Rightarrow> world \<Rightarrow> world" where
  "wticks n w = w\<lparr>ticks := ticks w + n\<rparr>"

lemma months: "month = 2592000000000000"
  by (simp add: month_def time_Hour_def)

lemma expiresSoon_sub: "expiresSoon now c = (time_Sub (NotAfter c) now < (if IsCertShortLived c then 7 * month else 18 * month))"
  by (auto simp: expiresSoon_def months time_Sub_less)

lemma regenStep_eq:
  "regenStep q c v = \<lparr>rs_world = wticks 2 (rs_world v),
     regenCerts = regenCerts v @ (if outOfValidity (clockAt (rs_world v) (ticks (rs_world v))) c then [q] else []) @
       (if expiresSoon (clockAt (rs_world v) (Suc (ticks (rs_world v)))) c then [q] else [])\<rparr>"
  by (cases v)
    (auto simp: regenStep_def tick_def time_Now_def Let_def outOfValidity_def expiresSoon_sub wticks_def)

lemma regen_visits:
  assumes "list_all2 (\<lambda>q it. sliceList h q = fst it) qs its"
  shows "map (sliceList h) (regenCerts (cv.visits qs its v)) =
      map (sliceList h) (regenCerts v) @ dueList (clockAt (rs_world v)) (ticks (rs_world v)) its \<and>
    rs_world (cv.visits qs its v) = wticks (2 * length its) (rs_world v)"
  using assms
proof (induction arbitrary: v rule: list_all2_induct)
  case Nil
  then show ?case by (simp add: cv.visits_def wticks_def)
next
  case (Cons q qs it its)
  have "cv.visits (q # qs) (it # its) v = cv.visits qs its (regenStep q (snd it) v)"
    by (simp add: cv.visits_def case_prod_beta regenLog_def)
  then show ?case
    using Cons.IH [of "regenStep q (snd it) v"] Cons.hyps(1) by (simp add: regenStep_eq wticks_def)
qed

lemma certsToRegenerate_due:
  assumes "chainsOk cs" "growOk grow" and short: "\<forall>it\<in>set (allCerts cs). length (fst it) \<le> 3"
  shows "certsToRegenerate grow cs w =
    (Ok (dueList (clockAt w) (ticks w) (allCerts cs)), wticks (2 * length (allCerts cs)) w)"
proof -
  let ?v = "\<lparr>rs_world = w, regenCerts = []\<rparr>"
  obtain h qs where run: "WalkChains grow cs nilSlice regenVisit (emptyHeap, ?v) = (Ok (), (h, cv.visits qs (allCerts cs) ?v))"
    and kept: "list_all2 (\<lambda>q it. length (fst it) \<le> 3 \<longrightarrow> sliceList h q = fst it) qs (allCerts cs)"
    using cv.walk_all [OF assms(1,2), of emptyHeap ?v] by auto
  have "list_all2 (\<lambda>q it. sliceList h q = fst it) qs (allCerts cs)"
    using kept short by (simp add: list_all2_conv_all_nth)
  from regen_visits [OF this, of ?v] show ?thesis by (simp add: certsToRegenerate_def run)
qed

text \<open>With a clock that stands still, exactly the certificates that are due are listed.\<close>

lemma set_dueList:
  "(\<And>t. clock t = now) \<Longrightarrow> set (dueList clock t its) = {path. \<exists>c. (path, c) \<in> set its \<and> (outOfValidity now c \<or> expiresSoon now c)}"
proof (induction its arbitrary: t)
  case (Cons it its)
  then show ?case using Cons.IH [of "Suc (Suc t)"] by (cases it) auto
qed simp

section \<open>The layout of the directory\<close>

lemma plain_layout [simp]:
  "plain ''cert''" "plain ServiceAccountKeyFileName" "plain KubeconfigFileName" "plain InclusterKubeconfigFileName"
  "plain CABundleDirName" "plain RootCABundleFileName" "plain ServerCABundleFileName" "plain ClientCABundleFileName"
  "plain RequestHeaderCABundleFileName" "plain EtcdCABundleFileName" "plain RootCACertDirName"
  "plain ServerCACertDirName" "plain ClientCACertDirName" "plain RequestHeaderCACertDirName" "plain EtcdCACertDirName"
  "plain AdminCertDirName" "plain KubeApiserverCertDirName" "plain KubeAggregatorCertDirName"
  "plain AuthProxyCertDirName" "plain PeerCertDirName" "plain ClientCertDirName"
  by (simp_all add: plain_def nameDefs)

lemma cleanDir_Certs: "cleanDir (CertsDirectory base)"
  by (simp add: CertsDirectory_def cleanDir_Join)

lemma below_sub: "cleanDir d \<Longrightarrow> plain n \<Longrightarrow> below (Join [d, n]) p \<Longrightarrow> below d p"
  by (rule below_trans [OF below_Join])

lemma fst_mapPut: "fst ` set (mapPut k v m) = insert k (fst ` set m)"
  by (simp add: mapPut_def dom_update)

lemma below_Join2:
  assumes "cleanDir d" "plain n" "plain m"
  shows "below d (Join [Join [d, n], m])"
  using below_trans [OF below_Join [OF assms(1,2)] below_Join [OF cleanDir_Join [OF assms(2)] assms(3)]] .

lemma below_Join3:
  assumes "cleanDir d" "plain n" "plain m"
  shows "below d (Join [d, n, m])"
  using assms below_append [of d "n @ ''/'' @ m"] by (simp add: Join_plain3)

lemma caSigner_sel:
  "bName (caSigner cfg ns d) = RootCACertDirName" "bDir (caSigner cfg ns d) = RootCACertDir d"
  "bConfig (caSigner cfg ns d) = None" "bCAInfo (caSigner cfg ns d) = Some (rootCAInfo cfg d)"
  "bBundles (caSigner cfg ns d) = []" "bCerts (caSigner cfg ns d) = []"
  "bSubCAs (caSigner cfg ns d) = [serverSigner cfg ns d, requestheaderSigner d, clientSigner d] @
     (if IsEmbedEtcd cfg then [etcdSigner d] else [])"
  by (simp_all add: caSigner_def NewCertificateSigner_def)

lemmas signerDefs = serverSigner_def requestheaderSigner_def clientSigner_def etcdSigner_def
  WithServingCertificates_def WithClientCertificates_def WithPeerCertificiates_def NewCertificateSigner_def

lemma dirsOk_caSigner: "dirsOk (caSigner cfg ns d)"
  by (simp add: dirsOk_sel [of "caSigner cfg ns d"] caSigner_sel, simp add: signerDefs meta_def
      RootCACertDir_def ServerCACertDir_def ClientCACertDir_def RequestHeaderCACertDir_def EtcdCACertDir_def cleanDir_Join)

lemma footprint_caSigner:
  assumes "cleanDir d"
  shows "footprint (caSigner cfg ns d) \<subseteq> {p. below d p}"
  using plain_layout(11-15) [THEN below_sub [OF assms]]
  by (auto simp: footprint_sel [of "caSigner cfg ns d"] caSigner_sel signerDefs RootCACertDir_def
      ServerCACertDir_def ClientCACertDir_def RequestHeaderCACertDir_def EtcdCACertDir_def split: if_splits)

text \<open>The files that starting the control plane may change.\<close>

definition startupFiles :: "ControlplaneRunConfig \<Rightarrow> string set" where
  "startupFiles cfg = {p. below (CertsDirectory (DataDirectory cfg)) p} \<union>
     (if IsCAProvided cfg then {CAFile (Apiserver cfg), CAKeyFile (Apiserver cfg), []} else {})"

lemma rootIn_caSigner: "rootIn (startupFiles cfg) (caSigner cfg ns (CertsDirectory (DataDirectory cfg)))"
  using footprint_caSigner [OF cleanDir_Certs] below_Join3 [OF cleanDir_Certs]
  by (auto simp: rootIn_def dirsOk_caSigner caSigner_sel startupFiles_def rootCAInfo_def NewCAInfo_def SetCertFile_def
      SetKeyFile_def SetSerialFile_def DefaultRootCAFile_def DefaultRootCAKeyFile_def DefaultRootCASerialFile_def)

lemma bundle_keys: "fst ` set (cb_fileBundles (controlplaneChains cfg ns d)) =
    {Join [CABundleDir d, RootCABundleFileName], TotalServerCABundlePath d, RequestHeaderCABundlePath d,
     TotalClientCABundlePath d} \<union> (if IsEmbedEtcd cfg then {EtcdCABundlePath d} else {})"
  by (auto simp: controlplaneChains_def Let_def WithCABundle_def NewCertificateChains_def fst_mapPut)

lemma bundles_in_startupFiles:
  assumes "q \<in> set (cb_fileBundles (controlplaneChains cfg ns (CertsDirectory (DataDirectory cfg))))"
  shows "fst q \<in> startupFiles cfg"
proof -
  have "fst q \<in> fst ` set (cb_fileBundles (controlplaneChains cfg ns (CertsDirectory (DataDirectory cfg))))"
    using assms by simp
  then show ?thesis
    unfolding bundle_keys using below_Join2 [OF cleanDir_Certs]
    by (auto simp: startupFiles_def TotalClientCABundlePath_def TotalServerCABundlePath_def
        RequestHeaderCABundlePath_def EtcdCABundlePath_def CABundleDir_def split: if_splits)
qed

section \<open>What starting up may change\<close>

lemma keeps_walkF:
  assumes "\<And>q c. keeps I (fn q c)" "\<And>h h' v. I (h, v) \<Longrightarrow> I (h', v)"
  shows "keeps I (walkF n grow cs p fn)"
proof (induction n arbitrary: p)
  case (Suc n)
  have r: "keeps I (readS p)" and a: "keeps I (appendS grow p x)" and m: "keeps I (newS x)" and l: "keeps I (ofO q)" for x q
    using assms(2) by (auto simp: keeps_def readS_def appendS_def newS_def ofO_def split: if_splits)
  show ?case
    unfolding walkF.simps by (intro keep r a m l assms(1) Suc)
qed (simp add: keep)

lemma certsToRegenerate_frame: "touches {} (certsToRegenerate grow cs)"
proof (rule touchesI)
  fix w r w'
  assume run: "certsToRegenerate grow cs w = (r, w')"
  let ?I = "\<lambda>(h :: heap, v). fs.agree {} w (rs_world v)"
  have "keeps ?I (walkF n grow cs p regenVisit)" for n p
    by (rule keeps_walkF) (auto simp: keeps_def regenVisit_def regenStep_eq wticks_def fs.agree_def)
  then have k: "keeps ?I (WalkChains grow cs nilSlice regenVisit)" by (simp only: WalkChains_def)
  obtain q h v where walk: "WalkChains grow cs nilSlice regenVisit (emptyHeap, \<lparr>rs_world = w, regenCerts = []\<rparr>) = (q, (h, v))"
    by (metis surj_pair)
  from keepsD [OF k _ walk] have "fs.agree {} w (rs_world v)" by (simp add: fs.agree_refl)
  then show "fs.agree {} w w'" using run walk by (cases q) (auto simp: certsToRegenerate_def)
qed

lemma regenerateAll_frame:
  assumes lib: "lib_frame E" "lib_serials E" "range_ok (range_order E)" and cs: "chainsHomed S cs"
  shows "touches S (regenerateAll E paths cs)"
proof (rule touchesI)
  fix w r w'
  assume run: "regenerateAll E paths cs w = (r, w')"
  obtain q cs' v where f: "forG paths (Regenerate E) (cs, w) = (q, (cs', v))" by (metis surj_pair)
  have "keeps (chainsInv S w) (forG paths (Regenerate E))" by (intro keep Regenerate_keeps [OF lib])
  from keepsD [OF this _ f] have "fs.agree S w v" using cs by (simp add: chainsInv_def fs.agree_refl)
  then show "fs.agree S w w'" using run f by (cases q) (auto simp: regenerateAll_def)
qed

lemma certSetup_homed:
  assumes lib: "lib_frame E" "lib_serials E"
    and run: "certSetup E K cfg (w, k) = (r, (w', k'))"
  shows "k' = k \<and> fs.agree (startupFiles cfg) w w' \<and> (\<forall>cs. r = Ok cs \<longrightarrow> chainsHomed (startupFiles cfg) cs)"
proof -
  let ?d = "CertsDirectory (DataDirectory cfg)" and ?S = "startupFiles cfg"
  obtain q w1 k1 where ns: "GetComponentNamespace E K (w, k) = (q, (w1, k1))" by (metis surj_pair)
  then obtain n where n: "GetComponentNamespace E K (w, k) = (Ok n, (w, k))" using GetComponentNamespace_pure [OF ns] by auto
  let ?cfg = "Some \<lparr>ApiHost = ExternalHostname (Apiserver cfg)\<rparr>"
  obtain c v where co: "chainsComplete E (controlplaneChains cfg n ?d) ?cfg w = (c, v)" by force
  have roots: "\<forall>b\<in>set (cb_signers (controlplaneChains cfg n ?d)). rootIn ?S b"
    using rootIn_caSigner by (simp add: controlplaneChains_def Let_def WithCABundle_def NewCertificateChains_def)
  note h = chainsComplete_homed [OF lib roots _ co]
  have key: "touches ?S (GenerateServiceAccountKey E (ServiceAccountKeyFile ?d))"
    unfolding GenerateServiceAccountKey_def
    by (intro touch touches_lib [OF lib(1)])
      (simp add: startupFiles_def ServiceAccountKeyFile_def below_Join cleanDir_Certs)
  obtain g u where ge: "GenerateServiceAccountKey E (ServiceAccountKeyFile ?d) v = (g, u)" by force
  have "fs.agree ?S v u" using touchesD [OF key ge] .
  then show ?thesis
    using run n co h bundles_in_startupFiles ge
    by (cases c; cases g)
      (auto simp: certSetup_def Let_def bindG_def onFS_def zoomG_def returnG_def intro: fs.agree_trans)
qed

lemma InitCerts_frame:
  assumes lib: "lib_frame E" "lib_serials E" "range_ok (range_order E)"
    and run: "InitCerts E K grow cfg (w, k) = (r, (w', k'))"
  shows "k' = k \<and> fs.agree (startupFiles cfg) w w'"
proof -
  let ?S = "startupFiles cfg"
  obtain q w1 k1 where set: "certSetup E K cfg (w, k) = (q, (w1, k1))" by (metis surj_pair)
  note s = certSetup_homed [OF lib(1,2) set]
  show ?thesis
  proof (cases q)
    case (Ok cs)
    obtain d v where due: "certsToRegenerate grow cs w1 = (d, v)" by force
    have e1: "fs.agree ?S w1 v" using touchesD [OF certsToRegenerate_frame due] by (rule fs.agree_mono) simp
    show ?thesis
    proof (cases d)
      case (Ok paths)
      obtain g u where re: "regenerateAll E paths cs v = (g, u)" by force
      have "chainsHomed ?S cs" using s \<open>q = Ok cs\<close> by simp
      from touchesD [OF regenerateAll_frame [OF lib this] re] have "fs.agree ?S v u" .
      then have "fs.agree ?S w u" using s e1 fs.agree_trans by blast
      then show ?thesis
        using run set \<open>q = Ok cs\<close> due Ok re s by (simp add: InitCerts_def bindG_def onFS_def zoomG_def)
    qed (use run set \<open>q = Ok cs\<close> due s e1 in \<open>auto simp: InitCerts_def bindG_def onFS_def zoomG_def intro: fs.agree_trans\<close>)
  qed (use run set s in \<open>auto simp: InitCerts_def bindG_def\<close>)
qed

section \<open>Paths that the program relies on\<close>

lemma sub_names:
  "bName (serverSigner cfg ns d) = ServerCACertDirName" "bName (requestheaderSigner d) = RequestHeaderCACertDirName"
  "bName (clientSigner d) = ClientCACertDirName" "bName (etcdSigner d) = EtcdCACertDirName"
  by (simp_all add: signerDefs)

lemma caSigner_subs:
  assumes "realises (caSigner cfg ns d) s" "b \<in> set (bSubCAs (caSigner cfg ns d))"
  shows "\<exists>u. GetSubCA s (bName b) = Some u"
  using assms by (auto simp: realises.simps [of _ s] GetSubCA_def)

lemma bundle_entries:
  assumes "q \<in> set (cb_fileBundles (controlplaneChains cfg ns d))" "p \<in> set (snd q)"
  shows "p = [RootCACertDirName] \<or> (\<exists>b\<in>set (bSubCAs (caSigner cfg ns d)). p = [RootCACertDirName, bName b])"
proof -
  have "\<forall>q'\<in>set (cb_fileBundles (controlplaneChains cfg ns d)). snd q' \<in> {[[RootCACertDirName]], [[RootCACertDirName, ServerCACertDirName]],
      [[RootCACertDirName, RequestHeaderCACertDirName]], [[RootCACertDirName, ClientCACertDirName]]} \<union>
      (if IsEmbedEtcd cfg then {[[RootCACertDirName, EtcdCACertDirName]]} else {})"
    by (cases "IsEmbedEtcd cfg")
      (simp add: controlplaneChains_def Let_def WithCABundle_def NewCertificateChains_def,
       intro mapPut_all gm.wf_put, simp_all)+
  from bspec [OF this assms(1)] assms(2) show ?thesis by (auto simp: caSigner_sel sub_names split: if_splits)
qed

lemma bundle_paths_resolve:
  assumes "realises (caSigner cfg ns d) s" "signers cs = [(RootCACertDirName, s)]"
    and "q \<in> set (cb_fileBundles (controlplaneChains cfg ns d))" "p \<in> set (snd q)"
  shows "\<exists>u. GetSigner cs p = Some u"
  using bundle_entries [OF assms(3,4)] caSigner_subs [OF assms(1)]
  by (auto simp: GetSigner_def assms(2) mapGet_def)

end
