(* ===== verification/SignerTotal.thy ===== *)
theory SignerTotal
  imports SignerProofs
begin

text \<open>
  Completion returns: with a file system without faults and a library that makes what it is asked
  for, a builder whose requests are all known is completed, without an error and without a panic.
\<close>

definition armed :: "CertificateSigner \<times> world \<Rightarrow> bool" where
  "armed sw = (Certs (Config (signerConfig (fst sw))) \<noteq> [])"

lemma armed_getS [succeed]: "succeeds armed (\<lambda>_. True) getS"
  by (simp add: succeeds_def getS_def)

lemma armed_liftW: "succeeds (\<lambda>_. True) R m \<Longrightarrow> succeeds armed R (liftW m)"
  by (auto simp: succeeds_def armed_def gom_iff dest!: spec)

lemma armed_liftW_answers: "answers (\<lambda>_. True) R m \<Longrightarrow> answers armed R (liftW m)"
  unfolding answers_def armed_def by (auto simp: gom_iff)

lemma armed_modS [succeed]:
  "(\<And>s. signerConfig (f s) = signerConfig s) \<Longrightarrow> succeeds armed (\<lambda>_. True) (modS f)"
  by (simp add: succeeds_def modS_def armed_def)

lemma armed_let [succeed]: "succeeds P R (f x) \<Longrightarrow> succeeds P R (Let x f)"
  by simp

lemma total_os:
  assumes "lib_total E"
  shows "succeeds (\<lambda>_. True) (\<lambda>_. True) (os_WriteFile E p b)" "answers (\<lambda>_. True) (\<lambda>_. True) (os_Stat E p)"
  using assms by (auto simp: lib_total_def succeeds_def answers_def os_WriteFile_def os_Stat_def faultG_def split: option.splits)

lemma total_lib:
  assumes "lib_total E"
  shows "succeeds (\<lambda>_. True) (\<lambda>ca. Certs (Config ca) \<noteq> []) (lib_EnsureCA E c k f n d)"
    and "answers (\<lambda>_. True) (\<lambda>ca. Certs (Config ca) \<noteq> []) (lib_GetCA E c k f)"
    and "succeeds (\<lambda>_. True) (\<lambda>t. Certs t \<noteq> []) (lib_MakeCAConfigForDuration E n d ca)"
    and "succeeds (\<lambda>_. True) (\<lambda>_. True) (lib_WriteCertConfigFile E t c k)"
    and "succeeds (\<lambda>_. True) (\<lambda>_. True) (lib_NewSerialFileGenerator E f)"
    and "succeeds (\<lambda>_. True) (\<lambda>_. True) (lib_EnsureClientCertificate E ca c k u d)"
    and "succeeds (\<lambda>_. True) (\<lambda>_. True) (lib_EnsureServerCert E ca c k h d)"
    and "answers (\<lambda>_. True) (\<lambda>_. True) (lib_GetServerCert E c k h)"
    and "succeeds (\<lambda>_. True) (\<lambda>_. True) (lib_MakeServerCertForDuration E ca h d g)"
    and "succeeds (\<lambda>_. True) (\<lambda>_. True) (lib_EncodeCertificates E cs)"
  using assms by (simp_all add: lib_total_def)

lemma SignCertificate_succeeds:
  assumes "lib_total E" "handledCSR i"
  shows "succeeds armed (\<lambda>_. True) (SignCertificate E i)"
proof (cases i)
  case (ClientCSR m u)
  then show ?thesis unfolding SignCertificate_def SignClientCertificate_def
    by (auto intro!: succeed armed_liftW total_lib [OF assms(1)])
next
  case (ServingCSR m h)
  then show ?thesis unfolding SignCertificate_def SignServingCertificate_def
    by (auto intro!: succeed armed_liftW total_lib [OF assms(1)])
next
  case (PeerCSR m u h)
  then show ?thesis unfolding SignCertificate_def SignPeerCertificate_def
    by (auto intro!: succeed armed_liftW armed_liftW_answers total_lib [OF assms(1)])
next
  case (OtherCSR m)
  then show ?thesis using assms(2) by simp
qed

lemma libraryGoEnsureSubCA_succeeds:
  assumes "lib_total E"
  shows "succeeds (\<lambda>_. True) (\<lambda>ca. Certs (Config ca) \<noteq> []) (libraryGoEnsureSubCA E ca c k f n d)"
proof -
  note L = total_lib [OF assms]
  have "succeeds (\<lambda>_. True) (\<lambda>ca. Certs (Config ca) \<noteq> []) (libraryGoMakeAndWriteSubCA E ca c k f n d)"
    unfolding libraryGoMakeAndWriteSubCA_def
    by (rule succeeds_bind [OF L(3)], rule succeeds_bind [OF L(4)],
        rule succeeds_bind [where Q = "\<lambda>_. True"])
      (auto intro!: succeed L(5) total_os [OF assms])
  then show ?thesis
    unfolding libraryGoEnsureSubCA_def by (intro succeeds_try [OF L(2)]) (auto intro: succeeds_return)
qed

lemma writeSubCACert_succeeds:
  assumes "lib_total E" "Certs (Config ca) \<noteq> []"
  shows "succeeds (\<lambda>_. True) (\<lambda>_. True) (writeSubCACert E n p ca)"
proof -
  have first: "succeeds (\<lambda>_. True) (\<lambda>_. True) (ofO (firstCert (Config ca)))"
    using assms(2) by (auto simp: firstCert_def ofO_def succeeds_def neq_Nil_conv)
  have "succeeds (\<lambda>_. True) (\<lambda>_. True)
      (bindG (ofO (firstCert (Config ca))) (\<lambda>c. bindG (wrapG g (lib_EncodeCertificates E [c])) (\<lambda>b. wrapG h (os_WriteFile E p b))))" for g h
    by (rule succeeds_bind [OF first], rule succeeds_bind [where Q = "\<lambda>_. True"])
      (auto intro!: succeed total_lib(10) total_os assms(1))
  then show ?thesis
    unfolding writeSubCACert_def Let_def
    by (intro succeeds_try [OF total_os(2) [OF assms(1)]] succeeds_if succeeds_return) simp_all
qed

text \<open>Builders that ask only for what the code can sign, into no bundle.\<close>

fun plainBuilder :: "certificateSigner \<Rightarrow> bool" where
  "plainBuilder (Builder n d v c ss cs bs i) = ((\<forall>s\<in>set ss. plainBuilder s) \<and> (\<forall>x\<in>set cs. handledCSR x) \<and> bs = [])"

lemma plainBuilder_sel:
  "plainBuilder b \<longleftrightarrow> (\<forall>s\<in>set (bSubCAs b). plainBuilder s) \<and> (\<forall>x\<in>set (bCerts b). handledCSR x) \<and> bBundles b = []"
  by (cases b) simp

lemma plainBuilder_WithSignerConfig [simp]: "plainBuilder (WithSignerConfig c b) = plainBuilder b"
  by (cases b) simp

lemma runSigner_succeeds:
  assumes "succeeds armed (\<lambda>_. True) m" "Certs (Config (signerConfig s)) \<noteq> []"
  shows "succeeds (\<lambda>_. True) (\<lambda>_. True) (runSigner s m)"
proof -
  have "\<exists>s' w'. m (s, w) = (Ok (), (s', w'))" for w
    using succeedsD [OF assms(1), of "(s, w)"] assms(2) by (auto simp: armed_def)
  then show ?thesis by (simp add: succeeds_def gom_iff)
qed

lemma AddToBundles_none: "succeeds armed (\<lambda>_. True) (AddToBundles E [])"
  by (auto simp: succeeds_def AddToBundles_def armed_def bindG_def getS_def ofO_def firstCert_def neq_Nil_conv returnG_def)

lemma Complete_succeeds_step:
  assumes "lib_total E" "plainBuilder b" "bConfig b = Some c" "Certs (Config c) \<noteq> []"
    and "\<And>sub. sub \<in> set (bSubCAs b) \<Longrightarrow> succeeds armed (\<lambda>_. True) (SignSubCA E sub)"
  shows "succeeds (\<lambda>_. True) (\<lambda>_. True) (Complete E b)"
proof -
  note pb = assms(2) [unfolded plainBuilder_sel [of b]]
  have "succeeds armed (\<lambda>_. True)
     (bindG (forG (bSubCAs b) (\<lambda>sub. SignSubCA E sub)) (\<lambda>_. bindG (forG (bCerts b) (SignCertificate E)) (\<lambda>_. AddToBundles E (bBundles b))))"
    using pb assms(1,5) by (auto intro!: succeeds_bind [where Q = "\<lambda>_. True"] succeeds_for SignCertificate_succeeds AddToBundles_none)
  then show ?thesis
    using assms(3,4) by (simp add: Complete.simps ensureConfig_def newSigner_def runSigner_succeeds)
qed

lemma SignSubCA_succeeds:
  assumes "lib_total E"
  shows "plainBuilder b \<Longrightarrow> succeeds armed (\<lambda>_. True) (SignSubCA E b)"
proof (induction "nodes b" arbitrary: b rule: less_induct)
  case less
  have subs: "succeeds armed (\<lambda>_. True) (SignSubCA E sub)" if "sub \<in> set (bSubCAs b)" for sub
    using less that nodes_sub plainBuilder_sel by blast
  have "succeeds (\<lambda>_. True) (\<lambda>_. True) (Complete E (WithSignerConfig ca b))" if "Certs (Config ca) \<noteq> []" for ca
    using Complete_succeeds_step [OF assms, of "WithSignerConfig ca b" ca] less(2) that subs by simp
  note complete = this
  show ?case
    unfolding SignSubCA.simps [of E b] ensureSubCA_def
    by (rule succeeds_bind [where Q = "\<lambda>ca. Certs (Config ca) \<noteq> []"])
      (auto intro!: succeeds_bind [where Q = "\<lambda>_. True"] succeeds_wrap armed_getS armed_modS complete
        armed_liftW libraryGoEnsureSubCA_succeeds writeSubCACert_succeeds assms)
qed

lemmas Complete_succeeds = Complete_succeeds_step [OF _ _ _ _ SignSubCA_succeeds]

lemma Complete_root_succeeds:
  assumes "lib_total E" "plainBuilder b" "bConfig b = None" "bCAInfo b = Some i"
  shows "succeeds (\<lambda>_. True) (\<lambda>_. True) (Complete E b)"
  unfolding Complete_unfold [of E b]
  by (rule succeeds_bind [where Q = "\<lambda>c. Certs (Config c) \<noteq> []"])
    (use assms in \<open>auto simp: ensureConfig_def EnsureCA_def intro!: succeeds_wrap total_lib Complete_succeeds dest: plainBuilder_sel [THEN iffD1]\<close>)

end
