(* ===== verification/CertProperties.thy ===== *)
theory CertProperties
  imports CertificateProofs SignerTotal
begin

text \<open>
  The properties of the certificate subsystem, each with its witness where it has hypotheses.
\<close>

section \<open>Concrete inputs\<close>

text \<open>A signer with one intermediate authority and one client certificate, all in \<open>/d\<close>.\<close>

definition demoCert :: "string \<Rightarrow> nat \<Rightarrow> int \<Rightarrow> x509" where
  "demoCert n k after = \<lparr>Subject = simName n, Issuer = simName ''root'', SerialNumber = (k, int k),
     NotBefore = 0, NotAfter = after, ExtKeyUsage = []\<rparr>"

definition demoCA :: "string \<Rightarrow> string \<Rightarrow> CA" where
  "demoCA n f = \<lparr>Config = \<lparr>Certs = [demoCert n 0 (4000 * 24 * time_Hour), demoCert ''root'' 1 (4000 * 24 * time_Hour)], Key = n\<rparr>,
     SerialGenerator = SerialFileGenerator f\<rparr>"

definition demoInfo :: "string \<Rightarrow> signedCertificateInfo" where
  "demoInfo n = \<lparr>csrInfo = ClientCSR \<lparr>metaName = n, metaValidityDays = 365\<rparr> \<lparr>u_Name = n, u_UID = [], u_Groups = []\<rparr>,
     certTlsConfig = \<lparr>Certs = [demoCert n 2 (100 * 24 * time_Hour)], Key = n\<rparr>\<rparr>"

definition demoSub :: CertificateSigner where
  "demoSub = Signer ''sub'' (demoCA ''sub'' ''/d/sub/serial.txt'') ''/d/sub'' 365 [] [(''admin'', demoInfo ''admin'')] [''/d/b'']"

definition demoRoot :: CertificateSigner where
  "demoRoot = Signer ''root'' (demoCA ''root'' ''/d/serial.txt'') ''/d'' 365 [(''sub'', demoSub)] [(''client'', demoInfo ''client'')] []"

definition demoBuilder :: certificateSigner where
  "demoBuilder = Builder ''root'' ''/d'' 365 (Some (demoCA ''root'' ''/d/serial.txt'')) [] [csrInfo (demoInfo ''client'')] [] None"

definition demoChains :: CertificateChains where
  "demoChains = \<lparr>signers = [(''root'', demoRoot)], chainsSigningConfig = None\<rparr>"

definition demoCfg :: ControlplaneRunConfig where
  "demoCfg = \<lparr>DataDirectory = ''/d'',
     Apiserver = \<lparr>ExternalHostname = ''h'', Port = 443, CAFile = [], CAKeyFile = []\<rparr>,
     Etcd = \<lparr>Mode = ''embed'', Servers = [], EtcdCAFile = [], EtcdCertFile = [], EtcdKeyFile = [], Prefix = []\<rparr>,
     Aggregator = \<lparr>ProxyClientCertFile = [], ProxyClientKeyFile = [], RequestHeaderClientCAFile = [],
       RequestHeaderUsernameHeaders = [], RequestHeaderGroupHeaders = [], RequestHeaderExtraHeaderPrefixes = [],
       RequestHeaderAllowedNames = []\<rparr>\<rparr>"

text \<open>A hosting cluster with no secrets, outside of which the control plane runs.\<close>

definition demoApi :: "(string \<times> string \<Rightarrow> secret option) kubeApi" where
  "demoApi = \<lparr>InClusterConfig = None, kube_NewForConfig = None, route_NewForConfig = None,
     ocpconfig_NewForConfig = None, ResolveBindAddress = (''127.0.0.1'', None),
     api_GetSecret = (\<lambda>ns n k. case k (ns, n) of
         Some s \<Rightarrow> if sec_Name s = n then (Ok s, k) else (Err (ExternalError n), k)
       | None \<Rightarrow> (Err (ApiNotFound n), k)),
     api_CreateSecret = (\<lambda>ns s k. (Ok (), k((ns, sec_Name s) \<mapsto> s))),
     api_UpdateSecret = (\<lambda>ns s k. (Ok (), k((ns, sec_Name s) \<mapsto> s))),
     api_GetService = (\<lambda>ns n k. (Ok \<lparr>svc_Type = ServiceTypeClusterIP, svc_Ingress = []\<rparr>, k)),
     api_GetRouteIngress = (\<lambda>ns n k. (Ok [''h''], k)),
     api_GetClusterVersion = (\<lambda>v k. (Err (ApiNotFound v), k)),
     api_GetNamespaceUID = (\<lambda>n k. (Ok ''u'', k)),
     uuid_NewUUID = (\<lambda>k. (Ok ''v'', k)),
     clientcmd_Write = (\<lambda>doc. Ok (Text (CurrentContext doc))),
     retry_OnError = (\<lambda>fn. fn),
     pem_text = (\<lambda>_. [])\<rparr>"

lemma cleanDir_demo: "cleanDir ''/d''" "cleanDir ''/d/sub''"
  by code_simp+

lemma demo_wf: "wfSigner demoRoot" "dirsOkS demoRoot" "wfSigner demoSub" "dirsOkS demoSub"
proof -
  show sub: "wfSigner demoSub" "dirsOkS demoSub"
    by (simp_all add: wfSigner.simps [of demoSub] dirsOkS.simps [of demoSub] cleanDir_demo)
      (simp_all add: demoSub_def demoInfo_def csrName_def plain_def mapWf_def cleanDir_demo)
  then show "wfSigner demoRoot" "dirsOkS demoRoot"
    by (simp_all add: wfSigner.simps [of demoRoot] dirsOkS.simps [of demoRoot])
      (simp_all add: demoRoot_def demoInfo_def csrName_def plain_def mapWf_def cleanDir_demo, simp add: demoSub_def)
qed

lemma demo_certsOk: "chainsOk demoChains"
proof -
  have "certsOk demoSub"
    by (simp add: certsOk.simps [of demoSub], simp add: demoSub_def demoCA_def demoInfo_def)
  then have "certsOk demoRoot"
    by (simp add: certsOk.simps [of demoRoot], simp add: demoRoot_def demoCA_def demoInfo_def)
  then show ?thesis by (simp add: chainsOk_def demoChains_def)
qed

lemma double_growOk: "growOk (\<lambda>k. max 2 (2 * k))"
  by (auto simp: growOk_def)

section \<open>Properties of signers\<close>

text \<open>
  C18: regenerating the element at any path of a well-formed signer, however it ends, keeps the
  signer well-formed under its name, keeps its tree within the same directories, and changes no
  file outside the footprint of that path: for a certificate, its own directory and the serial
  file of the authority that signs it; for an intermediate authority, its directory tree and
  bundles and the serial file of its parent.
\<close>

theorem regenerate_confined:
  assumes "lib_frame E" "lib_serials E" "range_ok (range_order E)" and "wfSigner s" "dirsOkS s"
    and "signerRegenerate E path (s, w) = (r, (s', w'))"
  shows "wfSigner s' \<and> dirsOkS s' \<and> signerName s' = signerName s \<and> footprintS s' \<subseteq> footprintS s \<and>
    (\<forall>p. p \<notin> regenFootprint s path \<longrightarrow> files w' p = files w p)"
  using signerRegenerate_effect [OF assms] by (simp add: fs.agree_def)

lemma demo_footprint: "''/etc/hosts'' \<notin> regenFootprint demoRoot [''sub'']"
  by (simp add: footprintS.simps [of demoSub] GetSubCA_def demoRoot_def mapGet_def)
    (simp add: demoSub_def demoCA_def below_def serialFiles_def)

theorem regenerate_confined_witness:
  "let sw = snd (signerRegenerate simEnv [''sub''] (demoRoot, simWorld)) in
   wfSigner (fst sw) \<and> footprintS (fst sw) \<subseteq> footprintS demoRoot \<and>
   ''/etc/hosts'' \<notin> regenFootprint demoRoot [''sub''] \<and> files (snd sw) ''/etc/hosts'' = None"
  using regenerate_confined [of simEnv demoRoot "[''sub'']" simWorld
      "fst (signerRegenerate simEnv [''sub''] (demoRoot, simWorld))"
      "fst (snd (signerRegenerate simEnv [''sub''] (demoRoot, simWorld)))"
      "snd (snd (signerRegenerate simEnv [''sub''] (demoRoot, simWorld)))"] demo_wf demo_footprint
  by (simp add: simWorld_def [THEN arg_cong [of _ _ files]] Let_def del: signerRegenerate.simps)


lemma demo_complete: "\<exists>s w'. Complete simEnv demoBuilder simWorld = (Ok s, w')"
  by (simp add: Complete.simps demoBuilder_def ensureConfig_def newSigner_def AddToBundles_def runSigner_def
      SignCertificate_def SignClientCertificate_def demoInfo_def bindG_def getS_def returnG_def wrapG_def liftW_def
      zoomG_def simEnv_def simOr_def tryG_def simLoad_def simWorld_def simIssue_def simWrite_def modS_def ofO_def
      firstCert_def demoCA_def Let_def)


text \<open>
  C17: \<open>toBuilder\<close> inverts \<open>Complete\<close>: for every signer that completion returned, whatever the
  iteration order of Go maps, \<open>toBuilder\<close> succeeds (it never meets an unknown request) and yields
  a builder that describes the same signer, with the same footprint on disk and without an
  authority of its own, so that the parent signs it anew.
\<close>

theorem toBuilder_inverts_Complete:
  assumes "range_ok (range_order E)" "Complete E' b w = (Ok s, w')"
  shows "\<exists>b'. toBuilder E s = Ok b' \<and> realises b' s \<and> bConfig b' = None \<and> footprint b' = footprintS s"
  using toBuilder_builtFrom [OF assms(1) realises_wf(1) [OF Complete_realises [OF assms(2)]]]
  by (auto simp: builtFrom_def)

theorem toBuilder_inverts_Complete_witness:
  "\<exists>s b'. toBuilder simEnv s = Ok b' \<and> realises b' s \<and> signerName s = ''root''"
proof -
  obtain s w' where run: "Complete simEnv demoBuilder simWorld = (Ok s, w')" using demo_complete by blast
  have "signerName s = ''root''"
    using Complete_realises [OF run] by (simp add: realises.simps [of _ s] sameIdent_def demoBuilder_def)
  then show ?thesis using toBuilder_inverts_Complete [OF _ run, of simEnv] by auto
qed

text \<open>
  C7: regenerating an intermediate authority either fails and leaves the signer as it was, or
  replaces exactly that authority by one that realises the builder of the old one; all other
  authorities and certificates of the signer are untouched.
\<close>

theorem regenerate_subCA_rebuilds:
  assumes "lib_frame E" "lib_serials E" "range_ok (range_order E)" and "wfSigner s" "dirsOkS s"
    and "GetSubCA s n = Some u" and "regenerateSubCA E n (s, w) = (r, (s', w'))"
  shows "(s' = s \<and> r \<noteq> Ok ()) \<or>
    (r = Ok () \<and> (\<exists>b u'. toBuilder E u = Ok b \<and> realises b u \<and> realises b u' \<and> s' = putSubCA n u' s))"
  using regenerateSubCA_effect [OF assms] by (auto simp: builtFrom_def)

theorem regenerate_subCA_rebuilds_witness:
  "let R = regenerateSubCA simEnv ''sub'' (demoRoot, simWorld) in
   fst (snd R) = demoRoot \<and> fst R \<noteq> Ok () \<or>
   fst R = Ok () \<and> (\<exists>b u'. toBuilder simEnv demoSub = Ok b \<and> realises b demoSub \<and> realises b u' \<and>
     fst (snd R) = putSubCA ''sub'' u' demoRoot)"
proof -
  have "GetSubCA demoRoot ''sub'' = Some demoSub" by (simp add: demoRoot_def GetSubCA_def mapGet_def)
  from regenerate_subCA_rebuilds [OF _ _ _ demo_wf(1,2) this, of simEnv simWorld
      "fst (regenerateSubCA simEnv ''sub'' (demoRoot, simWorld))"
      "fst (snd (regenerateSubCA simEnv ''sub'' (demoRoot, simWorld)))"
      "snd (snd (regenerateSubCA simEnv ''sub'' (demoRoot, simWorld)))"]
  show ?thesis by (simp add: Let_def)
qed

text \<open>
  C22: after a successful \<open>AddToBundles\<close> every bundle holds what it held before with the entry of
  the same subject and issuer replaced by the signer's certificate, or with that certificate
  appended, and the signer remembers the bundle. The entry is replaced even when it is the same
  certificate: serial numbers are compared as pointers, and those read from a file are fresh.
\<close>

theorem bundles_hold_signer:
  assumes "lib_pem E" "lib_frame E" "os_honest E"
    and "\<forall>p\<in>set ps. bundleAt w p \<noteq> None" "distinct ps"
    and "Certs (Config (signerConfig s)) = cert # rest" "fst (SerialNumber cert) < nextPtr w"
    and "AddToBundles E ps (s, w) = (Ok (), (s', w'))"
  shows "\<forall>p\<in>set ps. p \<in> set (caBundlePaths s') \<and> (\<exists>cs'. files w' p = Some (CertPEM cs') \<and>
      map unptr cs' = map unptr (bundleWith cert (the (bundleAt w p))))"
proof -
  have "forG ps (addToBundle E cert) (s, w) = (Ok (), (s', w'))"
    using assms(6,8) by (simp add: AddToBundles_def bindG_getS firstCert_def)
  from bundles_loop [OF assms(1-5,7) this] show ?thesis by simp
qed

lemma demo_addToBundles: "\<exists>s' w'. AddToBundles simEnv [''/b''] (demoSub, bumpPtr 9 simWorld) = (Ok (), (s', w'))"
  by (simp add: AddToBundles_def addToBundle_def demoSub_def demoCA_def firstCert_def ofO_def bindG_def getS_def tryG_def
      liftW_def zoomG_def os_ReadFile_def os_MkdirAll_def os_OpenTrunc_def os_WriteHandle_def faultG_def simEnv_def
      simWorld_def bumpPtr_def os_IsNotExist_def returnG_def bytesEmpty_def modS_def Let_def)

theorem bundles_hold_signer_witness:
  "\<exists>s' w' cs'. AddToBundles simEnv [''/b''] (demoSub, bumpPtr 9 simWorld) = (Ok (), (s', w')) \<and>
     files w' ''/b'' = Some (CertPEM cs') \<and> map unptr cs' = [unptr (demoCert ''sub'' 0 (4000 * 24 * time_Hour))]"
proof -
  obtain s' w' where run: "AddToBundles simEnv [''/b''] (demoSub, bumpPtr 9 simWorld) = (Ok (), (s', w'))"
    using demo_addToBundles by blast
  have at: "bundleAt (bumpPtr 9 simWorld) ''/b'' = Some []" by (simp add: bundleAt_def bumpPtr_def simWorld_def)
  have certs: "Certs (Config (signerConfig demoSub)) = [demoCert ''sub'' 0 (4000 * 24 * time_Hour), demoCert ''root'' 1 (4000 * 24 * time_Hour)]"
    by (simp add: demoSub_def demoCA_def)
  have ptr: "fst (SerialNumber (demoCert ''sub'' 0 (4000 * 24 * time_Hour))) < nextPtr (bumpPtr 9 simWorld)"
    by (simp add: demoCert_def bumpPtr_def)
  from bundles_hold_signer [OF simEnv_pem simEnv_frame simEnv_honest _ _ certs ptr run] run at show ?thesis by auto
qed

text \<open>
  Renewing a single name never confuses its two meanings: it rebuilds the intermediate authority
  of that name if there is one, whatever error that meets, and touches a certificate of that name
  only when there is no such authority.
\<close>

theorem regenerate_one_dispatch:
  "signerRegenerate E [n] (s, w) =
     (if GetSubCA s n = None then regenerateCertificate E n (s, w) else regenerateSubCA E n (s, w))"
  by (rule signerRegenerate_one)

text \<open>
  C26: when the files of a peer certificate already exist, \<open>SignPeerCertificate\<close> succeeds without
  recording the certificate in the signer, so that \<open>GetCertKey\<close> does not find it and no later
  walk or regeneration of this signer sees it; client and serving certificates are recorded
  whenever they are signed.
\<close>

theorem existing_peer_not_recorded:
  assumes "lib_GetServerCert E (PeerCertPath (Join [signerDir s, metaName m])) (PeerKeyPath (Join [signerDir s, metaName m])) hosts w = (Ok t, w')"
  shows "SignCertificate E (PeerCSR m u hosts) (s, w) = (Ok (), (s, w'))"
  using assms by (simp add: SignCertificate_def SignPeerCertificate_def Let_def bindG_getS tryG_def liftW_def zoomG_def returnG_def)

theorem existing_peer_not_recorded_witness:
  "\<exists>w. fst (SignCertificate simEnv (PeerCSR \<lparr>metaName = ''peer'', metaValidityDays = 365\<rparr> \<lparr>u_Name = ''e'', u_UID = [], u_Groups = []\<rparr> [''h''])
      (demoSub, w)) = Ok () \<and>
    mapGet (signedCertificates (fst (snd (SignCertificate simEnv (PeerCSR \<lparr>metaName = ''peer'', metaValidityDays = 365\<rparr>
      \<lparr>u_Name = ''e'', u_UID = [], u_Groups = []\<rparr> [''h'']) (demoSub, w))))) ''peer'' = None"
proof -
  let ?m = "\<lparr>metaName = ''peer'', metaValidityDays = 365\<rparr> :: CSRMeta"
  let ?c = "PeerCertPath (Join [signerDir demoSub, ''peer''])" and ?k = "PeerKeyPath (Join [signerDir demoSub, ''peer''])"
  let ?w = "putFile ?k (KeyPEM ''p'') (putFile ?c (CertPEM [demoCert ''p'' 3 9]) simWorld)"
  have ne: "?c \<noteq> ?k" by code_simp
  have "lib_GetServerCert simEnv ?c ?k [''h''] ?w =
      (Ok \<lparr>Certs = simReload [demoCert ''p'' 3 9] ?w, Key = ''p''\<rparr>, bumpPtr 1 ?w)"
    using ne by (simp add: simEnv_def simLoad_def putFile_def)
  from existing_peer_not_recorded [of simEnv demoSub ?m "[''h'']" ?w, simplified, OF this]
  show ?thesis by (intro exI [of _ ?w]) (simp add: demoSub_def mapGet_def)
qed

text \<open>
  The subject of a peer certificate lists exactly the groups of the user, with multiplicity,
  shortest names first and names of one length in byte order, which is what the DER encoding needs.
\<close>

theorem subject_groups_sorted:
  "mset (Organization (userToSubject u)) = mset (u_Groups u) \<and>
   sorted_wrt (\<lambda>a b. length a < length b \<or> length a = length b \<and> a \<le> b) (Organization (userToSubject u)) \<and>
   CommonName (userToSubject u) = u_Name u"
  using mset_der sorted_der by (simp add: userToSubject_def)

text \<open>
  Validity in days turns into the exact number of nanoseconds, with no wrap-around of \<open>int64\<close>,
  for up to 106751 days, and both ways the code computes it agree for every number of days.
\<close>

theorem validity_duration_exact:
  assumes "0 \<le> d" "d \<le> 106751"
  shows "daysDuration d = d * 86400000000000 \<and> peerDuration d = daysDuration d"
proof -
  have "d * time_Hour < 2 ^ 63" "d * time_Hour * 24 < 2 ^ 63" "d * 24 < 2 ^ 63" "0 \<le> d * time_Hour"
    using assms by (simp_all add: time_Hour_def)
  then show ?thesis
    using assms by (simp add: daysDuration_def peerDuration_def wrap64_id time_Hour_def)
qed

theorem validity_duration_exact_witness: "daysDuration 1825 = 157680000000000000"
  using validity_duration_exact [of 1825] by simp

section \<open>Properties of chains\<close>



text \<open>
  C27: the paths that the walk hands out share backing arrays once they are longer than three
  names: a visitor that keeps the slices of two sibling certificates four levels deep reads the
  same path from both of them after the walk. The chains of the control plane are not that deep.
\<close>

definition deepSub :: CertificateSigner where
  "deepSub = Signer ''c'' (demoCA ''c'' []) ''/c'' 1 [] [(''x'', demoInfo ''x''), (''y'', demoInfo ''y'')] []"

definition deepChains :: CertificateChains where
  "deepChains = \<lparr>signers = [(''a'', Signer ''a'' (demoCA ''a'' []) ''/a'' 1
     [(''b'', Signer ''b'' (demoCA ''b'' []) ''/b'' 1 [(''c'', deepSub)] [] [])] [] [])], chainsSigningConfig = None\<rparr>"

lemma deep_depth: "chainsDepth deepChains = 3"
proof -
  have leaf: "subCAs s = [] \<Longrightarrow> depth s = 1" and one: "subCAs s = [(n, u)] \<Longrightarrow> depth s = Suc (depth u)" for s n u
    by (simp_all add: depth.simps [of s])
  have "depth deepSub = 1" by (rule leaf) (simp add: deepSub_def)
  then show ?thesis by (simp add: chainsDepth_def deepChains_def one)
qed


text \<open>
  C23: \<open>WhenToRotateAtEarliest\<close> returns a certificate of the chains with its path and the earliest
  rotation date of all certificates, provided that no certificate rotates at the zero time and no
  path is longer than three names.
\<close>

theorem earliest_rotation_found:
  assumes "chainsOk cs" "growOk grow" "allCerts cs \<noteq> []"
    and "\<forall>it\<in>set (allCerts cs). length (fst it) \<le> 3 \<and> rotateAtOf (snd it) \<noteq> 0"
  shows "\<exists>path c. WhenToRotateAtEarliest grow cs = (path, rotateAtOf c, Ok ()) \<and> (path, c) \<in> set (allCerts cs) \<and>
    (\<forall>it\<in>set (allCerts cs). rotateAtOf c \<le> rotateAtOf (snd it))"
  using rotation_earliest [OF assms(1,2,3)] assms(4) by blast

lemma demo_allCerts:
  "allCerts demoChains =
     [([''root''], demoCert ''root'' 0 (4000 * 24 * time_Hour)), ([''root'', ''sub''], demoCert ''sub'' 0 (4000 * 24 * time_Hour)),
      ([''root'', ''sub'', ''admin''], demoCert ''admin'' 2 (100 * 24 * time_Hour)),
      ([''root'', ''client''], demoCert ''client'' 2 (100 * 24 * time_Hour))]"
proof -
  have sub: "treeCerts [''root'', ''sub''] demoSub = [([''root'', ''sub''], demoCert ''sub'' 0 (4000 * 24 * time_Hour)),
      ([''root'', ''sub'', ''admin''], demoCert ''admin'' 2 (100 * 24 * time_Hour))]"
    by (simp add: treeCerts_unfold childCerts_def GetSubCANames_def GetCertNames_def certificateSignersMapKeysOrdered_def
        signedCertificateInfoMapKeysOrdered_def mapKeys_def GetSubCA_def mapGet_def demoSub_def demoCA_def demoInfo_def)
  have "treeCerts [''root''] demoRoot = [([''root''], demoCert ''root'' 0 (4000 * 24 * time_Hour)),
      ([''root'', ''sub''], demoCert ''sub'' 0 (4000 * 24 * time_Hour)),
      ([''root'', ''sub'', ''admin''], demoCert ''admin'' 2 (100 * 24 * time_Hour)),
      ([''root'', ''client''], demoCert ''client'' 2 (100 * 24 * time_Hour))]"
    unfolding treeCerts_unfold [of _ demoRoot]
    by (simp add: childCerts_def GetSubCANames_def GetCertNames_def certificateSignersMapKeysOrdered_def sub
        signedCertificateInfoMapKeysOrdered_def mapKeys_def GetSubCA_def mapGet_def demoRoot_def demoCA_def demoInfo_def)
  then show ?thesis
    by (simp add: allCerts_def GetSignerNames_def certificateSignersMapKeysOrdered_def mapKeys_def mapGet_def demoChains_def)
qed

theorem earliest_rotation_found_witness:
  "\<exists>path c. WhenToRotateAtEarliest (\<lambda>k. max 2 (2 * k)) demoChains = (path, rotateAtOf c, Ok ()) \<and>
     (path, c) \<in> set (allCerts demoChains) \<and> rotateAtOf c \<le> rotateAtOf (demoCert ''admin'' 2 (100 * 24 * time_Hour))"
proof -
  have "allCerts demoChains \<noteq> []" "\<forall>it\<in>set (allCerts demoChains). length (fst it) \<le> 3 \<and> rotateAtOf (snd it) \<noteq> 0"
    by (simp_all add: demo_allCerts rotateAtOf_def demoCert_def IsCertShortLived_def time_Sub_def time_Hour_def month_def)
  note found = earliest_rotation_found [OF demo_certsOk double_growOk this]
  have "([''root'', ''sub'', ''admin''], demoCert ''admin'' 2 (100 * 24 * time_Hour)) \<in> set (allCerts demoChains)"
    by (simp add: demo_allCerts)
  with found show ?thesis by (metis snd_conv)
qed

text \<open>
  C6: \<open>certsToRegenerate\<close> returns exactly the paths of the certificates that are due, in the order of
  the walk: one entry for a certificate out of its validity and one for a certificate with less
  than seven (short-lived) or eighteen (long-lived) months left, so that an expired certificate is
  listed, and later regenerated, twice. With a clock that stands still the set of paths is the set
  of due certificates; nothing on disk is changed.
\<close>

theorem due_certificates_listed:
  assumes "chainsOk cs" "growOk grow" and "\<forall>it\<in>set (allCerts cs). length (fst it) \<le> 3"
  shows "\<exists>w'. certsToRegenerate grow cs w = (Ok (dueList (clockAt w) (ticks w) (allCerts cs)), w') \<and> files w' = files w \<and>
    (\<forall>now. (\<forall>t. clockAt w t = now) \<longrightarrow> set (dueList (clockAt w) (ticks w) (allCerts cs)) =
       {path. \<exists>c. (path, c) \<in> set (allCerts cs) \<and> (outOfValidity now c \<or> expiresSoon now c)})"
  using certsToRegenerate_due [OF assms] set_dueList [of "clockAt w"] by (simp add: wticks_def)

theorem due_certificates_listed_witness:
  "\<exists>w'. certsToRegenerate (\<lambda>k. max 2 (2 * k)) demoChains simWorld = (Ok [[''root'', ''sub'', ''admin''], [''root'', ''client'']], w')"
proof -
  have "dueList (clockAt simWorld) (ticks simWorld) (allCerts demoChains) = [[''root'', ''sub'', ''admin''], [''root'', ''client'']]"
    by (simp add: demo_allCerts simWorld_def outOfValidity_def expiresSoon_def demoCert_def IsCertShortLived_def
        time_Sub_def time_Hour_def month_def)
  then show ?thesis
    using due_certificates_listed [OF demo_certsOk double_growOk, of simWorld] by (auto simp: demo_allCerts)
qed

section \<open>Properties of the control plane's certificates\<close>

text \<open>
  C1: starting the certificates of the control plane, however it ends and whatever is rotated,
  changes no file outside the certificate directory below the data directory, except the files of a
  certificate authority that the user provided, and does not touch the hosting cluster.
\<close>

theorem init_certs_confined:
  assumes "lib_frame E" "lib_serials E" "range_ok (range_order E)"
    and "InitCerts E K grow cfg (w, k) = (r, (w', k'))"
  shows "k' = k \<and> (\<forall>p. \<not> below (CertsDirectory (DataDirectory cfg)) p \<longrightarrow>
     \<not> (IsCAProvided cfg \<and> p \<in> {CAFile (Apiserver cfg), CAKeyFile (Apiserver cfg), []}) \<longrightarrow> files w' p = files w p)"
  using InitCerts_frame [OF assms] by (auto simp: fs.agree_def startupFiles_def split: if_splits)

theorem init_certs_confined_witness:
  "files (fst (snd (InitCerts simEnv demoApi (\<lambda>k. max 2 (2 * k)) demoCfg (simWorld, \<lambda>_. None)))) ''/etc/hosts'' = None \<and>
   snd (snd (InitCerts simEnv demoApi (\<lambda>k. max 2 (2 * k)) demoCfg (simWorld, \<lambda>_. None))) = (\<lambda>_. None)"
proof -
  let ?R = "InitCerts simEnv demoApi (\<lambda>k. max 2 (2 * k)) demoCfg (simWorld, \<lambda>_. None)"
  have d: "CertsDirectory (DataDirectory demoCfg) = ''/d/cert''"
    using Join_plain [OF cleanDir_demo(1), of "''cert''"] by (simp add: CertsDirectory_def demoCfg_def)
  have b: "\<not> below ''/d/cert'' ''/etc/hosts''" by (simp add: below_def)
  have p: "\<not> IsCAProvided demoCfg" by (simp add: IsCAProvided_def demoCfg_def)
  show ?thesis
    using init_certs_confined [of simEnv demoApi "\<lambda>k. max 2 (2 * k)" demoCfg simWorld "\<lambda>_. None"
        "fst ?R" "fst (snd ?R)" "snd (snd ?R)"] d p b
    by (simp add: simWorld_def [THEN arg_cong [of _ _ files]])
qed

text \<open>
  C25: once the root of the control plane is completed, every signer that a bundle names exists, so
  that the nil pointer dereference on a missing signer is not reached from \<open>certSetup\<close>.
\<close>

theorem setup_bundles_resolve:
  assumes "Complete E (caSigner cfg ns d) w = (Ok s, w')"
    and "q \<in> set (cb_fileBundles (controlplaneChains cfg ns d))" "p \<in> set (snd q)"
  shows "\<exists>u. GetSigner \<lparr>signers = [(RootCACertDirName, s)], chainsSigningConfig = c\<rparr> p = Some u"
  using bundle_paths_resolve [OF Complete_realises [OF assms(1)] _ assms(2,3)] by simp

lemma caSigner_plain: "plainBuilder (caSigner cfg ns d)"
  by (simp add: caSigner_def serverSigner_def requestheaderSigner_def clientSigner_def etcdSigner_def
      NewCertificateSigner_def WithClientCertificates_def WithServingCertificates_def WithPeerCertificiates_def)

lemma caSigner_root: "bConfig (caSigner cfg ns d) = None" "bCAInfo (caSigner cfg ns d) = Some (rootCAInfo cfg d)"
  by (simp_all add: caSigner_def NewCertificateSigner_def)

theorem setup_bundles_resolve_witness:
  "\<exists>s w'. Complete simEnv (caSigner demoCfg ''ns'' ''/d'') simWorld = (Ok s, w') \<and>
     (\<exists>u. GetSigner \<lparr>signers = [(RootCACertDirName, s)], chainsSigningConfig = None\<rparr> [RootCACertDirName] = Some u)"
proof -
  obtain s w' where run: "Complete simEnv (caSigner demoCfg ''ns'' ''/d'') simWorld = (Ok s, w')"
    using succeedsD [OF Complete_root_succeeds [OF simEnv_total caSigner_plain caSigner_root]] by blast
  have "(Join [CABundleDir ''/d'', RootCABundleFileName], [[RootCACertDirName]]) \<in> set (cb_fileBundles (controlplaneChains demoCfg ''ns'' ''/d''))"
    by code_simp
  from setup_bundles_resolve [OF run this] run show ?thesis by auto
qed

text \<open>
  C21: completion returns: when the file system reports no faults and the certificate library makes
  what it is asked for, a root builder with the information about its authority, whose requests are
  all of known kinds and which feeds no bundle, is completed without error and without panic,
  however deep its tree of intermediate authorities is.
\<close>

theorem complete_returns:
  assumes "lib_total E" "plainBuilder b" "bConfig b = None" "bCAInfo b = Some i"
  shows "\<exists>s w'. Complete E b w = (Ok s, w') \<and> signerName s = bName b"
proof -
  obtain s w' where run: "Complete E b w = (Ok s, w')"
    using succeedsD [OF Complete_root_succeeds [OF assms]] by blast
  then show ?thesis
    using Complete_realises [OF run] by (auto simp: realises.simps [of b s] sameIdent_def)
qed

theorem complete_returns_witness:
  "\<exists>s w'. Complete simEnv (caSigner demoCfg ''ns'' ''/d'') simWorld = (Ok s, w') \<and> signerName s = ''root-ca''"
  using complete_returns [OF simEnv_total caSigner_plain caSigner_root, of demoCfg "''ns''" "''/d''" simWorld]
  by (simp add: caSigner_def NewCertificateSigner_def RootCACertDirName_def)

end
