(* ===== verification/ClusterRoleAgg.thy ===== *)
theory ClusterRoleAgg
  imports Prelude
begin

text \<open>
  The controller that combines cluster roles (\<open>clusterroleaggregation.go\<close>): the rules it
  computes, what it writes, its event handler and its workers. The cache of the informer is the
  record \<open>roleLister\<close>, taken to stay the same during one run of a handler; the client and the key
  functions of client-go are in \<open>aggEnv\<close>, on a state \<open>'k\<close> of the cluster; the work queue is the
  record \<open>workQueue\<close> on a state \<open>'q\<close>. \<open>Semantic.DeepEqual\<close> does not tell a nil slice from an empty
  one, so slices of rules are lists and it is equality.
\<close>

section \<open>Data\<close>

record PolicyRule =
  Verbs :: "string list"
  APIGroups :: "string list"
  Resources :: "string list"
  ResourceNames :: "string list"
  NonResourceURLs :: "string list"

record PolicyRuleApply =
  ap_Verbs :: "string list"
  ap_APIGroups :: "string list"
  ap_Resources :: "string list"
  ap_ResourceNames :: "string list"
  ap_NonResourceURLs :: "string list"

text \<open>A selector is of some type \<open>'sel\<close>; the aggregation rule is the list of its selectors.\<close>

record 'sel ClusterRole =
  cr_Name :: string
  cr_Labels :: "string gomap"
  cr_AggregationRule :: "'sel list option"
  cr_Rules :: "PolicyRule list"

record 'sel roleLister =
  lister_Get :: "string \<Rightarrow> 'sel ClusterRole outcome"
  lister_List :: "(string gomap \<Rightarrow> bool) \<Rightarrow> 'sel ClusterRole list outcome"

record ('sel, 'k) aggEnv =
  SplitMetaNamespaceKey :: "string \<Rightarrow> (string \<times> string) outcome"
  KeyFunc :: "'sel ClusterRole \<Rightarrow> string outcome"
  LabelSelectorAsSelector :: "'sel \<Rightarrow> (string gomap \<Rightarrow> bool) outcome"
  ClusterRoles_Apply :: "string \<Rightarrow> PolicyRuleApply list \<Rightarrow> ('k, unit) go"
  ClusterRoles_Update :: "'sel ClusterRole \<Rightarrow> ('k, unit) go"

section \<open>The rules of an aggregated role\<close>

definition ruleExists :: "PolicyRule list \<Rightarrow> PolicyRule \<Rightarrow> bool" where
  "ruleExists haystack needle = list_ex (\<lambda>curr. curr = needle) haystack"

definition addRule :: "PolicyRule \<Rightarrow> PolicyRule list \<Rightarrow> PolicyRule list" where
  "addRule currRule newPolicyRules =
     (if \<not> ruleExists newPolicyRules currRule then newPolicyRules @ [currRule] else newPolicyRules)"

definition addRoleRules :: "string \<Rightarrow> 'sel ClusterRole \<Rightarrow> PolicyRule list \<Rightarrow> PolicyRule list" where
  "addRoleRules self role newPolicyRules =
     (if cr_Name role = self then newPolicyRules else fold addRule (cr_Rules role) newPolicyRules)"

fun collectRules ::
  "('sel, 'k) aggEnv \<Rightarrow> 'sel roleLister \<Rightarrow> string \<Rightarrow> 'sel list \<Rightarrow> PolicyRule list \<Rightarrow> PolicyRule list outcome" where
  "collectRules A L self [] newPolicyRules = Ok newPolicyRules"
| "collectRules A L self (selector # rest) newPolicyRules = (case LabelSelectorAsSelector A selector of
     Err e \<Rightarrow> Err e | Panic p \<Rightarrow> Panic p
   | Ok runtimeLabelSelector \<Rightarrow> (case lister_List L runtimeLabelSelector of
       Err e \<Rightarrow> Err e | Panic p \<Rightarrow> Panic p
     | Ok clusterRoles \<Rightarrow>
         collectRules A L self rest (fold (addRoleRules self) (sort_key cr_Name clusterRoles) newPolicyRules)))"

definition toApplyPolicyRule :: "PolicyRule \<Rightarrow> PolicyRuleApply" where
  "toApplyPolicyRule rule = \<lparr>ap_Verbs = Verbs rule, ap_APIGroups = APIGroups rule, ap_Resources = Resources rule,
     ap_ResourceNames = ResourceNames rule, ap_NonResourceURLs = NonResourceURLs rule\<rparr>"

definition toApplyPolicyRules :: "PolicyRule list \<Rightarrow> PolicyRuleApply list" where
  "toApplyPolicyRules rules = map toApplyPolicyRule rules"

definition applyClusterRoles :: "('sel, 'k) aggEnv \<Rightarrow> string \<Rightarrow> PolicyRule list \<Rightarrow> ('k, unit) go" where
  "applyClusterRoles A name newPolicyRules = ClusterRoles_Apply A name (toApplyPolicyRules newPolicyRules)"

definition updateClusterRoles :: "('sel, 'k) aggEnv \<Rightarrow> 'sel ClusterRole \<Rightarrow> PolicyRule list \<Rightarrow> ('k, unit) go" where
  "updateClusterRoles A sharedClusterRole newPolicyRules =
     ClusterRoles_Update A (sharedClusterRole\<lparr>cr_Rules := newPolicyRules\<rparr>)"

definition isUnsupportedMediaType :: "goerr \<Rightarrow> bool" where
  "isUnsupportedMediaType e = (case e of ApiUnsupportedMediaType _ \<Rightarrow> True | _ \<Rightarrow> False)"

definition isRoleNotFound :: "goerr \<Rightarrow> bool" where
  "isRoleNotFound e = (case e of ApiNotFound _ \<Rightarrow> True | _ \<Rightarrow> False)"

definition syncClusterRole :: "('sel, 'k) aggEnv \<Rightarrow> 'sel roleLister \<Rightarrow> string \<Rightarrow> ('k, unit) go" where
  "syncClusterRole A L key =
     bindG (ofO (SplitMetaNamespaceKey A key)) (\<lambda>(_, name).
     tryG (ofO (lister_Get L name))
       (\<lambda>sharedClusterRole. case cr_AggregationRule sharedClusterRole of
          None \<Rightarrow> returnG ()
        | Some selectors \<Rightarrow>
            bindG (ofO (collectRules A L (cr_Name sharedClusterRole) selectors [])) (\<lambda>newPolicyRules.
            if newPolicyRules = cr_Rules sharedClusterRole then returnG ()
            else tryG (applyClusterRoles A (cr_Name sharedClusterRole) newPolicyRules) returnG
                   (\<lambda>e. if isUnsupportedMediaType e
                        then updateClusterRoles A sharedClusterRole newPolicyRules
                        else failG e)))
       (\<lambda>e. if isRoleNotFound e then returnG () else failG e))"

section \<open>The queue and the workers\<close>

text \<open>\<open>Get\<close> of a queue that is shut down and empty says so, as \<open>None\<close>.\<close>

record 'q workQueue =
  q_Get :: "'q \<Rightarrow> string option \<times> 'q"
  q_Add :: "string \<Rightarrow> 'q \<Rightarrow> 'q"
  q_AddRateLimited :: "string \<Rightarrow> 'q \<Rightarrow> 'q"
  q_Forget :: "string \<Rightarrow> 'q \<Rightarrow> 'q"
  q_Done :: "string \<Rightarrow> 'q \<Rightarrow> 'q"

text \<open>Listing or naming a role may fail, which is only logged, and ends the handler.\<close>

fun enqueueAll :: "('sel, 'k) aggEnv \<Rightarrow> 'q workQueue \<Rightarrow> 'sel ClusterRole list \<Rightarrow> 'q \<Rightarrow> 'q" where
  "enqueueAll A Q [] q = q"
| "enqueueAll A Q (clusterRole # rest) q =
     (if cr_AggregationRule clusterRole = None then enqueueAll A Q rest q
      else case KeyFunc A clusterRole of
        Ok key \<Rightarrow> enqueueAll A Q rest (q_Add Q key q)
      | _ \<Rightarrow> q)"

definition enqueue :: "('sel, 'k) aggEnv \<Rightarrow> 'q workQueue \<Rightarrow> 'sel roleLister \<Rightarrow> 'q \<Rightarrow> 'q" where
  "enqueue A Q L q = (case lister_List L (\<lambda>_. True) of
     Ok allClusterRoles \<Rightarrow> enqueueAll A Q allClusterRoles q
   | _ \<Rightarrow> q)"

text \<open>What happens once the handler returned: the deferred \<open>Done\<close> runs on every way out.\<close>

definition finishItem :: "'q workQueue \<Rightarrow> string \<Rightarrow> unit outcome \<Rightarrow> 'q \<Rightarrow> bool outcome \<times> 'q" where
  "finishItem Q dsKey r q = (case r of
     Ok _ \<Rightarrow> (Ok True, q_Done Q dsKey (q_Forget Q dsKey q))
   | Err _ \<Rightarrow> (Ok True, q_Done Q dsKey (q_AddRateLimited Q dsKey q))
   | Panic p \<Rightarrow> (Panic p, q_Done Q dsKey q))"

definition processNextWorkItem ::
  "('sel, 'k) aggEnv \<Rightarrow> 'q workQueue \<Rightarrow> 'sel roleLister \<Rightarrow> ('q \<times> 'k, bool) go" where
  "processNextWorkItem A Q L = (\<lambda>(q, k). case q_Get Q q of
     (None, q') \<Rightarrow> (Ok False, (q', k))
   | (Some dsKey, q') \<Rightarrow> (case syncClusterRole A L dsKey k of
       (r, k') \<Rightarrow> (case finishItem Q dsKey r q' of (b, q'') \<Rightarrow> (b, (q'', k')))))"

text \<open>\<open>runWorker\<close> for at most \<open>n\<close> items: \<open>None\<close> when it is still running then.\<close>

fun runWorker ::
  "nat \<Rightarrow> ('sel, 'k) aggEnv \<Rightarrow> 'q workQueue \<Rightarrow> 'sel roleLister \<Rightarrow> 'q \<times> 'k \<Rightarrow> (unit outcome \<times> 'q \<times> 'k) option" where
  "runWorker 0 A Q L s = None"
| "runWorker (Suc n) A Q L s = (case processNextWorkItem A Q L s of
     (Ok True, s') \<Rightarrow> runWorker n A Q L s'
   | (Ok False, s') \<Rightarrow> Some (Ok (), s')
   | (Err e, s') \<Rightarrow> Some (Err e, s')
   | (Panic p, s') \<Rightarrow> Some (Panic p, s'))"

text \<open>
  The controller as it runs: the cache moves on and the event handler enqueues; one of the
  workers takes an item; a worker that holds an item finishes it. \<open>enqueued\<close> and \<open>settled\<close> record
  the keys ever queued and those whose last completed run returned nil with nothing queued since.
\<close>

record ('sel, 'q, 'k) ctrl =
  cache :: "'sel roleLister"
  queue :: 'q
  kstate :: 'k
  holding :: "nat \<Rightarrow> string option"
  enqueued :: "string set"
  settled :: "string set"

fun keysOf :: "('sel, 'k) aggEnv \<Rightarrow> 'sel ClusterRole list \<Rightarrow> string list" where
  "keysOf A [] = []"
| "keysOf A (r # rs) =
     (if cr_AggregationRule r = None then keysOf A rs
      else case KeyFunc A r of Ok key \<Rightarrow> key # keysOf A rs | _ \<Rightarrow> [])"

definition listedKeys :: "('sel, 'k) aggEnv \<Rightarrow> 'sel roleLister \<Rightarrow> string list" where
  "listedKeys A L = (case lister_List L (\<lambda>_. True) of Ok rs \<Rightarrow> keysOf A rs | _ \<Rightarrow> [])"

inductive ctrlStep ::
  "('sel, 'k) aggEnv \<Rightarrow> 'q workQueue \<Rightarrow> nat \<Rightarrow> ('sel, 'q, 'k) ctrl \<Rightarrow> ('sel, 'q, 'k) ctrl \<Rightarrow> bool"
  for A :: "('sel, 'k) aggEnv" and Q :: "'q workQueue" and workers :: nat where
  event: "ctrlStep A Q workers c (c\<lparr>cache := L, queue := enqueue A Q L (queue c),
      enqueued := enqueued c \<union> set (listedKeys A L), settled := settled c - set (listedKeys A L)\<rparr>)"
| fetch: "i < workers \<Longrightarrow> holding c i = None \<Longrightarrow> q_Get Q (queue c) = (Some key, q') \<Longrightarrow>
    ctrlStep A Q workers c (c\<lparr>queue := q', holding := (holding c)(i \<mapsto> key)\<rparr>)"
| finish: "holding c i = Some key \<Longrightarrow> syncClusterRole A (cache c) key (kstate c) = (r, k') \<Longrightarrow>
    finishItem Q key r (queue c) = (Ok True, q') \<Longrightarrow>
    ctrlStep A Q workers c (c\<lparr>queue := q', kstate := k', holding := (holding c)(i := None),
      settled := (if r = Ok () then insert key (settled c) else settled c)\<rparr>)"

inductive ctrlReach ::
  "('sel, 'k) aggEnv \<Rightarrow> 'q workQueue \<Rightarrow> nat \<Rightarrow> ('sel, 'q, 'k) ctrl \<Rightarrow> ('sel, 'q, 'k) ctrl \<Rightarrow> bool"
  for A :: "('sel, 'k) aggEnv" and Q :: "'q workQueue" and workers :: nat and c0 :: "('sel, 'q, 'k) ctrl" where
  start: "ctrlReach A Q workers c0 c0"
| more: "ctrlReach A Q workers c0 c \<Longrightarrow> ctrlStep A Q workers c c' \<Longrightarrow> ctrlReach A Q workers c0 c'"

section \<open>Laws of what the controller uses\<close>

text \<open>The cache shows the roles \<open>roles\<close>, each under its own name, in any order.\<close>

definition lister_law :: "'sel roleLister \<Rightarrow> 'sel ClusterRole list \<Rightarrow> bool" where
  "lister_law L roles =
     (distinct (map cr_Name roles) \<and>
      (\<forall>n. lister_Get L n = (case find (\<lambda>r. cr_Name r = n) roles of Some r \<Rightarrow> Ok r | None \<Rightarrow> Err (ApiNotFound n))) \<and>
      (\<forall>sel. \<exists>rs. lister_List L sel = Ok rs \<and> distinct rs \<and> set rs = {r \<in> set roles. sel (cr_Labels r)}))"

definition keys_law :: "('sel, 'k) aggEnv \<Rightarrow> bool" where
  "keys_law A = (\<forall>r. \<exists>key ns. KeyFunc A r = Ok key \<and> SplitMetaNamespaceKey A key = Ok (ns, cr_Name r))"

text \<open>
  The documented promises of the work queue: an item is handed out to one consumer at a time, an
  added item is handed out later, also when it is added while it is processed or rate limited.
\<close>

definition queue_law :: "'q workQueue \<Rightarrow> ('q \<Rightarrow> string set) \<Rightarrow> ('q \<Rightarrow> string set) \<Rightarrow> bool" where
  "queue_law Q pending active =
     ((\<forall>q key q'. q_Get Q q = (Some key, q') \<longrightarrow>
         key \<in> pending q \<and> key \<notin> active q \<and> pending q' = pending q - {key} \<and> active q' = insert key (active q)) \<and>
      (\<forall>key q. pending (q_Add Q key q) = insert key (pending q) \<and> active (q_Add Q key q) = active q) \<and>
      (\<forall>key q. pending (q_AddRateLimited Q key q) = insert key (pending q) \<and> active (q_AddRateLimited Q key q) = active q) \<and>
      (\<forall>key q. pending (q_Forget Q key q) = pending q \<and> active (q_Forget Q key q) = active q) \<and>
      (\<forall>key q. pending (q_Done Q key q) = pending q \<and> active (q_Done Q key q) = active q - {key}))"

inductive_cases ctrlStepE: "ctrlStep A Q workers c c'"

end
