(* ===== verification/ClusterRoleProofs.thy ===== *)
theory ClusterRoleProofs
  imports ClusterRoleAgg "HOL-Library.Multiset"
begin

text \<open>
  What the aggregation of cluster roles computes, that it settles, and that the controller never
  loses a role and never works on one twice at a time.
\<close>

section \<open>The rules\<close>

text \<open>A list with every element kept where it occurs first.\<close>

definition firsts :: "'a list \<Rightarrow> 'a list" where
  "firsts xs = rev (remdups (rev xs))"

lemma firsts_Nil [simp]: "firsts [] = []"
  by (simp add: firsts_def)

lemma set_firsts [simp]: "set (firsts xs) = set xs"
  by (simp add: firsts_def)

lemma distinct_firsts [simp]: "distinct (firsts xs)"
  by (simp add: firsts_def)

lemma ruleExists_iff [simp]: "ruleExists rs r \<longleftrightarrow> r \<in> set rs"
  by (auto simp: ruleExists_def list_ex_iff)

lemma addRule_firsts: "addRule x (firsts xs) = firsts (xs @ [x])"
  by (simp add: addRule_def) (simp add: firsts_def)

lemma fold_addRule: "fold addRule ys (firsts xs) = firsts (xs @ ys)"
  by (induction ys arbitrary: xs) (simp_all add: addRule_firsts)

text \<open>The roles that a selector picks, in the order of their names, without the role itself.\<close>

definition pickedRoles :: "'sel ClusterRole list \<Rightarrow> string \<Rightarrow> (string gomap \<Rightarrow> bool) \<Rightarrow> 'sel ClusterRole list" where
  "pickedRoles roles self sel =
     filter (\<lambda>r. cr_Name r \<noteq> self) (sort_key cr_Name (filter (\<lambda>r. sel (cr_Labels r)) roles))"

definition aggregatedRules :: "'sel ClusterRole list \<Rightarrow> string \<Rightarrow> (string gomap \<Rightarrow> bool) list \<Rightarrow> PolicyRule list" where
  "aggregatedRules roles self sels = firsts (concat (map cr_Rules (concat (map (pickedRoles roles self) sels))))"

lemma fold_addRoleRules:
  "fold (addRoleRules self) roles (firsts xs) =
     firsts (xs @ concat (map cr_Rules (filter (\<lambda>r. cr_Name r \<noteq> self) roles)))"
  by (induction roles arbitrary: xs) (simp_all add: addRoleRules_def fold_addRule)

lemma lister_sorted:
  assumes "lister_law L roles" "lister_List L sel = Ok rs"
  shows "sort_key cr_Name rs = sort_key cr_Name (filter (\<lambda>r. sel (cr_Labels r)) roles)"
proof -
  have dist: "distinct (map cr_Name roles)" using assms(1) by (simp add: lister_law_def)
  obtain rs' where "lister_List L sel = Ok rs'" "distinct rs'" "set rs' = {r \<in> set roles. sel (cr_Labels r)}"
    using assms(1) unfolding lister_law_def by blast
  with assms(2) have rs: "distinct rs" "set rs = {r \<in> set roles. sel (cr_Labels r)}" by simp_all
  with dist have "mset rs = mset (filter (\<lambda>r. sel (cr_Labels r)) roles)"
    by (intro set_eq_iff_mset_eq_distinct [THEN iffD1]) (auto simp: distinct_map)
  moreover have "inj_on cr_Name (set rs)"
    using dist rs by (auto simp: distinct_map intro: inj_on_subset)
  ultimately show ?thesis by (intro sort_key_inj_key_eq) auto
qed

lemma collectRules_picked:
  assumes "lister_law L roles"
  shows "map (LabelSelectorAsSelector A) selectors = map Ok sels \<Longrightarrow>
    collectRules A L self selectors (firsts xs) =
      Ok (firsts (xs @ concat (map cr_Rules (concat (map (pickedRoles roles self) sels)))))"
proof (induction selectors arbitrary: sels xs)
  case (Cons s rest)
  then obtain m ms where ms: "sels = m # ms" by (cases sels) auto
  obtain rs where rs: "lister_List L m = Ok rs" using assms unfolding lister_law_def by blast
  have step: "fold (addRoleRules self) (sort_key cr_Name rs) (firsts xs) =
      firsts (xs @ concat (map cr_Rules (pickedRoles roles self m)))"
    by (simp add: lister_sorted [OF assms rs] fold_addRoleRules pickedRoles_def)
  from Cons.prems ms rs step show ?case
    using Cons.IH [of ms "xs @ concat (map cr_Rules (pickedRoles roles self m))"] by simp
qed simp

lemma set_aggregatedRules:
  "set (aggregatedRules roles self sels) =
     {rule. \<exists>r\<in>set roles. \<exists>sel\<in>set sels. sel (cr_Labels r) \<and> cr_Name r \<noteq> self \<and> rule \<in> set (cr_Rules r)}"
  by (auto simp: aggregatedRules_def pickedRoles_def)

lemma lister_Get_role:
  assumes "lister_law L roles" "role \<in> set roles"
  shows "lister_Get L (cr_Name role) = Ok role"
proof -
  have "distinct (map cr_Name roles)" and get: "lister_Get L (cr_Name role) =
      (case find (\<lambda>r. cr_Name r = cr_Name role) roles of Some r \<Rightarrow> Ok r | None \<Rightarrow> Err (ApiNotFound (cr_Name role)))"
    using assms(1) unfolding lister_law_def by blast+
  then have "find (\<lambda>r. cr_Name r = cr_Name role) roles = Some role"
    using assms(2) by (induction roles) (auto simp: rev_image_eqI)
  with get show ?thesis by simp
qed

text \<open>A role and its key: what the handler does with it.\<close>

definition writeRules :: "('sel, 'k) aggEnv \<Rightarrow> 'sel ClusterRole \<Rightarrow> PolicyRule list \<Rightarrow> ('k, unit) go" where
  "writeRules A role rules = tryG (ClusterRoles_Apply A (cr_Name role) (map toApplyPolicyRule rules)) returnG
     (\<lambda>e. if isUnsupportedMediaType e then ClusterRoles_Update A (role\<lparr>cr_Rules := rules\<rparr>) else failG e)"

lemma syncClusterRole_role:
  assumes "lister_law L roles" "role \<in> set roles" "SplitMetaNamespaceKey A key = Ok (ns, cr_Name role)"
    and "cr_AggregationRule role = Some selectors" "map (LabelSelectorAsSelector A) selectors = map Ok sels"
  shows "syncClusterRole A L key = (if aggregatedRules roles (cr_Name role) sels = cr_Rules role then returnG ()
    else writeRules A role (aggregatedRules roles (cr_Name role) sels))"
  using lister_Get_role [OF assms(1,2)] collectRules_picked [OF assms(1,5), of "cr_Name role" "[]"] assms(3,4)
  unfolding syncClusterRole_def writeRules_def applyClusterRoles_def updateClusterRoles_def toApplyPolicyRules_def aggregatedRules_def
  by (auto simp: ofO_def bindG_def tryG_def returnG_def fun_eq_iff)

text \<open>Writing the rules of one role does not change what is aggregated into it.\<close>

definition withRules :: "string \<Rightarrow> PolicyRule list \<Rightarrow> 'sel ClusterRole list \<Rightarrow> 'sel ClusterRole list" where
  "withRules self rules roles = map (\<lambda>r. if cr_Name r = self then r\<lparr>cr_Rules := rules\<rparr> else r) roles"

lemma filter_sort_key: "filter P (sort_key f xs) = sort_key f (filter P xs)"
  by (rule filter_sort)

lemma pickedRoles_withRules: "pickedRoles (withRules self rules roles) self sel = pickedRoles roles self sel"
proof -
  have "filter (\<lambda>r. cr_Name r \<noteq> self) (filter (\<lambda>r. sel (cr_Labels r)) (withRules self rules roles)) =
      filter (\<lambda>r. cr_Name r \<noteq> self) (filter (\<lambda>r. sel (cr_Labels r)) roles)"
    by (induction roles) (auto simp: withRules_def)
  then show ?thesis by (simp add: pickedRoles_def filter_sort_key)
qed

lemma aggregatedRules_withRules: "aggregatedRules (withRules self rules roles) self sels = aggregatedRules roles self sels"
  by (simp only: aggregatedRules_def pickedRoles_withRules cong: map_cong)

section \<open>The queue\<close>

lemma queue_lawD:
  assumes "queue_law Q pending active"
  shows "q_Get Q q = (Some key, q') \<Longrightarrow>
      key \<in> pending q \<and> key \<notin> active q \<and> pending q' = pending q - {key} \<and> active q' = insert key (active q)"
    and "pending (q_Add Q key q) = insert key (pending q)" "active (q_Add Q key q) = active q"
    and "pending (q_AddRateLimited Q key q) = insert key (pending q)" "active (q_AddRateLimited Q key q) = active q"
    and "pending (q_Forget Q key q) = pending q" "active (q_Forget Q key q) = active q"
    and "pending (q_Done Q key q) = pending q" "active (q_Done Q key q) = active q - {key}"
  using assms by (simp_all add: queue_law_def)

lemma enqueueAll_queue:
  assumes "queue_law Q pending active"
  shows "pending (enqueueAll A Q rs q) = pending q \<union> set (keysOf A rs) \<and> active (enqueueAll A Q rs q) = active q"
  by (induction rs arbitrary: q) (auto simp: queue_lawD [OF assms] split: outcome.splits)

lemma enqueue_queue:
  assumes "queue_law Q pending active"
  shows "pending (enqueue A Q L q) = pending q \<union> set (listedKeys A L)" "active (enqueue A Q L q) = active q"
  by (cases "lister_List L (\<lambda>_. True)"; simp add: enqueue_def listedKeys_def enqueueAll_queue [OF assms])+

lemma finishItem_queue:
  assumes "queue_law Q pending active" "finishItem Q key r q = (Ok True, q')"
  shows "active q' = active q - {key}" "pending q' = pending q \<union> (if r = Ok () then {} else {key})"
  using assms(2) queue_lawD [OF assms(1)] by (auto simp: finishItem_def split: outcome.splits)

definition ctrlInv :: "('q \<Rightarrow> string set) \<Rightarrow> ('q \<Rightarrow> string set) \<Rightarrow> nat \<Rightarrow> ('sel, 'q, 'k) ctrl \<Rightarrow> bool" where
  "ctrlInv pending active workers c =
     (active (queue c) = ran (holding c) \<and> inj_on (holding c) (dom (holding c)) \<and>
      dom (holding c) \<subseteq> {..<workers} \<and> enqueued c \<subseteq> pending (queue c) \<union> ran (holding c) \<union> settled c)"

lemma inj_on_put:
  assumes "inj_on h (dom h)" "key \<notin> ran h"
  shows "inj_on (h(i \<mapsto> key)) (dom (h(i \<mapsto> key)))"
  using assms unfolding inj_on_def dom_def ran_def by (auto split: if_splits)

lemma ran_drop:
  assumes "inj_on h (dom h)" "h i = Some key"
  shows "ran (h(i := None)) = ran h - {key}"
proof -
  have only: "j = i" if "h j = Some key" for j
    using inj_onD [OF assms(1), of j i] that assms(2) by auto
  have "x \<in> ran (h(i := None)) \<longleftrightarrow> (\<exists>a. a \<noteq> i \<and> h a = Some x)" for x
    by (auto simp: ran_def)
  moreover have "(\<exists>a. a \<noteq> i \<and> h a = Some x) \<longleftrightarrow> x \<in> ran h \<and> x \<noteq> key" for x
  proof
    assume "\<exists>a. a \<noteq> i \<and> h a = Some x"
    then show "x \<in> ran h \<and> x \<noteq> key" using only by (auto intro: ranI)
  next
    assume "x \<in> ran h \<and> x \<noteq> key"
    then obtain a where "h a = Some x" "x \<noteq> key" by (auto simp: ran_def)
    then show "\<exists>a. a \<noteq> i \<and> h a = Some x" using assms(2) by (intro exI [of _ a]) auto
  qed
  ultimately show ?thesis by auto
qed

lemma ctrlStep_inv:
  assumes law: "queue_law Q pending active" and "ctrlStep A Q workers c c'" "ctrlInv pending active workers c"
  shows "ctrlInv pending active workers c'"
  using assms(2)
proof (cases rule: ctrlStep.cases)
  case (event L)
  then show ?thesis using assms(3) by (auto simp: ctrlInv_def enqueue_queue [OF law])
next
  case (fetch i key q')
  have "ran ((holding c)(i \<mapsto> key)) = insert key (ran (holding c))" using fetch(3) by simp
  moreover have "inj_on ((holding c)(i \<mapsto> key)) (dom ((holding c)(i \<mapsto> key)))"
    using assms(3) queue_lawD(1) [OF law fetch(4)] by (intro inj_on_put) (simp_all add: ctrlInv_def)
  ultimately show ?thesis
    using fetch(1,2) assms(3) queue_lawD(1) [OF law fetch(4)] by (auto simp: ctrlInv_def simp del: fun_upd_apply)
next
  case (finish i key r k' q')
  have inj: "inj_on (holding c) (dom (holding c))" using assms(3) by (simp add: ctrlInv_def)
  note q = finishItem_queue [OF law finish(4)] and h = ran_drop [OF inj finish(2)]
  have "inj_on ((holding c)(i := None)) (dom ((holding c)(i := None)))"
    using inj by (auto simp: inj_on_def)
  with finish(1) q h assms(3) show ?thesis
    by (auto simp: ctrlInv_def simp del: fun_upd_apply split: if_splits)
qed

lemma ctrlReach_inv:
  assumes "queue_law Q pending active" "ctrlReach A Q workers c0 c" "ctrlInv pending active workers c0"
  shows "ctrlInv pending active workers c"
  using assms(2,3) by induction (auto intro: ctrlStep_inv [OF assms(1)])

section \<open>Concrete inputs\<close>

text \<open>A queue of the items to hand out and of those handed out.\<close>

definition demoQueue :: "(string list \<times> string list) workQueue" where
  "demoQueue = \<lparr>q_Get = (\<lambda>(todo, act). case find (\<lambda>x. x \<notin> set act) todo of
       Some x \<Rightarrow> (Some x, (removeAll x todo, x # act)) | None \<Rightarrow> (None, (todo, act))),
     q_Add = (\<lambda>x (todo, act). (todo @ [x], act)), q_AddRateLimited = (\<lambda>x (todo, act). (todo @ [x], act)),
     q_Forget = (\<lambda>x q. q), q_Done = (\<lambda>x (todo, act). (todo, removeAll x act))\<rparr>"

lemma demoQueue_law: "queue_law demoQueue (set \<circ> fst) (set \<circ> snd)"
  by (auto simp: queue_law_def demoQueue_def find_Some_iff in_set_conv_nth split: option.splits)

definition demoRule :: "string \<Rightarrow> PolicyRule" where
  "demoRule r = \<lparr>Verbs = [''get''], APIGroups = [[]], Resources = [r], ResourceNames = [], NonResourceURLs = []\<rparr>"

definition demoAdmin :: "string ClusterRole" where
  "demoAdmin = \<lparr>cr_Name = ''admin'', cr_Labels = [(''a'', ''1'')], cr_AggregationRule = Some [''a''], cr_Rules = []\<rparr>"

definition demoView :: "string ClusterRole" where
  "demoView = \<lparr>cr_Name = ''view'', cr_Labels = [(''a'', ''1'')], cr_AggregationRule = None,
     cr_Rules = [demoRule ''pods'', demoRule ''pods'']\<rparr>"

definition demoLister :: "string ClusterRole list \<Rightarrow> string roleLister" where
  "demoLister roles = \<lparr>lister_Get = (\<lambda>n. case find (\<lambda>r. cr_Name r = n) roles of Some r \<Rightarrow> Ok r | None \<Rightarrow> Err (ApiNotFound n)),
     lister_List = (\<lambda>sel. Ok (filter (\<lambda>r. sel (cr_Labels r)) roles))\<rparr>"

text \<open>A cluster that records what is applied.\<close>

definition demoAgg :: "(string, (string \<times> PolicyRuleApply list) list) aggEnv" where
  "demoAgg = \<lparr>SplitMetaNamespaceKey = (\<lambda>key. Ok ([], key)), KeyFunc = (\<lambda>r. Ok (cr_Name r)),
     LabelSelectorAsSelector = (\<lambda>l. Ok (\<lambda>ls. mapGet ls l \<noteq> None)),
     ClusterRoles_Apply = (\<lambda>n rs k. (Ok (), (n, rs) # k)), ClusterRoles_Update = (\<lambda>r k. (Ok (), k))\<rparr>"

lemma demoLister_law: "distinct (map cr_Name roles) \<Longrightarrow> lister_law (demoLister roles) roles"
  by (auto simp: lister_law_def demoLister_def distinct_map)

section \<open>Properties\<close>

text \<open>
  C5: whatever order the cache lists roles in, the handler of an aggregated role computes the same
  rules: the rules of all other roles that some selector of the role picks, each once; it writes
  them (by server-side apply, or by an update where apply is not supported) exactly when they differ
  from the rules that the role has, and otherwise leaves the cluster alone.
\<close>

theorem aggregation_exact:
  assumes "lister_law L roles" "role \<in> set roles" "SplitMetaNamespaceKey A key = Ok (ns, cr_Name role)"
    and "cr_AggregationRule role = Some selectors" "map (LabelSelectorAsSelector A) selectors = map Ok sels"
  shows "syncClusterRole A L key = (if aggregatedRules roles (cr_Name role) sels = cr_Rules role then returnG ()
      else writeRules A role (aggregatedRules roles (cr_Name role) sels)) \<and>
    distinct (aggregatedRules roles (cr_Name role) sels) \<and>
    set (aggregatedRules roles (cr_Name role) sels) =
      {rule. \<exists>r\<in>set roles. \<exists>sel\<in>set sels. sel (cr_Labels r) \<and> cr_Name r \<noteq> cr_Name role \<and> rule \<in> set (cr_Rules r)}"
proof -
  have "distinct (aggregatedRules roles (cr_Name role) sels)" by (simp add: aggregatedRules_def)
  then show ?thesis using syncClusterRole_role [OF assms] set_aggregatedRules [of roles "cr_Name role" sels] by blast
qed

theorem aggregation_exact_witness:
  "snd (syncClusterRole demoAgg (demoLister [demoView, demoAdmin]) ''admin'' []) = [(''admin'', [toApplyPolicyRule (demoRule ''pods'')])]"
proof -
  have L: "lister_law (demoLister [demoView, demoAdmin]) [demoView, demoAdmin]"
    by (rule demoLister_law) (simp add: demoView_def demoAdmin_def)
  have rules: "aggregatedRules [demoView, demoAdmin] ''admin'' [\<lambda>ls. mapGet ls ''a'' \<noteq> None] = [demoRule ''pods'']"
    by (simp add: aggregatedRules_def pickedRoles_def demoView_def demoAdmin_def mapGet_def firsts_def)
  have "syncClusterRole demoAgg (demoLister [demoView, demoAdmin]) ''admin'' = writeRules demoAgg demoAdmin [demoRule ''pods'']"
    using aggregation_exact [OF L, of demoAdmin demoAgg "''admin''" "[]" "[''a'']" "[\<lambda>ls. mapGet ls ''a'' \<noteq> None]"]
    by (simp add: demoAgg_def demoAdmin_def rules [unfolded demoAdmin_def, simplified])
  then show ?thesis by (simp add: writeRules_def tryG_def demoAgg_def demoAdmin_def returnG_def)
qed

text \<open>
  C28: aggregation settles in one step: once the rules that the handler computed are in the role, the
  next run of the handler, on any cache of the same roles, writes nothing and succeeds. A role that
  its own selectors pick does not feed on itself.
\<close>

theorem aggregation_settles:
  assumes "role \<in> set roles" "cr_AggregationRule role = Some selectors"
    and "map (LabelSelectorAsSelector A) selectors = map Ok sels"
    and "lister_law L (withRules (cr_Name role) (aggregatedRules roles (cr_Name role) sels) roles)"
    and "SplitMetaNamespaceKey A key = Ok (ns, cr_Name role)"
  shows "syncClusterRole A L key k = (Ok (), k)"
proof -
  let ?role = "role\<lparr>cr_Rules := aggregatedRules roles (cr_Name role) sels\<rparr>"
  have mem: "?role \<in> set (withRules (cr_Name role) (aggregatedRules roles (cr_Name role) sels) roles)"
    using assms(1) by (force simp: withRules_def)
  show ?thesis
    using syncClusterRole_role [OF assms(4) mem, of A key ns selectors sels] assms(2,3,5)
    by (simp add: aggregatedRules_withRules returnG_def)
qed

theorem aggregation_settles_witness:
  "syncClusterRole demoAgg (demoLister [demoView, demoAdmin\<lparr>cr_Rules := [demoRule ''pods'']\<rparr>]) ''admin'' [] = (Ok (), [])"
proof -
  have rules: "aggregatedRules [demoView, demoAdmin] (cr_Name demoAdmin) [\<lambda>ls. mapGet ls ''a'' \<noteq> None] = [demoRule ''pods'']"
    by (simp add: aggregatedRules_def pickedRoles_def demoView_def demoAdmin_def mapGet_def firsts_def)
  have roles: "withRules (cr_Name demoAdmin) [demoRule ''pods''] [demoView, demoAdmin] =
      [demoView, demoAdmin\<lparr>cr_Rules := [demoRule ''pods'']\<rparr>]"
    by (simp add: withRules_def demoView_def demoAdmin_def)
  have L: "lister_law (demoLister [demoView, demoAdmin\<lparr>cr_Rules := [demoRule ''pods'']\<rparr>])
      [demoView, demoAdmin\<lparr>cr_Rules := [demoRule ''pods'']\<rparr>]"
    by (rule demoLister_law) (simp add: demoView_def demoAdmin_def)
  show ?thesis
    by (rule aggregation_settles [of demoAdmin "[demoView, demoAdmin]" "[''a'']" _ "[\<lambda>ls. mapGet ls ''a'' \<noteq> None]" _ _ "[]"])
      (use L rules roles in \<open>simp_all add: demoAgg_def, simp_all add: demoAdmin_def\<close>)
qed

text \<open>
  C16: in every state that the controller reaches from an idle start, with any number of workers and
  any events in between, no two workers hold the same role, only the workers that were started hold
  one, and no role that was ever queued is lost: it is queued, or a worker holds it, or its last run
  succeeded with no event for it since.
\<close>

theorem controller_loses_nothing:
  assumes "queue_law Q pending active" "ctrlReach A Q workers c0 c"
    and "holding c0 = Map.empty" "enqueued c0 = {}" "active (queue c0) = {}"
  shows "(\<forall>i j key. holding c i = Some key \<and> holding c j = Some key \<longrightarrow> i = j \<and> i < workers) \<and>
    enqueued c \<subseteq> pending (queue c) \<union> ran (holding c) \<union> settled c"
proof -
  have "ctrlInv pending active workers c0" using assms(3-5) by (simp add: ctrlInv_def)
  from ctrlReach_inv [OF assms(1,2) this] show ?thesis
    unfolding ctrlInv_def inj_on_def dom_def by (auto; metis)
qed

definition demoCtrl :: "(string, string list \<times> string list, (string \<times> PolicyRuleApply list) list) ctrl" where
  "demoCtrl = \<lparr>cache = demoLister [], queue = ([], []), kstate = [], holding = Map.empty, enqueued = {}, settled = {}\<rparr>"

theorem controller_loses_nothing_witness:
  "\<exists>c. ctrlReach demoAgg demoQueue 5 demoCtrl c \<and> ''admin'' \<in> enqueued c \<and>
     ''admin'' \<in> set (fst (queue c)) \<union> ran (holding c) \<union> settled c"
proof -
  let ?L = "demoLister [demoView, demoAdmin]"
  let ?c = "demoCtrl\<lparr>cache := ?L, queue := enqueue demoAgg demoQueue ?L (queue demoCtrl),
      enqueued := enqueued demoCtrl \<union> set (listedKeys demoAgg ?L), settled := settled demoCtrl - set (listedKeys demoAgg ?L)\<rparr>"
  have r: "ctrlReach demoAgg demoQueue 5 demoCtrl ?c"
    by (rule ctrlReach.more [OF ctrlReach.start], rule ctrlStep.event)
  have e: "''admin'' \<in> enqueued ?c"
    by (simp add: listedKeys_def demoLister_def demoAgg_def demoView_def demoAdmin_def)
  from controller_loses_nothing [OF demoQueue_law r] e r show ?thesis by (auto simp: demoCtrl_def intro!: exI [of _ ?c])
qed



end
