(* ===== verification/AuthOptions.thy ===== *)
theory AuthOptions
  imports KubeUtil
begin

text \<open>
  The options for authentication and authorization (\<open>options/authentication.go\<close>,
  \<open>options/authorization.go\<close>). Values that only the Kubernetes libraries look into (providers of
  certificates, keys, authenticators they build) are of an opaque type \<open>'x\<close>, and the library
  functions that make them are the record \<open>'x authLib\<close>; the union and the wrappers of
  authenticators are kept as the tree \<open>'x request\<close> that the code builds.
\<close>

section \<open>Flag sets\<close>

text \<open>
  Of a flag the set keeps the name and the default. \<open>XxxVar(p, name, value)\<close> stores the default in
  \<open>*p\<close> and panics when the name is taken.
\<close>

datatype flagValue = FString string | FBool bool | FStrings "string list" | FDuration int | FInt int | FMap "string gomap"

type_synonym flagSet = "flagValue gomap"

definition addFlag :: "string \<Rightarrow> flagValue \<Rightarrow> ('o \<Rightarrow> 'o) \<Rightarrow> (flagSet \<times> 'o, unit) go" where
  "addFlag name v store = (\<lambda>(fs, opts).
     if mapGet fs name \<noteq> None then (Panic (''flag redefined: '' @ name), (fs, opts))
     else (Ok (), (fs @ [(name, v)], store opts)))"

definition getOpts :: "(flagSet \<times> 'o, 'o) go" where
  "getOpts = (\<lambda>s. (Ok (snd s), s))"

definition libFlags :: "(flagSet \<Rightarrow> flagSet outcome) \<Rightarrow> (flagSet \<times> 'o, unit) go" where
  "libFlags f = (\<lambda>(fs, opts). case f fs of
     Ok fs' \<Rightarrow> (Ok (), (fs', opts)) | Err e \<Rightarrow> (Err e, (fs, opts)) | Panic p \<Rightarrow> (Panic p, (fs, opts)))"

section \<open>Authentication options\<close>

record Backoff =
  Steps :: int

record AnonymousAuthenticationOptions =
  Allow :: bool

record BootstrapTokenAuthenticationOptions =
  Enable :: bool

record ClientCertAuthenticationOptions =
  ClientCA :: string

record OIDCAuthenticationOptions =
  oidc_CAFile :: string
  ClientID :: string
  IssuerURL :: string
  UsernameClaim :: string
  UsernamePrefix :: string
  GroupsClaim :: string
  GroupsPrefix :: string
  SigningAlgs :: "string list"
  RequiredClaims :: "string gomap"

record RequestHeaderAuthenticationOptions =
  rh_ClientCAFile :: string
  rh_UsernameHeaders :: "string list"
  rh_GroupHeaders :: "string list"
  rh_ExtraHeaderPrefixes :: "string list"
  rh_AllowedNames :: "string list"

record ServiceAccountAuthenticationOptions =
  KeyFiles :: "string list"
  Lookup :: bool
  Issuers :: "string list"
  JWKSURI :: string
  MaxExpiration :: int
  ExtendExpiration :: bool

record TokenFileAuthenticationOptions =
  TokenFile :: string

record WebHookAuthenticationOptions =
  wh_ConfigFile :: string
  wh_Version :: string
  wh_CacheTTL :: int
  wh_RetryBackoff :: "Backoff option"

record 'x DelegatingAuthenticatorConfig =
  TokenAccessReviewTimeout :: int
  WebhookRetryBackoff :: "Backoff option"
  CacheTTL :: int
  d_APIAudiences :: "string list"
  clientCA :: "'x option"

record 'x BuiltInAuthenticationOptions =
  APIAudiences :: "string list"
  Anonymous :: "AnonymousAuthenticationOptions option"
  BootstrapToken :: "BootstrapTokenAuthenticationOptions option"
  ClientCert :: "ClientCertAuthenticationOptions option"
  OIDC :: "OIDCAuthenticationOptions option"
  RequestHeader :: "RequestHeaderAuthenticationOptions option"
  ServiceAccounts :: "ServiceAccountAuthenticationOptions option"
  TokenFileOpts :: "TokenFileAuthenticationOptions option"
  WebHook :: "WebHookAuthenticationOptions option"
  TokenSuccessCacheTTL :: int
  TokenFailureCacheTTL :: int
  DelegatingConfig :: "'x DelegatingAuthenticatorConfig option"

definition NewBuiltInAuthenticationOptions :: "'x BuiltInAuthenticationOptions" where
  "NewBuiltInAuthenticationOptions = \<lparr>APIAudiences = [], Anonymous = None, BootstrapToken = None, ClientCert = None,
     OIDC = None, RequestHeader = None, ServiceAccounts = None, TokenFileOpts = None, WebHook = None,
     TokenSuccessCacheTTL = 10 * time_Second, TokenFailureCacheTTL = 0 * time_Second, DelegatingConfig = None\<rparr>"

definition WithAnonymous :: "'x BuiltInAuthenticationOptions \<Rightarrow> 'x BuiltInAuthenticationOptions" where
  "WithAnonymous o' = o'\<lparr>Anonymous := Some \<lparr>Allow = True\<rparr>\<rparr>"

definition WithBootstrapToken :: "'x BuiltInAuthenticationOptions \<Rightarrow> 'x BuiltInAuthenticationOptions" where
  "WithBootstrapToken o' = o'\<lparr>BootstrapToken := Some \<lparr>Enable = False\<rparr>\<rparr>"

definition WithClientCert :: "'x BuiltInAuthenticationOptions \<Rightarrow> 'x BuiltInAuthenticationOptions" where
  "WithClientCert o' = o'\<lparr>ClientCert := Some \<lparr>ClientCA = []\<rparr>\<rparr>"

definition WithOIDC :: "'x BuiltInAuthenticationOptions \<Rightarrow> 'x BuiltInAuthenticationOptions" where
  "WithOIDC o' = o'\<lparr>OIDC := Some \<lparr>oidc_CAFile = [], ClientID = [], IssuerURL = [], UsernameClaim = [],
     UsernamePrefix = [], GroupsClaim = [], GroupsPrefix = [], SigningAlgs = [], RequiredClaims = []\<rparr>\<rparr>"

definition WithRequestHeader :: "'x BuiltInAuthenticationOptions \<Rightarrow> 'x BuiltInAuthenticationOptions" where
  "WithRequestHeader o' = o'\<lparr>RequestHeader := Some \<lparr>rh_ClientCAFile = [], rh_UsernameHeaders = [],
     rh_GroupHeaders = [], rh_ExtraHeaderPrefixes = [], rh_AllowedNames = []\<rparr>\<rparr>"

definition WithServiceAccounts :: "'x BuiltInAuthenticationOptions \<Rightarrow> 'x BuiltInAuthenticationOptions" where
  "WithServiceAccounts o' = o'\<lparr>ServiceAccounts := Some \<lparr>KeyFiles = [], Lookup = True, Issuers = [], JWKSURI = [],
     MaxExpiration = 0, ExtendExpiration = True\<rparr>\<rparr>"

definition WithTokenFile :: "'x BuiltInAuthenticationOptions \<Rightarrow> 'x BuiltInAuthenticationOptions" where
  "WithTokenFile o' = o'\<lparr>TokenFileOpts := Some \<lparr>TokenFile = []\<rparr>\<rparr>"

definition WithWebHook :: "Backoff option \<Rightarrow> 'x BuiltInAuthenticationOptions \<Rightarrow> 'x BuiltInAuthenticationOptions" where
  "WithWebHook defaultBackoff o' = o'\<lparr>WebHook := Some \<lparr>wh_ConfigFile = [], wh_Version = ''v1beta1'',
     wh_CacheTTL = 2 * time_Minute, wh_RetryBackoff = defaultBackoff\<rparr>\<rparr>"

definition WithAll :: "Backoff option \<Rightarrow> 'x BuiltInAuthenticationOptions \<Rightarrow> 'x BuiltInAuthenticationOptions" where
  "WithAll defaultBackoff o' = WithWebHook defaultBackoff (WithTokenFile (WithServiceAccounts (WithRequestHeader
     (WithOIDC (WithClientCert (WithBootstrapToken (WithAnonymous o')))))))"

subsection \<open>Validation\<close>

text \<open>\<open>url.Parse\<close> gives the scheme and the text of the URL, or an error.\<close>

type_synonym urlParser = "string \<Rightarrow> (string \<times> string) outcome"

fun validateIssuers :: "urlParser \<Rightarrow> string list \<Rightarrow> string list \<Rightarrow> goerr list" where
  "validateIssuers parse seen [] = []"
| "validateIssuers parse seen (issuer # rest) =
     (case (if containsChar issuer (CHR '':'') then parse issuer else Ok ([], [])) of
        Err e \<Rightarrow> ErrorfV ''service-account-issuer %q contained a ':' but was not a valid URL: %v'' [issuer] e
                   # validateIssuers parse seen rest
      | _ \<Rightarrow>
          if issuer = [] then Errorf ''service-account-issuer should not be an empty string'' []
                                # validateIssuers parse seen rest
          else if issuer \<in> set seen then Errorf ''service-account-issuer %q is already specified'' [issuer]
                                # validateIssuers parse seen rest
          else validateIssuers parse (issuer # seen) rest)"

definition validateOIDC :: "OIDCAuthenticationOptions option \<Rightarrow> goerr list" where
  "validateOIDC oidc = (case oidc of None \<Rightarrow> [] | Some c \<Rightarrow>
     if (IssuerURL c \<noteq> []) \<noteq> (ClientID c \<noteq> [])
     then [Errorf ''oidc-issuer-url and oidc-client-id should be specified together'' []] else [])"

definition validateServiceAccounts :: "urlParser \<Rightarrow> ServiceAccountAuthenticationOptions \<Rightarrow> goerr list" where
  "validateServiceAccounts parse sa =
     (if Issuers sa = [] then [Errorf ''service-account-issuer is a required flag'' []] else []) @
     (if KeyFiles sa = [] then [Errorf ''service-account-key-file is a required flag'' []] else []) @
     (if JWKSURI sa \<noteq> [] then
        (case parse (JWKSURI sa) of
           Ok (scheme, text) \<Rightarrow>
             if scheme \<noteq> ''https'' then [Errorf ''service-account-jwks-uri requires https scheme, parsed as: %v'' [text]] else []
         | Err e \<Rightarrow> [ErrorfV ''service-account-jwks-uri must be a valid URL: %v'' [] e]
         | Panic p \<Rightarrow> [])
      else [])"

definition validateBackoff :: "Backoff option \<Rightarrow> goerr list" where
  "validateBackoff b = (case b of None \<Rightarrow> [] | Some r \<Rightarrow>
     if Steps r \<le> 0 then [Errorf ''number of webhook retry attempts must be greater than 0, but is: %d'' [showInt (Steps r)]] else [])"

definition authnValidate :: "urlParser \<Rightarrow> 'x BuiltInAuthenticationOptions \<Rightarrow> goerr list" where
  "authnValidate parse o' =
     validateOIDC (OIDC o') @
     (case ServiceAccounts o' of None \<Rightarrow> [] | Some sa \<Rightarrow> validateIssuers parse [] (Issuers sa)) @
     (case ServiceAccounts o' of None \<Rightarrow> [] | Some sa \<Rightarrow> validateServiceAccounts parse sa) @
     (case WebHook o' of None \<Rightarrow> [] | Some h \<Rightarrow> validateBackoff (wh_RetryBackoff h))"

subsection \<open>Flags\<close>

definition setOIDC :: "(OIDCAuthenticationOptions \<Rightarrow> OIDCAuthenticationOptions) \<Rightarrow>
    'x BuiltInAuthenticationOptions \<Rightarrow> 'x BuiltInAuthenticationOptions" where
  "setOIDC f o' = o'\<lparr>OIDC := map_option f (OIDC o')\<rparr>"

definition oidcFlags :: "OIDCAuthenticationOptions \<Rightarrow> (flagSet \<times> 'x BuiltInAuthenticationOptions, unit) go" where
  "oidcFlags c =
     bindG (addFlag ''oidc-issuer-url'' (FString (IssuerURL c)) id) (\<lambda>_.
     bindG (addFlag ''oidc-client-id'' (FString (ClientID c)) id) (\<lambda>_.
     bindG (addFlag ''oidc-ca-file'' (FString (oidc_CAFile c)) id) (\<lambda>_.
     bindG (addFlag ''oidc-username-claim'' (FString ''sub'') (setOIDC (\<lambda>c. c\<lparr>UsernameClaim := ''sub''\<rparr>))) (\<lambda>_.
     bindG (addFlag ''oidc-username-prefix'' (FString []) (setOIDC (\<lambda>c. c\<lparr>UsernamePrefix := []\<rparr>))) (\<lambda>_.
     bindG (addFlag ''oidc-groups-claim'' (FString []) (setOIDC (\<lambda>c. c\<lparr>GroupsClaim := []\<rparr>))) (\<lambda>_.
     bindG (addFlag ''oidc-groups-prefix'' (FString []) (setOIDC (\<lambda>c. c\<lparr>GroupsPrefix := []\<rparr>))) (\<lambda>_.
     bindG (addFlag ''oidc-signing-algs'' (FStrings [''RS256'']) (setOIDC (\<lambda>c. c\<lparr>SigningAlgs := [''RS256'']\<rparr>))) (\<lambda>_.
     addFlag ''oidc-required-claim'' (FMap (RequiredClaims c)) id))))))))"

definition serviceAccountFlags ::
  "string list \<Rightarrow> ServiceAccountAuthenticationOptions \<Rightarrow> (flagSet \<times> 'x BuiltInAuthenticationOptions, unit) go" where
  "serviceAccountFlags audiences sa =
     bindG (addFlag ''service-account-key-file'' (FStrings (KeyFiles sa)) id) (\<lambda>_.
     bindG (addFlag ''service-account-lookup'' (FBool (Lookup sa)) id) (\<lambda>_.
     bindG (addFlag ''service-account-issuer'' (FStrings (Issuers sa)) id) (\<lambda>_.
     bindG (addFlag ''service-account-jwks-uri'' (FString (JWKSURI sa)) id) (\<lambda>_.
     bindG (addFlag ''service-account-api-audiences'' (FStrings audiences) id) (\<lambda>_.
     bindG (addFlag ''service-account-max-token-expiration'' (FDuration (MaxExpiration sa)) id) (\<lambda>_.
     addFlag ''service-account-extend-token-expiration'' (FBool (ExtendExpiration sa)) id))))))"

definition webHookFlags :: "WebHookAuthenticationOptions \<Rightarrow> (flagSet \<times> 'x BuiltInAuthenticationOptions, unit) go" where
  "webHookFlags h =
     bindG (addFlag ''authentication-token-webhook-config-file'' (FString (wh_ConfigFile h)) id) (\<lambda>_.
     bindG (addFlag ''authentication-token-webhook-version'' (FString (wh_Version h)) id) (\<lambda>_.
     addFlag ''authentication-token-webhook-cache-ttl'' (FDuration (wh_CacheTTL h)) id))"

definition whenSome :: "'a option \<Rightarrow> ('a \<Rightarrow> ('s, unit) go) \<Rightarrow> ('s, unit) go" where
  "whenSome x f = (case x of None \<Rightarrow> returnG () | Some y \<Rightarrow> f y)"

definition authnAddFlags ::
  "(flagSet \<Rightarrow> flagSet outcome) \<Rightarrow> (flagSet \<Rightarrow> flagSet outcome) \<Rightarrow>
   (flagSet \<times> 'x BuiltInAuthenticationOptions, unit) go" where
  "authnAddFlags clientCertFlags requestHeaderFlags = bindG getOpts (\<lambda>o'.
     bindG (addFlag ''api-audiences'' (FStrings (APIAudiences o')) id) (\<lambda>_.
     bindG (whenSome (Anonymous o') (\<lambda>a. addFlag ''anonymous-auth'' (FBool (Allow a)) id)) (\<lambda>_.
     bindG (whenSome (BootstrapToken o') (\<lambda>b. addFlag ''enable-bootstrap-token-auth'' (FBool (Enable b)) id)) (\<lambda>_.
     bindG (whenSome (ClientCert o') (\<lambda>_. libFlags clientCertFlags)) (\<lambda>_.
     bindG (whenSome (OIDC o') oidcFlags) (\<lambda>_.
     bindG (whenSome (RequestHeader o') (\<lambda>_. libFlags requestHeaderFlags)) (\<lambda>_.
     bindG (whenSome (ServiceAccounts o') (serviceAccountFlags (APIAudiences o'))) (\<lambda>_.
     bindG (whenSome (TokenFileOpts o') (\<lambda>t. addFlag ''token-auth-file'' (FString (TokenFile t)) id)) (\<lambda>_.
     whenSome (WebHook o') webHookFlags)))))))))"

section \<open>From options to a configuration\<close>

record PrefixedClaim =
  pc_Prefix :: "string option"
  pc_Claim :: string

record JWTAuthenticator =
  jwt_URL :: string
  jwt_Audiences :: "string list"
  jwt_CertificateAuthority :: string
  jwt_Username :: PrefixedClaim
  jwt_Groups :: PrefixedClaim
  jwt_ClaimValidationRules :: "(string \<times> string) list"

record 'x authnConfig =
  ac_Anonymous :: bool
  ac_BootstrapToken :: bool
  ac_ClientCAContentProvider :: "'x option"
  ac_AuthenticationConfig :: "JWTAuthenticator list option"
  ac_OIDCSigningAlgs :: "string list"
  ac_RequestHeaderConfig :: "('x \<times> 'x option) option"
  ac_APIAudiences :: "string list"
  ac_ServiceAccountIssuers :: "string list"
  ac_ServiceAccountLookup :: bool
  ac_ServiceAccountPublicKeysGetter :: "'x option"
  ac_TokenAuthFile :: string
  ac_WebhookTokenAuthnConfigFile :: string
  ac_WebhookTokenAuthnVersion :: string
  ac_WebhookTokenAuthnCacheTTL :: int
  ac_WebhookRetryBackoff :: "Backoff option"
  ac_TokenSuccessCacheTTL :: int
  ac_TokenFailureCacheTTL :: int
  ac_ServiceAccountTokenGetter :: "'x option"
  ac_SecretsWriter :: "'x option"
  ac_BootstrapTokenAuthenticator :: "'x option"
  ac_CustomDial :: "'x option"

text \<open>
  The libraries: providers from options, keys from files, the validation of a JWT configuration,
  and the constructors of authenticators. A request header configuration comes with the provider
  of its certificates.
\<close>

record 'x authLib =
  GetClientCAContentProvider :: "ClientCertAuthenticationOptions \<Rightarrow> (world, 'x option) go"
  ValidateAuthenticationConfiguration :: "JWTAuthenticator list \<Rightarrow> goerr option"
  ToAuthenticationRequestHeaderConfig :: "RequestHeaderAuthenticationOptions \<Rightarrow> (world, ('x \<times> 'x option) option) go"
  PublicKeysFromFile :: "string \<Rightarrow> (world, 'x list) go"
  StaticPublicKeysGetter :: "'x list \<Rightarrow> 'x outcome"
  authenticator_New :: "'x authnConfig \<Rightarrow> (world, 'x \<times> 'x \<times> 'x) go"
  NewDynamicCAFromConfigMapController :: "string \<Rightarrow> string \<Rightarrow> string \<Rightarrow> string \<Rightarrow> 'x outcome"
  webhooktoken_New :: "string list \<Rightarrow> Backoff \<Rightarrow> int \<Rightarrow> 'x outcome"
  tokencache_New :: "'x \<Rightarrow> int \<Rightarrow> int \<Rightarrow> 'x"

definition usernamePrefixOf :: "OIDCAuthenticationOptions \<Rightarrow> string" where
  "usernamePrefixOf c =
     (let usernamePrefix = (if UsernamePrefix c = [] \<and> UsernameClaim c \<noteq> ''email'' then IssuerURL c @ ''#''
                            else UsernamePrefix c)
      in if UsernamePrefix c = ''-'' then [] else usernamePrefix)"

definition jwtAuthenticatorOf :: "env \<Rightarrow> OIDCAuthenticationOptions \<Rightarrow> string \<Rightarrow> JWTAuthenticator" where
  "jwtAuthenticatorOf E c ca = \<lparr>jwt_URL = IssuerURL c, jwt_Audiences = [ClientID c], jwt_CertificateAuthority = ca,
     jwt_Username = \<lparr>pc_Prefix = Some (usernamePrefixOf c), pc_Claim = UsernameClaim c\<rparr>,
     jwt_Groups = (if GroupsClaim c \<noteq> [] then \<lparr>pc_Prefix = Some (GroupsPrefix c), pc_Claim = GroupsClaim c\<rparr>
                   else \<lparr>pc_Prefix = None, pc_Claim = []\<rparr>),
     jwt_ClaimValidationRules = mapRange (range_order E) (RequiredClaims c)\<rparr>"

definition oidcConfig ::
  "env \<Rightarrow> 'k kubeApi \<Rightarrow> OIDCAuthenticationOptions option \<Rightarrow> (world, (JWTAuthenticator list \<times> string list) option) go" where
  "oidcConfig E K oidc = (case oidc of
     None \<Rightarrow> returnG None
   | Some c \<Rightarrow>
       if IssuerURL c \<noteq> [] \<and> ClientID c \<noteq> [] then
         bindG (if oidc_CAFile c \<noteq> [] then bindG (os_ReadFile E (oidc_CAFile c)) (\<lambda>b. returnG (bytesString K b))
                else returnG []) (\<lambda>ca.
         returnG (Some ([jwtAuthenticatorOf E c ca], SigningAlgs c)))
       else returnG None)"

definition audiencesOf :: "'x BuiltInAuthenticationOptions \<Rightarrow> string list" where
  "audiencesOf o' = (case ServiceAccounts o' of
     None \<Rightarrow> APIAudiences o'
   | Some sa \<Rightarrow> if Issuers sa \<noteq> [] \<and> APIAudiences o' = [] then Issuers sa else APIAudiences o')"

fun publicKeys :: "'x authLib \<Rightarrow> string list \<Rightarrow> (world, 'x list) go" where
  "publicKeys B [] = returnG []"
| "publicKeys B (f # fs) =
     bindG (wrapG (ErrorfW ''failed to parse key file %q: %w'' [f]) (PublicKeysFromFile B f)) (\<lambda>keys.
     bindG (publicKeys B fs) (\<lambda>rest. returnG (keys @ rest)))"

definition keysGetterOf :: "'x authLib \<Rightarrow> ServiceAccountAuthenticationOptions option \<Rightarrow> (world, 'x option) go" where
  "keysGetterOf B sas = (case sas of
     None \<Rightarrow> returnG None
   | Some sa \<Rightarrow>
       if KeyFiles sa \<noteq> [] then
         bindG (publicKeys B (KeyFiles sa)) (\<lambda>pubKeys.
         bindG (wrapG (ErrorfW ''failed to set up public service account keys: %w'' []) (\<lambda>w. (StaticPublicKeysGetter B pubKeys, w)))
           (\<lambda>g. returnG (Some g)))
       else returnG None)"

text \<open>The warnings about cache lifetimes are only logged.\<close>

definition ToAuthenticationConfig ::
  "env \<Rightarrow> 'k kubeApi \<Rightarrow> 'x authLib \<Rightarrow> 'x BuiltInAuthenticationOptions \<Rightarrow> (world, 'x authnConfig) go" where
  "ToAuthenticationConfig E K B o' =
     bindG (case ClientCert o' of None \<Rightarrow> returnG None | Some c \<Rightarrow> GetClientCAContentProvider B c) (\<lambda>clientCAs.
     bindG (oidcConfig E K (OIDC o')) (\<lambda>jwt.
     bindG (case jwt of None \<Rightarrow> returnG ()
            | Some (c, _) \<Rightarrow> errG (ValidateAuthenticationConfiguration B c)) (\<lambda>_.
     bindG (case RequestHeader o' of None \<Rightarrow> returnG None | Some h \<Rightarrow> ToAuthenticationRequestHeaderConfig B h) (\<lambda>rh.
     bindG (keysGetterOf B (ServiceAccounts o')) (\<lambda>keysGetter.
     returnG \<lparr>ac_Anonymous = (case Anonymous o' of None \<Rightarrow> False | Some a \<Rightarrow> Allow a),
       ac_BootstrapToken = (case BootstrapToken o' of None \<Rightarrow> False | Some b \<Rightarrow> Enable b),
       ac_ClientCAContentProvider = clientCAs,
       ac_AuthenticationConfig = map_option fst jwt,
       ac_OIDCSigningAlgs = (case jwt of None \<Rightarrow> [] | Some (_, algs) \<Rightarrow> algs),
       ac_RequestHeaderConfig = rh,
       ac_APIAudiences = audiencesOf o',
       ac_ServiceAccountIssuers = (case ServiceAccounts o' of None \<Rightarrow> [] | Some sa \<Rightarrow> Issuers sa),
       ac_ServiceAccountLookup = (case ServiceAccounts o' of None \<Rightarrow> False | Some sa \<Rightarrow> Lookup sa),
       ac_ServiceAccountPublicKeysGetter = keysGetter,
       ac_TokenAuthFile = (case TokenFileOpts o' of None \<Rightarrow> [] | Some t \<Rightarrow> TokenFile t),
       ac_WebhookTokenAuthnConfigFile = (case WebHook o' of None \<Rightarrow> [] | Some h \<Rightarrow> wh_ConfigFile h),
       ac_WebhookTokenAuthnVersion = (case WebHook o' of None \<Rightarrow> [] | Some h \<Rightarrow> wh_Version h),
       ac_WebhookTokenAuthnCacheTTL = (case WebHook o' of None \<Rightarrow> 0 | Some h \<Rightarrow> wh_CacheTTL h),
       ac_WebhookRetryBackoff = (case WebHook o' of None \<Rightarrow> None | Some h \<Rightarrow> wh_RetryBackoff h),
       ac_TokenSuccessCacheTTL = TokenSuccessCacheTTL o', ac_TokenFailureCacheTTL = TokenFailureCacheTTL o',
       ac_ServiceAccountTokenGetter = None, ac_SecretsWriter = None,
       ac_BootstrapTokenAuthenticator = None, ac_CustomDial = None\<rparr>)))))"

section \<open>Delegating to the hosting cluster\<close>

datatype 'x request =
    Authenticator 'x
  | AuthenticatedGroupAdder "'x request"
  | UnionOf "'x request list"
  | X509Dynamic 'x
  | BearerToken 'x
  | WebsocketProtocol 'x

definition authenticationConfigMapNamespace :: string where "authenticationConfigMapNamespace = ''kube-system''"
definition authenticationConfigMapName :: string where
  "authenticationConfigMapName = ''extension-apiserver-authentication''"

text \<open>\<open>New\<close> of the delegating configuration, which keeps the provider of certificates in it.\<close>

definition delegatingNew ::
  "'k kubeApi \<Rightarrow> 'x authLib \<Rightarrow> ('x DelegatingAuthenticatorConfig, 'x request option) go" where
  "delegatingNew K B = (\<lambda>d. case InClusterConfig K of
     Some _ \<Rightarrow> (Ok None, d)
   | None \<Rightarrow> (case kube_NewForConfig K of
       Some e \<Rightarrow> (Err (ErrorfV ''failed to get delegated authentication kubeconfig: %v'' [] e), d)
     | None \<Rightarrow> (case NewDynamicCAFromConfigMapController B ''client-ca'' authenticationConfigMapNamespace
                     authenticationConfigMapName ''client-ca-file'' of
         Err e \<Rightarrow> (Err (ErrorfV ''unable to load configmap based client CA file: %v'' [] e), d)
       | Panic p \<Rightarrow> (Panic p, d)
       | Ok clientCAProvider \<Rightarrow>
           let d' = d\<lparr>clientCA := Some clientCAProvider\<rparr> in
           (case WebhookRetryBackoff d' of
              None \<Rightarrow> (Panic ''nil pointer dereference'', d')
            | Some backoff \<Rightarrow>
                (case webhooktoken_New B (d_APIAudiences d') backoff (TokenAccessReviewTimeout d') of
                   Err e \<Rightarrow> (Err e, d')
                 | Panic p \<Rightarrow> (Panic p, d')
                 | Ok tokenAuth \<Rightarrow>
                     let cachingTokenAuth = tokencache_New B tokenAuth (CacheTTL d') (CacheTTL d') in
                     (Ok (Some (AuthenticatedGroupAdder (UnionOf [X509Dynamic clientCAProvider,
                        BearerToken cachingTokenAuth, WebsocketProtocol cachingTokenAuth]))), d'))))))"

text \<open>What \<open>Start\<close> runs: an error of the first synchronisation is only reported.\<close>

datatype 'x startAction = RunOnce 'x | RunInBackground 'x

definition delegatingStart :: "'x DelegatingAuthenticatorConfig \<Rightarrow> 'x startAction list" where
  "delegatingStart d = (case clientCA d of None \<Rightarrow> [] | Some ca \<Rightarrow> [RunOnce ca, RunInBackground ca])"

section \<open>Applying the authentication options\<close>

text \<open>
  The parts of the server configuration that are written: the serving information \<open>'s\<close> behind
  \<open>ApplyClientCert\<close>, the audiences and the authenticator, the security definitions.
\<close>

record ('x, 's) applied =
  ap_world :: world
  ap_Serving :: 's
  ap_APIAudiences :: "string list"
  ap_Authenticator :: "'x request option"
  ap_SecurityDefinitions :: "'x option"
  ap_SecuritySchemes :: "'x option"
  ap_Options :: "'x BuiltInAuthenticationOptions option"

record ('x, 's) applyArgs =
  ApplyClientCert :: "'x \<Rightarrow> ('s, unit) go"
  openAPIConfig_nil :: bool
  openAPIV3Config_nil :: bool
  egressLookup :: "'x outcome option"
  nodeBindingValidation :: bool
  NewGetterFromClient :: "bool \<Rightarrow> 'x"
  extclient_CoreV1 :: 'x
  bootstrap_NewTokenAuthenticator :: 'x

definition onWorld :: "(world, 'a) go \<Rightarrow> (('x, 's) applied, 'a) go" where
  "onWorld m = zoomG ap_world (\<lambda>w st. st\<lparr>ap_world := w\<rparr>) m"

definition applyCA :: "('x, 's) applyArgs \<Rightarrow> 'x option \<Rightarrow> (('x, 's) applied, unit) go" where
  "applyCA R ca = (case ca of None \<Rightarrow> returnG () | Some c \<Rightarrow>
     wrapG (ErrorfV ''unable to load client CA file: %v'' [])
       (zoomG ap_Serving (\<lambda>sv st. st\<lparr>ap_Serving := sv\<rparr>) (ApplyClientCert R c)))"

definition delegateAuthn :: "'k kubeApi \<Rightarrow> 'x authLib \<Rightarrow> (('x, 's) applied, 'x request list) go" where
  "delegateAuthn K B = (\<lambda>st. case (case ap_Options st of None \<Rightarrow> None | Some o' \<Rightarrow> DelegatingConfig o') of
     None \<Rightarrow> (Ok [], st)
   | Some d \<Rightarrow> (case delegatingNew K B d of
       (r, d') \<Rightarrow> (let st' = st\<lparr>ap_Options := map_option (\<lambda>o'. o'\<lparr>DelegatingConfig := Some d'\<rparr>) (ap_Options st)\<rparr> in
         case r of
           Err e \<Rightarrow> (Err e, st') | Panic p \<Rightarrow> (Panic p, st')
         | Ok None \<Rightarrow> (Ok [], st') | Ok (Some a) \<Rightarrow> (Ok [a], st'))))"

definition ApplyTo ::
  "env \<Rightarrow> 'k kubeApi \<Rightarrow> 'x authLib \<Rightarrow> ('x, 's) applyArgs \<Rightarrow> (('x, 's) applied, unit) go" where
  "ApplyTo E K B R = bindG (\<lambda>st. (Ok (ap_Options st), st)) (\<lambda>opts.
     case opts of None \<Rightarrow> returnG () | Some o' \<Rightarrow>
     if openAPIConfig_nil R then failG (Errorf ''uninitialized OpenAPIConfig'' []) else
     bindG (onWorld (ToAuthenticationConfig E K B o')) (\<lambda>config.
     bindG (applyCA R (ac_ClientCAContentProvider config)) (\<lambda>_.
     bindG (applyCA R (case ac_RequestHeaderConfig config of None \<Rightarrow> None | Some (_, ca) \<Rightarrow> ca)) (\<lambda>_.
     bindG (\<lambda>st. (Ok (), st\<lparr>ap_APIAudiences := audiencesOf o'\<rparr>)) (\<lambda>_.
     let config1 = config\<lparr>ac_ServiceAccountTokenGetter := Some (NewGetterFromClient R (nodeBindingValidation R)),
                          ac_SecretsWriter := Some (extclient_CoreV1 R)\<rparr>;
         config2 = (if ac_BootstrapToken config1
                    then config1\<lparr>ac_BootstrapTokenAuthenticator := Some (bootstrap_NewTokenAuthenticator R)\<rparr> else config1) in
     bindG (case egressLookup R of None \<Rightarrow> returnG config2
            | Some r \<Rightarrow> bindG (\<lambda>st. (r, st)) (\<lambda>dial. returnG (config2\<lparr>ac_CustomDial := Some dial\<rparr>))) (\<lambda>config3.
     bindG (onWorld (authenticator_New B config3)) (\<lambda>(authn, v2, v3).
     bindG (delegateAuthn K B) (\<lambda>delegated.
     (\<lambda>st. (Ok (), st\<lparr>ap_Authenticator := Some (AuthenticatedGroupAdder (UnionOf (Authenticator authn # delegated))),
         ap_SecurityDefinitions := Some v2,
         ap_SecuritySchemes := (if openAPIV3Config_nil R then ap_SecuritySchemes st else Some v3)\<rparr>))))))))))"

section \<open>Authorization options\<close>

record BuiltInAuthorizationOptions =
  Modes :: "string list"
  PolicyFile :: string
  WebhookConfigFile :: string
  WebhookVersion :: string
  WebhookCacheAuthorizedTTL :: int
  WebhookCacheUnauthorizedTTL :: int
  authz_WebhookRetryBackoff :: "Backoff option"

definition ModeAlwaysAllow :: string where "ModeAlwaysAllow = ''AlwaysAllow''"
definition ModeABAC :: string where "ModeABAC = ''ABAC''"
definition ModeWebhook :: string where "ModeWebhook = ''Webhook''"

definition NewBuiltInAuthorizationOptions :: "Backoff option \<Rightarrow> BuiltInAuthorizationOptions" where
  "NewBuiltInAuthorizationOptions defaultBackoff = \<lparr>Modes = [ModeAlwaysAllow], PolicyFile = [], WebhookConfigFile = [],
     WebhookVersion = ''v1beta1'', WebhookCacheAuthorizedTTL = 5 * time_Minute,
     WebhookCacheUnauthorizedTTL = 30 * time_Second, authz_WebhookRetryBackoff = defaultBackoff\<rparr>"

definition ApplyAuthorization ::
  "BuiltInAuthorizationOptions option \<Rightarrow> 'x BuiltInAuthenticationOptions option \<Rightarrow> 'x BuiltInAuthenticationOptions option" where
  "ApplyAuthorization authorization opts = (case (opts, authorization) of
     (Some o', Some z) \<Rightarrow> (case Anonymous o' of
        None \<Rightarrow> Some o'
      | Some a \<Rightarrow> if Allow a \<and> ModeAlwaysAllow \<in> set (Modes z)
                  then Some (o'\<lparr>Anonymous := Some (a\<lparr>Allow := False\<rparr>)\<rparr>) else Some o')
   | _ \<Rightarrow> opts)"

definition validateMode :: "(string \<Rightarrow> bool) \<Rightarrow> BuiltInAuthorizationOptions \<Rightarrow> string \<Rightarrow> goerr list" where
  "validateMode isValid z mode =
     (if \<not> isValid mode then [Errorf ''authorization-mode %q is not a valid mode'' [mode]] else []) @
     (if mode = ModeABAC \<and> PolicyFile z = [] then [Errorf ''authorization-mode ABAC's authorization policy file not passed'' []] else []) @
     (if mode = ModeWebhook \<and> WebhookConfigFile z = [] then [Errorf ''authorization-mode Webhook's authorization config file not passed'' []] else [])"

definition authzValidate :: "(string \<Rightarrow> bool) \<Rightarrow> BuiltInAuthorizationOptions option \<Rightarrow> goerr list" where
  "authzValidate isValid opts = (case opts of None \<Rightarrow> [] | Some z \<Rightarrow>
     (if Modes z = [] then [Errorf ''at least one authorization-mode must be passed'' []] else []) @
     concat (map (validateMode isValid z) (Modes z)) @
     (if PolicyFile z \<noteq> [] \<and> ModeABAC \<notin> set (Modes z)
      then [Errorf ''cannot specify --authorization-policy-file without mode ABAC'' []] else []) @
     (if WebhookConfigFile z \<noteq> [] \<and> ModeWebhook \<notin> set (Modes z)
      then [Errorf ''cannot specify --authorization-webhook-config-file without mode Webhook'' []] else []) @
     (if length (Modes z) \<noteq> length (remdups (Modes z))
      then [Errorf ''authorization-mode %q has mode specified more than once'' (Modes z)] else []) @
     validateBackoff (authz_WebhookRetryBackoff z))"

definition authzAddFlags :: "(flagSet \<times> BuiltInAuthorizationOptions, unit) go" where
  "authzAddFlags = bindG getOpts (\<lambda>z.
     bindG (addFlag ''authorization-mode'' (FStrings (Modes z)) id) (\<lambda>_.
     bindG (addFlag ''authorization-policy-file'' (FString (PolicyFile z)) id) (\<lambda>_.
     bindG (addFlag ''authorization-webhook-config-file'' (FString (WebhookConfigFile z)) id) (\<lambda>_.
     bindG (addFlag ''authorization-webhook-version'' (FString (WebhookVersion z)) id) (\<lambda>_.
     bindG (addFlag ''authorization-webhook-cache-authorized-ttl'' (FDuration (WebhookCacheAuthorizedTTL z)) id) (\<lambda>_.
     addFlag ''authorization-webhook-cache-unauthorized-ttl'' (FDuration (WebhookCacheUnauthorizedTTL z)) id))))))"

record WebhookConfiguration =
  wc_AuthorizedTTL :: int
  wc_UnauthorizedTTL :: int
  wc_Timeout :: int
  wc_FailurePolicy :: string
  wc_SubjectAccessReviewVersion :: string
  wc_ConnectionInfoType :: string
  wc_KubeConfigFile :: string

record AuthorizerConfiguration =
  az_Type :: string
  az_Webhook :: "WebhookConfiguration option"

definition authorizerOf :: "BuiltInAuthorizationOptions \<Rightarrow> string \<Rightarrow> AuthorizerConfiguration" where
  "authorizerOf z mode =
     (if mode = ModeWebhook then
        \<lparr>az_Type = ''Webhook'', az_Webhook = Some \<lparr>wc_AuthorizedTTL = WebhookCacheAuthorizedTTL z,
           wc_UnauthorizedTTL = WebhookCacheUnauthorizedTTL z, wc_Timeout = 30 * time_Second,
           wc_FailurePolicy = ''NoOpinion'', wc_SubjectAccessReviewVersion = WebhookVersion z,
           wc_ConnectionInfoType = ''KubeConfigFile'', wc_KubeConfigFile = WebhookConfigFile z\<rparr>\<rparr>
      else \<lparr>az_Type = mode, az_Webhook = None\<rparr>)"

definition buildAuthorizationConfiguration :: "BuiltInAuthorizationOptions \<Rightarrow> AuthorizerConfiguration list outcome" where
  "buildAuthorizationConfiguration z =
     (if length (Modes z) \<noteq> length (remdups (Modes z))
      then Err (Errorf ''modes should not be repeated in --authorization-mode'' [])
      else Ok (map (authorizerOf z) (Modes z)))"

text \<open>A failure to build is printed, and the configuration is empty then.\<close>

record authorizerConfig =
  zc_PolicyFile :: string
  zc_HasInformers :: bool
  zc_WebhookRetryBackoff :: "Backoff option"
  zc_Authorizers :: "AuthorizerConfiguration list option"

definition ToAuthorizationConfig :: "BuiltInAuthorizationOptions \<Rightarrow> authorizerConfig" where
  "ToAuthorizationConfig z = (case buildAuthorizationConfiguration z of
     Ok authorizers \<Rightarrow> \<lparr>zc_PolicyFile = PolicyFile z, zc_HasInformers = True,
       zc_WebhookRetryBackoff = authz_WebhookRetryBackoff z, zc_Authorizers = Some authorizers\<rparr>
   | _ \<Rightarrow> \<lparr>zc_PolicyFile = [], zc_HasInformers = False, zc_WebhookRetryBackoff = None, zc_Authorizers = None\<rparr>)"

end
