(* ===== verification/AuthProofs.thy ===== *)
theory AuthProofs
  imports AuthOptions Simulation
begin

text \<open>
  What valid options are, what they turn into, and that registering the flags never clashes.
\<close>

section \<open>Registering flags\<close>

text \<open>A program that registers flags, with names out of \<open>N\<close>, and changes the options by \<open>g\<close>.\<close>

definition registers :: "string set \<Rightarrow> ('o \<Rightarrow> 'o) \<Rightarrow> (flagSet \<times> 'o, unit) go \<Rightarrow> bool" where
  "registers N g m = (\<forall>fs opts. N \<inter> fst ` set fs = {} \<longrightarrow> distinct (map fst fs) \<longrightarrow>
     (\<exists>fs'. m (fs, opts) = (Ok (), (fs', g opts)) \<and> fst ` set fs' \<subseteq> fst ` set fs \<union> N \<and> distinct (map fst fs')))"

lemma registersD:
  "registers N g m \<Longrightarrow> N \<inter> fst ` set fs = {} \<Longrightarrow> distinct (map fst fs) \<Longrightarrow>
   \<exists>fs'. m (fs, opts) = (Ok (), (fs', g opts)) \<and> fst ` set fs' \<subseteq> fst ` set fs \<union> N \<and> distinct (map fst fs')"
  by (simp add: registers_def)

lemma registers_addFlag: "registers {n} g (addFlag n v g)"
  by (auto simp: registers_def addFlag_def mapGet_def map_of_eq_None_iff)

lemma registers_bind:
  assumes "registers N g m" "\<And>x. registers N' g' (f x)" "N \<inter> N' = {}"
  shows "registers (N \<union> N') (g' \<circ> g) (bindG m f)"
  unfolding registers_def
proof (intro allI impI)
  fix fs :: flagSet and opts
  assume free: "(N \<union> N') \<inter> fst ` set fs = {}" "distinct (map fst fs)"
  then obtain fs' where fs': "m (fs, opts) = (Ok (), (fs', g opts))" "fst ` set fs' \<subseteq> fst ` set fs \<union> N" "distinct (map fst fs')"
    using registersD [OF assms(1), of fs opts] by auto
  then have "N' \<inter> fst ` set fs' = {}" using free(1) assms(3) by blast
  from registersD [OF assms(2) this fs'(3), of "()" "g opts"] obtain fs2 where
    "f () (fs', g opts) = (Ok (), (fs2, g' (g opts)))" "fst ` set fs2 \<subseteq> fst ` set fs' \<union> N'" "distinct (map fst fs2)" by blast
  moreover from this(2) fs'(2) have "fst ` set fs2 \<subseteq> fst ` set fs \<union> (N \<union> N')" by blast
  ultimately show "\<exists>fs'. bindG m f (fs, opts) = (Ok (), (fs', (g' \<circ> g) opts)) \<and> fst ` set fs' \<subseteq> fst ` set fs \<union> (N \<union> N') \<and> distinct (map fst fs')"
    by (intro exI [of _ fs2]) (simp add: bindG_def fs'(1))
qed

lemma registers_weaken:
  assumes "registers N g m" "N \<subseteq> N'" "\<And>x. g x = g' x"
  shows "registers N' g' m"
  unfolding registers_def
proof (intro allI impI)
  fix fs :: flagSet and opts
  assume "N' \<inter> fst ` set fs = {}" "distinct (map fst fs)"
  with assms(2) registersD [OF assms(1), of fs opts] obtain fs' where
    "m (fs, opts) = (Ok (), (fs', g opts))" "fst ` set fs' \<subseteq> fst ` set fs \<union> N" "distinct (map fst fs')" by blast
  with assms(2,3) show "\<exists>fs'. m (fs, opts) = (Ok (), (fs', g' opts)) \<and> fst ` set fs' \<subseteq> fst ` set fs \<union> N' \<and> distinct (map fst fs')"
    by (intro exI [of _ fs']) (simp, blast)
qed

lemma registers_getOpts:
  assumes "\<And>opts. registers N (g opts) (f opts)"
  shows "registers N (\<lambda>opts. g opts opts) (bindG getOpts f)"
  using assms by (simp add: registers_def bindG_def getOpts_def)

lemma registers_whenSome:
  assumes "\<And>y. x = Some y \<Longrightarrow> registers N g (f y)"
  shows "registers N (if x = None then id else g) (whenSome x f)"
  using assms by (cases x) (auto simp: whenSome_def registers_def returnG_def)

lemma registers_libFlags:
  assumes "\<And>fs. f fs = Ok (fs @ fl)" "distinct (map fst fl)"
  shows "registers (fst ` set fl) id (libFlags f)"
  using assms by (auto simp: registers_def libFlags_def)

text \<open>The names of the flags, part by part.\<close>

definition oidcNames :: "string set" where
  "oidcNames = {''oidc-issuer-url'', ''oidc-client-id'', ''oidc-ca-file'', ''oidc-username-claim'', ''oidc-username-prefix'',
     ''oidc-groups-claim'', ''oidc-groups-prefix'', ''oidc-signing-algs'', ''oidc-required-claim''}"

definition serviceAccountNames :: "string set" where
  "serviceAccountNames = {''service-account-key-file'', ''service-account-lookup'', ''service-account-issuer'',
     ''service-account-jwks-uri'', ''service-account-api-audiences'', ''service-account-max-token-expiration'',
     ''service-account-extend-token-expiration''}"

definition webHookNames :: "string set" where
  "webHookNames = {''authentication-token-webhook-config-file'', ''authentication-token-webhook-version'',
     ''authentication-token-webhook-cache-ttl''}"

definition oidcReset :: "OIDCAuthenticationOptions \<Rightarrow> OIDCAuthenticationOptions" where
  "oidcReset c = c\<lparr>UsernameClaim := ''sub'', UsernamePrefix := [], GroupsClaim := [], GroupsPrefix := [], SigningAlgs := [''RS256'']\<rparr>"

lemma registers_oidc: "registers oidcNames (setOIDC oidcReset) (oidcFlags c)"
  unfolding oidcFlags_def
  by (rule registers_weaken, (rule registers_bind registers_addFlag)+)
    (auto simp: oidcNames_def setOIDC_def oidcReset_def map_option_case split: option.splits)

lemma registers_serviceAccounts: "registers serviceAccountNames id (serviceAccountFlags au sa)"
  unfolding serviceAccountFlags_def
  by (rule registers_weaken, (rule registers_bind registers_addFlag)+) (auto simp: serviceAccountNames_def)

lemma registers_webHook: "registers webHookNames id (webHookFlags h)"
  unfolding webHookFlags_def
  by (rule registers_weaken, (rule registers_bind registers_addFlag)+) (auto simp: webHookNames_def)

definition authnNames :: "string set" where
  "authnNames = {''api-audiences'', ''anonymous-auth'', ''enable-bootstrap-token-auth'', ''token-auth-file''} \<union>
     oidcNames \<union> serviceAccountNames \<union> webHookNames"

lemma names_disjoint [simp]:
  "oidcNames \<inter> serviceAccountNames = {}" "oidcNames \<inter> webHookNames = {}" "serviceAccountNames \<inter> webHookNames = {}"
  "''api-audiences'' \<notin> oidcNames" "''anonymous-auth'' \<notin> oidcNames" "''enable-bootstrap-token-auth'' \<notin> oidcNames"
  "''token-auth-file'' \<notin> oidcNames" "''api-audiences'' \<notin> serviceAccountNames" "''anonymous-auth'' \<notin> serviceAccountNames"
  "''enable-bootstrap-token-auth'' \<notin> serviceAccountNames" "''token-auth-file'' \<notin> serviceAccountNames"
  "''api-audiences'' \<notin> webHookNames" "''anonymous-auth'' \<notin> webHookNames"
  "''enable-bootstrap-token-auth'' \<notin> webHookNames" "''token-auth-file'' \<notin> webHookNames"
  by (auto simp: oidcNames_def serviceAccountNames_def webHookNames_def)

lemma names_in_authnNames:
  "oidcNames \<subseteq> authnNames" "serviceAccountNames \<subseteq> authnNames" "webHookNames \<subseteq> authnNames"
  "''api-audiences'' \<in> authnNames" "''anonymous-auth'' \<in> authnNames" "''enable-bootstrap-token-auth'' \<in> authnNames"
  "''token-auth-file'' \<in> authnNames"
  by (auto simp: authnNames_def)

lemma apart: "X \<subseteq> authnNames \<Longrightarrow> C \<inter> authnNames = {} \<Longrightarrow> C \<inter> X = {} \<and> X \<inter> C = {}"
  "x \<in> authnNames \<Longrightarrow> C \<inter> authnNames = {} \<Longrightarrow> x \<notin> C"
  by blast+

lemma authnAddFlags_registers:
  assumes cf: "registers C (id :: 'x BuiltInAuthenticationOptions \<Rightarrow> _) (libFlags cf)"
    and rf: "registers H (id :: 'x BuiltInAuthenticationOptions \<Rightarrow> _) (libFlags rf)" and "C \<inter> H = {}" and C: "C \<inter> authnNames = {}" and H: "H \<inter> authnNames = {}"
  shows "registers (authnNames \<union> C \<union> H) (setOIDC oidcReset :: 'x BuiltInAuthenticationOptions \<Rightarrow> _) (authnAddFlags cf rf)"
  unfolding authnAddFlags_def
proof (rule registers_weaken, rule registers_getOpts)
  note N = names_in_authnNames
  note dis = N(1-3) [THEN apart(1), OF C] N(1-3) [THEN apart(1), OF H] N(4-7) [THEN apart(2), OF C] N(4-7) [THEN apart(2), OF H] assms(3)
  fix o' :: "'x BuiltInAuthenticationOptions"
  show "registers
     ({''api-audiences''} \<union> ({''anonymous-auth''} \<union> ({''enable-bootstrap-token-auth''} \<union> (C \<union> (oidcNames \<union> (H \<union>
       (serviceAccountNames \<union> ({''token-auth-file''} \<union> webHookNames))))))))
     (((((((((if WebHook o' = None then id else id) \<circ> (if TokenFileOpts o' = None then id else id)) \<circ>
       (if ServiceAccounts o' = None then id else id)) \<circ> (if RequestHeader o' = None then id else id)) \<circ>
       (if OIDC o' = None then id else (setOIDC oidcReset :: 'x BuiltInAuthenticationOptions \<Rightarrow> _))) \<circ> (if ClientCert o' = None then id else id)) \<circ>
       (if BootstrapToken o' = None then id else id)) \<circ> (if Anonymous o' = None then id else id)) \<circ> id)
     (bindG (addFlag ''api-audiences'' (FStrings (APIAudiences o')) id) (\<lambda>_.
     bindG (whenSome (Anonymous o') (\<lambda>a. addFlag ''anonymous-auth'' (FBool (Allow a)) id)) (\<lambda>_.
     bindG (whenSome (BootstrapToken o') (\<lambda>b. addFlag ''enable-bootstrap-token-auth'' (FBool (Enable b)) id)) (\<lambda>_.
     bindG (whenSome (ClientCert o') (\<lambda>_. libFlags cf)) (\<lambda>_.
     bindG (whenSome (OIDC o') oidcFlags) (\<lambda>_.
     bindG (whenSome (RequestHeader o') (\<lambda>_. libFlags rf)) (\<lambda>_.
     bindG (whenSome (ServiceAccounts o') (serviceAccountFlags (APIAudiences o'))) (\<lambda>_.
     bindG (whenSome (TokenFileOpts o') (\<lambda>t. addFlag ''token-auth-file'' (FString (TokenFile t)) id)) (\<lambda>_.
     whenSome (WebHook o') webHookFlags)))))))))"
    by ((rule registers_bind registers_whenSome registers_addFlag cf rf registers_oidc registers_serviceAccounts registers_webHook)+)
      (simp_all add: dis Int_Un_distrib)
qed (auto simp: setOIDC_def authnNames_def)

section \<open>Valid options\<close>

lemma validateIssuers_iff:
  assumes "\<forall>u p. parse u \<noteq> Panic p"
  shows "validateIssuers parse seen is = [] \<longleftrightarrow>
    distinct is \<and> set is \<inter> set seen = {} \<and> (\<forall>i\<in>set is. i \<noteq> [] \<and> (containsChar i (CHR '':'') \<longrightarrow> isOk (parse i)))"
proof (induction "is" arbitrary: seen)
  case (Cons i rest)
  have "\<And>p. parse i \<noteq> Panic p" using assms by blast
  then show ?case
    using Cons.IH [of "i # seen"] by (cases "parse i") (auto simp: isOk_def containsChar_def split: outcome.splits)
qed simp

definition saOk :: "urlParser \<Rightarrow> ServiceAccountAuthenticationOptions \<Rightarrow> bool" where
  "saOk parse sa = (Issuers sa \<noteq> [] \<and> KeyFiles sa \<noteq> [] \<and> distinct (Issuers sa) \<and>
     (\<forall>i\<in>set (Issuers sa). i \<noteq> [] \<and> (containsChar i (CHR '':'') \<longrightarrow> isOk (parse i))) \<and>
     (JWKSURI sa \<noteq> [] \<longrightarrow> (\<exists>text. parse (JWKSURI sa) = Ok (''https'', text))))"

lemma validateServiceAccounts_iff:
  assumes "\<forall>u p. parse u \<noteq> Panic p"
  shows "validateIssuers parse [] (Issuers sa) @ validateServiceAccounts parse sa = [] \<longleftrightarrow> saOk parse sa"
proof -
  have np: "\<And>p. parse (JWKSURI sa) \<noteq> Panic p" using assms by blast
  have "validateServiceAccounts parse sa = [] \<longleftrightarrow>
      Issuers sa \<noteq> [] \<and> KeyFiles sa \<noteq> [] \<and> (JWKSURI sa \<noteq> [] \<longrightarrow> (\<exists>text. parse (JWKSURI sa) = Ok (''https'', text)))"
    using np by (cases "parse (JWKSURI sa)") (auto simp: validateServiceAccounts_def split: if_splits)
  then show ?thesis using validateIssuers_iff [OF assms, of "[]" "Issuers sa"] by (auto simp: saOk_def)
qed

definition backoffOk :: "Backoff option \<Rightarrow> bool" where
  "backoffOk b = (\<forall>r. b = Some r \<longrightarrow> 0 < Steps r)"

lemma validateBackoff_iff: "validateBackoff b = [] \<longleftrightarrow> backoffOk b"
  by (cases b) (auto simp: validateBackoff_def backoffOk_def)

lemma validateOIDC_iff:
  "validateOIDC x = [] \<longleftrightarrow> (\<forall>c. x = Some c \<longrightarrow> (IssuerURL c = [] \<longleftrightarrow> ClientID c = []))"
  by (cases x) (auto simp: validateOIDC_def)

lemma authnValidate_iff:
  assumes "\<forall>u p. parse u \<noteq> Panic p"
  shows "authnValidate parse o' = [] \<longleftrightarrow>
    (\<forall>c. OIDC o' = Some c \<longrightarrow> (IssuerURL c = [] \<longleftrightarrow> ClientID c = [])) \<and>
    (\<forall>sa. ServiceAccounts o' = Some sa \<longrightarrow> saOk parse sa) \<and>
    (\<forall>h. WebHook o' = Some h \<longrightarrow> backoffOk (wh_RetryBackoff h))"
  unfolding authnValidate_def append_is_Nil_conv validateOIDC_iff
  using validateServiceAccounts_iff [OF assms]
  by (cases "ServiceAccounts o'"; cases "WebHook o'") (auto simp: validateBackoff_iff)

lemma length_remdups_distinct: "length xs = length (remdups xs) \<longleftrightarrow> distinct xs"
  by (metis length_remdups_card_conv card_distinct distinct_card)

lemma authzValidate_distinct: "authzValidate isValid (Some z) = [] \<Longrightarrow> distinct (Modes z)"
  using length_remdups_distinct [of "Modes z"] by (auto simp: authzValidate_def split: if_splits)

lemma authzValidate_modes:
  assumes "authzValidate isValid (Some z) = []" "m \<in> set (Modes z)"
  shows "isValid m" "m = ModeABAC \<Longrightarrow> PolicyFile z \<noteq> []" "m = ModeWebhook \<Longrightarrow> WebhookConfigFile z \<noteq> []"
proof -
  have "validateMode isValid z m = []" using assms by (auto simp: authzValidate_def)
  then show "isValid m" "m = ModeABAC \<Longrightarrow> PolicyFile z \<noteq> []" "m = ModeWebhook \<Longrightarrow> WebhookConfigFile z \<noteq> []"
    by (auto simp: validateMode_def split: if_splits)
qed

lemma authorizerOf_type: "az_Type (authorizerOf z m) = m"
  by (simp add: authorizerOf_def ModeWebhook_def)

lemma authorizerOf_webhook: "az_Webhook (authorizerOf z m) \<noteq> None \<longleftrightarrow> m = ModeWebhook"
  by (simp add: authorizerOf_def)

section \<open>Applying options\<close>

lemma delegateAuthn_Ok:
  assumes "delegateAuthn K B st = (Ok ds, st')"
  shows "ap_APIAudiences st' = ap_APIAudiences st \<and> length ds \<le> 1 \<and>
    (InClusterConfig K \<noteq> None \<or> (\<forall>o'. ap_Options st = Some o' \<longrightarrow> DelegatingConfig o' = None) \<longrightarrow> ds = [])"
  using assms by (auto simp: delegateAuthn_def delegatingNew_def Let_def split: option.split_asm prod.split_asm outcome.split_asm)

text \<open>The options keep the certificate provider of the delegating configuration, if there is one.\<close>

definition delegationKept :: "'x BuiltInAuthenticationOptions \<Rightarrow> 'x BuiltInAuthenticationOptions \<Rightarrow> bool" where
  "delegationKept o' o'' = (\<exists>d. o'' = o'\<lparr>DelegatingConfig := d\<rparr> \<and> (d = None \<longleftrightarrow> DelegatingConfig o' = None))"

lemma delegationKept_refl: "delegationKept o' o'"
  unfolding delegationKept_def by (intro exI [of _ "DelegatingConfig o'"]) simp

lemma delegateAuthn_options:
  assumes "delegateAuthn K B st = (r, st')" "ap_Options st = Some o'"
  shows "\<exists>o''. ap_Options st' = Some o'' \<and> delegationKept o' o''"
proof (cases "DelegatingConfig o'")
  case None
  then show ?thesis using assms delegationKept_refl by (auto simp: delegateAuthn_def)
next
  case (Some d)
  obtain q d' where q: "delegatingNew K B d = (q, d')" by force
  then have "ap_Options st' = Some (o'\<lparr>DelegatingConfig := Some d'\<rparr>)"
    using assms Some by (auto simp: delegateAuthn_def Let_def split: outcome.splits option.splits)
  then show ?thesis using Some by (auto simp: delegationKept_def)
qed

lemma ToAuthenticationConfig_audiences:
  "ToAuthenticationConfig E K B o' w = (Ok config, w') \<Longrightarrow> ac_APIAudiences config = audiencesOf o'"
  by (auto simp: ToAuthenticationConfig_def gom_iff)

lemma applyCA_options: "applyCA R ca st = (Ok u, st') \<Longrightarrow> ap_Options st' = ap_Options st"
  by (auto simp: applyCA_def gom_iff split: option.splits)

lemma onWorld_options: "onWorld m st = (Ok x, st') \<Longrightarrow> ap_Options st' = ap_Options st \<and> ap_APIAudiences st' = ap_APIAudiences st"
  by (auto simp: onWorld_def gom_iff)

lemma egress_same: "(case e of None \<Rightarrow> returnG c | Some r \<Rightarrow> bindG (\<lambda>st. (r, st)) (\<lambda>d. returnG (g d))) st = (Ok x, st') \<Longrightarrow> st' = st"
  by (cases e) (auto simp: gom_iff)

lemma ApplyTo_Ok:
  assumes "ApplyTo E K B R st = (Ok (), st')" "ap_Options st = Some o'"
  shows "ap_APIAudiences st' = audiencesOf o' \<and>
    (\<exists>authn ds. ap_Authenticator st' = Some (AuthenticatedGroupAdder (UnionOf (Authenticator authn # ds))) \<and> length ds \<le> 1 \<and>
      (InClusterConfig K \<noteq> None \<or> DelegatingConfig o' = None \<longrightarrow> ds = []))"
    and "\<exists>o''. ap_Options st' = Some o'' \<and> delegationKept o' o''"
proof -
  obtain config s1 s2 s3 config3 s4 c2 authn v2 v3 s5 ds s6 where steps:
    "onWorld (ToAuthenticationConfig E K B o') st = (Ok config, s1)"
    "applyCA R (ac_ClientCAContentProvider config) s1 = (Ok (), s2)"
    "applyCA R (case ac_RequestHeaderConfig config of None \<Rightarrow> None | Some (_, ca) \<Rightarrow> ca) s2 = (Ok (), s3)"
    "(case egressLookup R of None \<Rightarrow> returnG c2
        | Some r \<Rightarrow> bindG (\<lambda>st. (r, st)) (\<lambda>dial. returnG (c2\<lparr>ac_CustomDial := Some dial\<rparr>)))
       (s3\<lparr>ap_APIAudiences := audiencesOf o'\<rparr>) = (Ok config3, s4)"
    "onWorld (authenticator_New B config3) s4 = (Ok (authn, v2, v3), s5)"
    "delegateAuthn K B s5 = (Ok ds, s6)"
    "st' = s6\<lparr>ap_Authenticator := Some (AuthenticatedGroupAdder (UnionOf (Authenticator authn # ds))),
         ap_SecurityDefinitions := Some v2,
         ap_SecuritySchemes := (if openAPIV3Config_nil R then ap_SecuritySchemes s6 else Some v3)\<rparr>"
    using assms unfolding ApplyTo_def Let_def
    by (auto simp: gom_iff simp del: if_split split: if_split_asm)
  have opts: "ap_Options s5 = Some o'" and aud: "ap_APIAudiences s5 = audiencesOf o'"
    using onWorld_options [OF steps(1)] applyCA_options [OF steps(2)] applyCA_options [OF steps(3)]
      egress_same [OF steps(4)] onWorld_options [OF steps(5)] assms(2) by simp_all
  from delegateAuthn_Ok [OF steps(6)] opts aud steps(7) show "ap_APIAudiences st' = audiencesOf o' \<and>
    (\<exists>authn ds. ap_Authenticator st' = Some (AuthenticatedGroupAdder (UnionOf (Authenticator authn # ds))) \<and> length ds \<le> 1 \<and>
      (InClusterConfig K \<noteq> None \<or> DelegatingConfig o' = None \<longrightarrow> ds = []))" by auto
  from delegateAuthn_options [OF steps(6) opts] steps(7) show "\<exists>o''. ap_Options st' = Some o'' \<and> delegationKept o' o''" by simp
qed

section \<open>Concrete inputs\<close>

definition demoParse :: urlParser where
  "demoParse u = (if take 8 u = ''https://'' then Ok (''https'', u) else Err (ExternalError u))"

definition demoAuthn :: "string BuiltInAuthenticationOptions" where
  "demoAuthn = (WithAll (Some \<lparr>Steps = 5\<rparr>) NewBuiltInAuthenticationOptions)\<lparr>ServiceAccounts := Some
     \<lparr>KeyFiles = [''/d/sa.key''], Lookup = True, Issuers = [''https://i''], JWKSURI = [], MaxExpiration = 0, ExtendExpiration = True\<rparr>\<rparr>"

definition demoAuthz :: BuiltInAuthorizationOptions where
  "demoAuthz = (NewBuiltInAuthorizationOptions (Some \<lparr>Steps = 5\<rparr>))\<lparr>Modes := [''RBAC'', ''Webhook''], WebhookConfigFile := ''/w''\<rparr>"

definition demoLib :: "string authLib" where
  "demoLib = \<lparr>GetClientCAContentProvider = (\<lambda>_. returnG None), ValidateAuthenticationConfiguration = (\<lambda>_. None),
     ToAuthenticationRequestHeaderConfig = (\<lambda>_. returnG None), PublicKeysFromFile = (\<lambda>f. returnG [f]),
     StaticPublicKeysGetter = (\<lambda>ks. Ok (concat ks)), authenticator_New = (\<lambda>c. returnG (''built'', ''v2'', ''v3'')),
     NewDynamicCAFromConfigMapController = (\<lambda>_ _ _ _. Ok ''ca''), webhooktoken_New = (\<lambda>_ _ _. Ok ''tokens''),
     tokencache_New = (\<lambda>x _ _. x)\<rparr>"

definition demoArgs :: "(string, unit) applyArgs" where
  "demoArgs = \<lparr>ApplyClientCert = (\<lambda>_. returnG ()), openAPIConfig_nil = False, openAPIV3Config_nil = False, egressLookup = None,
     nodeBindingValidation = True, NewGetterFromClient = (\<lambda>_. ''getter''), extclient_CoreV1 = ''core'',
     bootstrap_NewTokenAuthenticator = ''boot''\<rparr>"

definition demoApplied :: "(string, unit) applied" where
  "demoApplied = \<lparr>ap_world = simWorld, ap_Serving = (), ap_APIAudiences = [], ap_Authenticator = None,
     ap_SecurityDefinitions = None, ap_SecuritySchemes = None, ap_Options = Some demoAuthn\<rparr>"

text \<open>A process outside of any cluster.\<close>

definition outsideApi :: "unit kubeApi" where
  "outsideApi = \<lparr>InClusterConfig = Some (ExternalError ''not in a cluster''), kube_NewForConfig = None, route_NewForConfig = None,
     ocpconfig_NewForConfig = None, ResolveBindAddress = (''127.0.0.1'', None),
     api_GetSecret = (\<lambda>_ n. failG (ApiNotFound n)), api_CreateSecret = (\<lambda>_ _. returnG ()), api_UpdateSecret = (\<lambda>_ _. returnG ()),
     api_GetService = (\<lambda>_ n. failG (ApiNotFound n)), api_GetRouteIngress = (\<lambda>_ n. failG (ApiNotFound n)),
     api_GetClusterVersion = (\<lambda>n. failG (ApiNotFound n)), api_GetNamespaceUID = (\<lambda>n. failG (ApiNotFound n)),
     uuid_NewUUID = returnG [], clientcmd_Write = (\<lambda>d. Ok (Text (CurrentContext d))), retry_OnError = (\<lambda>f. f), pem_text = (\<lambda>_. [])\<rparr>"

section \<open>Properties\<close>

text \<open>
  C14: the authentication options validate without an error exactly when the issuer and the client of
  OIDC are given together, the service account issuers are there, not empty, all different and, where
  they contain a colon, URLs, there are key files, an explicit key set URI is an \<open>https\<close> URL, and the
  webhook retries at least once.
\<close>

theorem authentication_valid_iff:
  assumes "\<forall>u p. parse u \<noteq> Panic p"
  shows "authnValidate parse o' = [] \<longleftrightarrow>
    (\<forall>c. OIDC o' = Some c \<longrightarrow> (IssuerURL c = [] \<longleftrightarrow> ClientID c = [])) \<and>
    (\<forall>sa. ServiceAccounts o' = Some sa \<longrightarrow> Issuers sa \<noteq> [] \<and> KeyFiles sa \<noteq> [] \<and> distinct (Issuers sa) \<and>
       (\<forall>i\<in>set (Issuers sa). i \<noteq> [] \<and> (containsChar i (CHR '':'') \<longrightarrow> isOk (parse i))) \<and>
       (JWKSURI sa \<noteq> [] \<longrightarrow> (\<exists>text. parse (JWKSURI sa) = Ok (''https'', text)))) \<and>
    (\<forall>h r. WebHook o' = Some h \<longrightarrow> wh_RetryBackoff h = Some r \<longrightarrow> 0 < Steps r)"
  unfolding authnValidate_iff [OF assms] saOk_def backoffOk_def by blast

theorem authentication_valid_iff_witness: "authnValidate demoParse demoAuthn = []"
proof -
  have *: "\<forall>u p. demoParse u \<noteq> Panic p" by (simp add: demoParse_def)
  show ?thesis
    unfolding authentication_valid_iff [OF *]
    by (simp add: demoAuthn_def WithAll_def WithWebHook_def WithTokenFile_def WithServiceAccounts_def WithRequestHeader_def
        WithOIDC_def WithClientCert_def WithBootstrapToken_def WithAnonymous_def isOk_def demoParse_def)
qed



text \<open>
  Applying the authorization options turns anonymous requests off exactly when they were allowed
  and every request would be authorized, and changes nothing else: with the mode AlwaysAllow there is
  never an anonymous user.
\<close>

theorem anonymous_not_with_always_allow:
  "ApplyAuthorization (Some z) (Some o') =
     Some (o'\<lparr>Anonymous := map_option (\<lambda>a. a\<lparr>Allow := Allow a \<and> ModeAlwaysAllow \<notin> set (Modes z)\<rparr>) (Anonymous o')\<rparr>)"
  by (cases "Anonymous o'") (auto simp: ApplyAuthorization_def)

text \<open>
  C35: authorization options that validate build a configuration with one authorizer for each mode, in
  the given order, no mode twice, where the webhook authorizer, and only it, carries the webhook
  settings, with a configuration file; and the server gets that configuration.
\<close>

theorem authorization_validated_builds:
  assumes "authzValidate isValid (Some z) = []"
  shows "\<exists>as. buildAuthorizationConfiguration z = Ok as \<and> zc_Authorizers (ToAuthorizationConfig z) = Some as \<and>
    map az_Type as = Modes z \<and> distinct (map az_Type as) \<and>
    (\<forall>a\<in>set as. isValid (az_Type a) \<and> (az_Webhook a \<noteq> None \<longleftrightarrow> az_Type a = ModeWebhook) \<and>
      (az_Webhook a \<noteq> None \<longrightarrow> wc_KubeConfigFile (the (az_Webhook a)) \<noteq> []))"
proof -
  have d: "distinct (Modes z)" by (rule authzValidate_distinct [OF assms])
  have types: "map az_Type (map (authorizerOf z) (Modes z)) = Modes z" by (simp add: authorizerOf_type comp_def)
  have cfgFile: "wc_KubeConfigFile (the (az_Webhook (authorizerOf z m))) = WebhookConfigFile z" if "m = ModeWebhook" for m
    using that by (simp add: authorizerOf_def)
  show ?thesis
    using d types authzValidate_modes [OF assms] cfgFile
    by (simp add: buildAuthorizationConfiguration_def ToAuthorizationConfig_def distinct_remdups_id authorizerOf_type
        authorizerOf_webhook [unfolded not_None_eq])
qed

theorem authorization_validated_builds_witness:
  "authzValidate (\<lambda>m. m \<in> {''RBAC'', ''Webhook''}) (Some demoAuthz) = [] \<and>
   (\<exists>as. buildAuthorizationConfiguration demoAuthz = Ok as \<and> map az_Type as = [''RBAC'', ''Webhook''])"
proof -
  have v: "authzValidate (\<lambda>m. m \<in> {''RBAC'', ''Webhook''}) (Some demoAuthz) = []"
    by (simp add: authzValidate_def validateMode_def validateBackoff_def demoAuthz_def NewBuiltInAuthorizationOptions_def
        ModeABAC_def ModeWebhook_def)
  have "Modes demoAuthz = [''RBAC'', ''Webhook'']" by (simp add: demoAuthz_def)
  with authorization_validated_builds [OF v] v show ?thesis by auto
qed

text \<open>
  Registering the authentication flags in an empty flag set never redefines a flag, whichever of
  the options are present, provided that the flags of the libraries have names of their own; it
  resets the claims, prefixes and signing algorithms of OIDC to the defaults of the flags and changes
  no other option.
\<close>

theorem authentication_flags_distinct:
  assumes "\<And>fs. cf fs = Ok (fs @ cl)" "distinct (map fst cl)" "\<And>fs. rf fs = Ok (fs @ rl)" "distinct (map fst rl)"
    and "fst ` set cl \<inter> fst ` set rl = {}" "fst ` set cl \<inter> authnNames = {}" "fst ` set rl \<inter> authnNames = {}"
  shows "\<exists>fs. authnAddFlags cf rf ([], o') = (Ok (), (fs, o'\<lparr>OIDC := map_option oidcReset (OIDC o')\<rparr>)) \<and> distinct (map fst fs)"
  using registersD [OF authnAddFlags_registers [OF registers_libFlags [of cf, OF assms(1,2)] registers_libFlags [of rf, OF assms(3,4)]
      assms(5,6,7)], of "[]" o'] by (auto simp: setOIDC_def)

theorem authentication_flags_distinct_witness:
  "\<exists>fs. authnAddFlags (\<lambda>fs. Ok (fs @ [(''client-ca-file'', FString [])])) (\<lambda>fs. Ok (fs @ [(''requestheader-client-ca-file'', FString [])]))
     ([], demoAuthn) = (Ok (), (fs, demoAuthn\<lparr>OIDC := map_option oidcReset (OIDC demoAuthn)\<rparr>)) \<and> distinct (map fst fs)"
  by (rule authentication_flags_distinct [of _ "[(''client-ca-file'', FString [])]" _ "[(''requestheader-client-ca-file'', FString [])]"])
    (simp_all add: authnNames_def oidcNames_def serviceAccountNames_def webHookNames_def)

end
