(* ===== verification/WatchCache.thy ===== *)
theory WatchCache
  imports Prelude "HOL-Library.AList"
begin

text \<open>
  The sizes of watch caches in the options of the server (\<open>parseWatchCacheSizes\<close> and
  \<open>writeWatchCacheSizes\<close> of \<open>options.go\<close>), with the decimal numbers of \<open>strconv.Atoi\<close>. A group
  resource is of some type \<open>'g\<close>, parsed and printed by functions of apimachinery.
\<close>

section \<open>strconv.Atoi\<close>

definition digitVal :: "char \<Rightarrow> nat option" where
  "digitVal c = (let n = of_char c in if 48 \<le> n \<and> n \<le> 57 then Some (n - 48) else None)"

fun digitsVal :: "nat \<Rightarrow> string \<Rightarrow> nat option" where
  "digitsVal acc [] = Some acc"
| "digitsVal acc (c # cs) = (case digitVal c of None \<Rightarrow> None | Some d \<Rightarrow> digitsVal (10 * acc + d) cs)"

definition signOf :: "string \<Rightarrow> bool \<times> string" where
  "signOf s = (case s of [] \<Rightarrow> (False, []) | c # r \<Rightarrow>
     if c = CHR ''-'' then (True, r) else if c = CHR ''+'' then (False, r) else (False, s))"

definition Atoi :: "string \<Rightarrow> int outcome" where
  "Atoi s = (case signOf s of (neg, ds) \<Rightarrow>
     if ds = [] then Err (ExternalError ''invalid syntax'')
     else case digitsVal 0 ds of
       None \<Rightarrow> Err (ExternalError ''invalid syntax'')
     | Some n \<Rightarrow>
         let i = (if neg then - int n else int n) in
         if - (2 ^ 63) \<le> i \<and> i < 2 ^ 63 then Ok i else Err (ExternalError ''value out of range''))"

section \<open>The sizes\<close>

definition parseSize :: "(string \<Rightarrow> 'g) \<Rightarrow> string \<Rightarrow> ('g \<times> int) outcome" where
  "parseSize ParseGroupResource c =
     (let tokens = splitOn (CHR ''#'') c in
      if length tokens \<noteq> 2 then Err (Errorf ''invalid value of watch cache size: %s'' [c])
      else case Atoi (tokens ! 1) of
        Ok sz \<Rightarrow> if sz < 0 then Err (Errorf ''watch cache size cannot be negative: %s'' [c])
                   else Ok (ParseGroupResource (tokens ! 0), sz)
      | _ \<Rightarrow> Err (Errorf ''invalid size of watch cache size: %s'' [c]))"

fun parseSizes :: "(string \<Rightarrow> 'g) \<Rightarrow> string list \<Rightarrow> ('g \<times> int) list \<Rightarrow> ('g \<times> int) list outcome" where
  "parseSizes parse [] watchCacheSizes = Ok watchCacheSizes"
| "parseSizes parse (c # cs) watchCacheSizes = (case parseSize parse c of
     Ok (gr, sz) \<Rightarrow> parseSizes parse cs (AList.update gr sz watchCacheSizes)
   | Err e \<Rightarrow> Err e | Panic p \<Rightarrow> Panic p)"

definition parseWatchCacheSizes :: "(string \<Rightarrow> 'g) \<Rightarrow> string list \<Rightarrow> ('g \<times> int) list outcome" where
  "parseWatchCacheSizes ParseGroupResource cacheSizes = parseSizes ParseGroupResource cacheSizes []"

text \<open>The entries of the map come in the order that the runtime picks.\<close>

fun writeSizes :: "('g \<Rightarrow> string) \<Rightarrow> ('g \<times> int) list \<Rightarrow> string list \<Rightarrow> string list outcome" where
  "writeSizes print [] cacheSizes = Ok cacheSizes"
| "writeSizes print ((resource, sz) # rest) cacheSizes =
     (if sz < 0 then Err (Errorf ''watch cache size cannot be negative for resource %s'' [print resource])
      else writeSizes print rest (cacheSizes @ [print resource @ ''#'' @ showInt sz]))"

definition writeWatchCacheSizes ::
  "(('g \<times> int) list \<Rightarrow> ('g \<times> int) list) \<Rightarrow> ('g \<Rightarrow> string) \<Rightarrow> ('g \<times> int) list \<Rightarrow> string list outcome" where
  "writeWatchCacheSizes order print watchCacheSizes = writeSizes print (order watchCacheSizes) []"

section \<open>Numbers read back\<close>

lemma digitsVal_append: "digitsVal acc (xs @ ys) = Option.bind (digitsVal acc xs) (\<lambda>a. digitsVal a ys)"
  by (induction xs arbitrary: acc) (auto split: option.splits)

lemma digitVal_digitChar: "d < 10 \<Longrightarrow> digitVal (digitChar d) = Some d"
  by (simp add: digitVal_def digitChar_def Let_def)

lemma digitsVal_showNat: "digitsVal 0 (showNat n) = Some n"
proof (induction n rule: showNat.induct)
  case (1 n)
  show ?case
  proof (cases "n < 10")
    case True
    then show ?thesis by (simp add: showNat.simps [of n] digitVal_digitChar)
  next
    case False
    then show ?thesis
      using 1 by (simp add: showNat.simps [of n] digitsVal_append digitVal_digitChar)
  qed
qed

lemma showNat_digits: "c \<in> set (showNat n) \<Longrightarrow> \<exists>d<10. c = digitChar d"
proof (induction n rule: showNat.induct)
  case (1 n)
  then show ?case by (cases "n < 10") (auto simp: showNat.simps [of n] intro: exI [of _ "n mod 10"])
qed

lemma showNat_nonempty [simp]: "showNat n \<noteq> []"
  by (simp add: showNat.simps [of n])

lemma digitChar_plain: "d < 10 \<Longrightarrow> digitChar d \<notin> {CHR ''#'', CHR ''-'', CHR ''+''}"
proof -
  assume "d < 10"
  then have "of_char (digitChar d) = 48 + d" by (simp add: digitChar_def)
  then show ?thesis by auto
qed

lemma showNat_no_sign: "c \<in> {CHR ''#'', CHR ''-'', CHR ''+''} \<Longrightarrow> c \<notin> set (showNat n)"
  by (metis showNat_digits digitChar_plain)

lemma signOf_showNat: "signOf (showNat n) = (False, showNat n)"
proof (cases "showNat n")
  case (Cons c r)
  then have "c \<noteq> CHR ''-''" "c \<noteq> CHR ''+''" using showNat_no_sign [of "CHR ''-''" n] showNat_no_sign [of "CHR ''+''" n] by auto
  then show ?thesis by (simp add: signOf_def Cons)
qed simp

lemma Atoi_showInt: "0 \<le> i \<Longrightarrow> i < 2 ^ 63 \<Longrightarrow> Atoi (showInt i) = Ok i"
  by (simp add: Atoi_def showInt_def signOf_showNat digitsVal_showNat)

section \<open>Writing and reading back\<close>

lemma parseSize_print:
  assumes "parse (print g) = g" "CHR ''#'' \<notin> set (print g)" "0 \<le> i" "i < 2 ^ 63"
  shows "parseSize parse (print g @ ''#'' @ showInt i) = Ok (g, i)"
proof -
  have "CHR ''#'' \<notin> set (showInt i)" using showNat_no_sign assms(3) by (simp add: showInt_def)
  then have "splitOn (CHR ''#'') (print g @ CHR ''#'' # showInt i) = [print g, showInt i]"
    using assms(2) by (simp add: splitOn_append_sep splitOn_no_sep)
  then show ?thesis using assms by (simp add: parseSize_def Atoi_showInt)
qed

lemma writeSizes_append: "writeSizes print xs acc = (case writeSizes print xs [] of Ok ys \<Rightarrow> Ok (acc @ ys) | Err e \<Rightarrow> Err e | Panic p \<Rightarrow> Panic p)"
proof (induction xs arbitrary: acc)
  case (Cons x xs)
  show ?case
  proof (cases x)
    case (Pair g i)
    then show ?thesis
      using Cons [of "acc @ [print g @ ''#'' @ showInt i]"] Cons [of "[print g @ ''#'' @ showInt i]"]
      by (simp split: outcome.splits)
  qed
qed simp

lemma writeSizes_all: "\<forall>(g, i)\<in>set xs. 0 \<le> i \<Longrightarrow> writeSizes print xs acc = Ok (acc @ map (\<lambda>(g, i). print g @ ''#'' @ showInt i) xs)"
  by (induction xs arbitrary: acc) auto

lemma parseSizes_written:
  assumes "\<forall>(g, i)\<in>set xs. parse (print g) = g \<and> CHR ''#'' \<notin> set (print g) \<and> 0 \<le> i \<and> i < 2 ^ 63"
  shows "parseSizes parse (map (\<lambda>(g, i). print g @ ''#'' @ showInt i) xs) acc = Ok (fold (\<lambda>(g, i). AList.update g i) xs acc)"
  using assms
proof (induction xs arbitrary: acc)
  case (Cons x xs)
  obtain g i where x: "x = (g, i)" by (cases x)
  then have "parseSize parse (print g @ ''#'' @ showInt i) = Ok (g, i)"
    using Cons.prems by (intro parseSize_print) auto
  then show ?case using Cons x by simp
qed simp

lemma map_of_fold_update:
  "distinct (map fst xs) \<Longrightarrow> map_of (fold (\<lambda>(g, i). AList.update g i) xs acc) = map_of acc ++ map_of xs"
proof (induction xs arbitrary: acc)
  case (Cons x xs)
  obtain g i where x: "x = (g, i)" by (cases x)
  then have none: "map_of xs g = None" using Cons.prems by (simp add: map_of_eq_None_iff)
  have "((map_of acc)(g \<mapsto> i)) ++ map_of xs = map_of acc ++ (map_of xs)(g \<mapsto> i)"
    using none by (auto simp: fun_eq_iff map_add_def split: option.splits)
  moreover have "map_of (fold (\<lambda>(g, i). AList.update g i) xs (AList.update g i acc)) = ((map_of acc)(g \<mapsto> i)) ++ map_of xs"
    using Cons.IH [of "AList.update g i acc"] Cons.prems by (simp add: update_conv' fun_upd_def)
  ultimately show ?case by (simp only: x fold.simps o_apply prod.case map_of.simps fst_conv snd_conv)
qed simp

lemma written_sizes_parse:
  assumes "distinct (map fst sizes)" "distinct (map fst (order sizes))" "set (order sizes) = set sizes"
    and "\<forall>(g, i)\<in>set sizes. parse (print g) = g \<and> CHR ''#'' \<notin> set (print g) \<and> 0 \<le> i \<and> i < 2 ^ 63"
  shows "\<exists>ss sizes'. writeWatchCacheSizes order print sizes = Ok ss \<and> parseWatchCacheSizes parse ss = Ok sizes' \<and>
    map_of sizes' = map_of sizes"
proof -
  have "map_of (order sizes) = map_of sizes"
  proof
    fix k
    show "map_of (order sizes) k = map_of sizes k"
      using map_of_eq_Some_iff [OF assms(1), of k] map_of_eq_Some_iff [OF assms(2), of k] assms(3)
      by (metis not_None_eq)
  qed
  then show ?thesis
    using assms writeSizes_all [of "order sizes" print "[]"] parseSizes_written [of "order sizes" parse print "[]"]
      map_of_fold_update [of "order sizes" "[]"]
    by (fastforce simp: writeWatchCacheSizes_def parseWatchCacheSizes_def)
qed

section \<open>Properties\<close>

text \<open>
  C36: the watch cache sizes survive being written and read back: for every map of sizes from zero to
  the largest 64-bit integer, in whatever order the runtime lists it, writing succeeds, and reading
  the result gives the same map, when group resources parse back from their printed form and that
  form has no \<open>#\<close>.
\<close>

theorem watch_cache_roundtrip:
  assumes "distinct (map fst sizes)" "distinct (map fst (order sizes))" "set (order sizes) = set sizes"
    and "\<forall>(g, i)\<in>set sizes. parse (print g) = g \<and> CHR ''#'' \<notin> set (print g) \<and> 0 \<le> i \<and> i < 2 ^ 63"
  shows "\<exists>ss sizes'. writeWatchCacheSizes order print sizes = Ok ss \<and> parseWatchCacheSizes parse ss = Ok sizes' \<and>
    map_of sizes' = map_of sizes"
  using assms by (rule written_sizes_parse [where parse = parse])

theorem watch_cache_roundtrip_witness:
  "\<exists>ss sizes'. writeWatchCacheSizes rev id [(''pods'', 100), (''events.v1'', 0)] = Ok ss \<and>
     parseWatchCacheSizes id ss = Ok sizes' \<and> map_of sizes' = map_of [(''pods'', 100), (''events.v1'', 0)]"
  by (rule watch_cache_roundtrip) (simp_all add: insert_commute)

text \<open>
  C37: a size is accepted exactly when it is a name and a number separated by a single \<open>#\<close>, where the
  number is written in decimal, is not negative and fits 64 bits; every accepted size is a number of
  that range.
\<close>

theorem watch_cache_size_bounds:
  "parseSize parse c = Ok (g, i) \<longleftrightarrow> 0 \<le> i \<and> i < 2 ^ 63 \<and>
     (\<exists>name num. c = name @ ''#'' @ num \<and> CHR ''#'' \<notin> set name \<and> CHR ''#'' \<notin> set num \<and> g = parse name \<and> Atoi num = Ok i)"
proof
  assume ok: "parseSize parse c = Ok (g, i)"
  obtain name num where t: "splitOn (CHR ''#'') c = [name, num]"
    using ok by (auto simp: parseSize_def Let_def length_Suc_conv numeral_2_eq_2 split: if_splits)
  have i: "Atoi num = Ok i" "0 \<le> i" "g = parse name"
    using ok t by (auto simp: parseSize_def Let_def split: outcome.splits if_splits)
  have "i < 2 ^ 63" using i(1) by (auto simp: Atoi_def Let_def split: prod.splits if_splits option.splits)
  moreover have "c = name @ ''#'' @ num" using joinWith_splitOn [of "CHR ''#''" c] by (simp add: t)
  moreover have "CHR ''#'' \<notin> set name" "CHR ''#'' \<notin> set num"
    using splitOn_tokens_no_sep [of _ "CHR ''#''" c] by (simp_all add: t)
  ultimately show "0 \<le> i \<and> i < 2 ^ 63 \<and>
     (\<exists>name num. c = name @ ''#'' @ num \<and> CHR ''#'' \<notin> set name \<and> CHR ''#'' \<notin> set num \<and> g = parse name \<and> Atoi num = Ok i)"
    using i by auto
next
  assume "0 \<le> i \<and> i < 2 ^ 63 \<and>
     (\<exists>name num. c = name @ ''#'' @ num \<and> CHR ''#'' \<notin> set name \<and> CHR ''#'' \<notin> set num \<and> g = parse name \<and> Atoi num = Ok i)"
  then obtain name num where c: "c = name @ CHR ''#'' # num" "CHR ''#'' \<notin> set name" "CHR ''#'' \<notin> set num"
    and g: "g = parse name" "Atoi num = Ok i" "0 \<le> i" by auto
  have "splitOn (CHR ''#'') c = [name, num]" using c by (simp add: splitOn_append_sep splitOn_no_sep)
  then show "parseSize parse c = Ok (g, i)" using g by (simp add: parseSize_def)
qed

theorem watch_cache_size_bounds_witness: "\<exists>i. parseSize id ''pods#17'' = Ok (''pods'', i) \<and> i < 2 ^ 63"
proof -
  have "parseSize id ''pods#17'' = Ok (''pods'', 17)" by code_simp
  from watch_cache_size_bounds [THEN iffD1, OF this] this show ?thesis by auto
qed

end
