(* ===== verification/RestOptions.thy ===== *)
theory RestOptions
  imports WatchCache
begin

text \<open>
  Storage options of the aggregator and the extensions server (\<open>servers/simplerestoptionsfactroy.go\<close>).
  Values of the storage library are of an opaque type \<open>'x\<close>. The factory parses the watch cache sizes
  again that the completion of the options has written.
\<close>

record groupResource =
  gr_Group :: string
  gr_Resource :: string

datatype decorator = UndecoratedStorage | StorageWithCacher

record 'x storageConfig =
  sc_Config :: 'x
  sc_Transformer :: 'x

record 'x RESTOptions =
  ro_StorageConfig :: "'x storageConfig"
  ro_Decorator :: decorator
  ro_EnableGarbageCollection :: bool
  ro_DeleteCollectionWorkers :: int
  ro_ResourcePrefix :: string
  ro_CountMetricPollPeriod :: int
  ro_StorageObjectCountTracker :: 'x

record 'x SimpleRestOptionsFactory =
  rf_ForResource :: "groupResource \<Rightarrow> 'x storageConfig"
  rf_EnableGarbageCollection :: bool
  rf_DeleteCollectionWorkers :: int
  rf_CountMetricPollPeriod :: int
  rf_StorageObjectCountTracker :: 'x
  rf_EnableWatchCache :: bool
  rf_WatchCacheSizes :: "string list"
  rf_TransformerOverrides :: "(groupResource \<times> 'x) list option"

text \<open>\<open>ParseWatchCacheSizes\<close> of this package repeats that of the options word by word.\<close>

definition ParseWatchCacheSizes :: "(string \<Rightarrow> groupResource) \<Rightarrow> string list \<Rightarrow> (groupResource \<times> int) list outcome" where
  "ParseWatchCacheSizes ParseGroupResource cacheSizes = parseSizes ParseGroupResource cacheSizes []"

definition plainRESTOptions :: "'x SimpleRestOptionsFactory \<Rightarrow> groupResource \<Rightarrow> 'x RESTOptions" where
  "plainRESTOptions f resource = \<lparr>ro_StorageConfig = rf_ForResource f resource, ro_Decorator = UndecoratedStorage,
     ro_EnableGarbageCollection = rf_EnableGarbageCollection f, ro_DeleteCollectionWorkers = rf_DeleteCollectionWorkers f,
     ro_ResourcePrefix = gr_Group resource @ ''/'' @ gr_Resource resource,
     ro_CountMetricPollPeriod = rf_CountMetricPollPeriod f, ro_StorageObjectCountTracker = rf_StorageObjectCountTracker f\<rparr>"

definition GetRESTOptions ::
  "(string \<Rightarrow> groupResource) \<Rightarrow> 'x SimpleRestOptionsFactory \<Rightarrow> groupResource \<Rightarrow> 'x RESTOptions outcome" where
  "GetRESTOptions parse f resource =
     (let ret = plainRESTOptions f resource;
          ret1 = (case Option.bind (rf_TransformerOverrides f) (\<lambda>m. map_of m resource) of
            Some transformer \<Rightarrow> ret\<lparr>ro_StorageConfig := (ro_StorageConfig ret)\<lparr>sc_Transformer := transformer\<rparr>\<rparr>
          | None \<Rightarrow> ret)
      in if rf_EnableWatchCache f then
           (case ParseWatchCacheSizes parse (rf_WatchCacheSizes f) of
              Err e \<Rightarrow> Err e | Panic p \<Rightarrow> Panic p
            | Ok sizes \<Rightarrow> (case map_of sizes resource of
                Some sz \<Rightarrow> if sz \<le> 0 then Ok (ret1\<lparr>ro_Decorator := UndecoratedStorage\<rparr>)
                           else Ok (ret1\<lparr>ro_Decorator := StorageWithCacher\<rparr>)
              | None \<Rightarrow> Ok (ret1\<lparr>ro_Decorator := StorageWithCacher\<rparr>)))
         else Ok ret1)"

section \<open>Properties\<close>

text \<open>
  C39: the sizes that the options write are read back here without error, and decide the cache of each
  resource: storage is cached unless the watch cache is off or the size of the resource is zero, the
  prefix is group and resource, and only an override changes the transformer.
\<close>

theorem written_sizes_decide_cache:
  assumes "distinct (map fst sizes)" "distinct (map fst (order sizes))" "set (order sizes) = set sizes"
    and "\<forall>(g, i)\<in>set sizes. parse (print g) = g \<and> CHR ''#'' \<notin> set (print g) \<and> 0 \<le> i \<and> i < 2 ^ 63"
    and "writeWatchCacheSizes order print sizes = Ok (rf_WatchCacheSizes f)"
  shows "\<exists>ret. GetRESTOptions parse f resource = Ok ret \<and>
     (ro_Decorator ret = StorageWithCacher \<longleftrightarrow> rf_EnableWatchCache f \<and> map_of sizes resource \<noteq> Some 0) \<and>
     ro_ResourcePrefix ret = gr_Group resource @ ''/'' @ gr_Resource resource \<and>
     sc_Config (ro_StorageConfig ret) = sc_Config (rf_ForResource f resource) \<and>
     sc_Transformer (ro_StorageConfig ret) = (case Option.bind (rf_TransformerOverrides f) (\<lambda>m. map_of m resource) of
       Some t \<Rightarrow> t | None \<Rightarrow> sc_Transformer (rf_ForResource f resource))"
proof -
  obtain sizes' where parsed: "ParseWatchCacheSizes parse (rf_WatchCacheSizes f) = Ok sizes'" "map_of sizes' = map_of sizes"
    using written_sizes_parse [of sizes order parse print, OF assms(1-4)] assms(5) by (auto simp: ParseWatchCacheSizes_def parseWatchCacheSizes_def)
  have pos: "map_of sizes resource = Some sz \<Longrightarrow> 0 \<le> sz" for sz using assms(4) by (auto dest!: map_of_SomeD)
  show ?thesis
    by (cases "rf_EnableWatchCache f"; cases "map_of sizes resource";
        simp add: GetRESTOptions_def Let_def parsed plainRESTOptions_def split: option.splits)
      (use pos in \<open>auto simp: order_antisym\<close>)
qed

definition demoFactory :: "unit SimpleRestOptionsFactory" where
  "demoFactory = \<lparr>rf_ForResource = (\<lambda>_. \<lparr>sc_Config = (), sc_Transformer = ()\<rparr>), rf_EnableGarbageCollection = True,
     rf_DeleteCollectionWorkers = 1, rf_CountMetricPollPeriod = 60, rf_StorageObjectCountTracker = (), rf_EnableWatchCache = True,
     rf_WatchCacheSizes = [''pods#0''], rf_TransformerOverrides = None\<rparr>"

theorem written_sizes_decide_cache_witness:
  "\<exists>ret. GetRESTOptions (\<lambda>r. \<lparr>gr_Group = [], gr_Resource = r\<rparr>) demoFactory \<lparr>gr_Group = [], gr_Resource = ''pods''\<rparr> = Ok ret \<and>
     ro_Decorator ret = UndecoratedStorage"
proof -
  let ?r = "\<lparr>gr_Group = [], gr_Resource = ''pods''\<rparr>" and ?p = "\<lambda>r. \<lparr>gr_Group = [], gr_Resource = r\<rparr>"
  have w: "writeWatchCacheSizes (\<lambda>x. x) gr_Resource [(?r, 0)] = Ok (rf_WatchCacheSizes demoFactory)"
  proof -
    have "showInt 0 = ''0''" by code_simp
    then show ?thesis by (simp add: writeWatchCacheSizes_def demoFactory_def)
  qed
  have d: "d = UndecoratedStorage" if "d \<noteq> StorageWithCacher" for d using that by (cases d) auto
  have s: "\<forall>(g, i)\<in>set [(?r, 0 :: int)]. ?p (gr_Resource g) = g \<and> CHR ''#'' \<notin> set (gr_Resource g) \<and> 0 \<le> i \<and> i < 2 ^ 63" by simp
  obtain ret where "GetRESTOptions ?p demoFactory ?r = Ok ret" "\<not> ro_Decorator ret = StorageWithCacher"
    using written_sizes_decide_cache [of "[(?r, 0)]" "\<lambda>x. x" ?p gr_Resource demoFactory ?r, OF _ _ _ s w] by auto
  with d show ?thesis by blast
qed

end
