(* ===== verification/ManagerOptions.thy ===== *)
theory ManagerOptions
  imports AuthOptions
begin

text \<open>
  The options of the Kubernetes controllers that run inside the control plane (package
  \<open>kubecontroller/options\<close> and \<open>kubecontroller/config\<close>): certificate signing, garbage collection,
  namespaces and service accounts, and their flags, validation and transfer to a configuration. The
  generic part of the controller manager is of an opaque type \<open>'g\<close>, handled by a library.
\<close>

section \<open>Certificate signing\<close>

record CSRSigningConfiguration =
  csr_CertFile :: string
  csr_KeyFile :: string

record CSRSigningControllerConfiguration =
  ClusterSigningCertFile :: string
  ClusterSigningKeyFile :: string
  KubeletServingSignerConfiguration :: CSRSigningConfiguration
  KubeletClientSignerConfiguration :: CSRSigningConfiguration
  KubeAPIServerClientSignerConfiguration :: CSRSigningConfiguration
  LegacyUnknownSignerConfiguration :: CSRSigningConfiguration
  ClusterSigningDuration :: int

definition csrSigningAddFlags :: "CSRSigningControllerConfiguration option \<Rightarrow> (flagSet \<times> 'o, unit) go" where
  "csrSigningAddFlags opts = (case opts of None \<Rightarrow> returnG () | Some c \<Rightarrow>
     bindG (addFlag ''cluster-signing-cert-file'' (FString (ClusterSigningCertFile c)) id) (\<lambda>_.
     bindG (addFlag ''cluster-signing-key-file'' (FString (ClusterSigningKeyFile c)) id) (\<lambda>_.
     bindG (addFlag ''cluster-signing-kubelet-serving-cert-file'' (FString (csr_CertFile (KubeletServingSignerConfiguration c))) id) (\<lambda>_.
     bindG (addFlag ''cluster-signing-kubelet-serving-key-file'' (FString (csr_KeyFile (KubeletServingSignerConfiguration c))) id) (\<lambda>_.
     bindG (addFlag ''cluster-signing-kubelet-client-cert-file'' (FString (csr_CertFile (KubeletClientSignerConfiguration c))) id) (\<lambda>_.
     bindG (addFlag ''cluster-signing-kubelet-client-key-file'' (FString (csr_KeyFile (KubeletClientSignerConfiguration c))) id) (\<lambda>_.
     bindG (addFlag ''cluster-signing-kube-apiserver-client-cert-file'' (FString (csr_CertFile (KubeAPIServerClientSignerConfiguration c))) id) (\<lambda>_.
     bindG (addFlag ''cluster-signing-kube-apiserver-client-key-file'' (FString (csr_KeyFile (KubeAPIServerClientSignerConfiguration c))) id) (\<lambda>_.
     bindG (addFlag ''cluster-signing-legacy-unknown-cert-file'' (FString (csr_CertFile (LegacyUnknownSignerConfiguration c))) id) (\<lambda>_.
     bindG (addFlag ''cluster-signing-legacy-unknown-key-file'' (FString (csr_KeyFile (LegacyUnknownSignerConfiguration c))) id) (\<lambda>_.
     addFlag ''cluster-signing-duration'' (FDuration (ClusterSigningDuration c)) id)))))))))))"

definition csrSigningApplyTo ::
  "CSRSigningControllerConfiguration option \<Rightarrow> CSRSigningControllerConfiguration \<Rightarrow> CSRSigningControllerConfiguration outcome" where
  "csrSigningApplyTo opts cfg = (case opts of None \<Rightarrow> Ok cfg | Some c \<Rightarrow>
     Ok (cfg\<lparr>ClusterSigningCertFile := ClusterSigningCertFile c, ClusterSigningKeyFile := ClusterSigningKeyFile c,
       KubeletServingSignerConfiguration := KubeletServingSignerConfiguration c,
       KubeletClientSignerConfiguration := KubeletClientSignerConfiguration c,
       KubeAPIServerClientSignerConfiguration := KubeAPIServerClientSignerConfiguration c,
       LegacyUnknownSignerConfiguration := LegacyUnknownSignerConfiguration c,
       ClusterSigningDuration := ClusterSigningDuration c\<rparr>))"

definition csrSigningFilesValid :: "CSRSigningConfiguration \<Rightarrow> goerr option" where
  "csrSigningFilesValid config =
     (if csr_CertFile config = [] \<and> csr_KeyFile config = [] then None
      else if csr_CertFile config \<noteq> [] \<and> csr_KeyFile config \<noteq> [] then None
      else if csr_CertFile config = [] \<and> csr_KeyFile config \<noteq> [] then Some (Errorf ''cannot specify key without cert'' [])
      else if csr_CertFile config \<noteq> [] \<and> csr_KeyFile config = [] then Some (Errorf ''cannot specify cert without key'' [])
      else Some (Errorf ''math broke'' []))"

definition labelled :: "string \<Rightarrow> goerr option \<Rightarrow> goerr list" where
  "labelled l err = (case err of None \<Rightarrow> [] | Some e \<Rightarrow> [ErrorfV ''%q: %v'' [l] e])"

definition someFileSet :: "CSRSigningConfiguration \<Rightarrow> bool" where
  "someFileSet config = (csr_CertFile config \<noteq> [] \<or> csr_KeyFile config \<noteq> [])"

definition csrSigningValidate :: "CSRSigningControllerConfiguration option \<Rightarrow> goerr list" where
  "csrSigningValidate opts = (case opts of None \<Rightarrow> [] | Some c \<Rightarrow>
     labelled ''cluster-signing-kubelet-serving'' (csrSigningFilesValid (KubeletServingSignerConfiguration c)) @
     labelled ''cluster-signing-kube-apiserver-client'' (csrSigningFilesValid (KubeletClientSignerConfiguration c)) @
     labelled ''cluster-signing-kube-apiserver'' (csrSigningFilesValid (KubeAPIServerClientSignerConfiguration c)) @
     labelled ''cluster-signing-legacy-unknown'' (csrSigningFilesValid (LegacyUnknownSignerConfiguration c)) @
     (let singleSigningFile = (ClusterSigningCertFile c \<noteq> [] \<or> ClusterSigningKeyFile c \<noteq> []);
          anySpecificFilesSet = (someFileSet (KubeletServingSignerConfiguration c) \<or> someFileSet (KubeletClientSignerConfiguration c) \<or>
            someFileSet (KubeAPIServerClientSignerConfiguration c) \<or> someFileSet (LegacyUnknownSignerConfiguration c))
      in if singleSigningFile \<and> anySpecificFilesSet
         then [Errorf ''cannot specify --cluster-signing-{cert,key}-file and other --cluster-signing-*-file flags at the same time'' []]
         else []))"

section \<open>Garbage collection, namespaces, service accounts\<close>

record GarbageCollectorControllerConfiguration =
  ConcurrentGCSyncs :: int
  GCIgnoredResources :: "(string \<times> string) list"
  EnableGarbageCollector :: bool

definition gcAddFlags :: "GarbageCollectorControllerConfiguration option \<Rightarrow> (flagSet \<times> 'o, unit) go" where
  "gcAddFlags opts = (case opts of None \<Rightarrow> returnG () | Some c \<Rightarrow>
     bindG (addFlag ''concurrent-gc-syncs'' (FInt (ConcurrentGCSyncs c)) id) (\<lambda>_.
     addFlag ''enable-garbage-collector'' (FBool (EnableGarbageCollector c)) id))"

definition gcApplyTo ::
  "GarbageCollectorControllerConfiguration option \<Rightarrow> GarbageCollectorControllerConfiguration \<Rightarrow> GarbageCollectorControllerConfiguration outcome" where
  "gcApplyTo opts cfg = (case opts of None \<Rightarrow> Ok cfg | Some c \<Rightarrow>
     Ok (cfg\<lparr>ConcurrentGCSyncs := ConcurrentGCSyncs c, GCIgnoredResources := GCIgnoredResources c,
       EnableGarbageCollector := EnableGarbageCollector c\<rparr>))"

definition gcValidate :: "GarbageCollectorControllerConfiguration option \<Rightarrow> goerr list" where
  "gcValidate opts = []"

record NamespaceControllerConfiguration =
  NamespaceSyncPeriod :: int
  ConcurrentNamespaceSyncs :: int

definition namespaceAddFlags :: "NamespaceControllerConfiguration option \<Rightarrow> (flagSet \<times> 'o, unit) go" where
  "namespaceAddFlags opts = (case opts of None \<Rightarrow> returnG () | Some c \<Rightarrow>
     bindG (addFlag ''namespace-sync-period'' (FDuration (NamespaceSyncPeriod c)) id) (\<lambda>_.
     addFlag ''concurrent-namespace-syncs'' (FInt (ConcurrentNamespaceSyncs c)) id))"

definition namespaceApplyTo ::
  "NamespaceControllerConfiguration option \<Rightarrow> NamespaceControllerConfiguration \<Rightarrow> NamespaceControllerConfiguration outcome" where
  "namespaceApplyTo opts cfg = (case opts of None \<Rightarrow> Ok cfg | Some c \<Rightarrow>
     Ok (cfg\<lparr>NamespaceSyncPeriod := NamespaceSyncPeriod c, ConcurrentNamespaceSyncs := ConcurrentNamespaceSyncs c\<rparr>))"

definition namespaceValidate :: "NamespaceControllerConfiguration option \<Rightarrow> goerr list" where
  "namespaceValidate opts = []"

record SAControllerConfiguration =
  ServiceAccountKeyFilePath :: string
  ConcurrentSATokenSyncs :: int
  RootCAFile :: string

definition saAddFlags :: "SAControllerConfiguration option \<Rightarrow> (flagSet \<times> 'o, unit) go" where
  "saAddFlags opts = (case opts of None \<Rightarrow> returnG () | Some c \<Rightarrow>
     bindG (addFlag ''service-account-private-key-file'' (FString (ServiceAccountKeyFilePath c)) id) (\<lambda>_.
     bindG (addFlag ''concurrent-serviceaccount-token-syncs'' (FInt (ConcurrentSATokenSyncs c)) id) (\<lambda>_.
     addFlag ''root-ca-file'' (FString (RootCAFile c)) id)))"

definition saApplyTo :: "SAControllerConfiguration option \<Rightarrow> SAControllerConfiguration \<Rightarrow> SAControllerConfiguration outcome" where
  "saApplyTo opts cfg = (case opts of None \<Rightarrow> Ok cfg | Some c \<Rightarrow>
     Ok (cfg\<lparr>ServiceAccountKeyFilePath := ServiceAccountKeyFilePath c, ConcurrentSATokenSyncs := ConcurrentSATokenSyncs c,
       RootCAFile := RootCAFile c\<rparr>))"

definition saValidate :: "SAControllerConfiguration option \<Rightarrow> goerr list" where
  "saValidate opts = []"

section \<open>The controller manager\<close>

record 'g ComponentConfig =
  cc_Generic :: 'g
  cc_CSRSigning :: CSRSigningControllerConfiguration
  cc_GarbageCollector :: GarbageCollectorControllerConfiguration
  cc_Namespace :: NamespaceControllerConfiguration
  cc_SA :: SAControllerConfiguration

record 'g KubeControllerManagerOptions =
  km_Generic :: 'g
  CSRSigningController :: "CSRSigningControllerConfiguration option"
  GarbageCollectorController :: "GarbageCollectorControllerConfiguration option"
  NamespaceController :: "NamespaceControllerConfiguration option"
  SAController :: "SAControllerConfiguration option"

text \<open>
  \<open>NewDefaultComponentConfig\<close> is the conversion of the defaulted configuration of the library; the
  resources that the garbage collector ignores come as a map of the library, in the order of the
  runtime.
\<close>

definition NewKubeControllerManagerOptions ::
  "'g ComponentConfig outcome \<Rightarrow> (string \<times> string) list \<Rightarrow> 'g KubeControllerManagerOptions outcome" where
  "NewKubeControllerManagerOptions defaultConfig ignoredResources = (case defaultConfig of
     Err e \<Rightarrow> Err e | Panic p \<Rightarrow> Panic p
   | Ok componentConfig \<Rightarrow>
       Ok \<lparr>km_Generic = cc_Generic componentConfig, CSRSigningController = Some (cc_CSRSigning componentConfig),
         GarbageCollectorController = Some ((cc_GarbageCollector componentConfig)\<lparr>GCIgnoredResources := ignoredResources\<rparr>),
         NamespaceController = Some (cc_Namespace componentConfig), SAController = Some (cc_SA componentConfig)\<rparr>)"

text \<open>Each section has a flag set of its own.\<close>

definition Flags :: "'g KubeControllerManagerOptions \<Rightarrow> flagSet gomap outcome" where
  "Flags s = (let run = (\<lambda>m. m ([] :: flagSet, ())) in
     case (run (csrSigningAddFlags (CSRSigningController s)), run (gcAddFlags (GarbageCollectorController s)),
           run (namespaceAddFlags (NamespaceController s)), run (saAddFlags (SAController s))) of
       ((Ok _, (f1, _)), (Ok _, (f2, _)), (Ok _, (f3, _)), (Ok _, (f4, _))) \<Rightarrow>
         Ok [(''csrsigning controller'', f1), (''garbagecollector controller'', f2),
             (''namespace controller'', f3), (''serviceaccount controller'', f4)]
     | _ \<Rightarrow> Panic ''flag redefined'')"

definition bindO :: "'a outcome \<Rightarrow> ('a \<Rightarrow> 'b outcome) \<Rightarrow> 'b outcome" where
  "bindO r f = (case r of Ok x \<Rightarrow> f x | Err e \<Rightarrow> Err e | Panic p \<Rightarrow> Panic p)"

definition managerApplyTo ::
  "('g \<Rightarrow> 'g \<Rightarrow> 'g outcome) \<Rightarrow> 'g KubeControllerManagerOptions \<Rightarrow> 'g ComponentConfig \<Rightarrow> 'g ComponentConfig outcome" where
  "managerApplyTo genericApplyTo s c =
     bindO (genericApplyTo (km_Generic s) (cc_Generic c)) (\<lambda>g.
     bindO (csrSigningApplyTo (CSRSigningController s) (cc_CSRSigning c)) (\<lambda>csr.
     bindO (gcApplyTo (GarbageCollectorController s) (cc_GarbageCollector c)) (\<lambda>gc.
     bindO (namespaceApplyTo (NamespaceController s) (cc_Namespace c)) (\<lambda>ns.
     bindO (saApplyTo (SAController s) (cc_SA c)) (\<lambda>sa.
     Ok (c\<lparr>cc_Generic := g, cc_CSRSigning := csr, cc_GarbageCollector := gc, cc_Namespace := ns, cc_SA := sa\<rparr>))))))"

definition managerValidate :: "'g KubeControllerManagerOptions \<Rightarrow> goerr list" where
  "managerValidate s = csrSigningValidate (CSRSigningController s) @ gcValidate (GarbageCollectorController s) @
     namespaceValidate (NamespaceController s) @ saValidate (SAController s)"

text \<open>\<open>Config\<close>: a client for the given REST configuration, and the options applied to an empty configuration.\<close>

record ('g, 'r) controllerConfig =
  ct_ComponentConfig :: "'g ComponentConfig"
  ct_Kubeconfig :: 'r

definition managerConfig ::
  "('g \<Rightarrow> 'g \<Rightarrow> 'g outcome) \<Rightarrow> ('r \<Rightarrow> goerr option) \<Rightarrow> 'g ComponentConfig \<Rightarrow> 'g KubeControllerManagerOptions \<Rightarrow> 'r \<Rightarrow>
   ('g, 'r) controllerConfig outcome" where
  "managerConfig genericApplyTo newForConfig zero s cfg = (case newForConfig cfg of
     Some e \<Rightarrow> Err e
   | None \<Rightarrow> bindO (managerApplyTo genericApplyTo s zero) (\<lambda>c. Ok \<lparr>ct_ComponentConfig = c, ct_Kubeconfig = cfg\<rparr>))"

section \<open>Facts\<close>

lemma csrSigningFilesValid_iff:
  "csrSigningFilesValid c = None \<longleftrightarrow> (csr_CertFile c = [] \<longleftrightarrow> csr_KeyFile c = [])"
  by (auto simp: csrSigningFilesValid_def)

lemma labelled_Nil [simp]: "labelled l e = [] \<longleftrightarrow> e = None"
  by (cases e) (simp_all add: labelled_def)

lemma csrSigningApplyTo_all: "csrSigningApplyTo (Some c) cfg = Ok c"
  by (cases c; cases cfg) (simp add: csrSigningApplyTo_def)

section \<open>Properties\<close>

text \<open>
  C38: the signing options validate exactly when every specific signer has both files or none, and the
  common files are not mixed with those of a specific signer; the last branch of the check of a pair
  is never reached.
\<close>

theorem csr_signing_valid_iff:
  "(csrSigningValidate (Some c) = []) =
     ((\<forall>s\<in>{KubeletServingSignerConfiguration c, KubeletClientSignerConfiguration c,
          KubeAPIServerClientSignerConfiguration c, LegacyUnknownSignerConfiguration c}.
        (csr_CertFile s = []) = (csr_KeyFile s = []) \<and>
        (ClusterSigningCertFile c = [] \<and> ClusterSigningKeyFile c = [] \<or> csr_CertFile s = []))) \<and>
   csrSigningFilesValid s \<noteq> Some (Errorf ''math broke'' [])"
proof -
  have "csrSigningFilesValid s \<noteq> Some (Errorf ''math broke'' [])" by (simp add: csrSigningFilesValid_def)
  then show ?thesis
    by (simp add: csrSigningValidate_def csrSigningFilesValid_iff someFileSet_def Let_def) auto
qed

definition demoPair :: "string \<Rightarrow> CSRSigningConfiguration" where
  "demoPair f = \<lparr>csr_CertFile = f, csr_KeyFile = f\<rparr>"

theorem csr_signing_valid_iff_witness:
  "csrSigningValidate (Some \<lparr>ClusterSigningCertFile = [], ClusterSigningKeyFile = [], KubeletServingSignerConfiguration = demoPair ''/a'',
     KubeletClientSignerConfiguration = demoPair ''/b'', KubeAPIServerClientSignerConfiguration = demoPair [],
     LegacyUnknownSignerConfiguration = demoPair [], ClusterSigningDuration = 0\<rparr>) = []"
  using csr_signing_valid_iff [of "\<lparr>ClusterSigningCertFile = [], ClusterSigningKeyFile = [], KubeletServingSignerConfiguration = demoPair ''/a'',
     KubeletClientSignerConfiguration = demoPair ''/b'', KubeAPIServerClientSignerConfiguration = demoPair [],
     LegacyUnknownSignerConfiguration = demoPair [], ClusterSigningDuration = 0\<rparr>" "demoPair []"]
  by (simp add: demoPair_def)

end
