(* ===== verification/ServerOptions.thy ===== *)
theory ServerOptions
  imports AuthOptions ManagerOptions WatchCache Certificates
begin

text \<open>
  The options of the server (\<open>options/options.go\<close>, \<open>options/embeddedetcd.go\<close>,
  \<open>options/plugins.go\<close>, \<open>options/admission.go\<close>) and the embedded etcd (\<open>etcd/etcd.go\<close>): defaults,
  flags, completion from the configuration directory, validation. Network ranges, addresses, keys
  and group resources of the Kubernetes libraries are of the opaque type \<open>'x\<close>; the functions of the
  libraries are the records \<open>etcdLib\<close> and \<open>serverLib\<close>.
\<close>

section \<open>embeddedetcd.go\<close>

record EmbeddedEtcd =
  ee_Enabled :: bool
  ee_Directory :: string
  ee_PeerPort :: string
  ee_ClientPort :: string
  ee_WalSizeBytes :: int

definition NewEmbeddedEtcd :: EmbeddedEtcd where
  "NewEmbeddedEtcd = \<lparr>ee_Enabled = False, ee_Directory = [], ee_PeerPort = ''2380'', ee_ClientPort = ''2379'', ee_WalSizeBytes = 0\<rparr>"

definition embeddedAddFlags :: "EmbeddedEtcd \<Rightarrow> ((EmbeddedEtcd \<Rightarrow> EmbeddedEtcd) \<Rightarrow> 'o \<Rightarrow> 'o) \<Rightarrow> (flagSet \<times> 'o, unit) go" where
  "embeddedAddFlags e store =
     bindG (addFlag ''enable-embedded-etcd'' (FBool False) (store (\<lambda>e. e\<lparr>ee_Enabled := False\<rparr>))) (\<lambda>_.
     bindG (addFlag ''embedded-etcd-directory'' (FString (ee_Directory e)) id) (\<lambda>_.
     bindG (addFlag ''embedded-etcd-peer-port'' (FString (ee_PeerPort e)) id) (\<lambda>_.
     bindG (addFlag ''embedded-etcd-client-port'' (FString (ee_ClientPort e)) id) (\<lambda>_.
     addFlag ''embedded-etcd-wal-size-bytes'' (FInt (ee_WalSizeBytes e)) id))))"

definition embeddedValidate :: "EmbeddedEtcd \<Rightarrow> goerr list" where
  "embeddedValidate e =
     (if ee_Enabled e then
        (if ee_PeerPort e = [] then [Errorf ''--embedded-etcd-peer-port must be specified'' []] else []) @
        (if ee_ClientPort e = [] then [Errorf ''--embedded-etcd-client-port must be specified'' []] else [])
      else [])"

section \<open>etcd.go\<close>

record tlsInfo =
  ti_ServerName :: string
  ti_CertFile :: string
  ti_KeyFile :: string
  ti_TrustedCAFile :: string
  ti_ClientCertAuth :: bool

record etcdConfig =
  et_Logger :: string
  et_LogLevel :: string
  et_Dir :: string
  et_AuthToken :: string
  et_ListenPeerUrls :: "string list"
  et_AdvertisePeerUrls :: "string list"
  et_ListenClientUrls :: "string list"
  et_AdvertiseClientUrls :: "string list"
  et_InitialCluster :: string
  et_PeerTLSInfo :: tlsInfo
  et_ClientTLSInfo :: tlsInfo
  et_UnsafeNoFsync :: bool

record ClientInfo =
  ci_Endpoints :: "string list"
  ci_CertFile :: string
  ci_KeyFile :: string
  ci_TrustedCAFile :: string

text \<open>The library: what starting the server, its TLS client configuration and its first minute give.\<close>

datatype etcdStart = ReadyNotify | TookTooLong | StartFailed goerr

record etcdLib =
  InitialClusterFromName :: "string list \<Rightarrow> string"
  StartEtcd :: "etcdConfig \<Rightarrow> goerr option"
  TLSClientConfig :: "tlsInfo \<Rightarrow> goerr option"
  awaitStart :: "etcdConfig \<Rightarrow> etcdStart"
  Getenv_DISABLE_FSYNC :: string

definition ParseBool :: "string \<Rightarrow> bool" where
  "ParseBool s = (s \<in> set [''1'', ''t'', ''T'', ''true'', ''TRUE'', ''True''])"

definition localURL :: "string \<Rightarrow> string" where
  "localURL port = ''https://localhost:'' @ port"

definition etcdTLS :: "string \<Rightarrow> tlsInfo" where
  "etcdTLS dir = \<lparr>ti_ServerName = ''localhost'',
     ti_CertFile = Join [dir, ''cert'', ''etcd-ca'', ''peer'', ''peer.crt''],
     ti_KeyFile = Join [dir, ''cert'', ''etcd-ca'', ''peer'', ''peer.key''],
     ti_TrustedCAFile = Join [dir, ''cert'', ''etcd-ca'', ''ca.crt''], ti_ClientCertAuth = True\<rparr>"

definition etcdConfigOf :: "etcdLib \<Rightarrow> string \<Rightarrow> string \<Rightarrow> string \<Rightarrow> etcdConfig" where
  "etcdConfigOf T dir peerPort clientPort =
     \<lparr>et_Logger = ''zap'', et_LogLevel = ''warn'', et_Dir = dir, et_AuthToken = [],
       et_ListenPeerUrls = [localURL peerPort], et_AdvertisePeerUrls = [localURL peerPort],
       et_ListenClientUrls = [localURL clientPort], et_AdvertiseClientUrls = [localURL clientPort],
       et_InitialCluster = InitialClusterFromName T [localURL peerPort],
       et_PeerTLSInfo = etcdTLS dir, et_ClientTLSInfo = etcdTLS dir,
       et_UnsafeNoFsync = ParseBool (Getenv_DISABLE_FSYNC T)\<rparr>"

text \<open>
  The state is the global segment size of the write-ahead log and whether a server runs. A server
  that is not ready within a minute is stopped; one whose client configuration cannot be made keeps
  running.
\<close>

record etcdState =
  SegmentSizeBytes :: int
  etcdRunning :: bool

definition etcdRun :: "etcdLib \<Rightarrow> string \<Rightarrow> string \<Rightarrow> string \<Rightarrow> int \<Rightarrow> (etcdState, ClientInfo) go" where
  "etcdRun T dir peerPort clientPort walSizeBytes = (\<lambda>st.
     let st1 = (if walSizeBytes \<noteq> 0 then st\<lparr>SegmentSizeBytes := walSizeBytes\<rparr> else st);
         cfg = etcdConfigOf T dir peerPort clientPort in
     case StartEtcd T cfg of
       Some e \<Rightarrow> (Err e, st1)
     | None \<Rightarrow> (let st2 = st1\<lparr>etcdRunning := True\<rparr> in case TLSClientConfig T (et_ClientTLSInfo cfg) of
         Some e \<Rightarrow> (Err e, st2)
       | None \<Rightarrow> (case awaitStart T cfg of
           ReadyNotify \<Rightarrow> (Ok \<lparr>ci_Endpoints = [hd (et_AdvertiseClientUrls cfg)], ci_CertFile = ti_CertFile (et_ClientTLSInfo cfg),
             ci_KeyFile = ti_KeyFile (et_ClientTLSInfo cfg), ci_TrustedCAFile = ti_TrustedCAFile (et_ClientTLSInfo cfg)\<rparr>, st2)
         | TookTooLong \<Rightarrow> (Err (Errorf ''server took too long to start'' []), st2\<lparr>etcdRunning := False\<rparr>)
         | StartFailed e \<Rightarrow> (Err e, st2))))"

section \<open>plugins.go, admission.go\<close>

definition AllOrderedPlugins :: "string list" where
  "AllOrderedPlugins = [''NamespaceAutoProvision'', ''NamespaceLifecycle'', ''NamespaceExists'', ''ServiceAccount'',
     ''EventRateLimit'', ''OwnerReferencesPermissionEnforcement'', ''CertificateApproval'', ''CertificateSigning'',
     ''CertificateSubjectRestriction'',
     ''ManagedClusterMutating'', ''ManagedClusterValidating'', ''ManagedClusterSetBindingValidating'', ''ManifestWorkValidating'',
     ''MutatingAdmissionWebhook'', ''ValidatingAdmissionWebhook'', ''ValidatingAdmissionPolicy'', ''ResourceQuota'']"

definition RegisterAllAdmissionPlugins :: "string list \<Rightarrow> string list" where
  "RegisterAllAdmissionPlugins plugins = plugins @ [''EventRateLimit'', ''OwnerReferencesPermissionEnforcement'',
     ''NamespaceAutoProvision'', ''NamespaceExists'', ''ResourceQuota'', ''ServiceAccount'', ''CertificateApproval'',
     ''CertificateSigning'', ''CertificateSubjectRestriction'',
     ''ManagedClusterMutating'', ''ManagedClusterValidating'', ''ManagedClusterSetBindingValidating'', ''ManifestWorkValidating'']"

definition defaultOnPlugins :: "string list" where
  "defaultOnPlugins = [''NamespaceLifecycle'', ''ServiceAccount'', ''MutatingAdmissionWebhook'', ''ValidatingAdmissionWebhook'',
     ''ResourceQuota'', ''CertificateApproval'', ''CertificateSigning'', ''CertificateSubjectRestriction'']"

definition DefaultOffAdmissionPlugins :: "string list" where
  "DefaultOffAdmissionPlugins = filter (\<lambda>p. p \<notin> set defaultOnPlugins) AllOrderedPlugins"

record AdmissionOptions =
  RegisteredPlugins :: "string list"
  RecommendedPluginOrder :: "string list"
  DefaultOffPlugins :: "string list"
  EnablePlugins :: "string list"
  DisablePlugins :: "string list"

text \<open>The generic options, with the plugins that the library registers itself.\<close>

definition NewAdmissionOptions :: "AdmissionOptions \<Rightarrow> AdmissionOptions" where
  "NewAdmissionOptions generic = generic\<lparr>RegisteredPlugins := RegisterAllAdmissionPlugins (RegisteredPlugins generic),
     RecommendedPluginOrder := AllOrderedPlugins, DefaultOffPlugins := DefaultOffAdmissionPlugins\<rparr>"

section \<open>options.go: the options and their defaults\<close>

record EtcdOptions =
  eo_StorageType :: string
  eo_DefaultStorageMediaType :: string
  eo_Prefix :: string
  eo_ServerList :: "string list"
  eo_TrustedCAFile :: string
  eo_CertFile :: string
  eo_KeyFile :: string
  eo_EnableWatchCache :: bool
  eo_WatchCacheSizes :: "string list"
  eo_SkipHealthEndpoints :: bool

record SecureServingOptions =
  ss_BindAddress :: string
  ss_BindPort :: int
  ss_Required :: bool
  ss_PairName :: string
  ss_CertDirectory :: string
  ss_CertFile :: string
  ss_KeyFile :: string

record ExtraOptions =
  xo_EmbeddedEtcd :: EmbeddedEtcd
  xo_ClientKeyFile :: string

record KubeletClientConfig =
  kl_Port :: int
  kl_ReadOnlyPort :: int
  kl_PreferredAddressTypes :: "string list"
  kl_HTTPTimeout :: int

record ('x, 'g) ServerRunOptions =
  so_AdvertiseAddress :: string
  so_ExternalHost :: string
  so_Etcd :: EtcdOptions
  so_SecureServing :: SecureServingOptions
  so_EnableProfiling :: bool
  so_EnablePriorityAndFairness :: bool
  so_RuntimeConfig :: "string gomap"
  so_Admission :: AdmissionOptions
  so_Authentication :: "'x BuiltInAuthenticationOptions"
  so_Authorization :: BuiltInAuthorizationOptions
  so_ServiceClusterIPRanges :: string
  so_PrimaryServiceClusterIPRange :: "'x option"
  so_APIServerServiceIP :: "'x option"
  so_SecondaryServiceClusterIPRange :: "'x option"
  so_EventTTL :: int
  so_IdentityLeaseDurationSeconds :: int
  so_IdentityLeaseRenewIntervalSeconds :: int
  so_EndpointReconcilerType :: string
  so_EnableAggregatorRouting :: bool
  so_ServiceAccountSigningKeyFile :: string
  so_ServiceAccountIssuer :: "'x option"
  so_ServiceAccountTokenMaxExpiration :: int
  so_KubeletConfig :: KubeletClientConfig
  so_ExtraOptions :: ExtraOptions
  so_KubeControllerManagerOptions :: "'g KubeControllerManagerOptions"
  so_ControlplaneConfigDir :: string
  so_ControlplaneDataDir :: string
  so_EnableSelfManagement :: bool
  so_SelfManagementClusterName :: string
  so_EnableDelegatingAuthentication :: bool
  so_ProxyClientCertFile :: string
  so_ProxyClientKeyFile :: string
  so_AllowPrivileged :: bool
  so_MaxConnectionBytesPerSec :: int

record ('x, 'g) serverLib =
  NewEtcdOptions :: "string \<Rightarrow> EtcdOptions"
  genericAdmission :: AdmissionOptions
  DefaultAuthWebhookRetryBackoff :: "Backoff option"
  managerDefaults :: "'g ComponentConfig outcome"
  gcDefaultIgnoredResources :: "(string \<times> string) list"
  DefaultAdvertiseAddress :: "SecureServingOptions \<Rightarrow> string \<Rightarrow> string outcome"
  ParseCIDRSloppy :: "string \<Rightarrow> 'x outcome"
  ServiceIPRange :: "'x option \<Rightarrow> ('x \<times> 'x) outcome"
  MaybeDefaultWithSelfSignedCerts :: "string \<Rightarrow> string list \<Rightarrow> 'x list \<Rightarrow> SecureServingOptions \<Rightarrow> SecureServingOptions outcome"
  os_Hostname :: "string outcome"
  IsValidServiceAccountKeyFile :: "string \<Rightarrow> bool"
  PrivateKeyFromFile :: "string \<Rightarrow> (world, 'x) go"
  JWTTokenGenerator :: "string \<Rightarrow> 'x \<Rightarrow> 'x outcome"
  DefaultWatchCacheSizes :: "('x \<times> int) list"
  gr_Parse :: "string \<Rightarrow> 'x"
  gr_String :: "'x \<Rightarrow> string"
  gr_order :: "('x \<times> int) list \<Rightarrow> ('x \<times> int) list"
  etcdlib :: etcdLib
  yaml_Unmarshal :: "bytes \<Rightarrow> ControlplaneRunConfig outcome"

definition enabledPlugins :: "string list" where
  "enabledPlugins = [''NamespaceLifecycle'', ''ServiceAccount'', ''MutatingAdmissionWebhook'', ''ValidatingAdmissionWebhook'',
     ''ResourceQuota'', ''ManagedClusterMutating'', ''ManagedClusterValidating'', ''ManagedClusterSetBindingValidating'']"

definition defaultAuthentication :: "Backoff option \<Rightarrow> 'x BuiltInAuthenticationOptions" where
  "defaultAuthentication b =
     (let a = WithAll b NewBuiltInAuthenticationOptions
      in a\<lparr>APIAudiences := [], BootstrapToken := map_option (\<lambda>t. t\<lparr>Enable := True\<rparr>) (BootstrapToken a),
           ServiceAccounts := map_option (\<lambda>sa. sa\<lparr>Issuers := [''https://kubernetes.default.svc''], Lookup := True\<rparr>) (ServiceAccounts a)\<rparr>)"

definition defaultServing :: SecureServingOptions where
  "defaultServing = \<lparr>ss_BindAddress = ''0.0.0.0'', ss_BindPort = 6443, ss_Required = True, ss_PairName = ''apiserver'',
     ss_CertDirectory = ''/var/run/kubernetes'', ss_CertFile = [], ss_KeyFile = []\<rparr>"

text \<open>A failure to make the options of the controller manager ends the process (\<open>klog.Fatalf\<close>).\<close>

definition NewServerRunOptions :: "('x, 'g) serverLib \<Rightarrow> ('x, 'g) ServerRunOptions outcome" where
  "NewServerRunOptions V = (case NewKubeControllerManagerOptions (managerDefaults V) (gcDefaultIgnoredResources V) of
     Err e \<Rightarrow> Panic ''unable to initialize kube controller manager options''
   | Panic p \<Rightarrow> Panic p
   | Ok manager \<Rightarrow> Ok
      \<lparr>so_AdvertiseAddress = [], so_ExternalHost = [],
       so_Etcd = (NewEtcdOptions V ''/registry'')\<lparr>eo_DefaultStorageMediaType := ''application/vnd.kubernetes.protobuf'',
         eo_StorageType := ''etcd3'', eo_SkipHealthEndpoints := True\<rparr>,
       so_SecureServing = defaultServing, so_EnableProfiling = False, so_EnablePriorityAndFairness = False,
       so_RuntimeConfig = [],
       so_Admission = (NewAdmissionOptions (genericAdmission V))\<lparr>EnablePlugins := enabledPlugins, DisablePlugins := []\<rparr>,
       so_Authentication = defaultAuthentication (DefaultAuthWebhookRetryBackoff V),
       so_Authorization = (NewBuiltInAuthorizationOptions (DefaultAuthWebhookRetryBackoff V))\<lparr>Modes := [''RBAC'']\<rparr>,
       so_ServiceClusterIPRanges = ''10.0.0.0/8'', so_PrimaryServiceClusterIPRange = None, so_APIServerServiceIP = None,
       so_SecondaryServiceClusterIPRange = None, so_EventTTL = 1 * time_Hour, so_IdentityLeaseDurationSeconds = 3600,
       so_IdentityLeaseRenewIntervalSeconds = 10, so_EndpointReconcilerType = ''lease'', so_EnableAggregatorRouting = False,
       so_ServiceAccountSigningKeyFile = [], so_ServiceAccountIssuer = None, so_ServiceAccountTokenMaxExpiration = 0,
       so_KubeletConfig = \<lparr>kl_Port = 10250, kl_ReadOnlyPort = 10255,
         kl_PreferredAddressTypes = [''Hostname'', ''InternalDNS'', ''InternalIP'', ''ExternalDNS'', ''ExternalIP''],
         kl_HTTPTimeout = 5 * time_Second\<rparr>,
       so_ExtraOptions = \<lparr>xo_EmbeddedEtcd = NewEmbeddedEtcd, xo_ClientKeyFile = []\<rparr>,
       so_KubeControllerManagerOptions = manager, so_ControlplaneConfigDir = ''/controlplane_config'', so_ControlplaneDataDir = [],
       so_EnableSelfManagement = False, so_SelfManagementClusterName = [], so_EnableDelegatingAuthentication = False,
       so_ProxyClientCertFile = [], so_ProxyClientKeyFile = [],
       so_AllowPrivileged = False, so_MaxConnectionBytesPerSec = 0\<rparr>)"

definition onEmbedded :: "(EmbeddedEtcd \<Rightarrow> EmbeddedEtcd) \<Rightarrow> ('x, 'g) ServerRunOptions \<Rightarrow> ('x, 'g) ServerRunOptions" where
  "onEmbedded f s = s\<lparr>so_ExtraOptions := (so_ExtraOptions s)\<lparr>xo_EmbeddedEtcd := f (xo_EmbeddedEtcd (so_ExtraOptions s))\<rparr>\<rparr>"

text \<open>The flags of registration, serving and storage are those of the libraries.\<close>

definition serverAddFlags ::
  "(flagSet \<Rightarrow> flagSet outcome) \<Rightarrow> (flagSet \<Rightarrow> flagSet outcome) \<Rightarrow> (flagSet \<Rightarrow> flagSet outcome) \<Rightarrow>
   (flagSet \<times> ('x, 'g) ServerRunOptions, unit) go" where
  "serverAddFlags registrationFlags servingFlags etcdFlags =
     bindG (libFlags registrationFlags) (\<lambda>_.
     bindG (libFlags servingFlags) (\<lambda>_.
     bindG (libFlags etcdFlags) (\<lambda>_.
     bindG getOpts (\<lambda>s.
     bindG (embeddedAddFlags (xo_EmbeddedEtcd (so_ExtraOptions s)) onEmbedded) (\<lambda>_.
     bindG (addFlag ''controlplane-config-dir'' (FString (so_ControlplaneConfigDir s)) id) (\<lambda>_.
     bindG (addFlag ''self-management'' (FBool (so_EnableSelfManagement s)) id) (\<lambda>_.
     bindG (addFlag ''self-management-cluster-name'' (FString (so_SelfManagementClusterName s)) id) (\<lambda>_.
     addFlag ''delegating-authentication'' (FBool (so_EnableDelegatingAuthentication s)) id))))))))"

section \<open>options.go: completion\<close>

text \<open>
  The state is the machine and the hosting cluster, the embedded etcd, and the options; a method of
  the options that returns an error has changed them up to there. What a failing call returns beside
  its error is not stored.
\<close>

type_synonym ('k, 'x, 'g) srv = "('k hosted \<times> etcdState) \<times> ('x, 'g) ServerRunOptions"

definition onHost :: "('k hosted, 'a) go \<Rightarrow> (('k, 'x, 'g) srv, 'a) go" where
  "onHost m = zoomG (\<lambda>st. fst (fst st)) (\<lambda>h st. ((h, snd (fst st)), snd st)) m"

definition onEtcd :: "(etcdState, 'a) go \<Rightarrow> (('k, 'x, 'g) srv, 'a) go" where
  "onEtcd m = zoomG (\<lambda>st. snd (fst st)) (\<lambda>e st. ((fst (fst st), e), snd st)) m"

definition getO :: "(('k, 'x, 'g) srv, ('x, 'g) ServerRunOptions) go" where
  "getO = (\<lambda>st. (Ok (snd st), st))"

definition modO :: "(('x, 'g) ServerRunOptions \<Rightarrow> ('x, 'g) ServerRunOptions) \<Rightarrow> (('k, 'x, 'g) srv, unit) go" where
  "modO f = (\<lambda>(h, s). (Ok (), (h, f s)))"

definition deref :: "'a option \<Rightarrow> ('s, 'a) go" where
  "deref p = (case p of None \<Rightarrow> panicG ''nil pointer dereference'' | Some x \<Rightarrow> returnG x)"

definition transport :: "string list \<Rightarrow> string \<Rightarrow> string \<Rightarrow> string \<Rightarrow> ('x, 'g) ServerRunOptions \<Rightarrow> ('x, 'g) ServerRunOptions" where
  "transport servers ca cert key s = s\<lparr>so_Etcd := (so_Etcd s)\<lparr>eo_ServerList := servers, eo_TrustedCAFile := ca,
     eo_CertFile := cert, eo_KeyFile := key\<rparr>\<rparr>"

definition etcdFromConfig :: "ControlplaneRunConfig \<Rightarrow> ('x, 'g) ServerRunOptions \<Rightarrow> ('x, 'g) ServerRunOptions" where
  "etcdFromConfig cfg s =
     (if Mode (Etcd cfg) = ''embed'' then
        onEmbedded (\<lambda>e. e\<lparr>ee_Enabled := True, ee_Directory := DataDirectory cfg\<rparr>)
          (s\<lparr>so_Etcd := (so_Etcd s)\<lparr>eo_ServerList := [''http://localhost:2379'']\<rparr>\<rparr>)
      else
        (let s' = transport (Servers (Etcd cfg)) (EtcdCAFile (Etcd cfg)) (EtcdCertFile (Etcd cfg)) (EtcdKeyFile (Etcd cfg)) s
         in s'\<lparr>so_Etcd := (so_Etcd s')\<lparr>eo_Prefix := Prefix (Etcd cfg)\<rparr>\<rparr>))"

definition aggregatorFromConfig :: "AggregatorConfig \<Rightarrow> ('x, 'g) ServerRunOptions \<Rightarrow> ('x, 'g) ServerRunOptions" where
  "aggregatorFromConfig a s = s\<lparr>so_ProxyClientCertFile := ProxyClientCertFile a, so_ProxyClientKeyFile := ProxyClientKeyFile a,
     so_Authentication := (so_Authentication s)\<lparr>RequestHeader := map_option (\<lambda>h. h\<lparr>rh_ClientCAFile := RequestHeaderClientCAFile a,
       rh_UsernameHeaders := RequestHeaderUsernameHeaders a, rh_GroupHeaders := RequestHeaderGroupHeaders a,
       rh_ExtraHeaderPrefixes := RequestHeaderExtraHeaderPrefixes a, rh_AllowedNames := RequestHeaderAllowedNames a\<rparr>)
       (RequestHeader (so_Authentication s))\<rparr>\<rparr>"

definition filesFromConfig :: "string \<Rightarrow> int \<Rightarrow> string \<Rightarrow> (('k, 'x, 'g) srv, unit) go" where
  "filesFromConfig dataDir bindPort certsDir =
     (let sakFile = ServiceAccountKeyFile certsDir in
      bindG (modO (\<lambda>s. s\<lparr>so_SecureServing := (so_SecureServing s)\<lparr>ss_BindPort := bindPort\<rparr>\<rparr>)) (\<lambda>_.
      bindG getO (\<lambda>s.
      bindG (deref (ClientCert (so_Authentication s))) (\<lambda>cc.
      bindG (modO (\<lambda>s. s\<lparr>so_Authentication := (so_Authentication s)\<lparr>ClientCert := Some (cc\<lparr>ClientCA := ClientCACertFile certsDir\<rparr>)\<rparr>,
        so_ExtraOptions := (so_ExtraOptions s)\<lparr>xo_ClientKeyFile := ClientCAKeyFile certsDir\<rparr>\<rparr>)) (\<lambda>_.
      bindG (deref (ServiceAccounts (so_Authentication s))) (\<lambda>sa.
      bindG (modO (\<lambda>s. s\<lparr>so_Authentication := (so_Authentication s)\<lparr>ServiceAccounts := Some (sa\<lparr>KeyFiles := [sakFile]\<rparr>)\<rparr>\<rparr>)) (\<lambda>_.
      bindG (deref (SAController (so_KubeControllerManagerOptions s))) (\<lambda>sac.
      modO (\<lambda>s. s\<lparr>so_KubeControllerManagerOptions := (so_KubeControllerManagerOptions s)\<lparr>SAController := Some (sac\<lparr>ServiceAccountKeyFilePath := sakFile\<rparr>)\<rparr>,
        so_ServiceAccountSigningKeyFile := sakFile,
        so_SecureServing := (so_SecureServing s)\<lparr>ss_CertFile := ServingCertFile certsDir, ss_KeyFile := ServingKeyFile certsDir\<rparr>,
        so_ControlplaneDataDir := dataDir\<rparr>)))))))))"

text \<open>Outside of a cluster the port of the configuration is bound, and set to the default when it is zero.\<close>

definition portOf :: "'k kubeApi \<Rightarrow> ControlplaneRunConfig \<Rightarrow> ControlplaneRunConfig \<times> int" where
  "portOf K cfg = (case InClusterConfig K of
     None \<Rightarrow> (cfg, DefaultAPIServerPort)
   | Some _ \<Rightarrow>
       let cfg' = (if Port (Apiserver cfg) = 0 then cfg\<lparr>Apiserver := (Apiserver cfg)\<lparr>Port := DefaultAPIServerPort\<rparr>\<rparr> else cfg)
       in (cfg', Port (Apiserver cfg')))"

definition InitServerRunOptions ::
  "env \<Rightarrow> 'k kubeApi \<Rightarrow> (nat \<Rightarrow> nat) \<Rightarrow> ControlplaneRunConfig \<Rightarrow> (('k, 'x, 'g) srv, unit) go" where
  "InitServerRunOptions E K grow cfg0 = (case portOf K cfg0 of (cfg, bindPort) \<Rightarrow>
     bindG (wrapG (ErrorfV ''failed to retrieve the necessary certificates, %v'' []) (onHost (InitCerts E K grow cfg))) (\<lambda>certChains.
     bindG (wrapG (ErrorfV ''failed to create the necessary kubeconfigs for internal components, %v'' [])
              (onHost (InitKubeconfig E K cfg certChains))) (\<lambda>_.
     bindG (modO (etcdFromConfig cfg)) (\<lambda>_.
     bindG (modO (aggregatorFromConfig (Aggregator cfg))) (\<lambda>_.
     filesFromConfig (DataDirectory cfg) bindPort (CertsDirectory (DataDirectory cfg)))))))"

definition serviceIPRanges :: "('x, 'g) serverLib \<Rightarrow> (('k, 'x, 'g) srv, unit) go" where
  "serviceIPRanges V = bindG getO (\<lambda>s.
     let ranges = (if so_ServiceClusterIPRanges s \<noteq> [] then splitOn (CHR '','') (so_ServiceClusterIPRanges s) else []) in
     bindG (if ranges = [] then
              bindG (wrapG (ErrorfV ''error determining service IP ranges: %v'' []) (ofO (ServiceIPRange V None))) (\<lambda>(range, ip).
              modO (\<lambda>s. s\<lparr>so_PrimaryServiceClusterIPRange := Some range, so_APIServerServiceIP := Some ip,
                so_SecondaryServiceClusterIPRange := None\<rparr>))
            else returnG ()) (\<lambda>_.
     case ranges of
       [] \<Rightarrow> panicG ''index out of range''
     | first # rest \<Rightarrow>
         bindG (wrapG (\<lambda>_. Errorf ''service-cluster-ip-range[0] is not a valid cidr'' []) (ofO (ParseCIDRSloppy V first))) (\<lambda>cidr.
         bindG (wrapG (ErrorfV ''error determining service IP ranges for primary service cidr: %v'' []) (ofO (ServiceIPRange V (Some cidr)))) (\<lambda>(range, ip).
         bindG (modO (\<lambda>s. s\<lparr>so_PrimaryServiceClusterIPRange := Some range, so_APIServerServiceIP := Some ip\<rparr>)) (\<lambda>_.
         case rest of
           [] \<Rightarrow> returnG ()
         | second # _ \<Rightarrow>
             bindG (wrapG (\<lambda>_. Errorf ''service-cluster-ip-range[1] is not an ip net'' []) (ofO (ParseCIDRSloppy V second))) (\<lambda>cidr2.
             modO (\<lambda>s. s\<lparr>so_SecondaryServiceClusterIPRange := Some cidr2\<rparr>)))))))"

definition externalHost :: "('x, 'g) serverLib \<Rightarrow> (('k, 'x, 'g) srv, unit) go" where
  "externalHost V = bindG getO (\<lambda>s.
     if so_ExternalHost s = [] then
       (if so_AdvertiseAddress s \<noteq> [] then modO (\<lambda>s. s\<lparr>so_ExternalHost := so_AdvertiseAddress s\<rparr>)
        else bindG (wrapG (ErrorfV ''error finding host name: %v'' []) (ofO (os_Hostname V))) (\<lambda>hostname.
             modO (\<lambda>s. s\<lparr>so_ExternalHost := hostname\<rparr>)))
     else returnG ())"

definition delegatingDefaults :: "Backoff option \<Rightarrow> 'x DelegatingAuthenticatorConfig" where
  "delegatingDefaults b = \<lparr>TokenAccessReviewTimeout = 10 * time_Second, WebhookRetryBackoff = b, CacheTTL = 10 * time_Second,
     d_APIAudiences = [], clientCA = None\<rparr>"

definition authenticationDefaults :: "('x, 'g) serverLib \<Rightarrow> ('x, 'g) ServerRunOptions \<Rightarrow> ('x, 'g) ServerRunOptions" where
  "authenticationDefaults V s =
     (let a = (if so_EnableDelegatingAuthentication s
               then (so_Authentication s)\<lparr>DelegatingConfig := Some (delegatingDefaults (DefaultAuthWebhookRetryBackoff V))\<rparr>
               else so_Authentication s)
      in s\<lparr>so_Authentication := the (ApplyAuthorization (Some (so_Authorization s)) (Some a))\<rparr>)"

definition keyFilesDefault :: "('x, 'g) serverLib \<Rightarrow> (('k, 'x, 'g) srv, unit) go" where
  "keyFilesDefault V = bindG getO (\<lambda>s.
     if so_ServiceAccountSigningKeyFile s = [] then
       bindG (deref (ServiceAccounts (so_Authentication s))) (\<lambda>sa.
       if KeyFiles sa = [] \<and> ss_KeyFile (so_SecureServing s) \<noteq> [] \<and> IsValidServiceAccountKeyFile V (ss_KeyFile (so_SecureServing s))
       then modO (\<lambda>s. s\<lparr>so_Authentication := (so_Authentication s)\<lparr>ServiceAccounts := Some (sa\<lparr>KeyFiles := [ss_KeyFile (so_SecureServing s)]\<rparr>)\<rparr>\<rparr>)
       else returnG ())
     else returnG ())"

definition lowBound :: int where "lowBound = time_Hour"
definition upBound :: int where "upBound = 2 ^ 32 * time_Second"

definition tokenIssuer :: "('x, 'g) serverLib \<Rightarrow> (('k, 'x, 'g) srv, unit) go" where
  "tokenIssuer V = bindG getO (\<lambda>s.
     if so_ServiceAccountSigningKeyFile s = [] then returnG () else
     bindG (deref (ServiceAccounts (so_Authentication s))) (\<lambda>sa.
     case Issuers sa of [] \<Rightarrow> returnG () | issuer # _ \<Rightarrow>
     if issuer = [] then returnG ()
     else if MaxExpiration sa \<noteq> 0 \<and> (MaxExpiration sa < lowBound \<or> MaxExpiration sa > upBound)
     then failG (Errorf ''the service-account-max-token-expiration must be between 1 hour and 2^32 seconds'' [])
     else
       bindG (modO (\<lambda>s. s\<lparr>so_ServiceAccountTokenMaxExpiration := MaxExpiration sa\<rparr>)) (\<lambda>_.
       bindG (wrapG (ErrorfV ''failed to parse service-account-issuer-key-file: %v'' [])
                (onHost (onFS (PrivateKeyFromFile V (so_ServiceAccountSigningKeyFile s))))) (\<lambda>sk.
       bindG (wrapG (ErrorfV ''failed to build token generator: %v'' []) (ofO (JWTTokenGenerator V issuer sk))) (\<lambda>gen.
       modO (\<lambda>s. s\<lparr>so_ServiceAccountIssuer := Some gen\<rparr>))))))"

definition watchCacheSizes :: "('x, 'g) serverLib \<Rightarrow> (('k, 'x, 'g) srv, unit) go" where
  "watchCacheSizes V = bindG getO (\<lambda>s.
     if eo_EnableWatchCache (so_Etcd s) then
       bindG (ofO (parseWatchCacheSizes (gr_Parse V) (eo_WatchCacheSizes (so_Etcd s)))) (\<lambda>userSpecified.
       bindG (ofO (writeWatchCacheSizes (gr_order V) (gr_String V)
                (fold (\<lambda>(r, n). AList.update r n) (gr_order V userSpecified) (DefaultWatchCacheSizes V)))) (\<lambda>sizes.
       modO (\<lambda>s. s\<lparr>so_Etcd := (so_Etcd s)\<lparr>eo_WatchCacheSizes := sizes\<rparr>\<rparr>)))
     else returnG ())"

definition startEmbeddedEtcd :: "('x, 'g) serverLib \<Rightarrow> (('k, 'x, 'g) srv, unit) go" where
  "startEmbeddedEtcd V = bindG getO (\<lambda>s. let e = xo_EmbeddedEtcd (so_ExtraOptions s) in
     if ee_Enabled e then
       bindG (onEtcd (etcdRun (etcdlib V) (ee_Directory e) (ee_PeerPort e) (ee_ClientPort e) (ee_WalSizeBytes e))) (\<lambda>info.
       modO (transport (ci_Endpoints info) (ci_TrustedCAFile info) (ci_CertFile info) (ci_KeyFile info)))
     else returnG ())"

text \<open>
  The loop over the runtime configuration deletes the current key and may set \<open>/v1\<close>, which itself
  needs no change, so that it does not matter whether the loop still meets it.
\<close>

definition isCoreV1 :: "string \<Rightarrow> bool" where
  "isCoreV1 key = (key = ''v1'' \<or> hasPrefix key ''v1/'' \<or> key = ''api/v1'' \<or> hasPrefix key ''api/v1/'')"

definition mapDelete :: "string \<Rightarrow> 'v gomap \<Rightarrow> 'v gomap" where
  "mapDelete k m = AList.delete k m"

definition enableStep :: "string \<times> string \<Rightarrow> string gomap \<Rightarrow> string gomap" where
  "enableStep kv m = (case kv of (key, value) \<Rightarrow>
     let m1 = (if isCoreV1 key then mapPut ''/v1'' value (mapDelete key m) else m)
     in if key = ''api/legacy'' then mapDelete key m1 else m1)"

definition enableAPIs :: "(string list \<Rightarrow> string list) \<Rightarrow> string gomap \<Rightarrow> string gomap" where
  "enableAPIs ord m = fold enableStep (mapRange ord m) m"

text \<open>The part of \<open>Complete\<close> after the configuration has been applied.\<close>

definition completeRest :: "env \<Rightarrow> ('x, 'g) serverLib \<Rightarrow> (('k, 'x, 'g) srv, unit) go" where
  "completeRest E V = bindG getO (\<lambda>s.
     bindG (ofO (DefaultAdvertiseAddress V (so_SecureServing s) (so_AdvertiseAddress s))) (\<lambda>addr.
     bindG (modO (\<lambda>s. s\<lparr>so_AdvertiseAddress := addr\<rparr>)) (\<lambda>_.
     bindG (serviceIPRanges V) (\<lambda>_.
     bindG getO (\<lambda>s.
     bindG (wrapG (ErrorfV ''error creating self-signed certificates: %v'' [])
              (ofO (MaybeDefaultWithSelfSignedCerts V (so_AdvertiseAddress s) [''kubernetes.default.svc'', ''kubernetes.default'', ''kubernetes'']
                 (case so_APIServerServiceIP s of None \<Rightarrow> [] | Some ip \<Rightarrow> [ip]) (so_SecureServing s)))) (\<lambda>serving.
     bindG (modO (\<lambda>s. s\<lparr>so_SecureServing := serving\<rparr>)) (\<lambda>_.
     bindG (externalHost V) (\<lambda>_.
     bindG (modO (authenticationDefaults V)) (\<lambda>_.
     bindG (keyFilesDefault V) (\<lambda>_.
     bindG (tokenIssuer V) (\<lambda>_.
     bindG (watchCacheSizes V) (\<lambda>_.
     bindG (startEmbeddedEtcd V) (\<lambda>_.
     modO (\<lambda>s. s\<lparr>so_RuntimeConfig := enableAPIs (range_order E) (so_RuntimeConfig s)\<rparr>))))))))))))))"

definition optionsComplete ::
  "env \<Rightarrow> 'k kubeApi \<Rightarrow> (nat \<Rightarrow> nat) \<Rightarrow> ('x, 'g) serverLib \<Rightarrow> (('k, 'x, 'g) srv, unit) go" where
  "optionsComplete E K grow V = bindG getO (\<lambda>s.
     bindG (onHost (LoadConfig E K (yaml_Unmarshal V) (so_ControlplaneConfigDir s))) (\<lambda>config.
     bindG (InitServerRunOptions E K grow config) (\<lambda>_.
     completeRest E V)))"

section \<open>options.go: validation\<close>

definition validateTokenRequest :: "('x, 'g) ServerRunOptions \<Rightarrow> goerr list outcome" where
  "validateTokenRequest s = (case (so_ServiceAccountSigningKeyFile s, ServiceAccounts (so_Authentication s)) of
     ([], None) \<Rightarrow> Panic ''nil pointer dereference''
   | (file, sas) \<Rightarrow>
       let issuerSet = (case sas of None \<Rightarrow> False | Some sa \<Rightarrow> Issuers sa \<noteq> [] \<and> hd (Issuers sa) \<noteq> []);
           enableAttempted = (file \<noteq> [] \<or> issuerSet \<or> APIAudiences (so_Authentication s) \<noteq> []);
           enableSucceeded = (so_ServiceAccountIssuer s \<noteq> None) in
       Ok ((if \<not> enableAttempted
            then [Errorf ''--service-account-signing-key-file and --service-account-issuer are required flags'' []] else []) @
           (if enableAttempted \<and> \<not> enableSucceeded
            then [Errorf ''--service-account-signing-key-file, --service-account-issuer, and --api-audiences should be specified together'' []]
            else [])))"

text \<open>The validations of the libraries, by the part they look at.\<close>

record ('x, 'g) validators =
  v_Etcd :: "EtcdOptions \<Rightarrow> goerr list"
  v_SecureServing :: "SecureServingOptions \<Rightarrow> goerr list"
  v_Audit :: "goerr list"
  v_Admission :: "AdmissionOptions \<Rightarrow> goerr list"
  v_APIEnablement :: "string gomap \<Rightarrow> goerr list"
  v_Metrics :: "goerr list"
  v_urlParse :: urlParser
  v_isValidMode :: "string \<Rightarrow> bool"

definition optionsValidate :: "('x, 'g) validators \<Rightarrow> ('x, 'g) ServerRunOptions \<Rightarrow> goerr list outcome" where
  "optionsValidate W s = bindO (validateTokenRequest s) (\<lambda>tokenErrs. Ok
     (v_Etcd W (so_Etcd s) @ v_SecureServing W (so_SecureServing s) @ authnValidate (v_urlParse W) (so_Authentication s) @
      authzValidate (v_isValidMode W) (Some (so_Authorization s)) @ v_Audit W @ v_Admission W (so_Admission s) @
      v_APIEnablement W (so_RuntimeConfig s) @ tokenErrs @ v_Metrics W @
      embeddedValidate (xo_EmbeddedEtcd (so_ExtraOptions s))))"

end
