(* ===== verification/ServerProofs.thy ===== *)
theory ServerProofs
  imports ServerOptions AuthProofs CertificateProofs
begin

text \<open>
  Facts on the options of the server: what each step of the completion leaves of the options, and
  that the files the server and its etcd read are those that the certificate component writes.
\<close>

section \<open>Steps that succeed\<close>

lemma getO_Ok_iff [gom_iff]: "getO st = (Ok x, st') \<longleftrightarrow> x = snd st \<and> st' = st"
  by (auto simp: getO_def)

lemma modO_Ok_iff [gom_iff]: "modO f st = (Ok u, st') \<longleftrightarrow> st' = (fst st, f (snd st))"
  by (cases st) (auto simp: modO_def)

lemma onHost_Ok_iff [gom_iff]:
  "onHost m st = (Ok x, st') \<longleftrightarrow> (\<exists>h. m (fst (fst st)) = (Ok x, h) \<and> st' = ((h, snd (fst st)), snd st))"
  by (auto simp: onHost_def gom_iff)

lemma onEtcd_Ok_iff [gom_iff]:
  "onEtcd m st = (Ok x, st') \<longleftrightarrow> (\<exists>e. m (snd (fst st)) = (Ok x, e) \<and> st' = ((fst (fst st), e), snd st))"
  by (auto simp: onEtcd_def gom_iff)

lemma deref_Ok_iff [gom_iff]: "deref p st = (Ok x, st') \<longleftrightarrow> p = Some x \<and> st' = st"
  by (auto simp: deref_def gom_iff split: option.splits)

definition withRanges :: "('x, 'g) ServerRunOptions \<Rightarrow> 'x option \<Rightarrow> 'x option \<Rightarrow> 'x option \<Rightarrow> ('x, 'g) ServerRunOptions" where
  "withRanges s rng ip second = s\<lparr>so_PrimaryServiceClusterIPRange := rng, so_APIServerServiceIP := ip,
     so_SecondaryServiceClusterIPRange := second\<rparr>"

lemma withRanges_updates:
  "s\<lparr>so_PrimaryServiceClusterIPRange := r, so_APIServerServiceIP := i\<rparr> = withRanges s r i (so_SecondaryServiceClusterIPRange s)"
  "(withRanges s r i c)\<lparr>so_SecondaryServiceClusterIPRange := d\<rparr> = withRanges s r i d"
  by (simp_all add: withRanges_def)

lemma serviceIPRanges_Ok:
  assumes "serviceIPRanges V st = (Ok u, st')"
  shows "so_ServiceClusterIPRanges (snd st) \<noteq> [] \<and> (\<exists>rng ip second. snd st' = withRanges (snd st) (Some rng) (Some ip) second)"
  using assms
  by (auto simp: serviceIPRanges_def gom_iff Let_def withRanges_updates split: list.splits if_splits prod.splits; blast)

lemma externalHost_Ok:
  assumes "externalHost V st = (Ok u, st')"
  shows "\<exists>host. snd st' = (snd st)\<lparr>so_ExternalHost := host\<rparr>"
proof (cases "so_ExternalHost (snd st) = []")
  case True
  then show ?thesis using assms by (auto simp: externalHost_def gom_iff split: if_splits)
next
  case False
  then have "snd st' = (snd st)\<lparr>so_ExternalHost := so_ExternalHost (snd st)\<rparr>"
    using assms by (simp add: externalHost_def gom_iff)
  then show ?thesis ..
qed

lemma watchCacheSizes_Ok:
  assumes "watchCacheSizes V st = (Ok u, st')"
  shows "\<exists>etcd. snd st' = (snd st)\<lparr>so_Etcd := etcd\<rparr>"
proof (cases "eo_EnableWatchCache (so_Etcd (snd st))")
  case True
  then show ?thesis using assms by (auto simp: watchCacheSizes_def gom_iff)
next
  case False
  then have "snd st' = (snd st)\<lparr>so_Etcd := so_Etcd (snd st)\<rparr>"
    using assms by (simp add: watchCacheSizes_def gom_iff)
  then show ?thesis ..
qed

lemma startEmbeddedEtcd_Ok:
  assumes "startEmbeddedEtcd V st = (Ok u, st')"
  shows "\<exists>etcd. snd st' = (snd st)\<lparr>so_Etcd := etcd\<rparr>"
proof (cases "ee_Enabled (xo_EmbeddedEtcd (so_ExtraOptions (snd st)))")
  case True
  then show ?thesis using assms by (auto simp: startEmbeddedEtcd_def Let_def transport_def gom_iff)
next
  case False
  then have "snd st' = (snd st)\<lparr>so_Etcd := so_Etcd (snd st)\<rparr>"
    using assms by (simp add: startEmbeddedEtcd_def Let_def gom_iff)
  then show ?thesis ..
qed

lemma keyFilesDefault_Ok:
  assumes "keyFilesDefault V st = (Ok u, st')" "so_ServiceAccountSigningKeyFile (snd st) \<noteq> []"
  shows "st' = st"
  using assms by (auto simp: keyFilesDefault_def gom_iff)

text \<open>The generator of tokens of an issuer, made with the private key in a file.\<close>

definition issuedBy :: "('x, 'g) serverLib \<Rightarrow> string \<Rightarrow> string \<Rightarrow> 'x \<Rightarrow> bool" where
  "issuedBy V file issuer gen =
     (\<exists>w w' sk. PrivateKeyFromFile V file w = (Ok sk, w') \<and> JWTTokenGenerator V issuer sk = Ok gen)"

lemma tokenIssuer_Ok:
  assumes "tokenIssuer V st = (Ok u, st')" "so_ServiceAccountSigningKeyFile (snd st) \<noteq> []"
    "ServiceAccounts (so_Authentication (snd st)) = Some sa" "Issuers sa = issuer # rest" "issuer \<noteq> []"
  shows "(MaxExpiration sa = 0 \<or> lowBound \<le> MaxExpiration sa \<and> MaxExpiration sa \<le> upBound) \<and>
    (\<exists>gen. issuedBy V (so_ServiceAccountSigningKeyFile (snd st)) issuer gen \<and>
       snd st' = (snd st)\<lparr>so_ServiceAccountTokenMaxExpiration := MaxExpiration sa, so_ServiceAccountIssuer := Some gen\<rparr>)"
  using assms unfolding issuedBy_def
  by (auto simp: tokenIssuer_def gom_iff onFS_def split: if_splits; blast)

section \<open>Enabling APIs\<close>

text \<open>What is left of the runtime configuration: nothing names the core version but \<open>/v1\<close>.\<close>

definition movedKey :: "string \<Rightarrow> bool" where
  "movedKey key = (isCoreV1 key \<or> key = ''api/legacy'')"

lemma movedKey_v1 [simp]: "\<not> movedKey ''/v1''" "\<not> isCoreV1 ''/v1''"
  by (simp_all add: movedKey_def isCoreV1_def hasPrefix_def)

lemma mapGet_delete: "mapGet (mapDelete k m) x = (if x = k then None else mapGet m x)"
  by (auto simp: mapGet_def mapDelete_def AList.delete_conv')

lemma mapGet_put: "mapGet (mapPut k v m) x = (if x = k then Some v else mapGet m x)"
  by (auto simp: mapGet_def mapPut_def update_conv')

lemma enableStep_get:
  "mapGet (enableStep (key, value) m) x =
     (if x = ''/v1'' \<and> isCoreV1 key then Some value else if x = key \<and> movedKey key then None else mapGet m x)"
  by (auto simp: enableStep_def Let_def movedKey_def mapGet_put mapGet_delete isCoreV1_def hasPrefix_def)

lemma enableFold_other: "x \<noteq> ''/v1'' \<Longrightarrow>
    mapGet (fold enableStep kvs m) x = (if movedKey x \<and> x \<in> fst ` set kvs then None else mapGet m x)"
proof (induction kvs arbitrary: m)
  case (Cons kv kvs)
  then show ?case by (cases kv) (auto simp: enableStep_get)
qed simp

lemma enableFold_v1:
  "mapGet (fold enableStep kvs m) ''/v1'' =
     (case rev (filter (\<lambda>kv. isCoreV1 (fst kv)) kvs) of [] \<Rightarrow> mapGet m ''/v1'' | kv # _ \<Rightarrow> Some (snd kv))"
proof (induction kvs arbitrary: m)
  case (Cons kv kvs)
  then show ?case by (cases kv) (auto simp: enableStep_get split: list.splits)
qed simp

section \<open>The completed options\<close>

lemma authenticationDefaults_sa [simp]:
  "ServiceAccounts (so_Authentication (authenticationDefaults V s)) = ServiceAccounts (so_Authentication s)"
  "so_Authorization (authenticationDefaults V s) = so_Authorization s"
  "OIDC (so_Authentication (authenticationDefaults V s)) = OIDC (so_Authentication s)"
  "WebHook (so_Authentication (authenticationDefaults V s)) = WebHook (so_Authentication s)"
  "APIAudiences (so_Authentication (authenticationDefaults V s)) = APIAudiences (so_Authentication s)"
  "so_ServiceAccountSigningKeyFile (authenticationDefaults V s) = so_ServiceAccountSigningKeyFile s"
  "so_ExtraOptions (authenticationDefaults V s) = so_ExtraOptions s"
  "so_RuntimeConfig (authenticationDefaults V s) = so_RuntimeConfig s"
  by (auto simp: authenticationDefaults_def ApplyAuthorization_def Let_def split: option.splits)

text \<open>
  The options after a completion that succeeded, by those it started from: some library values,
  and the defaults of the authentication.
\<close>

definition settledOptions ::
  "env \<Rightarrow> ('x, 'g) serverLib \<Rightarrow> ('x, 'g) ServerRunOptions \<Rightarrow> ('x, 'g) ServerRunOptions \<Rightarrow> bool" where
  "settledOptions E V s s' =
     (\<exists>addr rng ip second serving host gen etcd sa.
        ServiceAccounts (so_Authentication s) = Some sa \<and>
        issuedBy V (so_ServiceAccountSigningKeyFile s) (hd (Issuers sa)) gen \<and>
        (MaxExpiration sa = 0 \<or> lowBound \<le> MaxExpiration sa \<and> MaxExpiration sa \<le> upBound) \<and>
        s' = (authenticationDefaults V ((withRanges (s\<lparr>so_AdvertiseAddress := addr\<rparr>) (Some rng) (Some ip) second)
                \<lparr>so_SecureServing := serving, so_ExternalHost := host\<rparr>))
             \<lparr>so_ServiceAccountTokenMaxExpiration := MaxExpiration sa, so_ServiceAccountIssuer := Some gen,
              so_Etcd := etcd, so_RuntimeConfig := enableAPIs (range_order E) (so_RuntimeConfig s)\<rparr>)"

lemma withRanges_sel [simp]:
  "so_Authentication (withRanges s r i c) = so_Authentication s" "so_Authorization (withRanges s r i c) = so_Authorization s"
  "so_ServiceAccountSigningKeyFile (withRanges s r i c) = so_ServiceAccountSigningKeyFile s"
  "so_ExtraOptions (withRanges s r i c) = so_ExtraOptions s" "so_RuntimeConfig (withRanges s r i c) = so_RuntimeConfig s"
  "so_APIServerServiceIP (withRanges s r i c) = i"
  by (simp_all add: withRanges_def)

lemma completeRest_Ok:
  assumes run: "completeRest E V st = (Ok u, st')" and key: "so_ServiceAccountSigningKeyFile (snd st) \<noteq> []"
    and sa: "ServiceAccounts (so_Authentication (snd st)) = Some sa" "Issuers sa = issuer # rest" "issuer \<noteq> []"
  shows "settledOptions E V (snd st) (snd st')"
proof -
  obtain addr st1 st2 st3 st4 st5 st6 serving where steps:
    "serviceIPRanges V (fst st, (snd st)\<lparr>so_AdvertiseAddress := addr\<rparr>) = (Ok (), st1)"
    "externalHost V (fst st1, (snd st1)\<lparr>so_SecureServing := serving\<rparr>) = (Ok (), st2)"
    "keyFilesDefault V (fst st2, authenticationDefaults V (snd st2)) = (Ok (), st3)"
    "tokenIssuer V st3 = (Ok (), st4)" "watchCacheSizes V st4 = (Ok (), st5)" "startEmbeddedEtcd V st5 = (Ok (), st6)"
    "snd st' = (snd st6)\<lparr>so_RuntimeConfig := enableAPIs (range_order E) (so_RuntimeConfig (snd st6))\<rparr>"
    using run by (auto simp: completeRest_def gom_iff)
  from serviceIPRanges_Ok [OF steps(1)] obtain rng ip second where
    e1: "snd st1 = withRanges ((snd st)\<lparr>so_AdvertiseAddress := addr\<rparr>) (Some rng) (Some ip) second" by auto
  from externalHost_Ok [OF steps(2)] obtain host where
    e2: "snd st2 = (snd st1)\<lparr>so_SecureServing := serving, so_ExternalHost := host\<rparr>" by auto
  have e3: "snd st3 = authenticationDefaults V (snd st2)"
    using keyFilesDefault_Ok [OF steps(3)] key by (simp add: e1 e2)
  from tokenIssuer_Ok [OF steps(4) _ _ sa(2,3)] sa(1) key obtain gen where
    gen: "issuedBy V (so_ServiceAccountSigningKeyFile (snd st)) issuer gen" and
    e4: "snd st4 = (snd st3)\<lparr>so_ServiceAccountTokenMaxExpiration := MaxExpiration sa, so_ServiceAccountIssuer := Some gen\<rparr>"
    and b: "MaxExpiration sa = 0 \<or> lowBound \<le> MaxExpiration sa \<and> MaxExpiration sa \<le> upBound"
    by (auto simp: e1 e2 e3)
  from watchCacheSizes_Ok [OF steps(5)] startEmbeddedEtcd_Ok [OF steps(6)] obtain etcd where
    e6: "snd st6 = (snd st4)\<lparr>so_Etcd := etcd\<rparr>" by auto
  have "snd st' = (authenticationDefaults V ((withRanges ((snd st)\<lparr>so_AdvertiseAddress := addr\<rparr>) (Some rng) (Some ip) second)
                \<lparr>so_SecureServing := serving, so_ExternalHost := host\<rparr>))
             \<lparr>so_ServiceAccountTokenMaxExpiration := MaxExpiration sa, so_ServiceAccountIssuer := Some gen,
              so_Etcd := etcd, so_RuntimeConfig := enableAPIs (range_order E) (so_RuntimeConfig (snd st))\<rparr>"
    by (simp add: steps(7) e6 e4 e3 e2 e1)
  then show ?thesis unfolding settledOptions_def using sa(1) b gen by (metis list.sel(1) sa(2))
qed

lemma settled_token:
  assumes "settledOptions E V s s'"
  shows "so_ServiceAccountIssuer s' \<noteq> None \<and>
    (\<exists>sa. ServiceAccounts (so_Authentication s) = Some sa \<and> so_ServiceAccountTokenMaxExpiration s' = MaxExpiration sa \<and>
      (MaxExpiration sa = 0 \<or> lowBound \<le> MaxExpiration sa \<and> MaxExpiration sa \<le> upBound))"
  using assms by (auto simp: settledOptions_def)

lemma settled_issuer:
  assumes "settledOptions E V s s'" "ServiceAccounts (so_Authentication s) = Some sa"
  shows "\<exists>gen. so_ServiceAccountIssuer s' = Some gen \<and> issuedBy V (so_ServiceAccountSigningKeyFile s) (hd (Issuers sa)) gen"
  using assms by (auto simp: settledOptions_def)

lemma authenticationDefaults_client [simp]:
  "ClientCert (so_Authentication (authenticationDefaults V s)) = ClientCert (so_Authentication s)"
  "DelegatingConfig (so_Authentication (authenticationDefaults V s)) =
     (if so_EnableDelegatingAuthentication s then Some (delegatingDefaults (DefaultAuthWebhookRetryBackoff V))
      else DelegatingConfig (so_Authentication s))"
  by (auto simp: authenticationDefaults_def ApplyAuthorization_def Let_def split: option.splits)

lemma settled_client:
  assumes "settledOptions E V s s'"
  shows "ClientCert (so_Authentication s') = ClientCert (so_Authentication s) \<and>
    DelegatingConfig (so_Authentication s') =
      (if so_EnableDelegatingAuthentication s then Some (delegatingDefaults (DefaultAuthWebhookRetryBackoff V))
       else DelegatingConfig (so_Authentication s))"
  using assms by (auto simp: settledOptions_def withRanges_def)

lemma settled_authentication:
  assumes "settledOptions E V s s'"
  shows "ServiceAccounts (so_Authentication s') = ServiceAccounts (so_Authentication s) \<and>
    OIDC (so_Authentication s') = OIDC (so_Authentication s) \<and> WebHook (so_Authentication s') = WebHook (so_Authentication s) \<and>
    so_Authorization s' = so_Authorization s \<and> so_ServiceAccountSigningKeyFile s' = so_ServiceAccountSigningKeyFile s \<and>
    so_ExtraOptions s' = so_ExtraOptions s \<and> so_RuntimeConfig s' = enableAPIs (range_order E) (so_RuntimeConfig s) \<and>
    APIAudiences (so_Authentication s') = APIAudiences (so_Authentication s)"
  using assms by (auto simp: settledOptions_def)

lemma authenticationDefaults_anonymous:
  "\<not> ((case Anonymous (so_Authentication (authenticationDefaults V s)) of None \<Rightarrow> False | Some a \<Rightarrow> Allow a) \<and>
      ModeAlwaysAllow \<in> set (Modes (so_Authorization s)))"
  by (auto simp: authenticationDefaults_def ApplyAuthorization_def Let_def split: option.splits)

lemma settled_anonymous:
  assumes "settledOptions E V s s'"
  shows "\<not> ((case Anonymous (so_Authentication s') of None \<Rightarrow> False | Some a \<Rightarrow> Allow a) \<and>
      ModeAlwaysAllow \<in> set (Modes (so_Authorization s')))"
proof -
  from assms obtain t where t: "so_Authentication s' = so_Authentication (authenticationDefaults V t)"
    "so_Authorization s' = so_Authorization t" by (auto simp: settledOptions_def)
  show ?thesis unfolding t by (rule authenticationDefaults_anonymous)
qed

lemma enableAPIs_moved:
  assumes "range_ok ord" "mapWf m" "movedKey key"
  shows "mapGet (enableAPIs ord m) key = None"
proof -
  have "key \<noteq> ''/v1''" using assms(3) by auto
  moreover have "key \<in> fst ` set (mapRange ord m) \<or> mapGet m key = None"
  proof (cases "mapGet m key")
    case (Some v)
    then have "(key, v) \<in> set (mapRange ord m)" unfolding set_mapRange [OF assms(1,2)] mapGet_def by (rule map_of_SomeD)
    then show ?thesis by force
  qed simp
  ultimately show ?thesis using assms(3) by (auto simp: enableAPIs_def enableFold_other)
qed

section \<open>Paths\<close>

lemma Clean_extend:
  assumes "d \<noteq> []" "cleanStack d \<noteq> []" "plain n"
  shows "Clean (d @ ''/'' @ n) = Clean d @ ''/'' @ n"
  using assms Clean_snoc [OF assms(1,3)] by (simp add: Clean_def render_def joinWith_snoc)

lemma cleanStack_snoc:
  assumes "plain n"
  shows "cleanStack (d @ CHR ''/'' # n) \<noteq> []" "cleanStack n \<noteq> []"
proof -
  have "splitOn (CHR ''/'') n = [n]" using assms by (simp add: plain_def splitOn_no_sep)
  then show "cleanStack (d @ CHR ''/'' # n) \<noteq> []" "cleanStack n \<noteq> []"
    using assms by (simp_all add: cleanStack_def splitOn_sep cleanStep_def plain_def)
qed

lemma Clean_join_extend:
  assumes "plain m" "plain n"
  shows "Clean (joinWith ''/'' (fs @ [m, n])) = Clean (joinWith ''/'' (fs @ [m])) @ ''/'' @ n"
proof -
  have m: "m \<noteq> []" using assms(1) by (simp add: plain_def)
  have "cleanStack (joinWith ''/'' (fs @ [m])) \<noteq> []"
    using cleanStack_snoc [OF assms(1)] by (cases "fs = []") (simp_all add: joinWith_snoc)
  moreover have "joinWith ''/'' (fs @ [m]) \<noteq> []" using m by (cases "fs = []") (simp_all add: joinWith_snoc)
  ultimately show ?thesis
    using Clean_extend [OF _ _ assms(2)] joinWith_snoc [of "fs @ [m]" "''/''" n] by simp
qed

lemma Join_kept:
  assumes "m \<noteq> []"
  shows "Join (ms @ m # xs) = Clean (joinWith ''/'' (dropWhile (\<lambda>e. e = []) ms @ m # xs))"
proof -
  have "dropWhile (\<lambda>e. e = []) (ms @ m # xs) = dropWhile (\<lambda>e. e = []) ms @ m # xs"
    using assms by (induction ms) auto
  then show ?thesis unfolding Join_def by (simp split: list.splits)
qed

lemma Join_extend:
  assumes "plain m" "plain n"
  shows "Join (ms @ [m, n]) = Join (ms @ [m]) @ ''/'' @ n"
  using assms Clean_join_extend [OF assms] by (simp add: Join_kept plain_def)

lemma Join_certs2:
  assumes "plain a" "plain n"
  shows "Join [base, ''cert'', a, n] = CertsDirectory base @ ''/'' @ a @ ''/'' @ n"
  using Join_extend [of a n "[base, ''cert'']"] Join_extend [of "''cert''" a "[base]"] assms by (simp add: CertsDirectory_def)

lemma Join_certs:
  assumes "plain a" "plain b" "plain n"
  shows "Join [base, ''cert'', a, b, n] = CertsDirectory base @ ''/'' @ a @ ''/'' @ b @ ''/'' @ n"
  using Join_extend [of b n "[base, ''cert'', a]"] Join_certs2 [OF assms(1,2), of base] assms(2,3) by simp

end
