(* ===== verification/ServerProperties.thy ===== *)
theory ServerProperties
  imports ServerProofs CertProperties
begin

text \<open>
  The properties of the server options and of the embedded etcd, with their witnesses.
\<close>

section \<open>The pure part of applying a configuration\<close>

definition fileOptions ::
  "string \<Rightarrow> int \<Rightarrow> string \<Rightarrow> ('x, 'g) ServerRunOptions \<Rightarrow> ('x, 'g) ServerRunOptions" where
  "fileOptions dataDir bindPort certsDir s =
     s\<lparr>so_SecureServing := (so_SecureServing s)\<lparr>ss_BindPort := bindPort, ss_CertFile := ServingCertFile certsDir,
         ss_KeyFile := ServingKeyFile certsDir\<rparr>,
       so_Authentication := (so_Authentication s)
         \<lparr>ClientCert := map_option (\<lambda>c. c\<lparr>ClientCA := ClientCACertFile certsDir\<rparr>) (ClientCert (so_Authentication s)),
          ServiceAccounts := map_option (\<lambda>sa. sa\<lparr>KeyFiles := [ServiceAccountKeyFile certsDir]\<rparr>) (ServiceAccounts (so_Authentication s))\<rparr>,
       so_ExtraOptions := (so_ExtraOptions s)\<lparr>xo_ClientKeyFile := ClientCAKeyFile certsDir\<rparr>,
       so_KubeControllerManagerOptions := (so_KubeControllerManagerOptions s)
         \<lparr>SAController := map_option (\<lambda>c. c\<lparr>ServiceAccountKeyFilePath := ServiceAccountKeyFile certsDir\<rparr>)
            (SAController (so_KubeControllerManagerOptions s))\<rparr>,
       so_ServiceAccountSigningKeyFile := ServiceAccountKeyFile certsDir, so_ControlplaneDataDir := dataDir\<rparr>"

definition pointersSet :: "('x, 'g) ServerRunOptions \<Rightarrow> bool" where
  "pointersSet s = (ClientCert (so_Authentication s) \<noteq> None \<and> ServiceAccounts (so_Authentication s) \<noteq> None \<and>
     SAController (so_KubeControllerManagerOptions s) \<noteq> None)"

definition configured :: "'k kubeApi \<Rightarrow> ControlplaneRunConfig \<Rightarrow> ('x, 'g) ServerRunOptions \<Rightarrow> ('x, 'g) ServerRunOptions" where
  "configured K cfg s = fileOptions (DataDirectory cfg) (snd (portOf K cfg)) (CertsDirectory (DataDirectory cfg))
     (aggregatorFromConfig (Aggregator cfg) (etcdFromConfig cfg s))"

lemma filesFromConfig_run:
  assumes "pointersSet s"
  shows "filesFromConfig dataDir bindPort certsDir (h, s) = (Ok (), (h, fileOptions dataDir bindPort certsDir s))"
  using assms
  by (auto simp: pointersSet_def filesFromConfig_def fileOptions_def Let_def bindG_def modO_def getO_def deref_def returnG_def)

lemma portOf_keeps:
  "DataDirectory (fst (portOf K cfg)) = DataDirectory cfg" "Etcd (fst (portOf K cfg)) = Etcd cfg"
  "Aggregator (fst (portOf K cfg)) = Aggregator cfg"
  by (auto simp: portOf_def Let_def split: option.splits)

lemma pointersSet_config [simp]: "pointersSet (aggregatorFromConfig a (etcdFromConfig cfg s)) = pointersSet s"
  by (simp add: pointersSet_def aggregatorFromConfig_def etcdFromConfig_def onEmbedded_def transport_def Let_def)

lemma etcdFromConfig_port: "etcdFromConfig (fst (portOf K cfg)) s = etcdFromConfig cfg s"
  by (simp add: etcdFromConfig_def portOf_keeps)

section \<open>Inputs\<close>

definition demoComponents :: "unit ComponentConfig" where
  "demoComponents = \<lparr>cc_Generic = (),
     cc_CSRSigning = \<lparr>ClusterSigningCertFile = [], ClusterSigningKeyFile = [], KubeletServingSignerConfiguration = demoPair [],
       KubeletClientSignerConfiguration = demoPair [], KubeAPIServerClientSignerConfiguration = demoPair [],
       LegacyUnknownSignerConfiguration = demoPair [], ClusterSigningDuration = time_Hour\<rparr>,
     cc_GarbageCollector = \<lparr>ConcurrentGCSyncs = 20, GCIgnoredResources = [], EnableGarbageCollector = True\<rparr>,
     cc_Namespace = \<lparr>NamespaceSyncPeriod = time_Hour, ConcurrentNamespaceSyncs = 10\<rparr>,
     cc_SA = \<lparr>ServiceAccountKeyFilePath = [], ConcurrentSATokenSyncs = 5, RootCAFile = []\<rparr>\<rparr>"

definition demoEtcdLib :: etcdLib where
  "demoEtcdLib = \<lparr>InitialClusterFromName = concat, StartEtcd = (\<lambda>_. None), TLSClientConfig = (\<lambda>_. None),
     awaitStart = (\<lambda>_. ReadyNotify), Getenv_DISABLE_FSYNC = []\<rparr>"

definition demoServerLib :: "(string, unit) serverLib" where
  "demoServerLib = \<lparr>NewEtcdOptions = (\<lambda>p. \<lparr>eo_StorageType = [], eo_DefaultStorageMediaType = [], eo_Prefix = p, eo_ServerList = [],
       eo_TrustedCAFile = [], eo_CertFile = [], eo_KeyFile = [], eo_EnableWatchCache = False, eo_WatchCacheSizes = [],
       eo_SkipHealthEndpoints = False\<rparr>),
     genericAdmission = \<lparr>RegisteredPlugins = [''NamespaceLifecycle''], RecommendedPluginOrder = [], DefaultOffPlugins = [],
       EnablePlugins = [], DisablePlugins = []\<rparr>,
     DefaultAuthWebhookRetryBackoff = Some \<lparr>Steps = 5\<rparr>, managerDefaults = Ok demoComponents, gcDefaultIgnoredResources = [],
     DefaultAdvertiseAddress = (\<lambda>_ _. Ok ''10.1.1.1''), ParseCIDRSloppy = Ok, ServiceIPRange = (\<lambda>_. Ok (''10.0.0.0/8'', ''10.0.0.1'')),
     MaybeDefaultWithSelfSignedCerts = (\<lambda>_ _ _ s. Ok s), os_Hostname = Ok ''h'', IsValidServiceAccountKeyFile = (\<lambda>_. True),
     PrivateKeyFromFile = returnG, JWTTokenGenerator = (\<lambda>i k. Ok k), DefaultWatchCacheSizes = [], gr_Parse = (\<lambda>x. x),
     gr_String = (\<lambda>x. x), gr_order = (\<lambda>x. x), etcdlib = demoEtcdLib, yaml_Unmarshal = (\<lambda>_. Err (ExternalError []))\<rparr>"

definition demoEtcdState :: etcdState where
  "demoEtcdState = \<lparr>SegmentSizeBytes = 64000000, etcdRunning = False\<rparr>"

definition demoOptions :: "(string, unit) ServerRunOptions" where
  "demoOptions = (case NewServerRunOptions demoServerLib of Ok s \<Rightarrow> s | _ \<Rightarrow> undefined)"

lemma demoOptions_new: "NewServerRunOptions demoServerLib = Ok demoOptions"
  by (simp add: demoOptions_def NewServerRunOptions_def NewKubeControllerManagerOptions_def demoServerLib_def)

text \<open>Options made by \<open>NewServerRunOptions\<close>, by what the properties look at.\<close>

lemma NewServerRunOptions_sel:
  assumes "NewServerRunOptions V = Ok s"
  shows "so_Authentication s = defaultAuthentication (DefaultAuthWebhookRetryBackoff V)"
    and "Modes (so_Authorization s) = [''RBAC'']" "PolicyFile (so_Authorization s) = []" "WebhookConfigFile (so_Authorization s) = []"
    and "authz_WebhookRetryBackoff (so_Authorization s) = DefaultAuthWebhookRetryBackoff V"
    and "xo_EmbeddedEtcd (so_ExtraOptions s) = NewEmbeddedEtcd" "so_RuntimeConfig s = []"
    and "SAController (so_KubeControllerManagerOptions s) \<noteq> None"
  using assms
  by (auto simp: NewServerRunOptions_def NewKubeControllerManagerOptions_def NewBuiltInAuthorizationOptions_def split: outcome.splits)

lemma defaultAuthentication_sel:
  "ServiceAccounts (defaultAuthentication b) = Some \<lparr>KeyFiles = [], Lookup = True, Issuers = [''https://kubernetes.default.svc''],
     JWKSURI = [], MaxExpiration = 0, ExtendExpiration = True\<rparr>"
  "ClientCert (defaultAuthentication b) = Some \<lparr>ClientCA = []\<rparr>" "APIAudiences (defaultAuthentication b) = []"
  "WebHook (defaultAuthentication b) = Some \<lparr>wh_ConfigFile = [], wh_Version = ''v1beta1'', wh_CacheTTL = 2 * time_Minute, wh_RetryBackoff = b\<rparr>"
  "OIDC (defaultAuthentication b) = Some \<lparr>oidc_CAFile = [], ClientID = [], IssuerURL = [], UsernameClaim = [], UsernamePrefix = [],
     GroupsClaim = [], GroupsPrefix = [], SigningAlgs = [], RequiredClaims = []\<rparr>"
  by (simp_all add: defaultAuthentication_def WithAll_def WithWebHook_def WithTokenFile_def WithServiceAccounts_def
      WithRequestHeader_def WithOIDC_def WithClientCert_def WithBootstrapToken_def WithAnonymous_def Let_def)

lemma configured_sel:
  "ServiceAccounts (so_Authentication (configured K cfg s)) =
     map_option (\<lambda>sa. sa\<lparr>KeyFiles := [ServiceAccountKeyFile (CertsDirectory (DataDirectory cfg))]\<rparr>) (ServiceAccounts (so_Authentication s))"
  "OIDC (so_Authentication (configured K cfg s)) = OIDC (so_Authentication s)"
  "WebHook (so_Authentication (configured K cfg s)) = WebHook (so_Authentication s)"
  "so_Authorization (configured K cfg s) = so_Authorization s"
  "so_RuntimeConfig (configured K cfg s) = so_RuntimeConfig s"
  "so_ServiceAccountSigningKeyFile (configured K cfg s) = ServiceAccountKeyFile (CertsDirectory (DataDirectory cfg))"
  "ee_PeerPort (xo_EmbeddedEtcd (so_ExtraOptions (configured K cfg s))) = ee_PeerPort (xo_EmbeddedEtcd (so_ExtraOptions s))"
  "ee_ClientPort (xo_EmbeddedEtcd (so_ExtraOptions (configured K cfg s))) = ee_ClientPort (xo_EmbeddedEtcd (so_ExtraOptions s))"
  by (simp_all add: configured_def fileOptions_def aggregatorFromConfig_def etcdFromConfig_def onEmbedded_def transport_def Let_def)

lemma key_file_set [simp]: "ServiceAccountKeyFile d \<noteq> []"
  by (auto simp: ServiceAccountKeyFile_def ServiceAccountKeyFileName_def Join_def)

lemma new_pointersSet: "NewServerRunOptions V = Ok s \<Longrightarrow> pointersSet s"
  by (simp add: pointersSet_def NewServerRunOptions_sel defaultAuthentication_sel)

section \<open>Properties\<close>



text \<open>
  C13: when the completion succeeds on options with a signing key and a first service account issuer,
  token requests are enabled as the validation wants them, with a lifetime that is unlimited or lies
  between one hour and \<open>2^32\<close> seconds; anonymous requests are not combined with allowing everything;
  and the runtime configuration names the core version, if at all, only as \<open>/v1\<close>.
\<close>

theorem completed_options:
  assumes run: "completeRest E V (h, s) = (Ok u, (h', s'))" and lib: "range_ok (range_order E)" "mapWf (so_RuntimeConfig s)"
    and s: "so_ServiceAccountSigningKeyFile s \<noteq> []" "ServiceAccounts (so_Authentication s) = Some sa" "Issuers sa = issuer # rest" "issuer \<noteq> []"
  shows "validateTokenRequest s' = Ok [] \<and>
    (so_ServiceAccountTokenMaxExpiration s' = 0 \<or>
       lowBound \<le> so_ServiceAccountTokenMaxExpiration s' \<and> so_ServiceAccountTokenMaxExpiration s' \<le> upBound) \<and>
    \<not> ((case Anonymous (so_Authentication s') of None \<Rightarrow> False | Some a \<Rightarrow> Allow a) \<and> ModeAlwaysAllow \<in> set (Modes (so_Authorization s'))) \<and>
    (\<forall>key. movedKey key \<longrightarrow> mapGet (so_RuntimeConfig s') key = None)"
proof -
  have set: "settledOptions E V s s'" using completeRest_Ok [OF run] s by simp
  note au = settled_authentication [OF set]
  have "validateTokenRequest s' = Ok []"
    using settled_token [OF set] au s by (auto simp: validateTokenRequest_def Let_def split: list.splits)
  moreover have "so_ServiceAccountTokenMaxExpiration s' = 0 \<or>
       lowBound \<le> so_ServiceAccountTokenMaxExpiration s' \<and> so_ServiceAccountTokenMaxExpiration s' \<le> upBound"
    using settled_token [OF set] by auto
  moreover have "\<forall>key. movedKey key \<longrightarrow> mapGet (so_RuntimeConfig s') key = None"
    using enableAPIs_moved [OF lib] au by simp
  ultimately show ?thesis using settled_anonymous [OF set] by blast
qed

lemma demo_configured_sel:
  "so_ServiceClusterIPRanges (configured K cfg demoOptions) = ''10.0.0.0/8''" "so_ExternalHost (configured K cfg demoOptions) = []"
  "eo_EnableWatchCache (so_Etcd (configured K cfg demoOptions)) = False"
  "so_Authentication demoOptions = defaultAuthentication (Some \<lparr>Steps = 5\<rparr>)"
  by (simp_all add: configured_def fileOptions_def aggregatorFromConfig_def etcdFromConfig_def onEmbedded_def transport_def Let_def
      demoOptions_def NewServerRunOptions_def NewKubeControllerManagerOptions_def demoServerLib_def)

lemma demoServerLib_sel:
  "DefaultAdvertiseAddress demoServerLib = (\<lambda>_ _. Ok ''10.1.1.1'')" "ParseCIDRSloppy demoServerLib = Ok"
  "ServiceIPRange demoServerLib = (\<lambda>_. Ok (''10.0.0.0/8'', ''10.0.0.1''))"
  "MaybeDefaultWithSelfSignedCerts demoServerLib = (\<lambda>_ _ _ s. Ok s)" "PrivateKeyFromFile demoServerLib = returnG"
  "JWTTokenGenerator demoServerLib = (\<lambda>i k. Ok k)" "etcdlib demoServerLib = demoEtcdLib"
  by (simp_all add: demoServerLib_def)

lemma demo_ranges:
  "so_ServiceClusterIPRanges t = ''10.0.0.0/8'' \<Longrightarrow> serviceIPRanges demoServerLib (h, t) =
     (Ok (), (h, t\<lparr>so_PrimaryServiceClusterIPRange := Some ''10.0.0.0/8'', so_APIServerServiceIP := Some ''10.0.0.1''\<rparr>))"
  by (simp add: serviceIPRanges_def bindG_def getO_def Let_def returnG_def wrapG_def ofO_def modO_def demoServerLib_sel)

lemma demo_host:
  "so_ExternalHost t = [] \<Longrightarrow> so_AdvertiseAddress t \<noteq> [] \<Longrightarrow>
     externalHost demoServerLib (h, t) = (Ok (), (h, t\<lparr>so_ExternalHost := so_AdvertiseAddress t\<rparr>))"
  by (simp add: externalHost_def bindG_def getO_def modO_def)

lemma demo_token:
  assumes "so_ServiceAccountSigningKeyFile t \<noteq> []" "ServiceAccounts (so_Authentication t) = Some sa" "Issuers sa = [issuer]" "issuer \<noteq> []"
    "MaxExpiration sa = 0"
  shows "\<exists>h' t'. tokenIssuer demoServerLib (h, t) = (Ok (), (h', t')) \<and> so_Etcd t' = so_Etcd t"
  using assms
  by (simp add: tokenIssuer_def bindG_def getO_def deref_def returnG_def modO_def wrapG_def ofO_def onHost_def onFS_def zoomG_def
      demoServerLib_sel case_prod_beta)

lemma demo_etcd: "\<exists>h' t'. startEmbeddedEtcd demoServerLib (h, t) = (Ok (), (h', t'))"
  by (cases h) (simp add: startEmbeddedEtcd_def bindG_def getO_def Let_def returnG_def modO_def onEtcd_def zoomG_def demoServerLib_sel
      etcdRun_def demoEtcdLib_def)

lemma demo_completes_any:
  assumes "so_ServiceClusterIPRanges s = ''10.0.0.0/8''" "so_ExternalHost s = []" "eo_EnableWatchCache (so_Etcd s) = False"
    "so_ServiceAccountSigningKeyFile s \<noteq> []" "ServiceAccounts (so_Authentication s) = Some sa" "Issuers sa = [issuer]" "issuer \<noteq> []"
    "MaxExpiration sa = 0"
  shows "\<exists>h' s'. completeRest simEnv demoServerLib (h, s) = (Ok (), (h', s'))"
proof -
  let ?s = "s\<lparr>so_AdvertiseAddress := ''10.1.1.1'',
    so_PrimaryServiceClusterIPRange := Some ''10.0.0.0/8'', so_APIServerServiceIP := Some ''10.0.0.1'', so_ExternalHost := ''10.1.1.1''\<rparr>"
  let ?t = "authenticationDefaults demoServerLib ?s"
  have e: "so_Etcd ?t = so_Etcd s" by (simp add: authenticationDefaults_def Let_def)
  obtain h1 t1 where tok: "tokenIssuer demoServerLib (h, ?t) = (Ok (), (h1, t1))" "so_Etcd t1 = so_Etcd ?t"
    using demo_token [of ?t sa issuer h] assms by auto
  obtain h2 t2 where et: "startEmbeddedEtcd demoServerLib (h1, t1) = (Ok (), (h2, t2))" using demo_etcd by blast
  have kf: "keyFilesDefault demoServerLib (h, ?t) = (Ok (), (h, ?t))"
    using assms(4) by (simp add: keyFilesDefault_def bindG_def getO_def returnG_def)
  have wc: "watchCacheSizes demoServerLib (h1, t1) = (Ok (), (h1, t1))"
    using tok(2) e assms(3) by (simp add: watchCacheSizes_def bindG_def getO_def returnG_def)
  show ?thesis
    using kf tok(1) wc et assms(1,2)
    by (simp add: completeRest_def bindG_def getO_def ofO_def modO_def wrapG_def demoServerLib_sel demo_ranges demo_host)
qed

lemma demo_completes:
  "\<exists>h' s'. completeRest simEnv demoServerLib (h, (configured K cfg demoOptions)\<lparr>so_RuntimeConfig := rc\<rparr>) = (Ok (), (h', s'))"
  by (rule demo_completes_any [where issuer = "''https://kubernetes.default.svc''" and sa =
      "\<lparr>KeyFiles = [ServiceAccountKeyFile (CertsDirectory (DataDirectory cfg))], Lookup = True,
        Issuers = [''https://kubernetes.default.svc''], JWKSURI = [], MaxExpiration = 0, ExtendExpiration = True\<rparr>"])
    (simp_all add: demo_configured_sel configured_sel defaultAuthentication_sel)

theorem completed_options_witness:
  "\<exists>h' s'. completeRest simEnv demoServerLib (((simWorld, ()), demoEtcdState),
       (configured outsideApi demoCfg demoOptions)\<lparr>so_RuntimeConfig := [(''api/v1'', ''true'')]\<rparr>) = (Ok (), (h', s')) \<and>
     validateTokenRequest s' = Ok [] \<and> mapGet (so_RuntimeConfig s') ''api/v1'' = None"
proof -
  let ?s = "(configured outsideApi demoCfg demoOptions)\<lparr>so_RuntimeConfig := [(''api/v1'', ''true'')]\<rparr>"
  obtain h' s' where run: "completeRest simEnv demoServerLib (((simWorld, ()), demoEtcdState), ?s) = (Ok (), (h', s'))"
    using demo_completes by blast
  have "movedKey ''api/v1''" by (simp add: movedKey_def isCoreV1_def)
  with completed_options [OF run] run show ?thesis
    by (simp add: configured_sel demo_configured_sel defaultAuthentication_sel mapWf_def)
qed

text \<open>
  C30: the options of a new server, configured and completed with success, pass their own validation:
  no error comes from authentication, authorization, token requests or the embedded etcd, so what the
  validation reports are the errors of the libraries only.
\<close>

theorem defaults_validate:
  assumes new: "NewServerRunOptions V = Ok s0" and run: "completeRest E V (h, configured K cfg s0) = (Ok u, (h', s))"
    and backoff: "backoffOk (DefaultAuthWebhookRetryBackoff V)" and mode: "v_isValidMode W ''RBAC''"
    and url: "isOk (v_urlParse W ''https://kubernetes.default.svc'')" "\<forall>u p. v_urlParse W u \<noteq> Panic p"
    and ord: "range_ok (range_order E)"
  shows "optionsValidate W s = Ok (v_Etcd W (so_Etcd s) @ v_SecureServing W (so_SecureServing s) @ v_Audit W @
    v_Admission W (so_Admission s) @ v_APIEnablement W (so_RuntimeConfig s) @ v_Metrics W)"
proof -
  let ?s = "configured K cfg s0"
  note sel = NewServerRunOptions_sel [OF new]
  have sa: "ServiceAccounts (so_Authentication ?s) = Some \<lparr>KeyFiles = [ServiceAccountKeyFile (CertsDirectory (DataDirectory cfg))],
      Lookup = True, Issuers = [''https://kubernetes.default.svc''], JWKSURI = [], MaxExpiration = 0, ExtendExpiration = True\<rparr>"
    by (simp add: configured_sel sel defaultAuthentication_sel)
  have set: "settledOptions E V ?s s" using completeRest_Ok [OF run] sa by (simp add: configured_sel)
  note au = settled_authentication [OF set]
  have "authnValidate (v_urlParse W) (so_Authentication s) = []"
    using au sa backoff url by (simp add: authnValidate_iff saOk_def configured_sel sel(1) defaultAuthentication_sel)
  moreover have "authzValidate (v_isValidMode W) (Some (so_Authorization s)) = []"
    using au sel mode backoff
    by (simp add: configured_sel authzValidate_def validateMode_def ModeABAC_def ModeWebhook_def validateBackoff_iff)
  moreover have "validateTokenRequest s = Ok []"
    using settled_token [OF set] au sa by (auto simp: configured_sel validateTokenRequest_def Let_def split: list.splits)
  moreover have "embeddedValidate (xo_EmbeddedEtcd (so_ExtraOptions s)) = []"
    using au sel by (simp add: configured_sel embeddedValidate_def NewEmbeddedEtcd_def)
  ultimately show ?thesis by (simp add: optionsValidate_def bindO_def)
qed

definition demoValidators :: "(string, unit) validators" where
  "demoValidators = \<lparr>v_Etcd = (\<lambda>_. []), v_SecureServing = (\<lambda>_. []), v_Audit = [], v_Admission = (\<lambda>_. []), v_APIEnablement = (\<lambda>_. []),
     v_Metrics = [], v_urlParse = demoParse, v_isValidMode = (\<lambda>m. m \<in> {''RBAC'', ''Webhook''})\<rparr>"

theorem defaults_validate_witness:
  "\<exists>h' s. completeRest simEnv demoServerLib (((simWorld, ()), demoEtcdState), configured outsideApi demoCfg demoOptions) = (Ok (), (h', s)) \<and>
     optionsValidate demoValidators s = Ok []"
proof -
  have "(configured outsideApi demoCfg demoOptions)\<lparr>so_RuntimeConfig := so_RuntimeConfig (configured outsideApi demoCfg demoOptions)\<rparr> =
      configured outsideApi demoCfg demoOptions" by simp
  with demo_completes obtain h' s where
    run: "completeRest simEnv demoServerLib (((simWorld, ()), demoEtcdState), configured outsideApi demoCfg demoOptions) = (Ok (), (h', s))"
    by metis
  have "optionsValidate demoValidators s = Ok (v_Etcd demoValidators (so_Etcd s) @ v_SecureServing demoValidators (so_SecureServing s) @
      v_Audit demoValidators @ v_Admission demoValidators (so_Admission s) @ v_APIEnablement demoValidators (so_RuntimeConfig s) @
      v_Metrics demoValidators)"
    by (rule defaults_validate [OF demoOptions_new run])
      (simp_all add: demoServerLib_def backoffOk_def demoValidators_def demoParse_def isOk_def)
  with run show ?thesis by (simp add: demoValidators_def)
qed

lemma etcdTLS_names:
  "etcdTLS base = \<lparr>ti_ServerName = ''localhost'',
     ti_CertFile = Join [base, ''cert'', EtcdCACertDirName, PeerCertDirName, PeerCertFileName],
     ti_KeyFile = Join [base, ''cert'', EtcdCACertDirName, PeerCertDirName, PeerKeyFileName],
     ti_TrustedCAFile = Join [base, ''cert'', EtcdCACertDirName, CACertFileName], ti_ClientCertAuth = True\<rparr>"
  by (simp add: etcdTLS_def EtcdCACertDirName_def PeerCertDirName_def PeerCertFileName_def PeerKeyFileName_def CACertFileName_def)

lemma layoutPaths:
  assumes "cleanDir d" "plain a" "plain n"
  shows "Join [Join [d, a], n] = d @ ''/'' @ a @ ''/'' @ n"
    and "plain b \<Longrightarrow> Join [d @ CHR ''/'' # a @ CHR ''/'' # b, n] = d @ ''/'' @ a @ ''/'' @ b @ ''/'' @ n"
    and "plain b \<Longrightarrow> Join [Join [d, a], b, n] = d @ ''/'' @ a @ ''/'' @ b @ ''/'' @ n"
  using assms cleanDir_append [OF cleanDir_append [OF assms(1,2)]] cleanDir_append [OF assms(1,2)]
  by (simp_all add: Join_plain Join_plain3 cleanDir_Join)

text \<open>
  C32: the files that the server is configured with are the ones that the certificate component issues,
  for every data directory: the embedded etcd reads the pair of the peer certificate that its authority
  is asked for, in the directory of that authority, and trusts the certificate of the authority itself;
  the server serves the pair of its serving certificate; and clients are checked against the client
  authority.
\<close>

theorem issued_files_are_read:
  "etcdTLS base = \<lparr>ti_ServerName = ''localhost'',
     ti_CertFile = PeerCertPath (Join [bDir (etcdSigner (CertsDirectory base)), PeerCertDirName]),
     ti_KeyFile = PeerKeyPath (Join [bDir (etcdSigner (CertsDirectory base)), PeerCertDirName]),
     ti_TrustedCAFile = CACertPath (bDir (etcdSigner (CertsDirectory base))), ti_ClientCertAuth = True\<rparr> \<and>
   PeerCertDirName \<in> csrName ` set (bCerts (etcdSigner (CertsDirectory base))) \<and>
   ServingCertFile (CertsDirectory base) = ServingCertPath (Join [bDir (serverSigner cfg ns (CertsDirectory base)), KubeApiserverCertDirName]) \<and>
   ServingKeyFile (CertsDirectory base) = ServingKeyPath (Join [bDir (serverSigner cfg ns (CertsDirectory base)), KubeApiserverCertDirName]) \<and>
   KubeApiserverCertDirName \<in> csrName ` set (bCerts (serverSigner cfg ns (CertsDirectory base))) \<and>
   ClientCACertFile (CertsDirectory base) = CACertPath (bDir (clientSigner (CertsDirectory base))) \<and>
   ClientCAKeyFile (CertsDirectory base) = CAKeyPath (bDir (clientSigner (CertsDirectory base)))"
  unfolding etcdTLS_names
  by (simp add: Join_certs Join_certs2 PeerCertPath_def PeerKeyPath_def CACertPath_def CAKeyPath_def ServingCertPath_def ServingKeyPath_def
      signerDefs EtcdCACertDir_def ServerCACertDir_def ClientCACertDir_def ServingCertFile_def ServingKeyFile_def ClientCACertFile_def
      ClientCAKeyFile_def csrName_def meta_def layoutPaths cleanDir_Certs)

text \<open>
  C33: the loop that enables APIs, in whatever order it meets the keys, removes every key of the core
  version and the legacy key, leaves every other key but \<open>/v1\<close> as it was, and sets \<open>/v1\<close> to the value of
  one of the removed core keys when there is one, and otherwise leaves it alone.
\<close>

theorem enable_apis_exact:
  assumes "range_ok ord" "mapWf m"
  shows "(\<forall>key. movedKey key \<longrightarrow> mapGet (enableAPIs ord m) key = None) \<and>
    (\<forall>key. \<not> movedKey key \<longrightarrow> key \<noteq> ''/v1'' \<longrightarrow> mapGet (enableAPIs ord m) key = mapGet m key) \<and>
    (if \<exists>key. isCoreV1 key \<and> mapGet m key \<noteq> None
     then \<exists>key. isCoreV1 key \<and> mapGet m key \<noteq> None \<and> mapGet (enableAPIs ord m) ''/v1'' = mapGet m key
     else mapGet (enableAPIs ord m) ''/v1'' = mapGet m ''/v1'')"
proof -
  let ?core = "filter (\<lambda>kv. isCoreV1 (fst kv)) (mapRange ord m)"
  have in_core: "set ?core = {(k, v). isCoreV1 k \<and> mapGet m k = Some v}"
    using set_mapRange [OF assms] assms(2) by (auto simp: mapGet_def mapWf_def)
  have v1: "mapGet (enableAPIs ord m) ''/v1'' = (case rev ?core of [] \<Rightarrow> mapGet m ''/v1'' | kv # _ \<Rightarrow> Some (snd kv))"
    by (simp add: enableAPIs_def enableFold_v1)
  have "if \<exists>key. isCoreV1 key \<and> mapGet m key \<noteq> None
     then \<exists>key. isCoreV1 key \<and> mapGet m key \<noteq> None \<and> mapGet (enableAPIs ord m) ''/v1'' = mapGet m key
     else mapGet (enableAPIs ord m) ''/v1'' = mapGet m ''/v1''"
  proof (cases "rev ?core")
    case Nil
    then have "?core = []" by simp
    then show ?thesis using in_core v1 Nil by auto
  next
    case (Cons kv rest)
    then have "kv \<in> set ?core" by (metis list.set_intros(1) set_rev)
    then have "isCoreV1 (fst kv)" "mapGet m (fst kv) = Some (snd kv)" unfolding in_core by auto
    then show ?thesis using v1 Cons by auto
  qed
  then show ?thesis
    using enableAPIs_moved [OF assms] by (auto simp: enableAPIs_def enableFold_other)
qed

theorem enable_apis_exact_witness:
  "mapGet (enableAPIs (\<lambda>ks. ks) [(''v1'', ''true''), (''apps/v1'', ''false'')]) ''v1'' = None \<and>
   mapGet (enableAPIs (\<lambda>ks. ks) [(''v1'', ''true''), (''apps/v1'', ''false'')]) ''apps/v1'' = Some ''false''"
proof -
  let ?m = "[(''v1'', ''true''), (''apps/v1'', ''false'')]"
  have "movedKey ''v1''" "\<not> movedKey ''apps/v1''" "mapGet ?m ''apps/v1'' = Some ''false''"
    by (simp_all add: movedKey_def isCoreV1_def hasPrefix_def mapGet_def)
  then show ?thesis
    using enable_apis_exact [of "\<lambda>ks. ks" ?m] by (simp add: mapWf_def range_ok_def)
qed

text \<open>
  Without a service address range the completion does not fall back to the default range of the
  library: it computes it, and then panics on the first element of the empty list of ranges.
\<close>

theorem empty_service_range_panics:
  assumes "so_ServiceClusterIPRanges s = []" "DefaultAdvertiseAddress V (so_SecureServing s) (so_AdvertiseAddress s) = Ok addr"
    and "ServiceIPRange V None = Ok (rng, ip)"
  shows "\<exists>s'. completeRest E V (h, s) = (Panic ''index out of range'', (h, s')) \<and> so_PrimaryServiceClusterIPRange s' = Some rng"
  using assms
  by (simp add: completeRest_def bindG_def getO_def ofO_def modO_def serviceIPRanges_def wrapG_def panicG_def Let_def)

theorem empty_service_range_panics_witness:
  "\<exists>s'. completeRest simEnv demoServerLib (((simWorld, ()), demoEtcdState), demoOptions\<lparr>so_ServiceClusterIPRanges := []\<rparr>) =
     (Panic ''index out of range'', (((simWorld, ()), demoEtcdState), s')) \<and> so_PrimaryServiceClusterIPRange s' = Some ''10.0.0.0/8''"
  by (rule empty_service_range_panics) (simp_all add: demoServerLib_sel)

end
