(* ===== verification/Aggregator.thy ===== *)
theory Aggregator
  imports Prelude
begin

text \<open>
  The aggregator (\<open>servers/aggregator.go\<close>): which API services are registered for the paths of the
  delegate, with which priorities, and the health check that waits until all of them have been seen
  available. The lock of the health check makes its handlers atomic, so the handlers are steps.
\<close>

section \<open>Priorities and services\<close>

record GroupVersion =
  gv_Group :: string
  gv_Version :: string

record priority =
  p_group :: int
  p_version :: int

definition gv :: "string \<Rightarrow> string \<Rightarrow> GroupVersion" where
  "gv g v = \<lparr>gv_Group = g, gv_Version = v\<rparr>"

definition prio :: "int \<Rightarrow> int \<Rightarrow> priority" where
  "prio g v = \<lparr>p_group = g, p_version = v\<rparr>"

definition apiVersionPriorities :: "(GroupVersion \<times> priority) list" where
  "apiVersionPriorities =
    [(gv [] ''v1'', prio 18000 1),
     (gv ''events.k8s.io'' ''v1'', prio 17750 15),
     (gv ''events.k8s.io'' ''v1beta1'', prio 17750 5),
     (gv ''authentication.k8s.io'' ''v1'', prio 17700 15),
     (gv ''authorization.k8s.io'' ''v1'', prio 17600 15),
     (gv ''certificates.k8s.io'' ''v1'', prio 17300 15),
     (gv ''rbac.authorization.k8s.io'' ''v1'', prio 17000 15),
     (gv ''apiextensions.k8s.io'' ''v1'', prio 16700 15),
     (gv ''admissionregistration.k8s.io'' ''v1'', prio 16700 15),
     (gv ''coordination.k8s.io'' ''v1'', prio 16500 15),
     (gv ''discovery.k8s.io'' ''v1'', prio 16200 15),
     (gv ''discovery.k8s.io'' ''v1beta1'', prio 16200 12),
     (gv ''flowcontrol.apiserver.k8s.io'' ''v1beta2'', prio 16100 15),
     (gv ''flowcontrol.apiserver.k8s.io'' ''v1beta1'', prio 16100 12),
     (gv ''flowcontrol.apiserver.k8s.io'' ''v1alpha1'', prio 16100 9),
     (gv ''internal.apiserver.k8s.io'' ''v1alpha1'', prio 16000 9)]"

record APIService =
  svc_Name :: string
  svc_Group :: string
  svc_Version :: string
  GroupPriorityMinimum :: int
  VersionPriority :: int

definition makeAPIService :: "GroupVersion \<Rightarrow> APIService option" where
  "makeAPIService g = (case map_of apiVersionPriorities g of
     None \<Rightarrow> None
   | Some p \<Rightarrow> Some \<lparr>svc_Name = gv_Version g @ ''.'' @ gv_Group g, svc_Group = gv_Group g, svc_Version = gv_Version g,
       GroupPriorityMinimum = p_group p, VersionPriority = p_version p\<rparr>)"

text \<open>
  The registration keeps the services to be synchronised at the start, in the order of the calls; it
  is handed a nil service for a core version without priority, which it dereferences.
\<close>

definition pathService :: "string \<Rightarrow> APIService option outcome" where
  "pathService path =
     (if path = ''/api/v1'' then
        (case makeAPIService (gv [] ''v1'') of None \<Rightarrow> Panic ''nil pointer dereference'' | Some s \<Rightarrow> Ok (Some s))
      else if \<not> hasPrefix path ''/apis/'' then Ok None
      else (let tokens = splitOn (CHR ''/'') path in
        if length tokens \<noteq> 4 then Ok None else Ok (makeAPIService (gv (tokens ! 2) (tokens ! 3)))))"

fun apiServicesToRegister :: "string list \<Rightarrow> APIService list \<Rightarrow> (APIService list, APIService list) go" where
  "apiServicesToRegister [] apiServices = returnG apiServices"
| "apiServicesToRegister (path # rest) apiServices = (case pathService path of
     Ok None \<Rightarrow> apiServicesToRegister rest apiServices
   | Ok (Some s) \<Rightarrow> bindG (\<lambda>registered. (Ok (), registered @ [s])) (\<lambda>_. apiServicesToRegister rest (apiServices @ [s]))
   | Err e \<Rightarrow> failG e | Panic p \<Rightarrow> panicG p)"

section \<open>The health check\<close>

text \<open>An event shows a service by its name and whether its condition \<open>Available\<close> is true.\<close>

record serviceEvent =
  ev_Name :: string
  ev_Available :: bool

definition initialPending :: "APIService list \<Rightarrow> string set" where
  "initialPending apiServices = set (map svc_Name apiServices)"

definition handleAPIServiceChange :: "serviceEvent \<Rightarrow> string set \<Rightarrow> string set" where
  "handleAPIServiceChange service pendingServiceNames =
     (if ev_Name service \<notin> pendingServiceNames then pendingServiceNames
      else if ev_Available service then pendingServiceNames - {ev_Name service} else pendingServiceNames)"

definition healthCheck :: "string set \<Rightarrow> goerr option" where
  "healthCheck pendingServiceNames =
     (if card pendingServiceNames > 0
      then Some (Errorf ''missing APIService: %v'' (sorted_list_of_set pendingServiceNames)) else None)"

text \<open>The check as it runs: add and update events in any number, and requests in between.\<close>

inductive checkReach :: "APIService list \<Rightarrow> serviceEvent list \<Rightarrow> string set \<Rightarrow> bool" for apiServices :: "APIService list" where
  created: "checkReach apiServices [] (initialPending apiServices)"
| event: "checkReach apiServices es p \<Longrightarrow> checkReach apiServices (es @ [e]) (handleAPIServiceChange e p)"

inductive_cases checkReachE: "checkReach apiServices es p"

section \<open>Facts\<close>

lemma checkReach_fold: "checkReach apiServices es p \<longleftrightarrow> p = fold handleAPIServiceChange es (initialPending apiServices)"
proof
  show "checkReach apiServices es p \<Longrightarrow> p = fold handleAPIServiceChange es (initialPending apiServices)"
    by (induction rule: checkReach.induct) auto
  have "checkReach apiServices es (fold handleAPIServiceChange es (initialPending apiServices))"
    by (induction es rule: rev_induct) (auto intro: checkReach.intros)
  then show "p = fold handleAPIServiceChange es (initialPending apiServices) \<Longrightarrow> checkReach apiServices es p" by simp
qed

lemma pending_fold:
  "fold handleAPIServiceChange es p = {n \<in> p. \<forall>e\<in>set es. ev_Name e = n \<longrightarrow> \<not> ev_Available e}"
  by (induction es arbitrary: p) (auto simp: handleAPIServiceChange_def)

text \<open>What the paths of the delegate ask for: a group and a version.\<close>

definition pathGV :: "string \<Rightarrow> GroupVersion option" where
  "pathGV p =
     (if p = ''/api/v1'' then Some (gv [] ''v1'')
      else case splitOn (CHR ''/'') p of [r, a, g, v] \<Rightarrow> if r = [] \<and> a = ''apis'' then Some (gv g v) else None | _ \<Rightarrow> None)"

lemma core_known: "makeAPIService (gv [] ''v1'') = Some \<lparr>svc_Name = ''v1.'', svc_Group = [], svc_Version = ''v1'',
    GroupPriorityMinimum = 18000, VersionPriority = 1\<rparr>"
  by (simp add: makeAPIService_def apiVersionPriorities_def gv_def prio_def)

lemma apis_prefix_split:
  assumes "splitOn (CHR ''/'') p = [r, a, g, v]"
  shows "hasPrefix p ''/apis/'' \<longleftrightarrow> r = [] \<and> a = ''apis''"
proof -
  have p: "p = r @ ''/'' @ a @ ''/'' @ g @ ''/'' @ v" using joinWith_splitOn [of "CHR ''/''" p] by (simp add: assms)
  have no: "CHR ''/'' \<notin> set r" "CHR ''/'' \<notin> set a" using splitOn_tokens_no_sep [of _ "CHR ''/''" p] by (simp_all add: assms)
  show ?thesis
  proof
    assume "hasPrefix p ''/apis/''"
    then have "take 6 p = ''/apis/''" by (auto simp: hasPrefix_def prefix_def)
    then obtain rest where e: "p = ''/apis/'' @ rest" by (metis append_take_drop_id)
    have "splitOn (CHR ''/'') p = [] # ''apis'' # splitOn (CHR ''/'') rest"
      using splitOn_append_sep [of "CHR ''/''" "''apis''" rest] by (simp add: e)
    then show "r = [] \<and> a = ''apis''" using assms by simp
  next
    assume "r = [] \<and> a = ''apis''"
    then show "hasPrefix p ''/apis/''" by (simp add: p hasPrefix_def prefix_def)
  qed
qed

lemma pathService_gv: "pathService p = Ok (case pathGV p of None \<Rightarrow> None | Some g \<Rightarrow> makeAPIService g)"
proof (cases "p = ''/api/v1''")
  case True
  then show ?thesis by (simp add: pathService_def pathGV_def core_known)
next
  case False
  show ?thesis
  proof (cases "\<exists>r a g v. splitOn (CHR ''/'') p = [r, a, g, v]")
    case True
    then obtain r a g v where s: "splitOn (CHR ''/'') p = [r, a, g, v]" by blast
    show ?thesis using False by (simp add: pathService_def pathGV_def s apis_prefix_split [OF s] numeral_2_eq_2 numeral_3_eq_3)
  next
    case other: False
    then have "length (splitOn (CHR ''/'') p) \<noteq> 4" by (auto simp: length_Suc_conv numeral_eq_Suc)
    moreover have "pathGV p = None" using other False by (auto simp: pathGV_def split: list.splits)
    ultimately show ?thesis using False by (simp add: pathService_def Let_def)
  qed
qed

definition knownServices :: "string list \<Rightarrow> APIService list" where
  "knownServices paths = List.map_filter (\<lambda>p. Option.bind (pathGV p) makeAPIService) paths"

lemma apiServicesToRegister_run:
  "apiServicesToRegister paths acc reg = (Ok (acc @ knownServices paths), reg @ knownServices paths)"
proof (induction paths arbitrary: acc reg)
  case Nil
  then show ?case by (simp add: knownServices_def returnG_def List.map_filter_def)
next
  case (Cons p paths)
  have k: "knownServices (p # paths) = (case Option.bind (pathGV p) makeAPIService of None \<Rightarrow> [] | Some s \<Rightarrow> [s]) @ knownServices paths"
    by (auto simp: knownServices_def List.map_filter_def split: option.splits)
  show ?case
    unfolding k apiServicesToRegister.simps pathService_gv
    using Cons by (auto simp: bindG_def split: option.splits)
qed

lemma makeAPIService_Some:
  "makeAPIService g = Some s \<longleftrightarrow> (\<exists>k. map_of apiVersionPriorities g = Some k \<and>
     s = \<lparr>svc_Name = gv_Version g @ ''.'' @ gv_Group g, svc_Group = gv_Group g, svc_Version = gv_Version g,
          GroupPriorityMinimum = p_group k, VersionPriority = p_version k\<rparr>)"
  by (auto simp: makeAPIService_def split: option.splits)

lemma set_knownServices: "s \<in> set (knownServices paths) \<longleftrightarrow> (\<exists>p g. p \<in> set paths \<and> pathGV p = Some g \<and> makeAPIService g = Some s)"
proof -
  have "s \<in> set (List.map_filter f paths) \<longleftrightarrow> (\<exists>p\<in>set paths. f p = Some s)" for f :: "string \<Rightarrow> APIService option"
    by (induction paths) (auto simp: List.map_filter_def)
  then show ?thesis by (auto simp: knownServices_def bind_eq_Some_conv)
qed

lemma healthCheck_None: "finite p \<Longrightarrow> healthCheck p = None \<longleftrightarrow> p = {}"
  by (auto simp: healthCheck_def card_gt_0_iff)

section \<open>Properties\<close>

text \<open>
  For any paths of the delegate, registering never fails; the services registered and returned are,
  in the order of the paths, those of the core path and of the paths of the form \<open>/apis/group/version\<close>
  whose group and version have a priority, under their priorities and the name \<open>version.group\<close>.
\<close>

theorem registered_services_exact:
  "\<exists>services. apiServicesToRegister paths [] [] = (Ok services, services) \<and>
     (\<forall>s. s \<in> set services \<longleftrightarrow> (\<exists>p g k. p \<in> set paths \<and> pathGV p = Some g \<and> map_of apiVersionPriorities g = Some k \<and>
        s = \<lparr>svc_Name = gv_Version g @ ''.'' @ gv_Group g, svc_Group = gv_Group g, svc_Version = gv_Version g,
             GroupPriorityMinimum = p_group k, VersionPriority = p_version k\<rparr>))"
proof (intro exI conjI allI)
  show "apiServicesToRegister paths [] [] = (Ok (knownServices paths), knownServices paths)"
    by (simp add: apiServicesToRegister_run)
  show "s \<in> set (knownServices paths) \<longleftrightarrow> (\<exists>p g k. p \<in> set paths \<and> pathGV p = Some g \<and> map_of apiVersionPriorities g = Some k \<and>
        s = \<lparr>svc_Name = gv_Version g @ ''.'' @ gv_Group g, svc_Group = gv_Group g, svc_Version = gv_Version g,
             GroupPriorityMinimum = p_group k, VersionPriority = p_version k\<rparr>)" for s
    by (simp add: set_knownServices makeAPIService_Some)
qed

text \<open>
  C15: whatever the events, the health check is healthy exactly when every registered service has been
  seen available at least once since; once healthy it stays so.
\<close>

theorem healthy_iff_all_seen:
  assumes "checkReach apiServices es p"
  shows "(healthCheck p = None \<longleftrightarrow> (\<forall>s\<in>set apiServices. \<exists>e\<in>set es. ev_Name e = svc_Name s \<and> ev_Available e)) \<and>
    (healthCheck p = None \<longrightarrow> healthCheck (handleAPIServiceChange e p) = None)"
proof -
  have p: "p = {n \<in> initialPending apiServices. \<forall>e\<in>set es. ev_Name e = n \<longrightarrow> \<not> ev_Available e}"
    using assms by (simp add: checkReach_fold pending_fold)
  have "finite p" by (simp add: p initialPending_def)
  then have h: "healthCheck p = None \<longleftrightarrow> p = {}" by (rule healthCheck_None)
  have "p = {} \<longleftrightarrow> (\<forall>s\<in>set apiServices. \<exists>e\<in>set es. ev_Name e = svc_Name s \<and> ev_Available e)"
    unfolding p initialPending_def by auto
  moreover have "healthCheck (handleAPIServiceChange e {}) = None" by (simp add: handleAPIServiceChange_def healthCheck_def)
  ultimately show ?thesis using h by auto
qed

theorem healthy_iff_all_seen_witness:
  "\<exists>p. checkReach [\<lparr>svc_Name = ''v1.'', svc_Group = [], svc_Version = ''v1'', GroupPriorityMinimum = 18000, VersionPriority = 1\<rparr>]
       [\<lparr>ev_Name = ''v1.'', ev_Available = True\<rparr>] p \<and> healthCheck p = None"
proof -
  let ?s = "\<lparr>svc_Name = ''v1.'', svc_Group = [], svc_Version = ''v1'', GroupPriorityMinimum = 18000, VersionPriority = 1\<rparr>"
  have "checkReach [?s] ([] @ [\<lparr>ev_Name = ''v1.'', ev_Available = True\<rparr>])
      (handleAPIServiceChange \<lparr>ev_Name = ''v1.'', ev_Available = True\<rparr> (initialPending [?s]))"
    by (intro checkReach.intros)
  then have r: "checkReach [?s] [\<lparr>ev_Name = ''v1.'', ev_Available = True\<rparr>]
      (handleAPIServiceChange \<lparr>ev_Name = ''v1.'', ev_Available = True\<rparr> (initialPending [?s]))" by simp
  from healthy_iff_all_seen [OF r] r show ?thesis by auto
qed

end
