(* ===== verification/ControllerManager.thy ===== *)
theory ControllerManager
  imports Complex_Main ManagerOptions World
begin

text \<open>
  The controller manager (\<open>kubecontroller/controllermanager.go\<close>) and the starters of its controllers
  (\<open>certificates.go\<close>, \<open>core.go\<close>, \<open>bootstrap.go\<close>). Which controllers run, with what, is the list
  \<open>ms_running\<close> of the state, in the order of the \<open>go\<close> statements. The controllers themselves, the
  clients and the informers are of the libraries: the record \<open>mgrLib\<close> says only which of their
  constructors fail. A constructor \<open>...OrDie\<close> that fails ends the process, as does \<open>klog.Fatalf\<close>.
\<close>

section \<open>The libraries and the state\<close>

text \<open>
  A \<open>restclient.Config\<close>, as far as the starters read it. The rates are a \<open>float32\<close> in Go; the products
  formed here (by 20 and by 2) are exact for the whole numbers in use, so that they are reals here.
\<close>

record restConfig =
  rc_QPS :: real
  rc_Burst :: int
  rc_CAData :: bytes

record ('g, 'x) mgrLib =
  ml_newForConfig :: "restConfig \<Rightarrow> goerr option"
  ml_genericApplyTo :: "'g \<Rightarrow> 'g \<Rightarrow> 'g outcome"
  ml_zeroConfig :: "'g ComponentConfig"
  ml_ConfigOrDie :: "restConfig \<Rightarrow> string \<Rightarrow> restConfig outcome"
  ml_ClientOrDie :: "restConfig \<Rightarrow> string \<Rightarrow> goerr option"
  ml_DiscoveryClientOrDie :: "restConfig \<Rightarrow> string \<Rightarrow> goerr option"
  ml_NewForConfigOrDie :: "restConfig \<Rightarrow> goerr option"
  ml_metadata_NewForConfig :: "restConfig \<Rightarrow> goerr option"
  ml_ServerGroupsAndResources :: "(string \<times> string list) list"
  ml_ParseGroupVersion :: "string \<Rightarrow> (string \<times> string) outcome"
  ml_IsControllerEnabled :: "string \<Rightarrow> string list \<Rightarrow> 'g \<Rightarrow> bool"
  ml_ParseCertsPEM :: "bytes \<Rightarrow> goerr option"
  ml_PrivateKeyFromFile :: "string \<Rightarrow> world \<Rightarrow> 'x outcome"
  ml_LegacyTokenGenerator :: "'x \<Rightarrow> 'x outcome"
  ml_NewTokensController :: "'x \<Rightarrow> bytes \<Rightarrow> goerr option"
  ml_NewServiceAccountsController :: "goerr option"
  ml_NewGarbageCollector :: "(string \<times> string) list \<Rightarrow> goerr option"
  ml_NewKubeAPIServerClientCSRSigningController :: "string \<Rightarrow> string \<Rightarrow> int \<Rightarrow> goerr option"
  ml_NewLegacyUnknownCSRSigningController :: "string \<Rightarrow> string \<Rightarrow> int \<Rightarrow> goerr option"
  ml_NewSigner :: "goerr option"
  ml_NewTokenCleaner :: "goerr option"
  ml_NewPublisher :: "bytes \<Rightarrow> goerr option"
  ml_gcDebuggingHandler :: "bool option"
  ml_gcHealthChecker :: "bool option"

datatype running =
    TokensController bytes int
  | NamespaceControllerRun restConfig int int
  | GarbageCollectorRun "(string \<times> string) list" int
  | GarbageCollectorSync int
  | CSRSigner string string string int int
  | RootCAPublisher bytes int
  | OtherController string int

text \<open>
  What an init function returns: the optional interfaces of a controller, debugging and health, each
  with whether its handler is there.
\<close>

record iface =
  if_Debuggable :: "bool option"
  if_HealthCheckable :: "bool option"

datatype healthChecker = NamedPingChecker string | NamedHealthChecker string

record mgrState =
  ms_world :: world
  ms_running :: "running list"
  ms_informers :: bool
  ms_metadataInformers :: bool
  ms_informersStarted :: bool
  ms_mux :: "string list"
  ms_checks :: "healthChecker list"

record 'g controllerContext =
  cx_ComponentConfig :: "'g ComponentConfig"
  cx_Kubeconfig :: restConfig
  cx_AvailableResources :: "((string \<times> string) \<times> string) set"

type_synonym 'g initFunc = "'g controllerContext \<Rightarrow> (mgrState, iface option \<times> bool) go"

definition orDie :: "goerr option \<Rightarrow> ('s, unit) go" where
  "orDie e = (case e of None \<Rightarrow> returnG () | Some _ \<Rightarrow> panicG ''exit'')"

definition failIf :: "(goerr \<Rightarrow> goerr) \<Rightarrow> goerr option \<Rightarrow> ('s, unit) go" where
  "failIf wrap e = (case e of None \<Rightarrow> returnG () | Some x \<Rightarrow> failG (wrap x))"

definition configOrDie :: "('g, 'x) mgrLib \<Rightarrow> 'g controllerContext \<Rightarrow> string \<Rightarrow> ('s, restConfig) go" where
  "configOrDie L c name = (case ml_ConfigOrDie L (cx_Kubeconfig c) name of Ok r \<Rightarrow> returnG r | _ \<Rightarrow> panicG ''exit'')"

definition clientOrDie :: "('g, 'x) mgrLib \<Rightarrow> 'g controllerContext \<Rightarrow> string \<Rightarrow> ('s, unit) go" where
  "clientOrDie L c name = orDie (ml_ClientOrDie L (cx_Kubeconfig c) name)"

definition goRun :: "running \<Rightarrow> (mgrState, unit) go" where
  "goRun r = (\<lambda>st. (Ok (), st\<lparr>ms_running := ms_running st @ [r]\<rparr>))"

definition inWorld :: "(world, 'a) go \<Rightarrow> (mgrState, 'a) go" where
  "inWorld m = zoomG ms_world (\<lambda>w st. st\<lparr>ms_world := w\<rparr>) m"

definition readCA :: "env \<Rightarrow> ('g, 'x) mgrLib \<Rightarrow> string \<Rightarrow> (world, bytes) go" where
  "readCA E L f = bindG (os_ReadFile E f) (\<lambda>rootCA. bindG (failIf id (ml_ParseCertsPEM L rootCA)) (\<lambda>_. returnG rootCA))"

definition rootCAOf :: "env \<Rightarrow> ('g, 'x) mgrLib \<Rightarrow> 'g controllerContext \<Rightarrow> string \<Rightarrow> (mgrState, bytes) go" where
  "rootCAOf E L c name =
     (let f = RootCAFile (cc_SA (cx_ComponentConfig c)) in
      if f \<noteq> [] then wrapG (ErrorfV ''error parsing root-ca-file at %s: %v'' [f]) (inWorld (readCA E L f))
      else bindG (configOrDie L c name) (\<lambda>r. returnG (rc_CAData r)))"

section \<open>certificates.go\<close>

definition filesSet :: "CSRSigningConfiguration \<Rightarrow> bool" where
  "filesSet c = (csr_CertFile c \<noteq> [] \<or> csr_KeyFile c \<noteq> [])"

definition areKubeAPIServerClientSignerFilesSpecified :: "CSRSigningControllerConfiguration \<Rightarrow> bool" where
  "areKubeAPIServerClientSignerFilesSpecified c = filesSet (KubeAPIServerClientSignerConfiguration c)"

definition areLegacyUnknownSignerFilesSpecified :: "CSRSigningControllerConfiguration \<Rightarrow> bool" where
  "areLegacyUnknownSignerFilesSpecified c = filesSet (LegacyUnknownSignerConfiguration c)"

definition anySpecificFilesSet :: "CSRSigningControllerConfiguration \<Rightarrow> bool" where
  "anySpecificFilesSet c = (areKubeAPIServerClientSignerFilesSpecified c \<or> areLegacyUnknownSignerFilesSpecified c)"

definition getKubeAPIServerClientSignerFiles :: "CSRSigningControllerConfiguration \<Rightarrow> string \<times> string" where
  "getKubeAPIServerClientSignerFiles c =
     (if anySpecificFilesSet c
      then (csr_CertFile (KubeAPIServerClientSignerConfiguration c), csr_KeyFile (KubeAPIServerClientSignerConfiguration c))
      else (ClusterSigningCertFile c, ClusterSigningKeyFile c))"

definition getLegacyUnknownSignerFiles :: "CSRSigningControllerConfiguration \<Rightarrow> string \<times> string" where
  "getLegacyUnknownSignerFiles c =
     (if anySpecificFilesSet c
      then (csr_CertFile (LegacyUnknownSignerConfiguration c), csr_KeyFile (LegacyUnknownSignerConfiguration c))
      else (ClusterSigningCertFile c, ClusterSigningKeyFile c))"

definition startSigner ::
  "string \<Rightarrow> (string \<Rightarrow> string \<Rightarrow> int \<Rightarrow> goerr option) \<Rightarrow> string \<times> string \<Rightarrow> int \<Rightarrow> (mgrState, unit) go" where
  "startSigner name new fs certTTL = (case fs of (cert, key) \<Rightarrow>
     if cert \<noteq> [] \<or> key \<noteq> [] then
       bindG (failIf (ErrorfV (''failed to start '' @ name @ '' certificate controller: %v'') []) (new cert key certTTL)) (\<lambda>_.
       goRun (CSRSigner name cert key certTTL 5))
     else returnG ())"

definition startCSRSigningController :: "('g, 'x) mgrLib \<Rightarrow> 'g initFunc" where
  "startCSRSigningController L = (\<lambda>ctx.
     let c = cc_CSRSigning (cx_ComponentConfig ctx);
         missingSingleSigningFile = (ClusterSigningCertFile c = [] \<or> ClusterSigningKeyFile c = []) in
     if missingSingleSigningFile \<and> \<not> anySpecificFilesSet c then returnG (None, False)
     else if \<not> missingSingleSigningFile \<and> anySpecificFilesSet c
     then failG (Errorf ''cannot specify default and per controller certs at the same time'' [])
     else bindG (clientOrDie L ctx ''certificate-controller'') (\<lambda>_.
       bindG (startSigner ''kubernetes.io/kube-apiserver-client'' (ml_NewKubeAPIServerClientCSRSigningController L)
                (getKubeAPIServerClientSignerFiles c) (ClusterSigningDuration c)) (\<lambda>_.
       bindG (startSigner ''kubernetes.io/legacy-unknown'' (ml_NewLegacyUnknownCSRSigningController L)
                (getLegacyUnknownSignerFiles c) (ClusterSigningDuration c)) (\<lambda>_.
       returnG (None, True)))))"

definition startCSRApprovingController :: "('g, 'x) mgrLib \<Rightarrow> 'g initFunc" where
  "startCSRApprovingController L = (\<lambda>ctx. bindG (clientOrDie L ctx ''certificate-controller'') (\<lambda>_.
     bindG (goRun (OtherController ''csrapproving'' 5)) (\<lambda>_. returnG (None, True))))"

definition startCSRCleanerController :: "('g, 'x) mgrLib \<Rightarrow> 'g initFunc" where
  "startCSRCleanerController L = (\<lambda>ctx. bindG (clientOrDie L ctx ''certificate-controller'') (\<lambda>_.
     bindG (goRun (OtherController ''csrcleaner'' 1)) (\<lambda>_. returnG (None, True))))"

definition startRootCACertPublisher :: "env \<Rightarrow> ('g, 'x) mgrLib \<Rightarrow> 'g initFunc" where
  "startRootCACertPublisher E L = (\<lambda>ctx.
     bindG (rootCAOf E L ctx ''root-ca-cert-publisher'') (\<lambda>rootCA.
     bindG (clientOrDie L ctx ''root-ca-cert-publisher'') (\<lambda>_.
     bindG (failIf (ErrorfV ''error creating root CA certificate publisher: %v'' []) (ml_NewPublisher L rootCA)) (\<lambda>_.
     bindG (goRun (RootCAPublisher rootCA 1)) (\<lambda>_. returnG (None, True))))))"

section \<open>core.go, bootstrap.go, clusterroleaggregation.go\<close>

definition startModifiedNamespaceController :: "('g, 'x) mgrLib \<Rightarrow> restConfig \<Rightarrow> 'g initFunc" where
  "startModifiedNamespaceController L nsKubeconfig = (\<lambda>ctx.
     bindG (failIf id (ml_metadata_NewForConfig L nsKubeconfig)) (\<lambda>_.
     let c = cc_Namespace (cx_ComponentConfig ctx) in
     bindG (goRun (NamespaceControllerRun nsKubeconfig (NamespaceSyncPeriod c) (ConcurrentNamespaceSyncs c))) (\<lambda>_.
     returnG (None, True))))"

definition startNamespaceController :: "('g, 'x) mgrLib \<Rightarrow> 'g initFunc" where
  "startNamespaceController L = (\<lambda>ctx.
     bindG (configOrDie L ctx ''namespace-controller'') (\<lambda>r.
     let nsKubeconfig = r\<lparr>rc_QPS := rc_QPS r * 20, rc_Burst := wrap64 (rc_Burst r * 100)\<rparr> in
     bindG (orDie (ml_NewForConfigOrDie L nsKubeconfig)) (\<lambda>_.
     startModifiedNamespaceController L nsKubeconfig ctx)))"

definition startServiceAccountController :: "('g, 'x) mgrLib \<Rightarrow> 'g initFunc" where
  "startServiceAccountController L = (\<lambda>ctx.
     bindG (clientOrDie L ctx ''service-account-controller'') (\<lambda>_.
     bindG (failIf (ErrorfV ''error creating ServiceAccount controller: %v'' []) (ml_NewServiceAccountsController L)) (\<lambda>_.
     bindG (goRun (OtherController ''serviceaccount'' 1)) (\<lambda>_. returnG (None, True)))))"

definition startGarbageCollectorController :: "('g, 'x) mgrLib \<Rightarrow> 'g initFunc" where
  "startGarbageCollectorController L = (\<lambda>ctx.
     let c = cc_GarbageCollector (cx_ComponentConfig ctx) in
     if \<not> EnableGarbageCollector c then returnG (None, False) else
     bindG (clientOrDie L ctx ''generic-garbage-collector'') (\<lambda>_.
     bindG (orDie (ml_DiscoveryClientOrDie L (cx_Kubeconfig ctx) ''generic-garbage-collector'')) (\<lambda>_.
     bindG (configOrDie L ctx ''generic-garbage-collector'') (\<lambda>r.
     bindG (failIf id (ml_metadata_NewForConfig L (r\<lparr>rc_QPS := rc_QPS r * 2\<rparr>))) (\<lambda>_.
     let ignoredResources = remdups (GCIgnoredResources c) in
     bindG (failIf (ErrorfV ''failed to start the generic garbage collector: %v'' []) (ml_NewGarbageCollector L ignoredResources)) (\<lambda>_.
     bindG (goRun (GarbageCollectorRun ignoredResources (ConcurrentGCSyncs c))) (\<lambda>_.
     bindG (goRun (GarbageCollectorSync (30 * time_Second))) (\<lambda>_.
     returnG (Some \<lparr>if_Debuggable = ml_gcDebuggingHandler L, if_HealthCheckable = ml_gcHealthChecker L\<rparr>, True)))))))))"

definition startBootstrapSignerController :: "('g, 'x) mgrLib \<Rightarrow> 'g initFunc" where
  "startBootstrapSignerController L = (\<lambda>ctx.
     bindG (clientOrDie L ctx ''bootstrap-signer'') (\<lambda>_.
     bindG (failIf (ErrorfV ''error creating BootstrapSigner controller: %v'' []) (ml_NewSigner L)) (\<lambda>_.
     bindG (goRun (OtherController ''bootstrapsigner'' 1)) (\<lambda>_. returnG (None, True)))))"

definition startTokenCleanerController :: "('g, 'x) mgrLib \<Rightarrow> 'g initFunc" where
  "startTokenCleanerController L = (\<lambda>ctx.
     bindG (clientOrDie L ctx ''token-cleaner'') (\<lambda>_.
     bindG (failIf (ErrorfV ''error creating TokenCleaner controller: %v'' []) (ml_NewTokenCleaner L)) (\<lambda>_.
     bindG (goRun (OtherController ''tokencleaner'' 1)) (\<lambda>_. returnG (None, True)))))"

definition startClusterRoleAggregrationController :: "('g, 'x) mgrLib \<Rightarrow> 'g initFunc" where
  "startClusterRoleAggregrationController L = (\<lambda>ctx.
     if ((''rbac.authorization.k8s.io'', ''v1''), ''clusterroles'') \<notin> cx_AvailableResources ctx then returnG (None, False) else
     bindG (clientOrDie L ctx ''clusterrole-aggregation-controller'') (\<lambda>_.
     bindG (goRun (OtherController ''clusterrole-aggregation'' 5)) (\<lambda>_. returnG (None, True))))"

section \<open>controllermanager.go\<close>

definition ControllersDisabledByDefault :: "string list" where
  "ControllersDisabledByDefault = [''bootstrapsigner'', ''tokencleaner'']"

definition saTokenControllerName :: string where "saTokenControllerName = ''serviceaccount-token''"

definition IsControllerEnabled :: "('g, 'x) mgrLib \<Rightarrow> 'g controllerContext \<Rightarrow> string \<Rightarrow> bool" where
  "IsControllerEnabled L c name = ml_IsControllerEnabled L name ControllersDisabledByDefault (cc_Generic (cx_ComponentConfig c))"

definition NewControllerInitializers :: "env \<Rightarrow> ('g, 'x) mgrLib \<Rightarrow> 'g initFunc gomap" where
  "NewControllerInitializers E L = fold (\<lambda>(k, f). mapPut k f)
     [(''namespace'', startNamespaceController L), (''serviceaccount'', startServiceAccountController L),
      (''garbagecollector'', startGarbageCollectorController L), (''csrsigning'', startCSRSigningController L),
      (''csrapproving'', startCSRApprovingController L), (''csrcleaner'', startCSRCleanerController L),
      (''bootstrapsigner'', startBootstrapSignerController L), (''tokencleaner'', startTokenCleanerController L),
      (''root-ca-cert-publisher'', startRootCACertPublisher E L),
      (''clusterrole-aggregation'', startClusterRoleAggregrationController L)] []"

text \<open>An error of the discovery is only reported; the resources found with it count.\<close>

fun collectResources :: "('g, 'x) mgrLib \<Rightarrow> (string \<times> string list) list \<Rightarrow> ((string \<times> string) \<times> string) set \<Rightarrow>
    ((string \<times> string) \<times> string) set outcome" where
  "collectResources L [] allResources = Ok allResources"
| "collectResources L ((groupVersion, names) # rest) allResources = (case ml_ParseGroupVersion L groupVersion of
     Err e \<Rightarrow> Err e | Panic p \<Rightarrow> Panic p
   | Ok version \<Rightarrow> collectResources L rest (allResources \<union> set (map (Pair version) names)))"

definition GetAvailableResources ::
  "('g, 'x) mgrLib \<Rightarrow> restConfig \<Rightarrow> ('s, ((string \<times> string) \<times> string) set) go" where
  "GetAvailableResources L cfg = bindG (orDie (ml_ClientOrDie L cfg ''controller-discovery'')) (\<lambda>_.
     if ml_ServerGroupsAndResources L = [] then failG (Errorf ''unable to get any supported resources from server'' [])
     else (\<lambda>s. (collectResources L (ml_ServerGroupsAndResources L) {}, s)))"

definition CreateControllerContext ::
  "('g, 'x) mgrLib \<Rightarrow> ('g, restConfig) controllerConfig \<Rightarrow> (mgrState, 'g controllerContext) go" where
  "CreateControllerContext L s =
     bindG (case ml_ConfigOrDie L (ct_Kubeconfig s) ''metadata-informers'' of Ok r \<Rightarrow> returnG r | _ \<Rightarrow> panicG ''exit'') (\<lambda>r.
     bindG (orDie (ml_metadata_NewForConfig L r)) (\<lambda>_.
     bindG (orDie (ml_DiscoveryClientOrDie L (ct_Kubeconfig s) ''controller-discovery'')) (\<lambda>_.
     bindG (GetAvailableResources L (ct_Kubeconfig s)) (\<lambda>availableResources.
     returnG \<lparr>cx_ComponentConfig = ct_ComponentConfig s, cx_Kubeconfig = ct_Kubeconfig s, cx_AvailableResources = availableResources\<rparr>))))"

definition startServiceAccountTokenController :: "env \<Rightarrow> ('g, 'x) mgrLib \<Rightarrow> 'g initFunc" where
  "startServiceAccountTokenController E L = (\<lambda>ctx.
     let c = cc_SA (cx_ComponentConfig ctx) in
     if \<not> IsControllerEnabled L ctx saTokenControllerName then returnG (None, False)
     else if ServiceAccountKeyFilePath c = [] then returnG (None, False)
     else
       bindG (wrapG (ErrorfV ''error reading key for service account token controller: %v'' [])
                (\<lambda>st. (ml_PrivateKeyFromFile L (ServiceAccountKeyFilePath c) (ms_world st), st))) (\<lambda>privateKey.
       bindG (rootCAOf E L ctx ''tokens-controller'') (\<lambda>rootCA.
       bindG (wrapG (ErrorfV ''failed to build token generator: %v'' []) (\<lambda>st. (ml_LegacyTokenGenerator L privateKey, st))) (\<lambda>tokenGenerator.
       bindG (clientOrDie L ctx ''tokens-controller'') (\<lambda>_.
       bindG (failIf (ErrorfV ''error creating Tokens controller: %v'' []) (ml_NewTokensController L tokenGenerator rootCA)) (\<lambda>_.
       bindG (goRun (TokensController rootCA (ConcurrentSATokenSyncs c))) (\<lambda>_.
       bindG (\<lambda>st. (Ok (), st\<lparr>ms_informers := True\<rparr>)) (\<lambda>_.
       returnG (None, True)))))))))"

definition mountDebug :: "bool \<Rightarrow> string \<Rightarrow> iface option \<Rightarrow> (mgrState, unit) go" where
  "mountDebug hasMux name ctrl =
     (if hasMux \<and> Option.bind ctrl if_Debuggable = Some True
      then (\<lambda>st. (Ok (), st\<lparr>ms_mux := ms_mux st @ [''/debug/controllers/'' @ name, ''/debug/controllers/'' @ name @ ''/'']\<rparr>))
      else returnG ())"

definition checkOf :: "string \<Rightarrow> iface option \<Rightarrow> healthChecker" where
  "checkOf name ctrl = (if Option.bind ctrl if_HealthCheckable = Some True then NamedHealthChecker name else NamedPingChecker name)"

fun startLoop :: "bool \<Rightarrow> 'g controllerContext \<Rightarrow> (string \<times> 'g initFunc) list \<Rightarrow> healthChecker list \<Rightarrow>
    (mgrState, healthChecker list) go" where
  "startLoop hasMux ctx [] controllerChecks = returnG controllerChecks"
| "startLoop hasMux ctx ((controllerName, initFn) # rest) controllerChecks =
     bindG (initFn ctx) (\<lambda>(ctrl, started).
       if \<not> started then startLoop hasMux ctx rest controllerChecks
       else bindG (mountDebug hasMux controllerName ctrl) (\<lambda>_.
            startLoop hasMux ctx rest (controllerChecks @ [checkOf controllerName ctrl])))"

definition StartControllers ::
  "env \<Rightarrow> bool \<Rightarrow> 'g controllerContext \<Rightarrow> 'g initFunc option \<Rightarrow> 'g initFunc gomap \<Rightarrow> (mgrState, unit) go" where
  "StartControllers E hasMux ctx startSATokenController controllers =
     bindG (case startSATokenController of None \<Rightarrow> returnG () | Some f \<Rightarrow> bindG (f ctx) (\<lambda>_. returnG ())) (\<lambda>_.
     bindG (startLoop hasMux ctx (mapRange (range_order E) controllers) []) (\<lambda>controllerChecks.
     (\<lambda>st. (Ok (), st\<lparr>ms_checks := ms_checks st @ controllerChecks\<rparr>))))"

text \<open>\<open>Run\<close> never returns: the state is that in which it waits. The mux is nil.\<close>

definition managerRun :: "env \<Rightarrow> ('g, 'x) mgrLib \<Rightarrow> ('g, restConfig) controllerConfig \<Rightarrow> (mgrState, unit) go" where
  "managerRun E L c =
     bindG (fatal (CreateControllerContext L c)) (\<lambda>controllerContext.
     bindG (fatal (StartControllers E False controllerContext (Some (startServiceAccountTokenController E L))
                     (NewControllerInitializers E L))) (\<lambda>_.
     (\<lambda>st. (Ok (), st\<lparr>ms_informers := True, ms_metadataInformers := True, ms_informersStarted := True\<rparr>))))"

text \<open>The options are behind a pointer that the server shares, and keep the two files.\<close>

definition withSigningFiles :: "string \<Rightarrow> string \<Rightarrow> 'g KubeControllerManagerOptions \<Rightarrow> 'g KubeControllerManagerOptions" where
  "withSigningFiles clientCert clientKey s = s\<lparr>CSRSigningController := map_option
     (\<lambda>c. c\<lparr>ClusterSigningCertFile := clientCert, ClusterSigningKeyFile := clientKey\<rparr>) (CSRSigningController s)\<rparr>"

definition RunKubeControllers ::
  "env \<Rightarrow> ('g, 'x) mgrLib \<Rightarrow> restConfig \<Rightarrow> string \<Rightarrow> string \<Rightarrow> (mgrState \<times> 'g KubeControllerManagerOptions, unit) go" where
  "RunKubeControllers E L cfg clientCert clientKey = (\<lambda>(st, s).
     if CSRSigningController s = None then (Panic ''nil pointer dereference'', (st, s)) else
     let s' = withSigningFiles clientCert clientKey s in
     case managerConfig (ml_genericApplyTo L) (ml_newForConfig L) (ml_zeroConfig L) s' cfg of
       Ok config \<Rightarrow> (case managerRun E L config st of (r, st') \<Rightarrow> (r, (st', s')))
     | _ \<Rightarrow> (Panic ''exit'', (st, s')))"

end
