(* ===== verification/ManagerProofs.thy ===== *)
theory ManagerProofs
  imports ControllerManager
begin

text \<open>
  What the controller manager runs. \<open>controllerRuns\<close> describes, for each name of an initializer, what it
  starts; the theorems show that a manager that comes up runs exactly this, the token controller first,
  that it comes up when the constructors of the libraries do, which files sign certificate requests, and
  that the controllers disabled by default run all the same.
\<close>

section \<open>The description\<close>

definition caOf :: "('g, 'x) mgrLib \<Rightarrow> 'g controllerContext \<Rightarrow> string \<Rightarrow> world \<Rightarrow> bytes option" where
  "caOf L c name w =
     (let f = RootCAFile (cc_SA (cx_ComponentConfig c)) in
      if f \<noteq> [] then files w f
      else (case ml_ConfigOrDie L (cx_Kubeconfig c) name of Ok r \<Rightarrow> Some (rc_CAData r) | _ \<Rightarrow> None))"

definition signerRuns :: "string \<Rightarrow> string \<times> string \<Rightarrow> int \<Rightarrow> running list" where
  "signerRuns name fs ttl = (if fs = ([], []) then [] else [CSRSigner name (fst fs) (snd fs) ttl 5])"

definition signingOn :: "CSRSigningControllerConfiguration \<Rightarrow> bool" where
  "signingOn c = (ClusterSigningCertFile c \<noteq> [] \<and> ClusterSigningKeyFile c \<noteq> [] \<or> anySpecificFilesSet c)"

definition csrRuns :: "CSRSigningControllerConfiguration \<Rightarrow> running list" where
  "csrRuns c = (if signingOn c
     then signerRuns ''kubernetes.io/kube-apiserver-client'' (getKubeAPIServerClientSignerFiles c) (ClusterSigningDuration c) @
          signerRuns ''kubernetes.io/legacy-unknown'' (getLegacyUnknownSignerFiles c) (ClusterSigningDuration c)
     else [])"

definition namespaceConfig :: "restConfig \<Rightarrow> restConfig" where
  "namespaceConfig r = r\<lparr>rc_QPS := rc_QPS r * 20, rc_Burst := wrap64 (rc_Burst r * 100)\<rparr>"

definition rbacResource :: "(string \<times> string) \<times> string" where
  "rbacResource = ((''rbac.authorization.k8s.io'', ''v1''), ''clusterroles'')"

definition enabledIn :: "'g controllerContext \<Rightarrow> string \<Rightarrow> bool" where
  "enabledIn c name =
     (if name = ''garbagecollector'' then EnableGarbageCollector (cc_GarbageCollector (cx_ComponentConfig c))
      else if name = ''csrsigning'' then signingOn (cc_CSRSigning (cx_ComponentConfig c))
      else if name = ''clusterrole-aggregation'' then rbacResource \<in> cx_AvailableResources c
      else True)"

definition controllerRuns :: "('g, 'x) mgrLib \<Rightarrow> 'g controllerContext \<Rightarrow> world \<Rightarrow> string \<Rightarrow> running list" where
  "controllerRuns L c w name =
     (let cfg = cx_ComponentConfig c in
      if \<not> enabledIn c name then []
      else if name = ''namespace'' then
        (case ml_ConfigOrDie L (cx_Kubeconfig c) ''namespace-controller'' of
           Ok r \<Rightarrow> [NamespaceControllerRun (namespaceConfig r) (NamespaceSyncPeriod (cc_Namespace cfg)) (ConcurrentNamespaceSyncs (cc_Namespace cfg))]
         | _ \<Rightarrow> [])
      else if name = ''garbagecollector'' then
        [GarbageCollectorRun (remdups (GCIgnoredResources (cc_GarbageCollector cfg))) (ConcurrentGCSyncs (cc_GarbageCollector cfg)),
         GarbageCollectorSync (30 * time_Second)]
      else if name = ''csrsigning'' then csrRuns (cc_CSRSigning cfg)
      else if name = ''root-ca-cert-publisher'' then
        (case caOf L c ''root-ca-cert-publisher'' w of Some ca \<Rightarrow> [RootCAPublisher ca 1] | None \<Rightarrow> [])
      else if name = ''csrapproving'' \<or> name = ''clusterrole-aggregation'' then [OtherController name 5]
      else [OtherController name 1])"

definition tokenRuns :: "('g, 'x) mgrLib \<Rightarrow> 'g controllerContext \<Rightarrow> world \<Rightarrow> running list" where
  "tokenRuns L c w =
     (let sa = cc_SA (cx_ComponentConfig c) in
      if \<not> IsControllerEnabled L c saTokenControllerName \<or> ServiceAccountKeyFilePath sa = [] then []
      else (case caOf L c ''tokens-controller'' w of Some ca \<Rightarrow> [TokensController ca (ConcurrentSATokenSyncs sa)] | None \<Rightarrow> []))"

definition gcIface :: "('g, 'x) mgrLib \<Rightarrow> string \<Rightarrow> iface option" where
  "gcIface L name = (if name = ''garbagecollector''
     then Some \<lparr>if_Debuggable = ml_gcDebuggingHandler L, if_HealthCheckable = ml_gcHealthChecker L\<rparr> else None)"

text \<open>An init function that starts exactly \<open>rs\<close>, when it succeeds at all.\<close>

definition starts :: "'g initFunc \<Rightarrow> 'g controllerContext \<Rightarrow> world \<Rightarrow> running list \<Rightarrow> bool \<Rightarrow> iface option \<Rightarrow> bool" where
  "starts f ctx w rs en i = (\<forall>st x st'. ms_world st = w \<longrightarrow> f ctx st = (Ok x, st') \<longrightarrow>
     st' = st\<lparr>ms_running := ms_running st @ rs\<rparr> \<and> snd x = en \<and> (en \<longrightarrow> fst x = i))"

section \<open>Single calls\<close>

lemma orDie_Ok [gom_iff]: "orDie e st = (Ok x, st') \<longleftrightarrow> e = None \<and> st' = st"
  by (cases e) (auto simp: orDie_def gom)

lemma failIf_Ok [gom_iff]: "failIf wr e st = (Ok x, st') \<longleftrightarrow> e = None \<and> st' = st"
  by (cases e) (auto simp: failIf_def gom)

lemma clientOrDie_Ok [gom_iff]: "clientOrDie L c name st = (Ok x, st') \<longleftrightarrow> ml_ClientOrDie L (cx_Kubeconfig c) name = None \<and> st' = st"
  by (simp add: clientOrDie_def orDie_Ok)

lemma configOrDie_Ok [gom_iff]: "configOrDie L c name st = (Ok r, st') \<longleftrightarrow> ml_ConfigOrDie L (cx_Kubeconfig c) name = Ok r \<and> st' = st"
  by (auto simp: configOrDie_def gom split: outcome.splits)

lemma goRun_Ok [gom_iff]: "goRun r st = (Ok x, st') \<longleftrightarrow> st' = st\<lparr>ms_running := ms_running st @ [r]\<rparr>"
  by (auto simp: goRun_def)

lemma readCA_Ok: "readCA E L f w = (Ok ca, w') \<Longrightarrow> files w f = Some ca \<and> w' = w"
  by (auto simp: readCA_def os_ReadFile_def faultG_def gom_iff split: option.splits)

lemma rootCAOf_Ok:
  assumes "rootCAOf E L c name st = (Ok ca, st')"
  shows "caOf L c name (ms_world st) = Some ca \<and> st' = st"
proof (cases "RootCAFile (cc_SA (cx_ComponentConfig c)) = []")
  case True
  then show ?thesis using assms by (auto simp: rootCAOf_def caOf_def Let_def gom_iff)
next
  case False
  then have "inWorld (readCA E L (RootCAFile (cc_SA (cx_ComponentConfig c)))) st = (Ok ca, st')"
    using assms by (simp add: rootCAOf_def Let_def gom_iff)
  then obtain w where "readCA E L (RootCAFile (cc_SA (cx_ComponentConfig c))) (ms_world st) = (Ok ca, w)" "st' = st\<lparr>ms_world := w\<rparr>"
    by (auto simp: inWorld_def gom_iff)
  with readCA_Ok [OF this(1)] False show ?thesis by (simp add: caOf_def)
qed

lemma startSigner_Ok:
  "startSigner name new fs ttl st = (Ok x, st') \<Longrightarrow> st' = st\<lparr>ms_running := ms_running st @ signerRuns name fs ttl\<rparr>"
  by (cases fs) (auto simp: startSigner_def signerRuns_def gom_iff split: if_splits)

section \<open>Each init function\<close>

lemma startsI:
  "(\<And>st i en' st'. ms_world st = w \<Longrightarrow> f ctx st = (Ok (i, en'), st') \<Longrightarrow>
     st' = st\<lparr>ms_running := ms_running st @ rs\<rparr> \<and> en' = en \<and> (en \<longrightarrow> i = j)) \<Longrightarrow> starts f ctx w rs en j"
  by (fastforce simp: starts_def)

lemma start_simple:
  "starts (startCSRApprovingController L) ctx w [OtherController ''csrapproving'' 5] True None"
  "starts (startCSRCleanerController L) ctx w [OtherController ''csrcleaner'' 1] True None"
  "starts (startServiceAccountController L) ctx w [OtherController ''serviceaccount'' 1] True None"
  "starts (startBootstrapSignerController L) ctx w [OtherController ''bootstrapsigner'' 1] True None"
  "starts (startTokenCleanerController L) ctx w [OtherController ''tokencleaner'' 1] True None"
  by (rule startsI; simp add: startCSRApprovingController_def startCSRCleanerController_def startServiceAccountController_def
      startBootstrapSignerController_def startTokenCleanerController_def gom_iff)+

lemma start_aggregation:
  "starts (startClusterRoleAggregrationController L) ctx w
     (controllerRuns L ctx w ''clusterrole-aggregation'') (enabledIn ctx ''clusterrole-aggregation'') None"
  by (rule startsI) (auto simp: startClusterRoleAggregrationController_def controllerRuns_def enabledIn_def rbacResource_def gom_iff split: if_splits)

lemma start_namespace:
  "starts (startNamespaceController L) ctx w (controllerRuns L ctx w ''namespace'') True None"
  by (rule startsI) (auto simp: startNamespaceController_def startModifiedNamespaceController_def controllerRuns_def enabledIn_def
      namespaceConfig_def Let_def gom_iff)

lemma start_gc:
  "starts (startGarbageCollectorController L) ctx w (controllerRuns L ctx w ''garbagecollector'')
     (enabledIn ctx ''garbagecollector'') (gcIface L ''garbagecollector'')"
  by (rule startsI) (auto simp: startGarbageCollectorController_def controllerRuns_def enabledIn_def gcIface_def Let_def gom_iff split: if_splits)

lemma start_csr:
  "starts (startCSRSigningController L) ctx w (controllerRuns L ctx w ''csrsigning'') (enabledIn ctx ''csrsigning'') None"
proof (rule startsI)
  fix st i en' st'
  let ?c = "cc_CSRSigning (cx_ComponentConfig ctx)"
  assume r: "startCSRSigningController L ctx st = (Ok (i, en'), st')"
  show "st' = st\<lparr>ms_running := ms_running st @ controllerRuns L ctx w ''csrsigning''\<rparr> \<and> en' = enabledIn ctx ''csrsigning'' \<and>
      (enabledIn ctx ''csrsigning'' \<longrightarrow> i = None)"
  proof (cases "signingOn ?c")
    case False
    then show ?thesis using r
      by (auto simp: startCSRSigningController_def signingOn_def controllerRuns_def enabledIn_def Let_def gom_iff)
  next
    case True
    then show ?thesis using r
      by (auto simp: startCSRSigningController_def signingOn_def controllerRuns_def csrRuns_def enabledIn_def Let_def gom_iff
          dest!: startSigner_Ok split: if_splits)
  qed
qed

lemma start_publisher:
  "starts (startRootCACertPublisher E L) ctx w (controllerRuns L ctx w ''root-ca-cert-publisher'') True None"
  by (rule startsI) (auto simp: startRootCACertPublisher_def controllerRuns_def enabledIn_def Let_def gom_iff dest!: rootCAOf_Ok)

lemma initializers_distinct: "mapWf (NewControllerInitializers E L)"
  by (simp add: NewControllerInitializers_def mapPut_def mapWf_def)

lemma initializers_start:
  assumes "(name, f) \<in> set (NewControllerInitializers E L)"
  shows "starts f ctx w (controllerRuns L ctx w name) (enabledIn ctx name) (gcIface L name)"
proof -
  note s = start_simple [of L ctx w] start_aggregation [of L ctx w] start_namespace [of L ctx w] start_gc [of L ctx w]
    start_csr [of L ctx w] start_publisher [of E L ctx w]
  from assms show ?thesis
    by (auto simp: NewControllerInitializers_def mapPut_def)
      (insert s, auto simp: controllerRuns_def enabledIn_def gcIface_def)
qed

section \<open>The loop\<close>

lemma initializers_names:
  "map fst (NewControllerInitializers E L) =
     [''namespace'', ''serviceaccount'', ''garbagecollector'', ''csrsigning'', ''csrapproving'', ''csrcleaner'',
      ''bootstrapsigner'', ''tokencleaner'', ''root-ca-cert-publisher'', ''clusterrole-aggregation'']"
  by (simp add: NewControllerInitializers_def mapPut_def)

lemma map_fst_mapRange:
  assumes "range_ok ord"
  shows "map fst (mapRange ord m) = ord (map fst m)"
proof -
  have "map fst (List.map_filter (\<lambda>k. map_option (Pair k) (map_of m k)) ks) = ks" if "set ks \<subseteq> fst ` set m" for ks
    using that
  proof (induction ks)
    case (Cons k ks)
    then obtain v where "map_of m k = Some v" by (metis insert_subset list.simps(15) map_of_eq_None_iff option.exhaust)
    then show ?case using Cons by (simp add: List.map_filter_def)
  qed (simp add: List.map_filter_def)
  moreover have "set (ord (map fst m)) \<subseteq> fst ` set m" using assms by (auto simp: range_ok_def)
  ultimately show ?thesis by (simp add: mapRange_def)
qed

lemma mountDebug_off: "mountDebug False name ctrl = returnG ()"
  by (simp add: mountDebug_def)

lemma startLoop_runs:
  assumes "\<And>name f. (name, f) \<in> set fs \<Longrightarrow> starts f ctx (ms_world st) (runs name) (on name) (i name)"
    and "startLoop False ctx fs cs st = (Ok cs', st')"
  shows "st' = st\<lparr>ms_running := ms_running st @ concat (map (\<lambda>nf. runs (fst nf)) fs)\<rparr> \<and>
     cs' = cs @ map (\<lambda>n. checkOf n (i n)) (filter on (map fst fs))"
  using assms
proof (induction fs arbitrary: cs st)
  case Nil
  then show ?case by (simp add: gom_iff)
next
  case (Cons nf fs)
  obtain n f where nf: "nf = (n, f)" by (cases nf)
  from Cons.prems(2) obtain x en st1 where 1: "f ctx st = (Ok (x, en), st1)" and
    2: "(if \<not> en then startLoop False ctx fs cs else startLoop False ctx fs (cs @ [checkOf n x])) st1 = (Ok cs', st')"
    by (auto simp: nf gom_iff mountDebug_off split: if_splits)
  have "starts f ctx (ms_world st) (runs n) (on n) (i n)" using Cons.prems(1) by (simp add: nf)
  with 1 have s: "st1 = st\<lparr>ms_running := ms_running st @ runs n\<rparr>" "en = on n" "en \<Longrightarrow> x = i n"
    unfolding starts_def by fastforce+
  have ih: "st' = st1\<lparr>ms_running := ms_running st1 @ concat (map (\<lambda>nf. runs (fst nf)) fs)\<rparr> \<and>
      cs' = ds @ map (\<lambda>n. checkOf n (i n)) (filter on (map fst fs))"
    if "startLoop False ctx fs ds st1 = (Ok cs', st')" for ds
    using Cons.IH [OF _ that] Cons.prems(1) s(1) by simp
  show ?case
  proof (cases en)
    case True
    then show ?thesis using 2 ih [of "cs @ [checkOf n x]"] s by (simp add: nf)
  next
    case False
    then show ?thesis using 2 ih [of cs] s by (simp add: nf)
  qed
qed

lemma token_starts:
  assumes "startServiceAccountTokenController E L ctx st = (Ok x, st')"
  shows "\<exists>b. st' = st\<lparr>ms_running := ms_running st @ tokenRuns L ctx (ms_world st), ms_informers := b\<rparr>"
proof (cases "\<not> IsControllerEnabled L ctx saTokenControllerName \<or> ServiceAccountKeyFilePath (cc_SA (cx_ComponentConfig ctx)) = []")
  case True
  then have "st' = st\<lparr>ms_running := ms_running st @ tokenRuns L ctx (ms_world st), ms_informers := ms_informers st\<rparr>"
    using assms by (auto simp: startServiceAccountTokenController_def tokenRuns_def Let_def gom_iff split: if_splits)
  then show ?thesis ..
next
  case False
  then have "st' = st\<lparr>ms_running := ms_running st @ tokenRuns L ctx (ms_world st), ms_informers := True\<rparr>"
    using assms by (auto simp: startServiceAccountTokenController_def tokenRuns_def Let_def gom_iff dest!: rootCAOf_Ok)
  then show ?thesis ..
qed

definition contextOf :: "('g, restConfig) controllerConfig \<Rightarrow> ((string \<times> string) \<times> string) set \<Rightarrow> 'g controllerContext" where
  "contextOf c rs = \<lparr>cx_ComponentConfig = ct_ComponentConfig c, cx_Kubeconfig = ct_Kubeconfig c, cx_AvailableResources = rs\<rparr>"

lemma context_Ok:
  assumes "CreateControllerContext L c st = (Ok ctx, st')"
  shows "st' = st \<and> ml_ServerGroupsAndResources L \<noteq> [] \<and>
    (\<exists>rs. collectResources L (ml_ServerGroupsAndResources L) {} = Ok rs \<and> ctx = contextOf c rs)"
  using assms
  by (auto simp: CreateControllerContext_def GetAvailableResources_def contextOf_def gom_iff split: outcome.splits if_splits)

text \<open>The state of a manager that has started from \<open>st\<close>.\<close>

definition managerStarted :: "env \<Rightarrow> ('g, 'x) mgrLib \<Rightarrow> 'g controllerContext \<Rightarrow> mgrState \<Rightarrow> mgrState" where
  "managerStarted E L ctx st =
     (let names = range_order E (map fst (NewControllerInitializers E L)) in
      st\<lparr>ms_running := ms_running st @ tokenRuns L ctx (ms_world st) @ concat (map (controllerRuns L ctx (ms_world st)) names),
         ms_informers := True, ms_metadataInformers := True, ms_informersStarted := True,
         ms_checks := ms_checks st @ map (\<lambda>n. checkOf n (gcIface L n)) (filter (enabledIn ctx) names)\<rparr>)"

lemma managerRun_Ok:
  assumes "range_ok (range_order E)" and "managerRun E L c st = (Ok (), st')"
  shows "\<exists>rs. collectResources L (ml_ServerGroupsAndResources L) {} = Ok rs \<and> st' = managerStarted E L (contextOf c rs) st"
proof -
  let ?fs = "mapRange (range_order E) (NewControllerInitializers E L)"
  obtain ctx st1 x st2 cs st3 where
    1: "CreateControllerContext L c st = (Ok ctx, st1)" and 2: "startServiceAccountTokenController E L ctx st1 = (Ok x, st2)"
    and 3: "startLoop False ctx ?fs [] st2 = (Ok cs, st3)"
    and st': "st' = st3\<lparr>ms_checks := ms_checks st3 @ cs, ms_informers := True, ms_metadataInformers := True, ms_informersStarted := True\<rparr>"
    using assms(2) by (auto simp: managerRun_def StartControllers_def gom_iff)
  obtain rs where rs: "collectResources L (ml_ServerGroupsAndResources L) {} = Ok rs" "ctx = contextOf c rs" "st1 = st"
    using context_Ok [OF 1] by auto
  obtain b where st2: "st2 = st\<lparr>ms_running := ms_running st @ tokenRuns L ctx (ms_world st), ms_informers := b\<rparr>"
    using token_starts [OF 2] rs by auto
  have mem: "(n, f) \<in> set ?fs \<Longrightarrow> (n, f) \<in> set (NewControllerInitializers E L)" for n f
    using set_mapRange [OF assms(1) initializers_distinct] by blast
  have w: "ms_world st2 = ms_world st" by (simp add: st2)
  have loop: "st3 = st2\<lparr>ms_running := ms_running st2 @ concat (map (\<lambda>nf. controllerRuns L ctx (ms_world st2) (fst nf)) ?fs)\<rparr> \<and>
     cs = [] @ map (\<lambda>n. checkOf n (gcIface L n)) (filter (enabledIn ctx) (map fst ?fs))"
    by (rule startLoop_runs [OF _ 3]) (rule initializers_start [OF mem])
  have "concat (map (\<lambda>nf. controllerRuns L ctx (ms_world st2) (fst nf)) ?fs) =
      concat (map (controllerRuns L ctx (ms_world st)) (map fst ?fs))" by (simp add: w comp_def)
  then have "st' = managerStarted E L ctx st"
    using loop by (simp add: st' st2 managerStarted_def map_fst_mapRange [OF assms(1)] Let_def)
  with rs show ?thesis by blast
qed

section \<open>Coming up\<close>

text \<open>The constructors of the libraries work, and the server says which resources it has.\<close>

definition libWorks :: "('g, 'x) mgrLib \<Rightarrow> bool" where
  "libWorks L \<longleftrightarrow> (\<forall>r n. isOk (ml_ConfigOrDie L r n) \<and> ml_ClientOrDie L r n = None \<and> ml_DiscoveryClientOrDie L r n = None \<and>
       ml_NewForConfigOrDie L r = None \<and> ml_metadata_NewForConfig L r = None) \<and>
     ml_ServerGroupsAndResources L \<noteq> [] \<and> (\<forall>g. isOk (ml_ParseGroupVersion L g)) \<and>
     (\<forall>b. ml_ParseCertsPEM L b = None \<and> ml_NewPublisher L b = None) \<and> (\<forall>f w. isOk (ml_PrivateKeyFromFile L f w)) \<and>
     (\<forall>x b. isOk (ml_LegacyTokenGenerator L x) \<and> ml_NewTokensController L x b = None) \<and>
     ml_NewServiceAccountsController L = None \<and> (\<forall>rs. ml_NewGarbageCollector L rs = None) \<and>
     (\<forall>f k d. ml_NewKubeAPIServerClientCSRSigningController L f k d = None \<and>
        ml_NewLegacyUnknownCSRSigningController L f k d = None) \<and>
     ml_NewSigner L = None \<and> ml_NewTokenCleaner L = None"

lemma isOkE: "isOk x \<Longrightarrow> (\<And>y. x = Ok y \<Longrightarrow> P) \<Longrightarrow> P"
  by (cases x) (auto simp: isOk_def)

abbreviation runsOk :: "world \<Rightarrow> (mgrState, 'a) go \<Rightarrow> bool" where
  "runsOk w m \<equiv> succeeds (\<lambda>st. ms_world st = w) (\<lambda>_. True) m"

lemma runsOk_bind: "runsOk w m \<Longrightarrow> (\<And>x. runsOk w (f x)) \<Longrightarrow> runsOk w (bindG m f)"
  by (rule succeeds_bind)

lemma runsOk_return: "runsOk w (returnG x)"
  by (rule succeeds_return) simp

lemmas works = runsOk_bind runsOk_return succeeds_wrap succeeds_if

lemma libWorks_calls:
  assumes "libWorks L"
  shows "runsOk w (clientOrDie L c n)" "runsOk w (configOrDie L c n)"
    "runsOk w (orDie (ml_DiscoveryClientOrDie L r n))" "runsOk w (orDie (ml_NewForConfigOrDie L r))"
    "runsOk w (orDie (ml_metadata_NewForConfig L r))" "runsOk w (failIf wr (ml_metadata_NewForConfig L r))"
    "runsOk w (orDie (ml_ClientOrDie L r n))" "runsOk w (failIf wr (ml_NewPublisher L b))"
    "runsOk w (failIf wr (ml_NewTokensController L x b))" "runsOk w (failIf wr (ml_NewServiceAccountsController L))"
    "runsOk w (failIf wr (ml_NewGarbageCollector L rs))" "runsOk w (failIf wr (ml_NewSigner L))"
    "runsOk w (failIf wr (ml_NewTokenCleaner L))"
    "runsOk w (failIf wr (ml_NewKubeAPIServerClientCSRSigningController L f k d))"
    "runsOk w (failIf wr (ml_NewLegacyUnknownCSRSigningController L f k d))"
    "runsOk w (\<lambda>st. (ml_PrivateKeyFromFile L f (ms_world st), st))" "runsOk w (\<lambda>st. (ml_LegacyTokenGenerator L x, st))"
proof -
  have n: "ml_ClientOrDie L r n = None" "ml_DiscoveryClientOrDie L r n = None" "ml_NewForConfigOrDie L r = None"
    "ml_metadata_NewForConfig L r = None" "ml_NewPublisher L b = None" "ml_NewTokensController L x b = None"
    "ml_NewServiceAccountsController L = None" "ml_NewGarbageCollector L rs = None" "ml_NewSigner L = None"
    "ml_NewTokenCleaner L = None" "ml_NewKubeAPIServerClientCSRSigningController L f k d = None"
    "ml_NewLegacyUnknownCSRSigningController L f k d = None" for r n b x rs f k d
    using assms by (auto simp: libWorks_def)
  have c: "isOk (ml_ConfigOrDie L r n)" "isOk (ml_PrivateKeyFromFile L f u)" "isOk (ml_LegacyTokenGenerator L x)" for r n f u x
    using assms by (auto simp: libWorks_def)
  show "runsOk w (configOrDie L c n)"
    by (rule isOkE [OF c(1) [of "cx_Kubeconfig c" n]]) (simp add: configOrDie_def succeed)
  show "runsOk w (\<lambda>st. (ml_PrivateKeyFromFile L f (ms_world st), st))"
    by (rule isOkE [OF c(2) [of f w]]) (simp add: succeeds_def)
  show "runsOk w (\<lambda>st. (ml_LegacyTokenGenerator L x, st))"
    by (rule isOkE [OF c(3) [of x]]) (simp add: succeeds_def)
qed (use assms in \<open>simp_all add: libWorks_def clientOrDie_def orDie_def failIf_def succeed\<close>)

lemma goRun_works: "runsOk w (goRun r)"
  by (simp add: succeeds_def goRun_def)

text \<open>The root authority given by a file can be read.\<close>

definition rootFileOk :: "env \<Rightarrow> 'g ComponentConfig \<Rightarrow> world \<Rightarrow> bool" where
  "rootFileOk E c w = (let f = RootCAFile (cc_SA c) in f = [] \<or> (files w f \<noteq> None \<and> os_fault E (CallReadFile f) w = None))"

lemma rootCAOf_works:
  assumes "libWorks L" "rootFileOk E (cx_ComponentConfig c) w"
  shows "runsOk w (rootCAOf E L c n)"
proof (cases "RootCAFile (cc_SA (cx_ComponentConfig c)) = []")
  case True
  have "runsOk w (bindG (configOrDie L c n) (\<lambda>r. returnG (rc_CAData r)))"
    by (intro works libWorks_calls [OF assms(1)])
  with True show ?thesis by (simp add: rootCAOf_def)
next
  case False
  then obtain b where b: "files w (RootCAFile (cc_SA (cx_ComponentConfig c))) = Some b"
    and f: "os_fault E (CallReadFile (RootCAFile (cc_SA (cx_ComponentConfig c)))) w = None"
    using assms(2) by (auto simp: rootFileOk_def Let_def)
  have p: "ml_ParseCertsPEM L x = None" for x using assms(1) by (simp add: libWorks_def)
  have "readCA E L (RootCAFile (cc_SA (cx_ComponentConfig c))) w = (Ok b, w)"
    by (simp add: readCA_def os_ReadFile_def faultG_def f b p failIf_def bindG_def returnG_def)
  then have "runsOk w (inWorld (readCA E L (RootCAFile (cc_SA (cx_ComponentConfig c)))))"
    by (simp add: succeeds_def inWorld_def zoomG_def)
  with False show ?thesis by (auto simp: rootCAOf_def Let_def intro: succeed)
qed

definition oneKindOfPair :: "CSRSigningControllerConfiguration \<Rightarrow> bool" where
  "oneKindOfPair c = (ClusterSigningCertFile c = [] \<or> ClusterSigningKeyFile c = [] \<or> \<not> anySpecificFilesSet c)"

lemma initializers_work:
  assumes "libWorks L" "rootFileOk E (cx_ComponentConfig ctx) w" "oneKindOfPair (cc_CSRSigning (cx_ComponentConfig ctx))"
    and "(name, f) \<in> set (NewControllerInitializers E L)"
  shows "runsOk w (f ctx)"
proof -
  note c = works goRun_works libWorks_calls [OF assms(1)]
  have signer: "runsOk w (startSigner n (ml_NewKubeAPIServerClientCSRSigningController L) fs d)"
    "runsOk w (startSigner n (ml_NewLegacyUnknownCSRSigningController L) fs d)" for n fs d
    by (cases fs; simp only: startSigner_def prod.case; intro c)+
  have "runsOk w (startNamespaceController L ctx)"
    unfolding startNamespaceController_def startModifiedNamespaceController_def Let_def by (intro c)
  moreover have "runsOk w (startServiceAccountController L ctx)"
    unfolding startServiceAccountController_def by (intro c)
  moreover have "runsOk w (startGarbageCollectorController L ctx)"
    unfolding startGarbageCollectorController_def Let_def by (intro c)
  moreover have "runsOk w (startCSRSigningController L ctx)"
    using assms(3) signer unfolding startCSRSigningController_def oneKindOfPair_def Let_def
    by (intro c) auto
  moreover have "runsOk w (startCSRApprovingController L ctx)"
    unfolding startCSRApprovingController_def by (intro c)
  moreover have "runsOk w (startCSRCleanerController L ctx)"
    unfolding startCSRCleanerController_def by (intro c)
  moreover have "runsOk w (startBootstrapSignerController L ctx)"
    unfolding startBootstrapSignerController_def by (intro c)
  moreover have "runsOk w (startTokenCleanerController L ctx)"
    unfolding startTokenCleanerController_def by (intro c)
  moreover have "runsOk w (startRootCACertPublisher E L ctx)"
    unfolding startRootCACertPublisher_def by (intro c rootCAOf_works [OF assms(1,2)])
  moreover have "runsOk w (startClusterRoleAggregrationController L ctx)"
    unfolding startClusterRoleAggregrationController_def by (intro c)
  ultimately show ?thesis using assms(4) by (auto simp: NewControllerInitializers_def mapPut_def)
qed

lemma startLoop_works:
  "(\<And>n f. (n, f) \<in> set fs \<Longrightarrow> runsOk w (f ctx)) \<Longrightarrow> runsOk w (startLoop False ctx fs cs)"
proof (induction fs arbitrary: cs)
  case Nil
  then show ?case by (simp add: works)
next
  case (Cons nf fs)
  obtain n f where nf: "nf = (n, f)" by (cases nf)
  have "runsOk w (case x of (ctrl, started) \<Rightarrow> if \<not> started then startLoop False ctx fs cs
      else bindG (mountDebug False n ctrl) (\<lambda>_. startLoop False ctx fs (cs @ [checkOf n ctrl])))" for x
    using Cons by (cases x) (auto simp: mountDebug_off intro!: works)
  moreover have "runsOk w (f ctx)" using Cons.prems by (auto simp: nf)
  ultimately show ?case unfolding nf startLoop.simps by (intro runsOk_bind)
qed

lemma token_works:
  assumes "libWorks L" "rootFileOk E (cx_ComponentConfig ctx) w"
  shows "runsOk w (startServiceAccountTokenController E L ctx)"
proof -
  have "runsOk w (\<lambda>st. (Ok (), st\<lparr>ms_informers := True\<rparr>))" by (simp add: succeeds_def)
  note c = works goRun_works libWorks_calls [OF assms(1)] rootCAOf_works [OF assms] this
  show ?thesis unfolding startServiceAccountTokenController_def Let_def by (intro c)
qed

lemma collectResources_works: "(\<And>g. isOk (ml_ParseGroupVersion L g)) \<Longrightarrow> \<exists>rs. collectResources L xs acc = Ok rs"
proof (induction xs arbitrary: acc)
  case (Cons x xs)
  obtain g ns where x: "x = (g, ns)" by (cases x)
  from Cons.prems [of g] obtain v where "ml_ParseGroupVersion L g = Ok v" by (rule isOkE)
  with Cons show ?case by (simp add: x)
qed simp

lemma context_works:
  assumes "libWorks L"
  shows "\<exists>rs. CreateControllerContext L c st = (Ok (contextOf c rs), st)"
proof -
  have "isOk (ml_ConfigOrDie L (ct_Kubeconfig c) ''metadata-informers'')" using assms by (simp add: libWorks_def)
  then obtain r where r: "ml_ConfigOrDie L (ct_Kubeconfig c) ''metadata-informers'' = Ok r" by (rule isOkE)
  obtain rs where rs: "collectResources L (ml_ServerGroupsAndResources L) {} = Ok rs"
    using collectResources_works [of L "ml_ServerGroupsAndResources L" "{}"] assms unfolding libWorks_def by blast
  have n: "ml_metadata_NewForConfig L x = None" "ml_DiscoveryClientOrDie L x n = None" "ml_ClientOrDie L x n = None"
    "ml_ServerGroupsAndResources L \<noteq> []" for x n
    using assms by (auto simp: libWorks_def)
  show ?thesis
    by (intro exI [of _ rs]) (simp add: CreateControllerContext_def GetAvailableResources_def r rs n orDie_def contextOf_def bindG_def returnG_def)
qed

lemma manager_works:
  assumes "range_ok (range_order E)" "libWorks L" "rootFileOk E (ct_ComponentConfig c) (ms_world st)"
    "oneKindOfPair (cc_CSRSigning (ct_ComponentConfig c))"
  shows "\<exists>st'. managerRun E L c st = (Ok (), st')"
proof -
  let ?fs = "mapRange (range_order E) (NewControllerInitializers E L)"
  obtain rs where ctx: "CreateControllerContext L c st = (Ok (contextOf c rs), st)" using context_works [OF assms(2)] ..
  have cc: "cx_ComponentConfig (contextOf c rs) = ct_ComponentConfig c" by (simp add: contextOf_def)
  have loop: "runsOk (ms_world st) (startLoop False (contextOf c rs) ?fs [])"
  proof (rule startLoop_works)
    show "runsOk (ms_world st) (f (contextOf c rs))" if "(n, f) \<in> set ?fs" for n f
      using that assms set_mapRange [OF assms(1) initializers_distinct]
      by (intro initializers_work [of L E "contextOf c rs" "ms_world st" n f]) (simp_all only: cc, blast)
  qed
  have tok: "runsOk (ms_world st) (startServiceAccountTokenController E L (contextOf c rs))"
    by (rule token_works) (use assms in \<open>simp_all only: cc\<close>)
  have add: "runsOk w (\<lambda>st. (Ok (), st\<lparr>ms_checks := ms_checks st @ cs\<rparr>))" for w cs by (simp add: succeeds_def)
  have "runsOk (ms_world st) (StartControllers E False (contextOf c rs) (Some (startServiceAccountTokenController E L)) (NewControllerInitializers E L))"
    unfolding StartControllers_def option.case by (intro works loop tok add)
  then obtain x st1 where "StartControllers E False (contextOf c rs) (Some (startServiceAccountTokenController E L))
      (NewControllerInitializers E L) st = (Ok x, st1)"
    using succeedsD by fastforce
  then show ?thesis by (simp add: managerRun_def fatal_def tryG_def ctx bindG_def returnG_def)
qed

section \<open>Which failures stop the manager\<close>

lemma startLoop_each:
  assumes "\<And>name f. (name, f) \<in> set fs \<Longrightarrow> starts f ctx (ms_world st) (runs name) (on name) (i name)"
    and "startLoop False ctx fs cs st = (Ok cs', st')" and "(n, f) \<in> set fs"
  shows "\<exists>st1 x st2. ms_world st1 = ms_world st \<and> f ctx st1 = (Ok x, st2)"
  using assms
proof (induction fs arbitrary: cs st)
  case (Cons mg fs)
  obtain m g where mg: "mg = (m, g)" by (cases mg)
  from Cons.prems(2) obtain x en st1 ds where 1: "g ctx st = (Ok (x, en), st1)" and
    2: "startLoop False ctx fs ds st1 = (Ok cs', st')"
    by (fastforce simp: mg gom_iff mountDebug_off split: if_splits)
  have "starts g ctx (ms_world st) (runs m) (on m) (i m)" using Cons.prems(1) by (simp add: mg)
  with 1 have s: "ms_world st1 = ms_world st" unfolding starts_def by fastforce
  show ?case
  proof (cases "(n, f) = mg")
    case True
    with 1 show ?thesis by (auto simp: mg)
  next
    case False
    with Cons.IH [OF _ 2] Cons.prems s show ?thesis by simp
  qed
qed simp

lemma managerRun_each:
  assumes "range_ok (range_order E)" "managerRun E L c st = (Ok (), st')" "(n, f) \<in> set (NewControllerInitializers E L)"
  shows "\<exists>rs st1 x st2. ms_world st1 = ms_world st \<and> f (contextOf c rs) st1 = (Ok x, st2)"
proof -
  let ?fs = "mapRange (range_order E) (NewControllerInitializers E L)"
  obtain ctx st1 x st2 cs st3 where
    1: "CreateControllerContext L c st = (Ok ctx, st1)" and 2: "startServiceAccountTokenController E L ctx st1 = (Ok x, st2)"
    and 3: "startLoop False ctx ?fs [] st2 = (Ok cs, st3)"
    using assms(2) by (auto simp: managerRun_def StartControllers_def gom_iff)
  obtain rs where rs: "ctx = contextOf c rs" "st1 = st" using context_Ok [OF 1] by auto
  have w: "ms_world st2 = ms_world st" using token_starts [OF 2] rs by auto
  have f: "(n, f) \<in> set ?fs" using set_mapRange [OF assms(1) initializers_distinct] assms(3) by blast
  have "\<exists>st1 x st2'. ms_world st1 = ms_world st2 \<and> f ctx st1 = (Ok x, st2')"
  proof (rule startLoop_each [OF _ 3 f])
    show "starts g ctx (ms_world st2) (controllerRuns L ctx (ms_world st2) m) (enabledIn ctx m) (gcIface L m)"
      if "(m, g) \<in> set ?fs" for m g
      using that set_mapRange [OF assms(1) initializers_distinct] initializers_start by blast
  qed
  then show ?thesis unfolding w rs(1) by blast
qed

lemma csr_listed: "(''csrsigning'', startCSRSigningController L) \<in> set (NewControllerInitializers E L)"
  and publisher_listed: "(''root-ca-cert-publisher'', startRootCACertPublisher E L) \<in> set (NewControllerInitializers E L)"
  by (simp_all add: NewControllerInitializers_def mapPut_def)

lemma csr_one_kind:
  assumes "startCSRSigningController L ctx st = (Ok x, st')"
  shows "oneKindOfPair (cc_CSRSigning (cx_ComponentConfig ctx))"
proof (rule ccontr)
  assume "\<not> ?thesis"
  then have "startCSRSigningController L ctx = failG (Errorf ''cannot specify default and per controller certs at the same time'' [])"
    by (auto simp: startCSRSigningController_def oneKindOfPair_def Let_def fun_eq_iff)
  with assms show False by (simp add: failG_def)
qed

lemma readCA_fault: "readCA E L f w = (Ok ca, w') \<Longrightarrow> os_fault E (CallReadFile f) w = None"
  by (auto simp: readCA_def os_ReadFile_def faultG_def gom_iff split: option.splits)

lemma publisher_file:
  assumes "startRootCACertPublisher E L ctx st = (Ok x, st')"
  shows "rootFileOk E (cx_ComponentConfig ctx) (ms_world st)"
proof (cases "RootCAFile (cc_SA (cx_ComponentConfig ctx)) = []")
  case True
  then show ?thesis by (simp add: rootFileOk_def)
next
  case False
  obtain ca st1 where "rootCAOf E L ctx ''root-ca-cert-publisher'' st = (Ok ca, st1)"
    using assms by (auto simp: startRootCACertPublisher_def gom_iff)
  with False obtain w' where "readCA E L (RootCAFile (cc_SA (cx_ComponentConfig ctx))) (ms_world st) = (Ok ca, w')"
    by (auto simp: rootCAOf_def Let_def gom_iff inWorld_def)
  with readCA_Ok readCA_fault show ?thesis by (fastforce simp: rootFileOk_def Let_def)
qed

lemma contextOf_simps [simp]: "cx_ComponentConfig (contextOf c rs) = ct_ComponentConfig c"
  by (simp add: contextOf_def)

section \<open>The signing pair of the server\<close>

fun isCSRSigner :: "running \<Rightarrow> bool" where
  "isCSRSigner (CSRSigner n c k d i) = True"
| "isCSRSigner _ = False"

lemma other_runs_no_signer: "n \<noteq> ''csrsigning'' \<Longrightarrow> filter isCSRSigner (controllerRuns L ctx w n) = []"
  by (auto simp: controllerRuns_def Let_def split: outcome.splits option.splits)

lemma token_no_signer: "filter isCSRSigner (tokenRuns L ctx w) = []"
  by (auto simp: tokenRuns_def Let_def split: option.splits)

lemma concat_one:
  assumes "distinct ns" "k \<in> set ns" "\<And>n. n \<noteq> k \<Longrightarrow> g n = []"
  shows "concat (map g ns) = g k"
  using assms(1,2)
proof (induction ns)
  case (Cons n ns)
  show ?case
  proof (cases "n = k")
    case True
    have "g m = []" if "m \<in> set ns" for m using that Cons.prems(1) assms(3) True by (metis distinct.simps(2))
    then have "concat (map g ns) = []" by simp
    with True show ?thesis by simp
  next
    case False
    with Cons assms(3) show ?thesis by simp
  qed
qed simp

lemma order_names:
  assumes "range_ok ord"
  shows "distinct (ord (map fst (NewControllerInitializers E L)))"
    and "set (ord (map fst (NewControllerInitializers E L))) = set (map fst (NewControllerInitializers E L))"
  using assms initializers_distinct [of E L] by (auto simp: range_ok_def mapWf_def)

lemma started_signers:
  assumes "range_ok (range_order E)" "ms_running st = []"
  shows "filter isCSRSigner (ms_running (managerStarted E L ctx st)) = filter isCSRSigner (controllerRuns L ctx (ms_world st) ''csrsigning'')"
proof -
  let ?ns = "range_order E (map fst (NewControllerInitializers E L))"
  have "''csrsigning'' \<in> set ?ns" using order_names(2) [OF assms(1)] by (simp add: initializers_names)
  then have "concat (map (\<lambda>n. filter isCSRSigner (controllerRuns L ctx (ms_world st) n)) ?ns) =
      filter isCSRSigner (controllerRuns L ctx (ms_world st) ''csrsigning'')"
    by (intro concat_one order_names(1) [OF assms(1)] other_runs_no_signer)
  then show ?thesis
    by (simp add: managerStarted_def Let_def assms(2) token_no_signer filter_concat comp_def)
qed

lemma started_includes:
  assumes "range_ok (range_order E)" "n \<in> set (map fst (NewControllerInitializers E L))" "r \<in> set (controllerRuns L ctx (ms_world st) n)"
  shows "r \<in> set (ms_running (managerStarted E L ctx st))"
  using assms order_names(2) [OF assms(1), of E L] by (auto simp: managerStarted_def Let_def)

lemma managerConfig_signing:
  assumes "managerConfig ga nf z s cfg = Ok config" "CSRSigningController s = Some c"
  shows "cc_CSRSigning (ct_ComponentConfig config) = c"
  using assms
  by (auto simp: managerConfig_def managerApplyTo_def csrSigningApplyTo_all bindO_def split: option.splits outcome.splits)

section \<open>Inputs\<close>

definition demoManaged :: "unit ComponentConfig" where
  "demoManaged = \<lparr>cc_Generic = (),
     cc_CSRSigning = \<lparr>ClusterSigningCertFile = ''/c'', ClusterSigningKeyFile = ''/k'', KubeletServingSignerConfiguration = demoPair [],
       KubeletClientSignerConfiguration = demoPair [], KubeAPIServerClientSignerConfiguration = demoPair [],
       LegacyUnknownSignerConfiguration = demoPair [], ClusterSigningDuration = 3600\<rparr>,
     cc_GarbageCollector = \<lparr>ConcurrentGCSyncs = 20, GCIgnoredResources = [], EnableGarbageCollector = True\<rparr>,
     cc_Namespace = \<lparr>NamespaceSyncPeriod = 60, ConcurrentNamespaceSyncs = 10\<rparr>,
     cc_SA = \<lparr>ServiceAccountKeyFilePath = [], ConcurrentSATokenSyncs = 5, RootCAFile = []\<rparr>\<rparr>"

section \<open>Properties\<close>


text \<open>A machine without files and a library whose constructors work.\<close>

definition demoRest :: restConfig where
  "demoRest = \<lparr>rc_QPS = 50, rc_Burst = 100, rc_CAData = Text ''ca''\<rparr>"

definition demoManagerLib :: "(unit, unit) mgrLib" where
  "demoManagerLib = \<lparr>ml_newForConfig = (\<lambda>_. None), ml_genericApplyTo = (\<lambda>_ g. Ok g), ml_zeroConfig = demoManaged,
     ml_ConfigOrDie = (\<lambda>r _. Ok r), ml_ClientOrDie = (\<lambda>_ _. None), ml_DiscoveryClientOrDie = (\<lambda>_ _. None),
     ml_NewForConfigOrDie = (\<lambda>_. None), ml_metadata_NewForConfig = (\<lambda>_. None), ml_ServerGroupsAndResources = [(''v1'', [''pods''])],
     ml_ParseGroupVersion = (\<lambda>g. Ok ([], g)), ml_IsControllerEnabled = (\<lambda>n off _. n \<notin> set off), ml_ParseCertsPEM = (\<lambda>_. None),
     ml_PrivateKeyFromFile = (\<lambda>_ _. Ok ()), ml_LegacyTokenGenerator = Ok, ml_NewTokensController = (\<lambda>_ _. None),
     ml_NewServiceAccountsController = None, ml_NewGarbageCollector = (\<lambda>_. None),
     ml_NewKubeAPIServerClientCSRSigningController = (\<lambda>_ _ _. None), ml_NewLegacyUnknownCSRSigningController = (\<lambda>_ _ _. None),
     ml_NewSigner = None, ml_NewTokenCleaner = None, ml_NewPublisher = (\<lambda>_. None), ml_gcDebuggingHandler = Some True,
     ml_gcHealthChecker = Some True\<rparr>"

lemma demoManagerLib_works: "libWorks demoManagerLib"
  by (simp add: libWorks_def demoManagerLib_def isOk_def)

definition demoMgrState :: mgrState where
  "demoMgrState = \<lparr>ms_world = \<lparr>files = Map.empty, nextPtr = 0, clockAt = (\<lambda>_. 0), ticks = 0\<rparr>, ms_running = [], ms_informers = False,
     ms_metadataInformers = False, ms_informersStarted = False, ms_mux = [], ms_checks = []\<rparr>"

definition demoManagerConfig :: "(unit, restConfig) controllerConfig" where
  "demoManagerConfig = \<lparr>ct_ComponentConfig = demoManaged, ct_Kubeconfig = demoRest\<rparr>"

lemma demo_manager_ready:
  "rootFileOk E (ct_ComponentConfig demoManagerConfig) w" "oneKindOfPair (cc_CSRSigning (ct_ComponentConfig demoManagerConfig))"
  by (simp_all add: rootFileOk_def oneKindOfPair_def demoManagerConfig_def demoManaged_def anySpecificFilesSet_def
      areKubeAPIServerClientSignerFilesSpecified_def areLegacyUnknownSignerFilesSpecified_def filesSet_def demoPair_def)

lemma exists_range_id: "\<exists>E :: env. range_order E = (\<lambda>ks. ks)"
proof -
  have "range_order (undefined\<lparr>range_order := (\<lambda>ks. ks)\<rparr> :: env) = (\<lambda>ks. ks)" by simp
  then show ?thesis ..
qed

definition demoManagerOptions :: "unit KubeControllerManagerOptions" where
  "demoManagerOptions = \<lparr>km_Generic = (), CSRSigningController = Some (cc_CSRSigning demoManaged),
     GarbageCollectorController = Some (cc_GarbageCollector demoManaged), NamespaceController = Some (cc_Namespace demoManaged),
     SAController = Some (cc_SA demoManaged)\<rparr>"

lemma demo_run_controllers:
  assumes "range_ok (range_order E)"
  shows "\<exists>st' s'. RunKubeControllers E demoManagerLib demoRest ''/ca.crt'' ''/ca.key'' (demoMgrState, demoManagerOptions) = (Ok (), (st', s'))"
proof -
  let ?s = "withSigningFiles ''/ca.crt'' ''/ca.key'' demoManagerOptions"
  let ?c = "managerConfig (ml_genericApplyTo demoManagerLib) (ml_newForConfig demoManagerLib) (ml_zeroConfig demoManagerLib) ?s demoRest"
  obtain config where config: "?c = Ok config" and sa: "RootCAFile (cc_SA (ct_ComponentConfig config)) = []"
    by (simp add: managerConfig_def managerApplyTo_def csrSigningApplyTo_def gcApplyTo_def namespaceApplyTo_def saApplyTo_def bindO_def
        withSigningFiles_def demoManagerOptions_def demoManagerLib_def demoManaged_def)
  have cc: "cc_CSRSigning (ct_ComponentConfig config) = (cc_CSRSigning demoManaged)\<lparr>ClusterSigningCertFile := ''/ca.crt'', ClusterSigningKeyFile := ''/ca.key''\<rparr>"
    by (rule managerConfig_signing [OF config]) (simp add: withSigningFiles_def demoManagerOptions_def)
  have "oneKindOfPair (cc_CSRSigning (ct_ComponentConfig config))"
    by (simp add: cc oneKindOfPair_def demoManaged_def anySpecificFilesSet_def
      areKubeAPIServerClientSignerFilesSpecified_def areLegacyUnknownSignerFilesSpecified_def filesSet_def demoPair_def)
  then obtain st' where "managerRun E demoManagerLib config demoMgrState = (Ok (), st')"
    using manager_works [OF assms demoManagerLib_works, of config demoMgrState] sa by (auto simp: rootFileOk_def)
  with config show ?thesis by (simp add: RunKubeControllers_def demoManagerOptions_def Let_def)
qed


text \<open>
  C20: when the server starts the controllers with its client authority, both signers of certificate
  requests run with exactly this pair and the configured lifetime, and no other signer runs; the
  options keep the pair. Files for a specific signer make the start fail instead.
\<close>

theorem server_pair_signs_requests:
  assumes "range_ok (range_order E)" "cert \<noteq> []" "key \<noteq> []" "CSRSigningController s = Some c" "ms_running st = []"
    and "RunKubeControllers E L cfg cert key (st, s) = (Ok (), (st', s'))"
  shows "\<not> anySpecificFilesSet c \<and>
     filter isCSRSigner (ms_running st') =
       [CSRSigner ''kubernetes.io/kube-apiserver-client'' cert key (ClusterSigningDuration c) 5,
        CSRSigner ''kubernetes.io/legacy-unknown'' cert key (ClusterSigningDuration c) 5] \<and>
     CSRSigningController s' = Some (c\<lparr>ClusterSigningCertFile := cert, ClusterSigningKeyFile := key\<rparr>)"
proof -
  let ?c = "c\<lparr>ClusterSigningCertFile := cert, ClusterSigningKeyFile := key\<rparr>"
  have s': "CSRSigningController (withSigningFiles cert key s) = Some ?c" by (simp add: withSigningFiles_def assms(4))
  obtain config where config: "managerConfig (ml_genericApplyTo L) (ml_newForConfig L) (ml_zeroConfig L) (withSigningFiles cert key s) cfg = Ok config"
    and run: "managerRun E L config st = (Ok (), st')" and w: "s' = withSigningFiles cert key s"
    using assms(4,6) by (auto simp: RunKubeControllers_def Let_def split: outcome.splits prod.splits)
  have cc: "cc_CSRSigning (ct_ComponentConfig config) = ?c" by (rule managerConfig_signing [OF config s'])
  obtain rs st1 x st2 where "startCSRSigningController L (contextOf config rs) st1 = (Ok x, st2)"
    using managerRun_each [OF assms(1) run csr_listed] by blast
  then have "oneKindOfPair ?c" using csr_one_kind cc by fastforce
  then have no: "\<not> anySpecificFilesSet ?c" by (simp add: oneKindOfPair_def assms(2,3))
  then have no': "\<not> anySpecificFilesSet c"
    by (simp add: anySpecificFilesSet_def areKubeAPIServerClientSignerFilesSpecified_def areLegacyUnknownSignerFilesSpecified_def)
  obtain rs' where st': "st' = managerStarted E L (contextOf config rs') st" using managerRun_Ok [OF assms(1) run] by blast
  have "filter isCSRSigner (ms_running st') = csrRuns ?c"
    using assms(2,3) no by (simp add: st' started_signers [OF assms(1,5)] controllerRuns_def enabledIn_def cc csrRuns_def signerRuns_def
        getKubeAPIServerClientSignerFiles_def getLegacyUnknownSignerFiles_def)
  then show ?thesis
    using assms(2,3) no no' s' w by (simp add: csrRuns_def signingOn_def signerRuns_def getKubeAPIServerClientSignerFiles_def getLegacyUnknownSignerFiles_def)
qed

theorem server_pair_signs_requests_witness:
  "\<exists>E st' s'. RunKubeControllers E demoManagerLib demoRest ''/ca.crt'' ''/ca.key'' (demoMgrState, demoManagerOptions) = (Ok (), (st', s')) \<and>
     filter isCSRSigner (ms_running st') =
       [CSRSigner ''kubernetes.io/kube-apiserver-client'' ''/ca.crt'' ''/ca.key'' 3600 5,
        CSRSigner ''kubernetes.io/legacy-unknown'' ''/ca.crt'' ''/ca.key'' 3600 5]"
proof -
  obtain E :: env where E: "range_order E = (\<lambda>ks. ks)" using exists_range_id by blast
  have ord: "range_ok (range_order E)" by (simp add: E range_ok_def)
  obtain st' s' where r: "RunKubeControllers E demoManagerLib demoRest ''/ca.crt'' ''/ca.key'' (demoMgrState, demoManagerOptions) = (Ok (), (st', s'))"
    using demo_run_controllers [OF ord] by blast
  have d: "ClusterSigningDuration (cc_CSRSigning demoManaged) = 3600" by (simp add: demoManaged_def)
  have "filter isCSRSigner (ms_running st') =
       [CSRSigner ''kubernetes.io/kube-apiserver-client'' ''/ca.crt'' ''/ca.key'' (ClusterSigningDuration (cc_CSRSigning demoManaged)) 5,
        CSRSigner ''kubernetes.io/legacy-unknown'' ''/ca.crt'' ''/ca.key'' (ClusterSigningDuration (cc_CSRSigning demoManaged)) 5]"
    using server_pair_signs_requests [OF ord _ _ _ _ r, of "cc_CSRSigning demoManaged"]
    by (simp add: demoManagerOptions_def demoMgrState_def)
  then show ?thesis unfolding d using r by blast
qed

text \<open>
  The bootstrap signer and the token cleaner, which are declared to be off by default, run in every
  manager that comes up, whatever the flag that selects the controllers says.
\<close>

theorem disabled_controllers_run:
  assumes "range_ok (range_order E)" "managerRun E L c st = (Ok (), st')"
  shows "OtherController ''bootstrapsigner'' 1 \<in> set (ms_running st') \<and> OtherController ''tokencleaner'' 1 \<in> set (ms_running st') \<and>
     ControllersDisabledByDefault = [''bootstrapsigner'', ''tokencleaner'']"
proof -
  obtain rs where st': "st' = managerStarted E L (contextOf c rs) st" using managerRun_Ok [OF assms] by blast
  have "OtherController ''bootstrapsigner'' 1 \<in> set (ms_running st')"
    unfolding st' by (rule started_includes [OF assms(1), of "''bootstrapsigner''"])
      (simp_all add: initializers_names controllerRuns_def enabledIn_def)
  moreover have "OtherController ''tokencleaner'' 1 \<in> set (ms_running st')"
    unfolding st' by (rule started_includes [OF assms(1), of "''tokencleaner''"])
      (simp_all add: initializers_names controllerRuns_def enabledIn_def)
  ultimately show ?thesis by (simp add: ControllersDisabledByDefault_def)
qed

theorem disabled_controllers_run_witness:
  "\<exists>E st'. managerRun E demoManagerLib demoManagerConfig demoMgrState = (Ok (), st') \<and>
     \<not> IsControllerEnabled demoManagerLib (contextOf demoManagerConfig {}) ''tokencleaner'' \<and>
     OtherController ''tokencleaner'' 1 \<in> set (ms_running st')"
proof -
  obtain E :: env where E: "range_order E = (\<lambda>ks. ks)" using exists_range_id by blast
  have ord: "range_ok (range_order E)" by (simp add: E range_ok_def)
  obtain st' where r: "managerRun E demoManagerLib demoManagerConfig demoMgrState = (Ok (), st')"
    using manager_works [OF ord demoManagerLib_works demo_manager_ready] by blast
  have "\<not> IsControllerEnabled demoManagerLib (contextOf demoManagerConfig {}) ''tokencleaner''"
    by (simp add: IsControllerEnabled_def demoManagerLib_def ControllersDisabledByDefault_def)
  with r disabled_controllers_run [OF ord r] show ?thesis by blast
qed

end
