(* ===== verification/Bootstrap.thy ===== *)
theory Bootstrap
  imports KubeUtil ClusterRoleAgg
begin

text \<open>
  What the control plane creates in itself at the start: the resources of the hub
  (\<open>controllers/bootstrap/hub.go\<close>), its custom resource definitions (\<open>crds.go\<close>) and the hooks that run
  both (\<open>ocmhubresource.go\<close>, \<open>ocmcrd.go\<close>). The client of the control plane, the functions of kubeadm and
  library-go, the embedded files and \<open>wait.PollUntilContextCancel\<close> are in the record \<open>hubApi\<close>, on a state
  \<open>'k\<close>; \<open>Semantic.DeepEqual\<close> does not tell a nil slice from an empty one, so that it is equality of lists.
\<close>

section \<open>Objects\<close>

type_synonym clusterRole = "unit ClusterRole"

record roleRef =
  rr_APIGroup :: string
  rr_Kind :: string
  rr_Name :: string

record subject =
  sub_APIGroup :: string
  sub_Kind :: string
  sub_Name :: string

record clusterRoleBinding =
  crb_Name :: string
  crb_RoleRef :: roleRef
  crb_Subjects :: "subject list"

record tokenSecret =
  tok_Name :: string
  tok_Labels :: "string gomap"
  tok_Type :: string
  tok_StringData :: "string gomap"

record hubConfig =
  hc_CurrentCert :: bytes
  hc_ExternalAddress :: string

text \<open>A definition by its name, and whether its condition \<open>Established\<close> is true.\<close>

record crd =
  crd_Name :: string
  crd_Established :: bool

datatype decoded = CustomResourceDefinition crd | OtherObject string

type_synonym 'k pollFunc = "int \<Rightarrow> bool \<Rightarrow> ('k, bool) go \<Rightarrow> ('k, unit) go"

record 'k hubApi =
  h_NewForConfig :: "goerr option"
  h_CreateNamespace :: "string \<Rightarrow> ('k, unit) go"
  h_GetNamespace :: "string \<Rightarrow> ('k, unit) go"
  h_CreateOrUpdateConfigMap :: "string \<Rightarrow> string \<Rightarrow> bytes gomap \<Rightarrow> ('k, unit) go"
  h_CreateClusterInfoRBACRules :: "('k, unit) go"
  h_CreateSecret :: "string \<Rightarrow> tokenSecret \<Rightarrow> ('k, unit) go"
  h_GetClusterRole :: "string \<Rightarrow> ('k, clusterRole) go"
  h_CreateClusterRole :: "clusterRole \<Rightarrow> ('k, unit) go"
  h_UpdateClusterRole :: "clusterRole \<Rightarrow> ('k, unit) go"
  h_GetClusterRoleBinding :: "string \<Rightarrow> ('k, clusterRoleBinding) go"
  h_CreateClusterRoleBinding :: "clusterRoleBinding \<Rightarrow> ('k, unit) go"
  h_UpdateClusterRoleBinding :: "clusterRoleBinding \<Rightarrow> ('k, unit) go"
  h_clientcmd_Write :: "cluster gomap \<Rightarrow> bytes outcome"
  h_rand_Intn :: "nat \<Rightarrow> ('k, nat) go"
  h_PollUntilContextCancel :: "'k pollFunc"
  h_GetCRD :: "string \<Rightarrow> ('k, crd) go"
  h_ApplyCRD :: "crd \<Rightarrow> ('k, crd) go"
  h_crdFS_ReadFile :: "string \<Rightarrow> string outcome"
  h_CreateAssetFromTemplate :: "string \<Rightarrow> string \<Rightarrow> string outcome"
  h_Decode :: "string \<Rightarrow> decoded outcome"

definition isAlreadyExists :: "goerr \<Rightarrow> bool" where
  "isAlreadyExists e = (case e of ApiAlreadyExists _ \<Rightarrow> True | _ \<Rightarrow> False)"

text \<open>\<open>if err != nil && !errors.IsAlreadyExists(err) { return err }\<close>, and an error that is only logged.\<close>

definition unlessExists :: "('k, unit) go \<Rightarrow> ('k, unit) go" where
  "unlessExists m = tryG m returnG (\<lambda>e. if isAlreadyExists e then returnG () else failG e)"

definition logged :: "('k, unit) go \<Rightarrow> ('k, unit) go" where
  "logged m = tryG m returnG (\<lambda>_. returnG ())"

section \<open>hub.go\<close>

definition letterRunes_az09 :: string where
  "letterRunes_az09 = ''abcdefghijklmnopqrstuvwxyz0123456789''"

fun randStringRunes :: "'k hubApi \<Rightarrow> nat \<Rightarrow> string \<Rightarrow> ('k, string) go" where
  "randStringRunes H 0 runes = returnG []"
| "randStringRunes H (Suc n) runes =
     bindG (h_rand_Intn H (length runes)) (\<lambda>i. bindG (randStringRunes H n runes) (\<lambda>rest. returnG (runes ! i # rest)))"

definition prepareClusterInfoConfigmap :: "'k hubApi \<Rightarrow> hubConfig \<Rightarrow> ('k, unit) go" where
  "prepareClusterInfoConfigmap H config =
     (let clusters = [([], \<lparr>cl_Server = ''https://'' @ hc_ExternalAddress config, cl_CertificateAuthorityData = hc_CurrentCert config\<rparr>)] in
      bindG (ofO (h_clientcmd_Write H clusters)) (\<lambda>kubeconfigRaw.
      bindG (unlessExists (h_CreateOrUpdateConfigMap H ''kube-public'' ''cluster-info'' [(''kubeconfig'', kubeconfigRaw)])) (\<lambda>_.
      unlessExists (h_CreateClusterInfoRBACRules H))))"

definition bootstrapTokenSecret :: "string \<Rightarrow> string \<Rightarrow> tokenSecret" where
  "bootstrapTokenSecret tokenID token =
     \<lparr>tok_Name = ''bootstrap-token-'' @ tokenID, tok_Labels = [(''app'', ''cluster-manager'')],
      tok_Type = ''bootstrap.kubernetes.io/token'',
      tok_StringData = [(''token-id'', tokenID), (''token-secret'', token), (''usage-bootstrap-authentication'', ''true''),
        (''auth-extra-groups'', ''system:bootstrappers:managedcluster'')]\<rparr>"

definition prepareBootstrapTokenSecret :: "'k hubApi \<Rightarrow> ('k, unit) go" where
  "prepareBootstrapTokenSecret H =
     bindG (randStringRunes H 6 letterRunes_az09) (\<lambda>tokenID.
     bindG (randStringRunes H 16 letterRunes_az09) (\<lambda>token.
     unlessExists (h_CreateSecret H ''kube-system'' (bootstrapTokenSecret tokenID token))))"

definition prepareClusterRole :: "'k hubApi \<Rightarrow> clusterRole \<Rightarrow> ('k, unit) go" where
  "prepareClusterRole H required =
     tryG (h_GetClusterRole H (cr_Name required))
       (\<lambda>existing. if cr_Rules existing = cr_Rules required then returnG () else h_UpdateClusterRole H required)
       (\<lambda>e. if isNotFound e then h_CreateClusterRole H required else failG e)"

definition prepareClusterRoleBinding :: "'k hubApi \<Rightarrow> clusterRoleBinding \<Rightarrow> ('k, unit) go" where
  "prepareClusterRoleBinding H required =
     tryG (h_GetClusterRoleBinding H (crb_Name required))
       (\<lambda>existing. if crb_RoleRef existing = crb_RoleRef required \<and> crb_Subjects existing = crb_Subjects required
          then returnG () else h_UpdateClusterRoleBinding H required)
       (\<lambda>e. if isNotFound e then h_CreateClusterRoleBinding H required else failG e)"

definition bootstrapRule :: "string \<Rightarrow> string \<Rightarrow> string list \<Rightarrow> PolicyRule" where
  "bootstrapRule g r vs = \<lparr>Verbs = vs, APIGroups = [g], Resources = [r], ResourceNames = [], NonResourceURLs = []\<rparr>"

definition clusterRoles :: "clusterRole list" where
  "clusterRoles =
     [\<lparr>cr_Name = ''system:open-cluster-management:bootstrap'', cr_Labels = [], cr_AggregationRule = None,
       cr_Rules =
         [bootstrapRule [] ''configmaps'' [''get''],
          bootstrapRule ''certificates.k8s.io'' ''certificatesigningrequests'' [''get'', ''list'', ''watch'', ''create''],
          bootstrapRule ''cluster.open-cluster-management.io'' ''managedclusters'' [''get'', ''list'', ''update'', ''create''],
          bootstrapRule ''cluster.open-cluster-management.io'' ''managedclustersets/join'' [''create'']]\<rparr>]"

definition bindingOf :: "string \<Rightarrow> string \<Rightarrow> string \<Rightarrow> string \<Rightarrow> clusterRoleBinding" where
  "bindingOf name role kind who =
     \<lparr>crb_Name = name, crb_RoleRef = \<lparr>rr_APIGroup = ''rbac.authorization.k8s.io'', rr_Kind = ''ClusterRole'', rr_Name = role\<rparr>,
      crb_Subjects = [\<lparr>sub_APIGroup = ''rbac.authorization.k8s.io'', sub_Kind = kind, sub_Name = who\<rparr>]\<rparr>"

definition clusterRoleBindings :: "clusterRoleBinding list" where
  "clusterRoleBindings =
     [bindingOf ''cluster-bootstrap'' ''system:open-cluster-management:bootstrap'' ''Group'' ''system:bootstrappers:managedcluster'',
      bindingOf ''kube-admin'' ''cluster-admin'' ''User'' ''kube:admin'']"

text \<open>The condition of the second and third poll: wait for the namespace, then prepare.\<close>

definition onceNamespace :: "'k hubApi \<Rightarrow> string \<Rightarrow> ('k, unit) go \<Rightarrow> ('k, bool) go" where
  "onceNamespace H ns m = tryG (h_GetNamespace H ns) (\<lambda>_. bindG m (\<lambda>_. returnG True)) (\<lambda>_. returnG False)"

definition everySecond :: "'k hubApi \<Rightarrow> ('k, bool) go \<Rightarrow> ('k, unit) go" where
  "everySecond H cond = h_PollUntilContextCancel H (1 * time_Second) True cond"

definition BuildKubeSystemResources :: "'k hubApi \<Rightarrow> hubConfig \<Rightarrow> ('k, unit) go" where
  "BuildKubeSystemResources H config =
     bindG (logged (h_CreateNamespace H ''default'')) (\<lambda>_.
     bindG (logged (everySecond H (onceNamespace H ''kube-public'' (prepareClusterInfoConfigmap H config)))) (\<lambda>_.
     bindG (logged (everySecond H (onceNamespace H ''kube-system'' (prepareBootstrapTokenSecret H)))) (\<lambda>_.
     bindG (logged (everySecond H (bindG (forG clusterRoles (prepareClusterRole H)) (\<lambda>_. returnG True)))) (\<lambda>_.
     bindG (logged (everySecond H (bindG (forG clusterRoleBindings (prepareClusterRoleBinding H)) (\<lambda>_. returnG True)))) (\<lambda>_.
     returnG ())))))"

definition InstallHubResource :: "'k hubApi \<Rightarrow> hubConfig \<Rightarrow> ('k, unit) go" where
  "InstallHubResource H config = (case h_NewForConfig H of
     Some e \<Rightarrow> failG e
   | None \<Rightarrow> logged (BuildKubeSystemResources H config))"

section \<open>crds.go\<close>

definition baseCRDs :: "string list" where
  "baseCRDs =
     [''crds/0000_00_addon.open-cluster-management.io_clustermanagementaddons.crd.yaml'',
      ''crds/0000_00_clusters.open-cluster-management.io_managedclusters.crd.yaml'',
      ''crds/0000_00_clusters.open-cluster-management.io_managedclustersets.crd.yaml'',
      ''crds/0000_00_multicluster.x-k8s.io_clusterprofiles.crd.yaml'',
      ''crds/0000_00_work.open-cluster-management.io_manifestworks.crd.yaml'',
      ''crds/0000_00_work.open-cluster-management.io_manifestworkreplicasets.crd.yaml'',
      ''crds/0000_01_addon.open-cluster-management.io_managedclusteraddons.crd.yaml'',
      ''crds/0000_01_clusters.open-cluster-management.io_managedclustersetbindings.crd.yaml'',
      ''crds/0000_02_addon.open-cluster-management.io_addondeploymentconfigs.crd.yaml'',
      ''crds/0000_02_clusters.open-cluster-management.io_placements.crd.yaml'',
      ''crds/0000_03_addon.open-cluster-management.io_addontemplates.crd.yaml'',
      ''crds/0000_03_clusters.open-cluster-management.io_placementdecisions.crd.yaml'',
      ''crds/0000_05_clusters.open-cluster-management.io_addonplacementscores.crd.yaml'',
      ''crds/0000_06_authentication.open-cluster-management.io_managedserviceaccounts_crd.yaml'']"

definition ocmCRDs :: "string list" where
  "ocmCRDs =
     [''managedclusters.cluster.open-cluster-management.io'',
      ''managedclustersets.cluster.open-cluster-management.io'',
      ''managedclustersetbindings.cluster.open-cluster-management.io'',
      ''manifestworks.work.open-cluster-management.io'',
      ''manifestworkreplicasets.work.open-cluster-management.io'',
      ''clustermanagementaddons.addon.open-cluster-management.io'',
      ''managedclusteraddons.addon.open-cluster-management.io'',
      ''addondeploymentconfigs.addon.open-cluster-management.io'',
      ''addontemplates.addon.open-cluster-management.io'',
      ''placementdecisions.cluster.open-cluster-management.io'',
      ''placements.cluster.open-cluster-management.io'',
      ''addonplacementscores.cluster.open-cluster-management.io'',
      ''managedserviceaccounts.authentication.open-cluster-management.io'',
      ''clusterprofiles.multicluster.x-k8s.io'']"

text \<open>The bodies of the two polls: the loop stops at the first definition that is not there yet.\<close>

fun crdsReady :: "'k hubApi \<Rightarrow> string list \<Rightarrow> ('k, bool) go" where
  "crdsReady H [] = returnG True"
| "crdsReady H (crdName # rest) = tryG (h_GetCRD H crdName)
     (\<lambda>c. if \<not> crd_Established c then returnG False else crdsReady H rest) (\<lambda>_. returnG False)"

definition WaitFOROCMCRDsReady :: "'k hubApi \<Rightarrow> ('k, bool) go" where
  "WaitFOROCMCRDsReady H = tryG (everySecond H (crdsReady H ocmCRDs)) (\<lambda>_. returnG True) (\<lambda>_. returnG False)"

fun applyCRDs :: "'k hubApi \<Rightarrow> crd list \<Rightarrow> ('k, bool) go" where
  "applyCRDs H [] = returnG True"
| "applyCRDs H (required # rest) = tryG (h_ApplyCRD H required)
     (\<lambda>c. if \<not> crd_Established c then returnG False else applyCRDs H rest) (\<lambda>_. returnG False)"

fun readCRDs :: "'k hubApi \<Rightarrow> string list \<Rightarrow> crd list \<Rightarrow> ('k, crd list) go" where
  "readCRDs H [] crdObjs = returnG crdObjs"
| "readCRDs H (crdFileName # rest) crdObjs =
     bindG (ofO (h_crdFS_ReadFile H crdFileName)) (\<lambda>template.
     bindG (ofO (case h_CreateAssetFromTemplate H crdFileName template of Ok d \<Rightarrow> Ok d | _ \<Rightarrow> Panic ''template'')) (\<lambda>objData.
     bindG (ofO (h_Decode H objData)) (\<lambda>obj.
     readCRDs H rest (case obj of CustomResourceDefinition required \<Rightarrow> crdObjs @ [required] | OtherObject _ \<Rightarrow> crdObjs))))"

definition InstallBaseCRDs :: "'k hubApi \<Rightarrow> ('k, unit) go" where
  "InstallBaseCRDs H = bindG (readCRDs H baseCRDs []) (\<lambda>crdObjs. everySecond H (applyCRDs H crdObjs))"

definition InstallCRD :: "'k hubApi \<Rightarrow> ('k, unit) go" where
  "InstallCRD H = (case h_NewForConfig H of
     Some e \<Rightarrow> failG e
   | None \<Rightarrow> logged (InstallBaseCRDs H))"

section \<open>Laws\<close>

text \<open>
  \<open>wait.PollUntilContextCancel\<close> with \<open>immediate\<close> calls the condition at once and then after every
  interval, until it is true or fails, or until the context ends. The number of calls is that up to
  the end of the context.
\<close>

fun attempts :: "nat \<Rightarrow> ('k, bool) go \<Rightarrow> ('k, unit) go" where
  "attempts 0 cond = failG (ExternalError ''context canceled'')"
| "attempts (Suc n) cond = bindG cond (\<lambda>d. if d then returnG () else attempts n cond)"

definition poll_law :: "'k pollFunc \<Rightarrow> bool" where
  "poll_law poll = (\<forall>i cond k. \<exists>n. poll i True cond k = attempts (Suc n) cond k)"

lemma attempts_True:
  assumes "attempts n cond k = (Ok (), k')"
  shows "\<exists>k0. cond k0 = (Ok True, k')"
  using assms
proof (induction n arbitrary: k)
  case (Suc n)
  then obtain d k1 where "cond k = (Ok d, k1)" "(if d then returnG () else attempts n cond) k1 = (Ok (), k')"
    by (auto simp: bindG_Ok_iff)
  with Suc.IH show ?case by (cases d) (auto simp: returnG_def)
qed (simp add: failG_def)

end
