(* ===== verification/BootstrapProofs.thy ===== *)
theory BootstrapProofs
  imports Bootstrap
begin

text \<open>
  What the bootstrap leaves in a control plane. The objects a client can see are the record \<open>hubView\<close>;
  \<open>hub_law\<close> says that the calls of the client act on them as the Kubernetes API documents: a create of
  an existing object fails, an update needs one, the role of a binding cannot be changed. The theorems
  hold for every client with this behaviour, whatever its own state is.
\<close>

section \<open>The objects and the calls\<close>

record hubView =
  v_namespaces :: "string set"
  v_configMaps :: "string \<times> string \<Rightarrow> bytes gomap option"
  v_infoRules :: bool
  v_secrets :: "string \<times> string \<Rightarrow> tokenSecret option"
  v_roles :: "string \<Rightarrow> clusterRole option"
  v_bindings :: "string \<Rightarrow> clusterRoleBinding option"
  v_dice :: "nat \<Rightarrow> nat"

definition sCreateNamespace :: "string \<Rightarrow> (hubView, unit) go" where
  "sCreateNamespace n = (\<lambda>v. if n \<in> v_namespaces v then (Err (ApiAlreadyExists n), v)
     else (Ok (), v\<lparr>v_namespaces := insert n (v_namespaces v)\<rparr>))"

definition sGetNamespace :: "string \<Rightarrow> (hubView, unit) go" where
  "sGetNamespace n = (\<lambda>v. (if n \<in> v_namespaces v then Ok () else Err (ApiNotFound n), v))"

definition sPutConfigMap :: "string \<Rightarrow> string \<Rightarrow> bytes gomap \<Rightarrow> (hubView, unit) go" where
  "sPutConfigMap ns n d = (\<lambda>v. (Ok (), v\<lparr>v_configMaps := (v_configMaps v)((ns, n) \<mapsto> d)\<rparr>))"

definition sInfoRules :: "(hubView, unit) go" where
  "sInfoRules = (\<lambda>v. (Ok (), v\<lparr>v_infoRules := True\<rparr>))"

definition sCreateSecret :: "string \<Rightarrow> tokenSecret \<Rightarrow> (hubView, unit) go" where
  "sCreateSecret ns t = (\<lambda>v. if v_secrets v (ns, tok_Name t) \<noteq> None then (Err (ApiAlreadyExists (tok_Name t)), v)
     else (Ok (), v\<lparr>v_secrets := (v_secrets v)((ns, tok_Name t) \<mapsto> t)\<rparr>))"

definition sGetRole :: "string \<Rightarrow> (hubView, clusterRole) go" where
  "sGetRole n = (\<lambda>v. (case v_roles v n of Some r \<Rightarrow> Ok r | None \<Rightarrow> Err (ApiNotFound n), v))"

definition sCreateRole :: "clusterRole \<Rightarrow> (hubView, unit) go" where
  "sCreateRole r = (\<lambda>v. if v_roles v (cr_Name r) \<noteq> None then (Err (ApiAlreadyExists (cr_Name r)), v)
     else (Ok (), v\<lparr>v_roles := (v_roles v)(cr_Name r \<mapsto> r)\<rparr>))"

definition sUpdateRole :: "clusterRole \<Rightarrow> (hubView, unit) go" where
  "sUpdateRole r = (\<lambda>v. if v_roles v (cr_Name r) = None then (Err (ApiNotFound (cr_Name r)), v)
     else (Ok (), v\<lparr>v_roles := (v_roles v)(cr_Name r \<mapsto> r)\<rparr>))"

definition sGetBinding :: "string \<Rightarrow> (hubView, clusterRoleBinding) go" where
  "sGetBinding n = (\<lambda>v. (case v_bindings v n of Some b \<Rightarrow> Ok b | None \<Rightarrow> Err (ApiNotFound n), v))"

definition sCreateBinding :: "clusterRoleBinding \<Rightarrow> (hubView, unit) go" where
  "sCreateBinding b = (\<lambda>v. if v_bindings v (crb_Name b) \<noteq> None then (Err (ApiAlreadyExists (crb_Name b)), v)
     else (Ok (), v\<lparr>v_bindings := (v_bindings v)(crb_Name b \<mapsto> b)\<rparr>))"

definition sUpdateBinding :: "clusterRoleBinding \<Rightarrow> (hubView, unit) go" where
  "sUpdateBinding b = (\<lambda>v. case v_bindings v (crb_Name b) of
     None \<Rightarrow> (Err (ApiNotFound (crb_Name b)), v)
   | Some old \<Rightarrow> if crb_RoleRef old \<noteq> crb_RoleRef b then (Err (ExternalError ''cannot change roleRef''), v)
       else (Ok (), v\<lparr>v_bindings := (v_bindings v)(crb_Name b \<mapsto> b)\<rparr>))"

definition sIntn :: "nat \<Rightarrow> (hubView, nat) go" where
  "sIntn n = (\<lambda>v. (Ok (v_dice v 0 mod n), v\<lparr>v_dice := (\<lambda>i. v_dice v (Suc i))\<rparr>))"

text \<open>A call acts on the objects as \<open>f\<close> says, whatever else the state of the client holds.\<close>

definition runsTo :: "('k \<Rightarrow> 'v) \<Rightarrow> ('k, 'a) go \<Rightarrow> 'v \<Rightarrow> 'a outcome \<Rightarrow> 'v \<Rightarrow> bool" where
  "runsTo view m v r v' = (\<forall>k. view k = v \<longrightarrow> (\<exists>k'. m k = (r, k') \<and> view k' = v'))"

definition acts :: "('k \<Rightarrow> 'v) \<Rightarrow> ('k, 'a) go \<Rightarrow> ('v, 'a) go \<Rightarrow> bool" where
  "acts view m f = (\<forall>v. runsTo view m v (fst (f v)) (snd (f v)))"

definition hub_law :: "('k \<Rightarrow> hubView) \<Rightarrow> 'k hubApi \<Rightarrow> bool" where
  "hub_law view H = ((\<forall>n. acts view (h_CreateNamespace H n) (sCreateNamespace n)) \<and>
     (\<forall>n. acts view (h_GetNamespace H n) (sGetNamespace n)) \<and>
     (\<forall>ns n d. acts view (h_CreateOrUpdateConfigMap H ns n d) (sPutConfigMap ns n d)) \<and>
     acts view (h_CreateClusterInfoRBACRules H) sInfoRules \<and>
     (\<forall>ns t. acts view (h_CreateSecret H ns t) (sCreateSecret ns t)) \<and>
     (\<forall>n. acts view (h_GetClusterRole H n) (sGetRole n)) \<and>
     (\<forall>r. acts view (h_CreateClusterRole H r) (sCreateRole r)) \<and>
     (\<forall>r. acts view (h_UpdateClusterRole H r) (sUpdateRole r)) \<and>
     (\<forall>n. acts view (h_GetClusterRoleBinding H n) (sGetBinding n)) \<and>
     (\<forall>b. acts view (h_CreateClusterRoleBinding H b) (sCreateBinding b)) \<and>
     (\<forall>b. acts view (h_UpdateClusterRoleBinding H b) (sUpdateBinding b)) \<and>
     (\<forall>n. acts view (h_rand_Intn H n) (sIntn n)))"

section \<open>Steps on the objects\<close>

lemma actsD: "acts view m f \<Longrightarrow> f v = (r, v') \<Longrightarrow> runsTo view m v r v'"
  unfolding acts_def by (metis fst_conv snd_conv)

lemma runsTo_return: "runsTo view (returnG x) v (Ok x) v"
  by (simp add: runsTo_def returnG_def)

lemma runsTo_ofO: "runsTo view (ofO r) v r v"
  by (simp add: runsTo_def ofO_def)

lemma runsTo_bind: "runsTo view m v (Ok x) v1 \<Longrightarrow> runsTo view (f x) v1 r v2 \<Longrightarrow> runsTo view (bindG m f) v r v2"
  unfolding runsTo_def bindG_def by fastforce

lemma runsTo_try_Ok: "runsTo view m v (Ok x) v1 \<Longrightarrow> runsTo view (f x) v1 r v2 \<Longrightarrow> runsTo view (tryG m f g) v r v2"
  unfolding runsTo_def tryG_def by fastforce

lemma runsTo_try_Err: "runsTo view m v (Err e) v1 \<Longrightarrow> runsTo view (g e) v1 r v2 \<Longrightarrow> runsTo view (tryG m f g) v r v2"
  unfolding runsTo_def tryG_def by fastforce

lemma runsTo_logged: "runsTo view m v (Ok ()) v' \<Longrightarrow> runsTo view (logged m) v (Ok ()) v'"
  unfolding logged_def by (erule runsTo_try_Ok) (rule runsTo_return)

lemma runsTo_unlessExists: "runsTo view m v (Ok ()) v' \<Longrightarrow> runsTo view (unlessExists m) v (Ok ()) v'"
  unfolding unlessExists_def by (erule runsTo_try_Ok) (rule runsTo_return)

lemma runsTo_logged_Err: "runsTo view m v (Err e) v' \<Longrightarrow> runsTo view (logged m) v (Ok ()) v'"
  unfolding logged_def by (erule runsTo_try_Err) (rule runsTo_return)

lemma runsTo_unlessExists_there:
  "runsTo view m v (Err (ApiAlreadyExists n)) v' \<Longrightarrow> runsTo view (unlessExists m) v (Ok ()) v'"
  unfolding unlessExists_def isAlreadyExists_def by (erule runsTo_try_Err) (simp add: runsTo_return)

lemma runsTo_everySecond:
  assumes "poll_law (h_PollUntilContextCancel H)" "runsTo view cond v (Ok True) v'"
  shows "runsTo view (everySecond H cond) v (Ok ()) v'"
  unfolding runsTo_def
proof (intro allI impI)
  fix k
  assume "view k = v"
  then obtain k' where k': "cond k = (Ok True, k')" "view k' = v'" using assms(2) by (auto simp: runsTo_def)
  obtain n where "everySecond H cond k = attempts (Suc n) cond k"
    using assms(1) unfolding poll_law_def everySecond_def by blast
  with k' show "\<exists>k'. everySecond H cond k = (Ok (), k') \<and> view k' = v'" by (simp add: bindG_def returnG_def)
qed

lemma runsTo_onceNamespace:
  assumes "hub_law view H" "ns \<in> v_namespaces v" "runsTo view m v (Ok ()) v'"
  shows "runsTo view (onceNamespace H ns m) v (Ok True) v'"
proof -
  have "runsTo view (h_GetNamespace H ns) v (Ok ()) v"
    using assms(1,2) by (intro actsD [of view _ "sGetNamespace ns"]) (auto simp: hub_law_def sGetNamespace_def)
  then show ?thesis
    unfolding onceNamespace_def by (rule runsTo_try_Ok) (rule runsTo_bind [OF assms(3) runsTo_return])
qed

section \<open>The parts of the bootstrap\<close>

lemma rand_runes:
  assumes "hub_law view H" "runes \<noteq> []"
  shows "\<exists>x d. runsTo view (randStringRunes H n runes) v (Ok x) (v\<lparr>v_dice := d\<rparr>) \<and> length x = n \<and> set x \<subseteq> set runes"
proof (induction n arbitrary: v)
  case 0
  have "runsTo view (randStringRunes H 0 runes) v (Ok []) (v\<lparr>v_dice := v_dice v\<rparr>)" by (simp add: runsTo_return)
  then show ?case by fastforce
next
  case (Suc n)
  let ?i = "v_dice v 0 mod length runes" and ?v1 = "v\<lparr>v_dice := (\<lambda>i. v_dice v (Suc i))\<rparr>"
  have i: "runsTo view (h_rand_Intn H (length runes)) v (Ok ?i) ?v1"
    using assms(1) by (intro actsD [of view _ "sIntn (length runes)"]) (auto simp: hub_law_def sIntn_def)
  obtain x d where x: "runsTo view (randStringRunes H n runes) ?v1 (Ok x) (?v1\<lparr>v_dice := d\<rparr>)" "length x = n" "set x \<subseteq> set runes"
    using Suc.IH by blast
  have "?i < length runes" using assms(2) by simp
  then have "runes ! ?i \<in> set runes" by simp
  moreover have "runsTo view (randStringRunes H (Suc n) runes) v (Ok (runes ! ?i # x)) (v\<lparr>v_dice := d\<rparr>)"
    unfolding randStringRunes.simps
    by (rule runsTo_bind [OF i], rule runsTo_bind [OF x(1)]) (simp add: runsTo_return)
  ultimately show ?case using x by (intro exI [of _ "runes ! ?i # x"] exI [of _ d]) auto
qed

definition namePart :: "string \<Rightarrow> nat \<Rightarrow> bool" where
  "namePart s n = (length s = n \<and> set s \<subseteq> set letterRunes_az09)"

text \<open>The secret is made from two fresh strings, unless one of its name is there.\<close>

definition withToken :: "string \<Rightarrow> string \<Rightarrow> hubView \<Rightarrow> hubView" where
  "withToken i t v = (let s = bootstrapTokenSecret i t in
     if v_secrets v (''kube-system'', tok_Name s) \<noteq> None then v
     else v\<lparr>v_secrets := (v_secrets v)((''kube-system'', tok_Name s) \<mapsto> s)\<rparr>)"

lemma token_secret:
  assumes "hub_law view H"
  shows "\<exists>i t d. runsTo view (prepareBootstrapTokenSecret H) v (Ok ()) (withToken i t (v\<lparr>v_dice := d\<rparr>)) \<and> namePart i 6 \<and> namePart t 16"
proof -
  have ne: "letterRunes_az09 \<noteq> []" by (simp add: letterRunes_az09_def)
  obtain i d1 where i: "runsTo view (randStringRunes H 6 letterRunes_az09) v (Ok i) (v\<lparr>v_dice := d1\<rparr>)" "namePart i 6"
    using rand_runes [OF assms ne] unfolding namePart_def by blast
  obtain t d2 where t: "runsTo view (randStringRunes H 16 letterRunes_az09) (v\<lparr>v_dice := d1\<rparr>) (Ok t) (v\<lparr>v_dice := d1, v_dice := d2\<rparr>)" "namePart t 16"
    using rand_runes [OF assms ne] unfolding namePart_def by blast
  let ?v = "v\<lparr>v_dice := d2\<rparr>" and ?s = "bootstrapTokenSecret i t"
  have c: "acts view (h_CreateSecret H ''kube-system'' ?s) (sCreateSecret ''kube-system'' ?s)" using assms by (auto simp: hub_law_def)
  have create: "runsTo view (unlessExists (h_CreateSecret H ''kube-system'' ?s)) ?v (Ok ()) (withToken i t ?v)"
  proof (cases "v_secrets v (''kube-system'', tok_Name ?s) = None")
    case True
    then show ?thesis by (intro runsTo_unlessExists actsD [OF c]) (simp add: sCreateSecret_def withToken_def Let_def)
  next
    case False
    then show ?thesis by (intro runsTo_unlessExists_there actsD [OF c]) (auto simp: sCreateSecret_def withToken_def Let_def)
  qed
  have "runsTo view (prepareBootstrapTokenSecret H) v (Ok ()) (withToken i t ?v)"
    unfolding prepareBootstrapTokenSecret_def
    by (rule runsTo_bind [OF i(1)], rule runsTo_bind [OF t(1)]) (simp add: create)
  with i(2) t(2) show ?thesis by blast
qed

text \<open>A role that has the rules already is left as it is.\<close>

definition withRole :: "clusterRole \<Rightarrow> hubView \<Rightarrow> hubView" where
  "withRole r v = (case v_roles v (cr_Name r) of
     Some old \<Rightarrow> if cr_Rules old = cr_Rules r then v else v\<lparr>v_roles := (v_roles v)(cr_Name r \<mapsto> r)\<rparr>
   | None \<Rightarrow> v\<lparr>v_roles := (v_roles v)(cr_Name r \<mapsto> r)\<rparr>)"

lemma role_prepared:
  assumes "hub_law view H"
  shows "runsTo view (prepareClusterRole H r) v (Ok ()) (withRole r v)"
proof -
  have a: "acts view (h_GetClusterRole H (cr_Name r)) (sGetRole (cr_Name r))" "acts view (h_CreateClusterRole H r) (sCreateRole r)"
    "acts view (h_UpdateClusterRole H r) (sUpdateRole r)" using assms by (auto simp: hub_law_def)
  show ?thesis
  proof (cases "v_roles v (cr_Name r)")
    case None
    have g: "runsTo view (h_GetClusterRole H (cr_Name r)) v (Err (ApiNotFound (cr_Name r))) v"
      by (rule actsD [OF a(1)]) (simp add: sGetRole_def None)
    have c: "runsTo view (h_CreateClusterRole H r) v (Ok ()) (withRole r v)"
      by (rule actsD [OF a(2)]) (simp add: sCreateRole_def withRole_def None)
    show ?thesis unfolding prepareClusterRole_def by (rule runsTo_try_Err [OF g]) (simp add: isNotFound_def c)
  next
    case (Some old)
    have g: "runsTo view (h_GetClusterRole H (cr_Name r)) v (Ok old) v"
      by (rule actsD [OF a(1)]) (simp add: sGetRole_def Some)
    have u: "cr_Rules old \<noteq> cr_Rules r \<Longrightarrow> runsTo view (h_UpdateClusterRole H r) v (Ok ()) (withRole r v)"
      by (rule actsD [OF a(3)]) (simp add: sUpdateRole_def withRole_def Some)
    show ?thesis
      unfolding prepareClusterRole_def by (rule runsTo_try_Ok [OF g]) (use u in \<open>auto simp: withRole_def Some runsTo_return\<close>)
  qed
qed

definition withBinding :: "clusterRoleBinding \<Rightarrow> hubView \<Rightarrow> hubView" where
  "withBinding b v = v\<lparr>v_bindings := (v_bindings v)(crb_Name b \<mapsto>
     (case v_bindings v (crb_Name b) of Some old \<Rightarrow> if crb_RoleRef old = crb_RoleRef b \<and> crb_Subjects old = crb_Subjects b then old else b
      | None \<Rightarrow> b))\<rparr>"

lemma binding_prepared:
  assumes "hub_law view H" "\<And>old. v_bindings v (crb_Name b) = Some old \<Longrightarrow> crb_RoleRef old = crb_RoleRef b"
  shows "runsTo view (prepareClusterRoleBinding H b) v (Ok ()) (withBinding b v)"
proof -
  have a: "acts view (h_GetClusterRoleBinding H (crb_Name b)) (sGetBinding (crb_Name b))"
    "acts view (h_CreateClusterRoleBinding H b) (sCreateBinding b)" "acts view (h_UpdateClusterRoleBinding H b) (sUpdateBinding b)"
    using assms(1) by (auto simp: hub_law_def)
  show ?thesis
  proof (cases "v_bindings v (crb_Name b)")
    case None
    have g: "runsTo view (h_GetClusterRoleBinding H (crb_Name b)) v (Err (ApiNotFound (crb_Name b))) v"
      by (rule actsD [OF a(1)]) (simp add: sGetBinding_def None)
    have c: "runsTo view (h_CreateClusterRoleBinding H b) v (Ok ()) (withBinding b v)"
      by (rule actsD [OF a(2)]) (simp add: sCreateBinding_def withBinding_def None)
    show ?thesis unfolding prepareClusterRoleBinding_def by (rule runsTo_try_Err [OF g]) (simp add: isNotFound_def c)
  next
    case (Some old)
    have g: "runsTo view (h_GetClusterRoleBinding H (crb_Name b)) v (Ok old) v"
      by (rule actsD [OF a(1)]) (simp add: sGetBinding_def Some)
    have u: "crb_Subjects old \<noteq> crb_Subjects b \<Longrightarrow> runsTo view (h_UpdateClusterRoleBinding H b) v (Ok ()) (withBinding b v)"
      by (rule actsD [OF a(3)]) (simp add: sUpdateBinding_def withBinding_def Some assms(2) [OF Some])
    have same: "crb_Subjects old = crb_Subjects b \<Longrightarrow> withBinding b v = v"
      by (simp add: withBinding_def Some assms(2) [OF Some] fun_upd_idem)
    show ?thesis
      unfolding prepareClusterRoleBinding_def
      by (rule runsTo_try_Ok [OF g]) (use u same in \<open>auto simp: assms(2) [OF Some] runsTo_return\<close>)
  qed
qed

section \<open>The whole bootstrap\<close>

lemma roles_prepared:
  assumes "hub_law view H"
  shows "runsTo view (forG rs (prepareClusterRole H)) v (Ok ()) (fold withRole rs v)"
proof (induction rs arbitrary: v)
  case (Cons r rs)
  show ?case by (simp, rule runsTo_bind [OF role_prepared [OF assms] Cons.IH])
qed (simp add: runsTo_return)

lemma withBinding_other: "crb_Name b \<noteq> n \<Longrightarrow> v_bindings (withBinding b v) n = v_bindings v n"
  by (simp add: withBinding_def)

lemma bindings_prepared:
  assumes "hub_law view H"
    and "\<And>b old. b \<in> set bs \<Longrightarrow> v_bindings v (crb_Name b) = Some old \<Longrightarrow> crb_RoleRef old = crb_RoleRef b"
    and "distinct (map crb_Name bs)"
  shows "runsTo view (forG bs (prepareClusterRoleBinding H)) v (Ok ()) (fold withBinding bs v)"
  using assms(2,3)
proof (induction bs arbitrary: v)
  case (Cons b bs)
  have b: "runsTo view (prepareClusterRoleBinding H b) v (Ok ()) (withBinding b v)"
    by (rule binding_prepared [OF assms(1)], rule Cons.prems(1) [of b]) simp_all
  have "runsTo view (forG bs (prepareClusterRoleBinding H)) (withBinding b v) (Ok ()) (fold withBinding bs (withBinding b v))"
  proof (rule Cons.IH)
    show "crb_RoleRef old = crb_RoleRef b'" if "b' \<in> set bs" "v_bindings (withBinding b v) (crb_Name b') = Some old" for b' old
    proof -
      have "crb_Name b \<noteq> crb_Name b'" using Cons.prems(2) that(1) by force
      with that(2) have "v_bindings v (crb_Name b') = Some old" by (simp add: withBinding_other)
      with that(1) show ?thesis by (intro Cons.prems(1)) simp_all
    qed
  qed (use Cons.prems(2) in simp)
  with b show ?case unfolding forG.simps fold_simps by (rule runsTo_bind)
qed (simp add: runsTo_return)

definition infoOf :: "'k hubApi \<Rightarrow> hubConfig \<Rightarrow> cluster gomap" where
  "infoOf H config = [([], \<lparr>cl_Server = ''https://'' @ hc_ExternalAddress config, cl_CertificateAuthorityData = hc_CurrentCert config\<rparr>)]"

lemma info_prepared:
  assumes "hub_law view H" "h_clientcmd_Write H (infoOf H config) = Ok raw"
  shows "runsTo view (prepareClusterInfoConfigmap H config) v (Ok ())
     (v\<lparr>v_configMaps := (v_configMaps v)((''kube-public'', ''cluster-info'') \<mapsto> [(''kubeconfig'', raw)]), v_infoRules := True\<rparr>)"
proof -
  let ?v = "v\<lparr>v_configMaps := (v_configMaps v)((''kube-public'', ''cluster-info'') \<mapsto> [(''kubeconfig'', raw)])\<rparr>"
  have w: "runsTo view (ofO (h_clientcmd_Write H (infoOf H config))) v (Ok raw) v" using runsTo_ofO assms(2) by metis
  have p: "runsTo view (h_CreateOrUpdateConfigMap H ''kube-public'' ''cluster-info'' [(''kubeconfig'', raw)]) v (Ok ()) ?v"
    using assms(1) by (intro actsD [of view _ "sPutConfigMap ''kube-public'' ''cluster-info'' [(''kubeconfig'', raw)]"])
      (auto simp: hub_law_def sPutConfigMap_def)
  have r: "runsTo view (h_CreateClusterInfoRBACRules H) ?v (Ok ()) (?v\<lparr>v_infoRules := True\<rparr>)"
    using assms(1) by (intro actsD [of view _ sInfoRules]) (auto simp: hub_law_def sInfoRules_def)
  show ?thesis
    unfolding prepareClusterInfoConfigmap_def Let_def
    by (rule runsTo_bind [OF w [unfolded infoOf_def]], rule runsTo_bind [OF runsTo_unlessExists [OF p]], rule runsTo_unlessExists) (use r in simp)
qed

lemma default_prepared:
  assumes "hub_law view H"
  shows "runsTo view (logged (h_CreateNamespace H n)) v (Ok ()) (v\<lparr>v_namespaces := insert n (v_namespaces v)\<rparr>)"
proof -
  have a: "acts view (h_CreateNamespace H n) (sCreateNamespace n)" using assms by (auto simp: hub_law_def)
  show ?thesis
  proof (cases "n \<in> v_namespaces v")
    case True
    then have "v\<lparr>v_namespaces := insert n (v_namespaces v)\<rparr> = v" by (simp add: insert_absorb)
    moreover have "runsTo view (logged (h_CreateNamespace H n)) v (Ok ()) v"
      using True by (intro runsTo_logged_Err actsD [OF a]) (simp add: sCreateNamespace_def)
    ultimately show ?thesis by simp
  next
    case False
    then show ?thesis by (intro runsTo_logged actsD [OF a]) (simp add: sCreateNamespace_def)
  qed
qed

text \<open>The objects after the bootstrap.\<close>

definition bootstrapped :: "bytes \<Rightarrow> string \<Rightarrow> string \<Rightarrow> (nat \<Rightarrow> nat) \<Rightarrow> hubView \<Rightarrow> hubView" where
  "bootstrapped raw i t d v =
     (let v1 = v\<lparr>v_namespaces := insert ''default'' (v_namespaces v)\<rparr>;
          v2 = v1\<lparr>v_configMaps := (v_configMaps v1)((''kube-public'', ''cluster-info'') \<mapsto> [(''kubeconfig'', raw)]), v_infoRules := True\<rparr>;
          v3 = withToken i t (v2\<lparr>v_dice := d\<rparr>)
      in fold withBinding clusterRoleBindings (fold withRole clusterRoles v3))"

lemma bootstrap_runs:
  assumes law: "hub_law view H" "poll_law (h_PollUntilContextCancel H)" and raw: "h_clientcmd_Write H (infoOf H config) = Ok raw"
    and ns: "{''kube-public'', ''kube-system''} \<subseteq> v_namespaces v"
    and roles: "\<And>b old. b \<in> set clusterRoleBindings \<Longrightarrow> v_bindings v (crb_Name b) = Some old \<Longrightarrow> crb_RoleRef old = crb_RoleRef b"
  shows "\<exists>i t d. runsTo view (BuildKubeSystemResources H config) v (Ok ()) (bootstrapped raw i t d v) \<and> namePart i 6 \<and> namePart t 16"
proof -
  let ?v1 = "v\<lparr>v_namespaces := insert ''default'' (v_namespaces v)\<rparr>"
  let ?v2 = "?v1\<lparr>v_configMaps := (v_configMaps ?v1)((''kube-public'', ''cluster-info'') \<mapsto> [(''kubeconfig'', raw)]), v_infoRules := True\<rparr>"
  have 2: "runsTo view (logged (everySecond H (onceNamespace H ''kube-public'' (prepareClusterInfoConfigmap H config)))) ?v1 (Ok ()) ?v2"
    by (intro runsTo_logged runsTo_everySecond law runsTo_onceNamespace info_prepared raw) (use ns in auto)
  obtain i t d where p: "runsTo view (prepareBootstrapTokenSecret H) ?v2 (Ok ()) (withToken i t (?v2\<lparr>v_dice := d\<rparr>))"
    and it: "namePart i 6" "namePart t 16" using token_secret [OF law(1)] by blast
  let ?v3 = "withToken i t (?v2\<lparr>v_dice := d\<rparr>)"
  have 3: "runsTo view (logged (everySecond H (onceNamespace H ''kube-system'' (prepareBootstrapTokenSecret H)))) ?v2 (Ok ()) ?v3"
    by (intro runsTo_logged runsTo_everySecond law runsTo_onceNamespace p) (use ns in auto)
  let ?v4 = "fold withRole clusterRoles ?v3"
  have 4: "runsTo view (logged (everySecond H (bindG (forG clusterRoles (prepareClusterRole H)) (\<lambda>_. returnG True)))) ?v3 (Ok ()) ?v4"
    by (intro runsTo_logged runsTo_everySecond law) (rule runsTo_bind [OF roles_prepared [OF law(1)] runsTo_return])
  have b4: "v_bindings ?v4 = v_bindings v"
    by (simp add: clusterRoles_def withRole_def withToken_def Let_def split: option.splits)
  have 5: "runsTo view (logged (everySecond H (bindG (forG clusterRoleBindings (prepareClusterRoleBinding H)) (\<lambda>_. returnG True)))) ?v4 (Ok ())
      (fold withBinding clusterRoleBindings ?v4)"
    by (intro runsTo_logged runsTo_everySecond law, rule runsTo_bind [OF bindings_prepared [OF law(1)] runsTo_return])
      (use roles b4 in \<open>auto simp: clusterRoleBindings_def bindingOf_def\<close>)
  have "runsTo view (BuildKubeSystemResources H config) v (Ok ()) (fold withBinding clusterRoleBindings ?v4)"
    unfolding BuildKubeSystemResources_def
    by (rule runsTo_bind [OF default_prepared [OF law(1)]], rule runsTo_bind [OF 2], rule runsTo_bind [OF 3], rule runsTo_bind [OF 4],
        rule runsTo_bind [OF 5 runsTo_return])
  with it show ?thesis unfolding bootstrapped_def Let_def by blast
qed

lemma withToken_keeps [simp]:
  "v_roles (withToken i t v) = v_roles v" "v_bindings (withToken i t v) = v_bindings v" "v_namespaces (withToken i t v) = v_namespaces v"
  "v_configMaps (withToken i t v) = v_configMaps v"
  by (simp_all add: withToken_def Let_def)

lemma withRole_keeps [simp]:
  "v_bindings (withRole r v) = v_bindings v" "v_namespaces (withRole r v) = v_namespaces v"
  "v_configMaps (withRole r v) = v_configMaps v" "v_secrets (withRole r v) = v_secrets v"
  by (simp_all add: withRole_def split: option.splits)

lemma withBinding_keeps [simp]:
  "v_roles (withBinding b v) = v_roles v" "v_namespaces (withBinding b v) = v_namespaces v"
  "v_configMaps (withBinding b v) = v_configMaps v" "v_secrets (withBinding b v) = v_secrets v"
  by (simp_all add: withBinding_def)

lemma fold_withRole_keeps [simp]:
  "v_bindings (fold withRole rs v) = v_bindings v" "v_namespaces (fold withRole rs v) = v_namespaces v"
  "v_configMaps (fold withRole rs v) = v_configMaps v" "v_secrets (fold withRole rs v) = v_secrets v"
  by (induction rs arbitrary: v) simp_all

lemma fold_withBinding_keeps [simp]:
  "v_roles (fold withBinding bs v) = v_roles v" "v_namespaces (fold withBinding bs v) = v_namespaces v"
  "v_configMaps (fold withBinding bs v) = v_configMaps v" "v_secrets (fold withBinding bs v) = v_secrets v"
  by (induction bs arbitrary: v) simp_all

definition bootRole :: clusterRole where "bootRole = hd clusterRoles"

lemma bootstrapped_roles:
  "v_roles (bootstrapped raw i t d v) = v_roles (withRole bootRole v)"
  by (simp add: bootstrapped_def Let_def clusterRoles_def bootRole_def withRole_def split: option.splits)

lemma bootstrapped_bindings:
  "v_bindings (bootstrapped raw i t d v) = v_bindings (fold withBinding clusterRoleBindings v)"
  by (simp add: bootstrapped_def Let_def clusterRoleBindings_def withBinding_def bindingOf_def split: option.splits)

lemma bootstrapped_others:
  "v_namespaces (bootstrapped raw i t d v) = insert ''default'' (v_namespaces v)"
  "v_configMaps (bootstrapped raw i t d v) (''kube-public'', ''cluster-info'') = Some [(''kubeconfig'', raw)]"
  "v_secrets (bootstrapped raw i t d v) = v_secrets (withToken i t v)"
  by (simp_all add: bootstrapped_def Let_def withToken_def)

lemma bootRole_there: "\<exists>r. v_roles (withRole bootRole v) (cr_Name bootRole) = Some r \<and> cr_Rules r = cr_Rules bootRole"
  by (auto simp: withRole_def split: option.splits)

lemma bootRole_again:
  assumes "v_roles v' = v_roles (withRole bootRole v)"
  shows "v_roles (withRole bootRole v') = v_roles v'"
proof -
  obtain r where "v_roles v' (cr_Name bootRole) = Some r" "cr_Rules r = cr_Rules bootRole"
    using bootRole_there [of v] assms by auto
  then show ?thesis by (simp add: withRole_def)
qed

lemma binding_there:
  assumes "\<And>old. v_bindings v (crb_Name b) = Some old \<Longrightarrow> crb_RoleRef old = crb_RoleRef b"
  shows "\<exists>b'. v_bindings (withBinding b v) (crb_Name b) = Some b' \<and> crb_RoleRef b' = crb_RoleRef b \<and> crb_Subjects b' = crb_Subjects b"
  by (auto simp: withBinding_def split: option.splits)

lemma bindings_there:
  assumes "b \<in> set bs" "distinct (map crb_Name bs)"
  shows "\<exists>b'. v_bindings (fold withBinding bs v) (crb_Name b) = Some b' \<and> crb_RoleRef b' = crb_RoleRef b \<and> crb_Subjects b' = crb_Subjects b"
  using assms
proof (induction bs arbitrary: v)
  case (Cons c bs)
  show ?case
  proof (cases "b = c")
    case True
    have "v_bindings (fold withBinding bs w) (crb_Name b) = v_bindings w (crb_Name b)" for w
      using Cons.prems(2) unfolding True by (induction bs arbitrary: w) (auto simp: withBinding_other)
    moreover have "\<exists>b'. v_bindings (withBinding b v) (crb_Name b) = Some b' \<and> crb_RoleRef b' = crb_RoleRef b \<and> crb_Subjects b' = crb_Subjects b"
      by (auto simp: withBinding_def split: option.splits)
    ultimately show ?thesis by (simp add: True)
  next
    case False
    with Cons.prems Cons.IH show ?thesis by simp
  qed
qed simp

lemma withBinding_idle:
  "v_bindings v (crb_Name b) = Some b' \<Longrightarrow> crb_RoleRef b' = crb_RoleRef b \<Longrightarrow> crb_Subjects b' = crb_Subjects b \<Longrightarrow> withBinding b v = v"
  by (simp add: withBinding_def fun_upd_idem)

lemma bindings_idle:
  assumes "\<And>b. b \<in> set bs \<Longrightarrow> \<exists>b'. v_bindings v (crb_Name b) = Some b' \<and> crb_RoleRef b' = crb_RoleRef b \<and> crb_Subjects b' = crb_Subjects b"
  shows "fold withBinding bs v = v"
  using assms
proof (induction bs)
  case (Cons b bs)
  obtain b' where "v_bindings v (crb_Name b) = Some b'" "crb_RoleRef b' = crb_RoleRef b" "crb_Subjects b' = crb_Subjects b"
    using Cons.prems [of b] by auto
  then have "withBinding b v = v" by (rule withBinding_idle)
  with Cons show ?case by simp
qed simp

lemma bindings_distinct: "distinct (map crb_Name clusterRoleBindings)"
  by (simp add: clusterRoleBindings_def bindingOf_def)

section \<open>Properties\<close>

text \<open>
  C11: with a healthy API, in which the system namespaces exist and no binding of the same name is bound to
  another role, the bootstrap returns without error, and then the control plane has its default namespace,
  the cluster information, a bootstrap token of six and sixteen random characters, and the group that such
  a token gives its bearer is bound to a role with exactly the rules for joining; running it again changes
  neither roles nor bindings.
\<close>

theorem bootstrap_ready:
  assumes law: "hub_law view H" "poll_law (h_PollUntilContextCancel H)" and raw: "h_clientcmd_Write H (infoOf H config) = Ok raw"
    and ns: "{''kube-public'', ''kube-system''} \<subseteq> v_namespaces (view k)"
    and roles: "\<And>b old. b \<in> set clusterRoleBindings \<Longrightarrow> v_bindings (view k) (crb_Name b) = Some old \<Longrightarrow> crb_RoleRef old = crb_RoleRef b"
  shows "\<exists>k' i t. BuildKubeSystemResources H config k = (Ok (), k') \<and> namePart i 6 \<and> namePart t 16 \<and>
     ''default'' \<in> v_namespaces (view k') \<and>
     v_configMaps (view k') (''kube-public'', ''cluster-info'') = Some [(''kubeconfig'', raw)] \<and>
     (v_secrets (view k) (''kube-system'', ''bootstrap-token-'' @ i) = None \<longrightarrow>
        v_secrets (view k') (''kube-system'', ''bootstrap-token-'' @ i) = Some (bootstrapTokenSecret i t)) \<and>
     (\<exists>g b r. mapGet (tok_StringData (bootstrapTokenSecret i t)) ''auth-extra-groups'' = Some g \<and>
        v_bindings (view k') ''cluster-bootstrap'' = Some b \<and> g \<in> sub_Name ` set (crb_Subjects b) \<and>
        v_roles (view k') (rr_Name (crb_RoleRef b)) = Some r \<and> cr_Rules r = cr_Rules bootRole) \<and>
     (\<exists>k''. BuildKubeSystemResources H config k' = (Ok (), k'') \<and> v_roles (view k'') = v_roles (view k') \<and> v_bindings (view k'') = v_bindings (view k'))"
proof -
  obtain i t d where run: "runsTo view (BuildKubeSystemResources H config) (view k) (Ok ()) (bootstrapped raw i t d (view k))"
    and it: "namePart i 6" "namePart t 16"
    using bootstrap_runs [OF law raw ns roles] by blast
  then obtain k' where k': "BuildKubeSystemResources H config k = (Ok (), k')" "view k' = bootstrapped raw i t d (view k)"
    unfolding runsTo_def by blast
  have there: "\<exists>b'. v_bindings (view k') (crb_Name b) = Some b' \<and> crb_RoleRef b' = crb_RoleRef b \<and> crb_Subjects b' = crb_Subjects b"
    if "b \<in> set clusterRoleBindings" for b
    using bindings_there [OF that bindings_distinct] by (simp add: k'(2) bootstrapped_bindings)
  have ns': "{''kube-public'', ''kube-system''} \<subseteq> v_namespaces (view k')" using ns by (auto simp: k'(2) bootstrapped_others)
  have roles': "crb_RoleRef old = crb_RoleRef b"
    if "b \<in> set clusterRoleBindings" "v_bindings (view k') (crb_Name b) = Some old" for b old
    using there [OF that(1)] that(2) by auto
  obtain i2 t2 d2 where "runsTo view (BuildKubeSystemResources H config) (view k') (Ok ()) (bootstrapped raw i2 t2 d2 (view k'))"
    using bootstrap_runs [OF law raw ns' roles'] by blast
  then obtain k'' where k'': "BuildKubeSystemResources H config k' = (Ok (), k'')" "view k'' = bootstrapped raw i2 t2 d2 (view k')"
    unfolding runsTo_def by blast
  have again: "v_roles (view k'') = v_roles (view k')" "v_bindings (view k'') = v_bindings (view k')"
    unfolding k''(2) using bootRole_again [of "view k'" "view k"] bindings_idle [OF there]
    by (simp_all add: bootstrapped_roles bootstrapped_bindings k'(2))
  obtain b where b: "v_bindings (view k') ''cluster-bootstrap'' = Some b"
    "rr_Name (crb_RoleRef b) = ''system:open-cluster-management:bootstrap''" "sub_Name ` set (crb_Subjects b) = {''system:bootstrappers:managedcluster''}"
    using there [of "hd clusterRoleBindings"] by (auto simp: clusterRoleBindings_def bindingOf_def)
  obtain r where r: "v_roles (view k') ''system:open-cluster-management:bootstrap'' = Some r" "cr_Rules r = cr_Rules bootRole"
    using bootRole_there [of "view k"] unfolding k'(2) bootstrapped_roles by (auto simp: bootRole_def clusterRoles_def)
  have secret: "v_secrets (view k) (''kube-system'', ''bootstrap-token-'' @ i) = None \<Longrightarrow>
      v_secrets (view k') (''kube-system'', ''bootstrap-token-'' @ i) = Some (bootstrapTokenSecret i t)"
    by (simp add: k'(2) bootstrapped_others withToken_def Let_def bootstrapTokenSecret_def)
  have group: "mapGet (tok_StringData (bootstrapTokenSecret i t)) ''auth-extra-groups'' = Some ''system:bootstrappers:managedcluster''"
    by (simp add: bootstrapTokenSecret_def mapGet_def)
  have first: "''default'' \<in> v_namespaces (view k') \<and> v_configMaps (view k') (''kube-public'', ''cluster-info'') = Some [(''kubeconfig'', raw)]"
    by (simp add: k'(2) bootstrapped_others)
  have bound: "\<exists>g b r. mapGet (tok_StringData (bootstrapTokenSecret i t)) ''auth-extra-groups'' = Some g \<and>
        v_bindings (view k') ''cluster-bootstrap'' = Some b \<and> g \<in> sub_Name ` set (crb_Subjects b) \<and>
        v_roles (view k') (rr_Name (crb_RoleRef b)) = Some r \<and> cr_Rules r = cr_Rules bootRole"
    using group b(1) r unfolding b(2) [symmetric] by (intro exI conjI) (assumption | simp add: b(3))+
  have twice: "\<exists>k''. BuildKubeSystemResources H config k' = (Ok (), k'') \<and> v_roles (view k'') = v_roles (view k') \<and>
      v_bindings (view k'') = v_bindings (view k')" using k''(1) again by blast
  show ?thesis
    by (rule exI [of _ k'], rule exI [of _ i], rule exI [of _ t], intro conjI impI)
      (rule k'(1) it first [THEN conjunct1] first [THEN conjunct2] bound twice secret | assumption)+
qed

text \<open>The API as it is documented, on the objects themselves.\<close>

definition storeApi :: "hubView hubApi" where
  "storeApi = \<lparr>h_NewForConfig = None, h_CreateNamespace = sCreateNamespace, h_GetNamespace = sGetNamespace,
     h_CreateOrUpdateConfigMap = sPutConfigMap, h_CreateClusterInfoRBACRules = sInfoRules, h_CreateSecret = sCreateSecret,
     h_GetClusterRole = sGetRole, h_CreateClusterRole = sCreateRole, h_UpdateClusterRole = sUpdateRole,
     h_GetClusterRoleBinding = sGetBinding, h_CreateClusterRoleBinding = sCreateBinding, h_UpdateClusterRoleBinding = sUpdateBinding,
     h_clientcmd_Write = (\<lambda>_. Ok (Text ''kubeconfig'')), h_rand_Intn = sIntn,
     h_PollUntilContextCancel = (\<lambda>i imm cond. attempts 3 cond), h_GetCRD = (\<lambda>n. failG (ApiNotFound n)),
     h_ApplyCRD = (\<lambda>c. returnG (c\<lparr>crd_Established := True\<rparr>)), h_crdFS_ReadFile = Ok,
     h_CreateAssetFromTemplate = (\<lambda>f t. Ok t), h_Decode = (\<lambda>d. Ok (CustomResourceDefinition \<lparr>crd_Name = d, crd_Established = False\<rparr>))\<rparr>"

lemma acts_self: "acts id f f"
  by (simp add: acts_def runsTo_def)

lemma storeApi_law: "hub_law id storeApi" "poll_law (h_PollUntilContextCancel storeApi)"
  by (simp_all add: hub_law_def storeApi_def acts_self) (auto simp: poll_law_def numeral_3_eq_3)

theorem bootstrap_ready_witness:
  "\<exists>v'. BuildKubeSystemResources storeApi \<lparr>hc_CurrentCert = CertPEM [], hc_ExternalAddress = ''h:443''\<rparr>
       \<lparr>v_namespaces = {''kube-public'', ''kube-system''}, v_configMaps = Map.empty, v_infoRules = False, v_secrets = Map.empty,
        v_roles = Map.empty, v_bindings = Map.empty, v_dice = (\<lambda>n. n)\<rparr> = (Ok (), v') \<and> ''default'' \<in> v_namespaces v'"
proof -
  let ?c = "\<lparr>hc_CurrentCert = CertPEM [], hc_ExternalAddress = ''h:443''\<rparr>"
  let ?v = "\<lparr>v_namespaces = {''kube-public'', ''kube-system''}, v_configMaps = Map.empty, v_infoRules = False, v_secrets = Map.empty,
        v_roles = Map.empty, v_bindings = Map.empty, v_dice = (\<lambda>n. n)\<rparr> :: hubView"
  have raw: "h_clientcmd_Write storeApi (infoOf storeApi ?c) = Ok (Text ''kubeconfig'')" by (simp add: storeApi_def)
  have ns: "{''kube-public'', ''kube-system''} \<subseteq> v_namespaces (id ?v)" by simp
  have none: "crb_RoleRef old = crb_RoleRef b"
    if "b \<in> set clusterRoleBindings" "v_bindings (id ?v) (crb_Name b) = Some old" for b old using that(2) by simp
  from bootstrap_ready [of id storeApi ?c "Text ''kubeconfig''" ?v, OF storeApi_law raw ns none]
  obtain v' where "BuildKubeSystemResources storeApi ?c ?v = (Ok (), v')" "''default'' \<in> v_namespaces (id v')" by blast
  then show ?thesis by auto
qed

section \<open>Installing the definitions\<close>

lemma applyCRDs_True:
  "applyCRDs H cs k = (Ok True, k') \<Longrightarrow> c \<in> set cs \<Longrightarrow>
     \<exists>k1 k2 d. h_ApplyCRD H c k1 = (Ok d, k2) \<and> crd_Established d"
proof (induction cs arbitrary: k)
  case (Cons x cs)
  obtain d k1 where d: "h_ApplyCRD H x k = (Ok d, k1)" "crd_Established d" "applyCRDs H cs k1 = (Ok True, k')"
    using Cons.prems(1) by (auto simp: gom_iff split: if_splits)
  with Cons show ?case by auto
qed simp

lemma readCRDs_Ok:
  assumes "readCRDs H fs acc k = (Ok cs, k')"
  shows "k' = k \<and> set acc \<subseteq> set cs \<and> (\<forall>f t a c. f \<in> set fs \<longrightarrow> h_crdFS_ReadFile H f = Ok t \<longrightarrow> h_CreateAssetFromTemplate H f t = Ok a \<longrightarrow>
     h_Decode H a = Ok (CustomResourceDefinition c) \<longrightarrow> c \<in> set cs)"
  using assms
proof (induction fs arbitrary: acc)
  case Nil
  then show ?case by (simp add: returnG_def)
next
  case (Cons f fs)
  from Cons.prems obtain t a where t: "h_crdFS_ReadFile H f = Ok t"
    and a: "(case h_CreateAssetFromTemplate H f t of Ok d \<Rightarrow> Ok d | _ \<Rightarrow> Panic ''template'') = Ok a"
    by (auto simp: gom_iff ofO_def)
  have a': "h_CreateAssetFromTemplate H f t = Ok a" using a by (simp split: outcome.splits)
  from Cons.prems t a' obtain obj where f: "h_crdFS_ReadFile H f = Ok t" "h_CreateAssetFromTemplate H f t = Ok a" "h_Decode H a = Ok obj"
    and rest: "readCRDs H fs (case obj of CustomResourceDefinition r \<Rightarrow> acc @ [r] | OtherObject _ \<Rightarrow> acc) k = (Ok cs, k')"
    by (auto simp: gom_iff ofO_def)
  from Cons.IH [OF rest] f show ?case by (cases obj) auto
qed

text \<open>
  When the installation of the base definitions returns without error, every definition embedded in
  one of the files has been applied and was reported as established, and nothing else changed than by
  these calls: reading the files leaves the control plane as it was.
\<close>

theorem crds_installed:
  assumes "poll_law (h_PollUntilContextCancel H)" and "InstallBaseCRDs H k = (Ok (), k')"
    and "f \<in> set baseCRDs" "h_crdFS_ReadFile H f = Ok t" "h_CreateAssetFromTemplate H f t = Ok a"
    and "h_Decode H a = Ok (CustomResourceDefinition c)"
  shows "\<exists>cs n k1 k2 d. readCRDs H baseCRDs [] k = (Ok cs, k) \<and> attempts n (applyCRDs H cs) k = (Ok (), k') \<and>
     h_ApplyCRD H c k1 = (Ok d, k2) \<and> crd_Established d"
proof -
  obtain cs k0 where cs: "readCRDs H baseCRDs [] k = (Ok cs, k0)" and run: "everySecond H (applyCRDs H cs) k0 = (Ok (), k')"
    using assms(2) by (auto simp: InstallBaseCRDs_def bindG_Ok_iff)
  note r = readCRDs_Ok [OF cs]
  from r have "k0 = k" by blast
  have c: "c \<in> set cs" using r assms(3-6) by blast
  obtain n where n: "everySecond H (applyCRDs H cs) k = attempts (Suc n) (applyCRDs H cs) k"
    using assms(1) unfolding poll_law_def everySecond_def by blast
  with run \<open>k0 = k\<close> have a: "attempts (Suc n) (applyCRDs H cs) k = (Ok (), k')" by simp
  obtain k3 where "applyCRDs H cs k3 = (Ok True, k')" using attempts_True [OF a] by blast
  with applyCRDs_True c obtain k1 k2 d where "h_ApplyCRD H c k1 = (Ok d, k2)" "crd_Established d" by metis
  with cs a \<open>k0 = k\<close> show ?thesis by blast
qed

lemma storeApi_crds: "InstallBaseCRDs storeApi v = (Ok (), v)"
proof -
  have apply_all: "applyCRDs storeApi cs v = (Ok True, v)" for cs
    by (induction cs) (simp_all add: storeApi_def tryG_def returnG_def)
  have read_all: "\<exists>cs. readCRDs storeApi fs acc v = (Ok cs, v)" for fs acc
    by (induction fs arbitrary: acc) (simp_all add: storeApi_def ofO_def bindG_def returnG_def)
  obtain cs where cs: "readCRDs storeApi baseCRDs [] v = (Ok cs, v)" using read_all by blast
  have "attempts 3 (applyCRDs storeApi cs) v = (Ok (), v)" by (simp add: numeral_3_eq_3 bindG_def apply_all returnG_def)
  then have "everySecond storeApi (applyCRDs storeApi cs) v = (Ok (), v)" by (simp add: everySecond_def storeApi_def)
  with cs show ?thesis by (simp add: InstallBaseCRDs_def bindG_def)
qed

theorem crds_installed_witness:
  "\<exists>v :: hubView. InstallBaseCRDs storeApi v = (Ok (), v) \<and>
     (\<exists>k1 k2 d. h_ApplyCRD storeApi \<lparr>crd_Name = hd baseCRDs, crd_Established = False\<rparr> k1 = (Ok d, k2) \<and> crd_Established d)"
proof -
  let ?f = "hd baseCRDs"
  have f: "?f \<in> set baseCRDs" by (simp add: baseCRDs_def)
  have "h_crdFS_ReadFile storeApi ?f = Ok ?f" "h_CreateAssetFromTemplate storeApi ?f ?f = Ok ?f"
    "h_Decode storeApi ?f = Ok (CustomResourceDefinition \<lparr>crd_Name = ?f, crd_Established = False\<rparr>)" by (simp_all add: storeApi_def)
  from crds_installed [OF storeApi_law(2) storeApi_crds f this] storeApi_crds show ?thesis by blast
qed

end
