(* ===== verification/SelfManagement.thy ===== *)
theory SelfManagement
  imports Bootstrap Certificates
begin

text \<open>
  Managing the hosting cluster itself (\<open>ocmcontroller/ocmagent.go\<close>) and the agent it runs
  (\<open>agent/agent.go\<close>, \<open>agent/addons/managedserviceaccount.go\<close>). The agent's options are of the OCM library,
  as far as this program sets or reads them; its calls are the record \<open>agentLib\<close> on the hosting cluster and
  the machine, those of the hub are the record \<open>clusterApi\<close> on a state \<open>'h\<close>.
\<close>

section \<open>The agent\<close>

record agentOptions =
  SpokeClusterName :: string
  SpokeKubeconfigFile :: string
  HubKubeconfigDir :: string
  BootstrapKubeconfig :: string
  HubKubeconfigSecret :: string
  WorkloadSourceDriver :: string
  WorkloadSourceConfig :: string
  KubeConfig :: string

record ('s, 'c) agentLib =
  al_defaults :: agentOptions
  al_InClusterConfig :: "'c outcome"
  al_BuildConfigFromFlags :: "string \<Rightarrow> ('s, 'c) go"
  al_SpokeKubeConfig :: "agentOptions \<Rightarrow> 'c \<Rightarrow> ('s, 'c) go"
  al_apiextensions_NewForConfig :: "'c \<Rightarrow> goerr option"
  al_kubernetes_NewForConfig :: "'c \<Rightarrow> goerr option"
  al_crds_ReadFile :: "string \<Rightarrow> string outcome"
  al_CreateAssetFromTemplate :: "string \<Rightarrow> string \<Rightarrow> string outcome"
  al_Decode :: "string \<Rightarrow> decoded outcome"
  al_ApplyCRD :: "crd \<Rightarrow> ('s, unit) go"
  al_RunSpokeAgent :: "agentOptions \<Rightarrow> 'c \<Rightarrow> ('s, unit) go"
  al_NewManager :: "'c \<Rightarrow> goerr option"
  al_FeatureEnabled :: "string \<Rightarrow> bool"
  al_ResourceKinds :: "('s, string list) go"
  al_NewCache :: "string \<Rightarrow> goerr option"
  al_AddCache :: "goerr option"
  al_SetupTokenReconciler :: "string \<Rightarrow> string \<Rightarrow> ('s, unit) go"
  al_StartManager :: "('s, unit) go"

definition NewAgentOptions :: "('s, 'c) agentLib \<Rightarrow> agentOptions" where
  "NewAgentOptions A = al_defaults A"

definition WithClusterName :: "string \<Rightarrow> agentOptions \<Rightarrow> agentOptions" where
  "WithClusterName clusterName o' = o'\<lparr>SpokeClusterName := clusterName\<rparr>"

definition WithKubeconfig :: "string \<Rightarrow> agentOptions \<Rightarrow> agentOptions" where
  "WithKubeconfig kubeConfig o' = o'\<lparr>KubeConfig := kubeConfig\<rparr>"

definition WithSpokeKubeconfig :: "string \<Rightarrow> agentOptions \<Rightarrow> agentOptions" where
  "WithSpokeKubeconfig spokeKubeConfig o' = o'\<lparr>SpokeKubeconfigFile := spokeKubeConfig\<rparr>"

definition WithBootstrapKubeconfig :: "string \<Rightarrow> agentOptions \<Rightarrow> agentOptions" where
  "WithBootstrapKubeconfig bootstrapKubeconfig o' = o'\<lparr>BootstrapKubeconfig := bootstrapKubeconfig\<rparr>"

definition WithHubKubeconfigDir :: "string \<Rightarrow> agentOptions \<Rightarrow> agentOptions" where
  "WithHubKubeconfigDir hubKubeconfigDir o' = o'\<lparr>HubKubeconfigDir := hubKubeconfigDir\<rparr>"

definition WithHubKubeconfigSecreName :: "string \<Rightarrow> agentOptions \<Rightarrow> agentOptions" where
  "WithHubKubeconfigSecreName n o' = o'\<lparr>HubKubeconfigSecret := n\<rparr>"

definition WithWorkloadSourceDriverConfig :: "string \<Rightarrow> agentOptions \<Rightarrow> agentOptions" where
  "WithWorkloadSourceDriverConfig hubKubeConfigFile o' =
     o'\<lparr>WorkloadSourceDriver := ''kube'', WorkloadSourceConfig := hubKubeConfigFile\<rparr>"

definition crdStaticFiles :: "string list" where
  "crdStaticFiles = [''crds/0000_01_work.open-cluster-management.io_appliedmanifestworks.crd.yaml'',
     ''crds/0000_02_clusters.open-cluster-management.io_clusterclaims.crd.yaml'']"

definition ensureCRD :: "('s, 'c) agentLib \<Rightarrow> string \<Rightarrow> ('s, unit) go" where
  "ensureCRD A crdFileName =
     bindG (ofO (al_crds_ReadFile A crdFileName)) (\<lambda>template.
     bindG (ofO (case al_CreateAssetFromTemplate A crdFileName template of Ok d \<Rightarrow> Ok d | _ \<Rightarrow> Panic ''template'')) (\<lambda>objData.
     bindG (ofO (al_Decode A objData)) (\<lambda>obj.
     case obj of CustomResourceDefinition required \<Rightarrow> al_ApplyCRD A required | OtherObject _ \<Rightarrow> returnG ())))"

definition ensureCRDs :: "('s, 'c) agentLib \<Rightarrow> ('s, unit) go" where
  "ensureCRDs A = forG crdStaticFiles (ensureCRD A)"

text \<open>
  The argument of \<open>go utilruntime.Must(config.RunSpokeAgent(...))\<close> is evaluated before the goroutine starts,
  so that the agent runs here; an error of it makes the goroutine panic.
\<close>

definition RunAgent :: "('s, 'c) agentLib \<Rightarrow> agentOptions \<Rightarrow> ('s, unit) go" where
  "RunAgent A o' =
     bindG (case al_InClusterConfig A of
              Ok c \<Rightarrow> returnG c
            | Err _ \<Rightarrow> wrapG (ErrorfV ''unable to load kubeconfig from file %q: %v'' [KubeConfig o']) (al_BuildConfigFromFlags A (KubeConfig o'))
            | Panic p \<Rightarrow> panicG p) (\<lambda>inClusterKubeConfig.
     bindG (al_SpokeKubeConfig A o' inClusterKubeConfig) (\<lambda>spokeKubeConfig.
     bindG (errG (al_apiextensions_NewForConfig A spokeKubeConfig)) (\<lambda>_.
     bindG (ensureCRDs A) (\<lambda>_.
     tryG (al_RunSpokeAgent A o' inClusterKubeConfig) returnG (\<lambda>_. panicG ''RunSpokeAgent'')))))"

definition StartManagedServiceAccountAgent :: "('s, 'c) agentLib \<Rightarrow> ('s, string) go \<Rightarrow> 'c \<Rightarrow> string \<Rightarrow> ('s, unit) go" where
  "StartManagedServiceAccountAgent A componentNamespace hubConfig clusterName =
     bindG componentNamespace (\<lambda>spokeNamespace.
     bindG (if al_kubernetes_NewForConfig A hubConfig = None then returnG ()
            else failG (Errorf ''unable to instantiate a kubernetes native client'' [])) (\<lambda>_.
     bindG (case al_InClusterConfig A of
              Ok c \<Rightarrow> returnG c | Err _ \<Rightarrow> failG (Errorf ''failed build a in-cluster spoke cluster client config'' [])
            | Panic p \<Rightarrow> panicG p) (\<lambda>spokeCfg.
     bindG (if al_kubernetes_NewForConfig A spokeCfg = None then returnG ()
            else failG (Errorf ''unable to build a spoke kubernetes client'' [])) (\<lambda>_.
     bindG (wrapG (ErrorfV ''failed api discovery in the spoke cluster: %v'' []) (al_ResourceKinds A)) (\<lambda>kinds.
     if ''TokenRequest'' \<notin> set kinds
     then failG (Errorf (''no '' @ [CHR 0x22] @ ''serviceaccounts/token'' @ [CHR 0x22] @
       '' resource discovered in the managed cluster,is --service-account-signing-key-file configured for the kube-apiserver?'') [])
     else bindG (if al_NewCache A spokeNamespace = None then returnG ()
                 else failG (Errorf ''unable to instantiate a spoke serviceaccount cache'' [])) (\<lambda>_.
          bindG (if al_AddCache A = None then returnG () else failG (Errorf ''unable to add spoke cache to manager'' [])) (\<lambda>_.
          al_SetupTokenReconciler A clusterName spokeNamespace)))))))"

text \<open>The manager is started in a goroutine, whose error ends the process.\<close>

definition RunAddOns :: "('s, 'c) agentLib \<Rightarrow> ('s, string) go \<Rightarrow> agentOptions \<Rightarrow> ('s, unit) go" where
  "RunAddOns A componentNamespace a =
     bindG (wrapG (ErrorfV ''unable to load kubeconfig from file %q: %v'' [KubeConfig a])
              (al_BuildConfigFromFlags A (BootstrapKubeconfig a))) (\<lambda>hubKubeConfig.
     bindG (errG (al_NewManager A hubKubeConfig)) (\<lambda>_.
     bindG (if al_FeatureEnabled A ''ManagedServiceAccount''
            then bindG (fatal (StartManagedServiceAccountAgent A componentNamespace hubKubeConfig (SpokeClusterName a))) (\<lambda>_. returnG True)
            else returnG False) (\<lambda>startCtrlMgr.
     if \<not> startCtrlMgr then returnG () else fatal (al_StartManager A))))"

section \<open>The self-managed cluster\<close>

record clusterInfo =
  ci_ClusterName :: string
  ci_URL :: string
  ci_CABundle :: bytes

record managedCluster =
  mc_Name :: string
  mc_Labels :: "string gomap"
  mc_HubAcceptsClient :: bool
  mc_ClientConfigs :: "(string \<times> bytes) list"
  mc_HubAccepted :: bool

record ('h, 'k) clusterApi =
  ca_kubernetes_NewForConfig :: "goerr option"
  ca_cluster_NewForConfig :: "goerr option"
  ca_GetNamespace :: "string \<Rightarrow> ('h, unit) go"
  ca_CreateNamespace :: "string \<Rightarrow> ('h, unit) go"
  ca_GetManagedCluster :: "string \<Rightarrow> ('h, managedCluster) go"
  ca_CreateManagedCluster :: "managedCluster \<Rightarrow> ('h, managedCluster) go"
  ca_PollUntilContextCancel :: "'h pollFunc"
  ca_GetAPIServer :: "('k, string) go"
  ca_GetCACert :: "('k, bytes) go"

definition SelfManagementClusterLabel :: string where
  "SelfManagementClusterLabel = ''multicluster-controlplane.open-cluster-management.io/selfmanagement''"

definition createNamespace :: "('h, 'k) clusterApi \<Rightarrow> string \<Rightarrow> ('h, unit) go" where
  "createNamespace C ns = tryG (ca_GetNamespace C ns) returnG (\<lambda>e. if isNotFound e then ca_CreateNamespace C ns else failG e)"

definition selfManagedCluster :: "clusterInfo \<Rightarrow> managedCluster" where
  "selfManagedCluster info = \<lparr>mc_Name = ci_ClusterName info, mc_Labels = [(SelfManagementClusterLabel, [])],
     mc_HubAcceptsClient = True, mc_ClientConfigs = [(ci_URL info, ci_CABundle info)], mc_HubAccepted = False\<rparr>"

text \<open>The condition of the poll: a cluster that cannot be found is created, unless its definition is not there yet.\<close>

definition clusterAccepted :: "('h, 'k) clusterApi \<Rightarrow> clusterInfo \<Rightarrow> ('h, bool) go" where
  "clusterAccepted C info = tryG (ca_GetManagedCluster C (ci_ClusterName info)) (\<lambda>c. returnG (mc_HubAccepted c))
     (\<lambda>e. if isNotFound e
        then tryG (ca_CreateManagedCluster C (selfManagedCluster info)) (\<lambda>c. returnG (mc_HubAccepted c))
               (\<lambda>e'. if isNotFound e' then returnG False else failG e')
        else failG e)"

definition waitForSelfManagedCluster :: "('h, 'k) clusterApi \<Rightarrow> clusterInfo \<Rightarrow> ('h, unit) go" where
  "waitForSelfManagedCluster C info = ca_PollUntilContextCancel C (5 * time_Second) True (clusterAccepted C info)"

text \<open>
  The state: the machine with the hosting cluster, the hub, the content type of the loopback client that
  all hooks share, and the goroutine that the hook has started, if any.
\<close>

record ('k, 'h) selfState =
  sf_host :: "'k hosted"
  sf_hub :: 'h
  sf_ContentType :: string
  sf_started :: "(string \<times> clusterInfo) option"

definition onSelfHost :: "('k hosted, 'a) go \<Rightarrow> (('k, 'h) selfState, 'a) go" where
  "onSelfHost m = zoomG sf_host (\<lambda>h s. s\<lparr>sf_host := h\<rparr>) m"

definition onHub :: "('h, 'a) go \<Rightarrow> (('k, 'h) selfState, 'a) go" where
  "onHub m = zoomG sf_hub (\<lambda>h s. s\<lparr>sf_hub := h\<rparr>) m"

definition selfManagementAgent :: "('s, 'c) agentLib \<Rightarrow> string \<Rightarrow> clusterInfo \<Rightarrow> agentOptions" where
  "selfManagementAgent A controlplaneCertDir info =
     (let bootstrapKubeConfig = Join [controlplaneCertDir, ''cert'', InclusterKubeconfigFileName];
          agentHubKubeconfigDir = Join [controlplaneCertDir, ''agent'', ''hub-kubeconfig'']
      in WithWorkloadSourceDriverConfig (agentHubKubeconfigDir @ ''/kubeconfig'')
          (WithHubKubeconfigDir agentHubKubeconfigDir
          (WithBootstrapKubeconfig bootstrapKubeConfig
          (WithClusterName (ci_ClusterName info) (NewAgentOptions A)))))"

definition EnableSelfManagement ::
  "env \<Rightarrow> ('k hosted, 'c) agentLib \<Rightarrow> ('h, 'k) clusterApi \<Rightarrow> string \<Rightarrow> clusterInfo \<Rightarrow> (('k, 'h) selfState, unit) go" where
  "EnableSelfManagement E A C controlplaneCertDir info =
     bindG (fatal (errG (ca_kubernetes_NewForConfig C))) (\<lambda>_.
     bindG (fatal (errG (ca_cluster_NewForConfig C))) (\<lambda>_.
     bindG (fatal (onHub (createNamespace C (ci_ClusterName info)))) (\<lambda>_.
     bindG (fatal (onHub (waitForSelfManagedCluster C info))) (\<lambda>_.
     bindG (fatal (onSelfHost (onFS (os_MkdirAll E (Join [controlplaneCertDir, ''agent'', ''hub-kubeconfig''])))))
       (\<lambda>_.
     fatal (onSelfHost (RunAgent A (selfManagementAgent A controlplaneCertDir info))))))))"

definition InstallSelfManagementCluster ::
  "'k kubeApi \<Rightarrow> ('h, 'k) clusterApi \<Rightarrow> bool \<Rightarrow> string \<Rightarrow> string \<Rightarrow> (('k, 'h) selfState, unit) go" where
  "InstallSelfManagementCluster K C enableSelfManagement selfManagementClusterName controlplaneDataDir = (case InClusterConfig K of
     Some _ \<Rightarrow> returnG ()
   | None \<Rightarrow>
       if \<not> enableSelfManagement then returnG () else
       bindG (\<lambda>s. (Ok (), s\<lparr>sf_ContentType := ''application/json''\<rparr>)) (\<lambda>_.
       bindG (if selfManagementClusterName = [] then onSelfHost (onK (GenerateSelfManagedClusterName K))
              else returnG selfManagementClusterName) (\<lambda>clusterName.
       bindG (errG (kube_NewForConfig K)) (\<lambda>_.
       bindG (onSelfHost (onK (ca_GetAPIServer C))) (\<lambda>apiserverURL.
       bindG (onSelfHost (onK (ca_GetCACert C))) (\<lambda>caBundle.
       (\<lambda>s. (Ok (), s\<lparr>sf_started := Some (controlplaneDataDir,
          \<lparr>ci_ClusterName = clusterName, ci_URL = apiserverURL, ci_CABundle = caBundle\<rparr>)\<rparr>))))))))"

end
