(* ===== verification/SelfManagementProofs.thy ===== *)
theory SelfManagementProofs
  imports SelfManagement CertProperties
begin

text \<open>
  How self management rests on the other components: the agent bootstraps from the kubeconfig that the
  certificate component wrote, keeps its own files outside the certificate directory, and runs only after
  the hub has accepted the cluster.
\<close>

section \<open>Kubeconfigs written at the start\<close>

lemma onFS_Ok: "onFS m s = (Ok x, s') \<longleftrightarrow> (\<exists>w. m (fst s) = (Ok x, w) \<and> s' = (w, snd s))"
  by (auto simp: onFS_def zoomG_Ok_iff)

lemma onK_Ok: "onK m s = (r, s') \<Longrightarrow> fst s' = fst s"
  by (auto simp: onK_def zoomG_def split: prod.splits)

lemma stat_world: "os_Stat E p w = (r, w') \<Longrightarrow> w' = w"
  by (auto simp: os_Stat_def faultG_def split: option.splits)

lemma mkdir_world: "os_MkdirAll E d w = (r, w') \<Longrightarrow> w' = w"
  by (auto simp: os_MkdirAll_def faultG_def returnG_def split: option.splits)

lemma write_world: "os_WriteFile E p b w = (Ok x, w') \<Longrightarrow> w' = putFile p b w"
  by (auto simp: os_WriteFile_def faultG_def split: option.splits)

lemma read_world: "os_ReadFile E p w = (Ok b, w') \<Longrightarrow> w' = w \<and> files w p = Some b"
  by (auto simp: os_ReadFile_def faultG_def split: option.splits)

lemma read_world_any: "os_ReadFile E p w = (r, w') \<Longrightarrow> w' = w"
  by (auto simp: os_ReadFile_def faultG_def split: option.splits)

lemma component_namespace_state: "GetComponentNamespace E K s = (Ok ns, s') \<Longrightarrow> s' = s"
  by (auto simp: GetComponentNamespace_def tryG_def onFS_def zoomG_def returnG_def dest: read_world_any
      split: prod.splits outcome.splits)

lemma onFS_state: "(\<And>w r w'. m w = (r, w') \<Longrightarrow> w' = w) \<Longrightarrow> onFS m s = (r, s') \<Longrightarrow> s' = s"
  by (auto simp: onFS_def zoomG_def prod_eq_iff split: prod.splits)

lemma stat_state: "onFS (os_Stat E p) s = (r, s') \<Longrightarrow> s' = s"
  by (erule onFS_state [rotated]) (rule stat_world)

lemma mkdir_state: "onFS (os_MkdirAll E p) s = (r, s') \<Longrightarrow> s' = s"
  by (erule onFS_state [rotated]) (rule mkdir_world)

lemma write_file_Ok:
  assumes "KubeconfigWriteToFile E K f url bundle cert key s = (Ok (), s')"
  shows "\<exists>b. toKubeconfig K url bundle cert key = Ok b \<and> s' = (putFile f b (fst s), snd s)"
proof -
  obtain b s1 where b: "toKubeconfig K url bundle cert key = Ok b"
    and d: "tryG (onFS (os_Stat E (Dir f))) returnG (\<lambda>e. if os_IsNotExist e then onFS (os_MkdirAll E (Dir f)) else returnG ()) s = (Ok (), s1)"
    and w: "onFS (os_WriteFile E f b) s1 = (Ok (), s')"
    using assms by (auto simp: KubeconfigWriteToFile_def Let_def bindG_Ok_iff ofO_Ok_iff)
  have "s1 = s"
    using d by (auto simp: tryG_def returnG_def dest!: stat_state mkdir_state
      split: prod.splits outcome.splits if_splits)
  with b w show ?thesis by (auto simp: onFS_Ok dest: write_world)
qed

lemma wrote_secret_world:
  assumes "KubeconfigWroteToSecret E K n url bundle cert key s = (Ok (), s')"
  shows "fst s' = fst s"
proof -
  obtain b ns where r: "tryG (onK (api_GetSecret K ns n))
       (\<lambda>sec. if bytesEqual (dataEntry (sec_Data sec) ''kubeconfig'') b then returnG ()
          else case sec_Data sec of None \<Rightarrow> panicG ''assignment to entry in nil map''
          | Some d \<Rightarrow> onK (api_UpdateSecret K ns (sec\<lparr>sec_Data := Some (mapPut ''kubeconfig'' b d)\<rparr>)))
       (\<lambda>e. if isNotFound e then onK (api_CreateSecret K ns \<lparr>sec_Name = n, sec_Data = Some [(''kubeconfig'', b)]\<rparr>)
            else failG e) s = (Ok (), s')"
    using assms by (auto simp: KubeconfigWroteToSecret_def bindG_Ok_iff ofO_Ok_iff errG_Ok_iff dest!: component_namespace_state)
  obtain r1 s1 where g: "onK (api_GetSecret K ns n) s = (r1, s1)" by (metis surj_pair)
  from onK_Ok [OF g] r show ?thesis
    by (auto simp: tryG_def g returnG_def failG_def panicG_def dest!: onK_Ok split: outcome.splits if_splits option.splits)
qed

lemma kubeconfig_in_cluster:
  assumes "InClusterConfig K = None" "InitKubeconfig E K cfg cs (w, k) = (Ok (), (w', k'))"
  defines "d \<equiv> CertsDirectory (DataDirectory cfg)"
  shows "\<exists>b bundle cert key ns. files w' (InclusterKubeconfigFile d) = Some b \<and> toKubeconfig K (serviceURL ns) bundle cert key = Ok b \<and>
     files w (TotalServerCABundlePath d) = Some bundle \<and>
     GetCertKey E cs [RootCACertDirName, ClientCACertDirName, KubeAggregatorCertDirName] = Ok (cert, key)"
proof -
  obtain tb cert key s1 ns s2 ns2 s4 where
    rd: "files w (TotalServerCABundlePath d) = Some tb"
    and ck: "GetCertKey E cs [RootCACertDirName, ClientCACertDirName, KubeAggregatorCertDirName] = Ok (cert, key)"
    and f2: "KubeconfigWriteToFile E K (InclusterKubeconfigFile d) (serviceURL ns) tb cert key s1 = (Ok (), s2)"
    and w1: "KubeconfigWroteToSecret E K ''multicluster-controlplane-svc-kubeconfig'' (serviceURL ns2) tb cert key s2 = (Ok (), s4)"
    and w2: "\<exists>n u. KubeconfigWroteToSecret E K n u tb cert key s4 = (Ok (), (w', k'))"
    using assms(2) by (auto simp: InitKubeconfig_def Let_def assms(1) d_def [symmetric] bindG_Ok_iff wrapG_Ok_iff ofO_Ok_iff onFS_Ok
        dest!: read_world component_namespace_state) blast
  obtain b where b: "toKubeconfig K (serviceURL ns) tb cert key = Ok b" "s2 = (putFile (InclusterKubeconfigFile d) b (fst s1), snd s1)"
    using write_file_Ok [OF f2] by blast
  have "fst s4 = fst s2" by (rule wrote_secret_world [OF w1])
  moreover have "w' = fst s4" using w2 wrote_secret_world by fastforce
  ultimately have "files w' (InclusterKubeconfigFile d) = Some b" by (simp add: b(2) putFile_def)
  with b(1) rd ck show ?thesis by blast
qed

section \<open>The agent's files\<close>

lemma plain_agent_cert: "plain ''cert''" "plain ''agent''" "plain ''hub-kubeconfig''" "plain InclusterKubeconfigFileName"
  by (simp_all add: plain_def InclusterKubeconfigFileName_def)

lemma agent_paths:
  assumes "cleanDir d"
  shows "BootstrapKubeconfig (selfManagementAgent A d info) = InclusterKubeconfigFile (CertsDirectory d)"
    and "HubKubeconfigDir (selfManagementAgent A d info) = d @ ''/'' @ ''agent'' @ ''/'' @ ''hub-kubeconfig''"
    and "CertsDirectory d = d @ ''/'' @ ''cert''"
proof -
  show c: "CertsDirectory d = d @ ''/'' @ ''cert''"
    unfolding CertsDirectory_def by (rule Join_plain [OF assms plain_agent_cert(1)])
  have "InclusterKubeconfigFile (CertsDirectory d) = (d @ ''/'' @ ''cert'') @ ''/'' @ InclusterKubeconfigFileName"
    unfolding InclusterKubeconfigFile_def c by (rule Join_plain [OF cleanDir_append [OF assms plain_agent_cert(1)] plain_agent_cert(4)])
  then show "BootstrapKubeconfig (selfManagementAgent A d info) = InclusterKubeconfigFile (CertsDirectory d)"
    using Join_plain3 [OF assms plain_agent_cert(1,4)]
    by (simp add: selfManagementAgent_def Let_def WithWorkloadSourceDriverConfig_def WithHubKubeconfigDir_def WithBootstrapKubeconfig_def WithClusterName_def)
  show "HubKubeconfigDir (selfManagementAgent A d info) = d @ ''/'' @ ''agent'' @ ''/'' @ ''hub-kubeconfig''"
    using Join_plain3 [OF assms plain_agent_cert(2,3)]
    by (simp add: selfManagementAgent_def Let_def WithWorkloadSourceDriverConfig_def WithHubKubeconfigDir_def WithBootstrapKubeconfig_def WithClusterName_def)
qed

lemma agent_names:
  "SpokeClusterName (selfManagementAgent A d info) = ci_ClusterName info"
  "WorkloadSourceDriver (selfManagementAgent A d info) = ''kube''"
  "WorkloadSourceConfig (selfManagementAgent A d info) = HubKubeconfigDir (selfManagementAgent A d info) @ ''/kubeconfig''"
  by (simp_all add: selfManagementAgent_def Let_def WithWorkloadSourceDriverConfig_def WithHubKubeconfigDir_def WithBootstrapKubeconfig_def WithClusterName_def)

lemma install_started:
  assumes "InstallSelfManagementCluster K C on name dir s = (Ok (), s')" "sf_started s = None" "sf_started s' = Some (d, info)"
  shows "InClusterConfig K = None \<and> on \<and> d = dir \<and> (name \<noteq> [] \<longrightarrow> ci_ClusterName info = name)"
proof -
  have in_cluster: "InClusterConfig K = None" using assms by (auto simp: InstallSelfManagementCluster_def returnG_def split: option.splits)
  moreover have "on" using assms in_cluster by (auto simp: InstallSelfManagementCluster_def returnG_def split: if_splits)
  moreover from calculation assms show ?thesis
    by (auto simp: InstallSelfManagementCluster_def bindG_Ok_iff errG_Ok_iff returnG_Ok_iff split: if_splits)
qed

section \<open>Acceptance\<close>

definition acceptedBy :: "('h, 'k) clusterApi \<Rightarrow> clusterInfo \<Rightarrow> 'h \<Rightarrow> bool" where
  "acceptedBy C info h' = (\<exists>h c. mc_HubAccepted c \<and>
     (ca_GetManagedCluster C (ci_ClusterName info) h = (Ok c, h') \<or> ca_CreateManagedCluster C (selfManagedCluster info) h = (Ok c, h')))"

lemma clusterAccepted_True:
  assumes "clusterAccepted C info h = (Ok True, h')"
  shows "acceptedBy C info h'"
  using assms unfolding clusterAccepted_def tryG_Ok_iff acceptedBy_def
  by (auto simp: returnG_Ok_iff failG_Ok_iff tryG_Ok_iff split: if_splits)

lemma waited:
  assumes "poll_law (ca_PollUntilContextCancel C)" "waitForSelfManagedCluster C info h = (Ok (), h')"
  shows "acceptedBy C info h'"
proof -
  obtain n where "waitForSelfManagedCluster C info h = attempts (Suc n) (clusterAccepted C info) h"
    using assms(1) unfolding poll_law_def waitForSelfManagedCluster_def by blast
  with assms(2) attempts_True clusterAccepted_True show ?thesis by metis
qed

section \<open>Properties\<close>

lemma enabled_waited:
  assumes "EnableSelfManagement E A C dir info s = (Ok (), s')"
  shows "\<exists>h h' g g'. waitForSelfManagedCluster C info h = (Ok (), h') \<and> RunAgent A (selfManagementAgent A dir info) g = (Ok (), g') \<and>
     sf_hub s' = h' \<and> sf_host s' = g'"
proof -
  obtain s1 s2 s3 where w: "onHub (waitForSelfManagedCluster C info) s1 = (Ok (), s2)"
    and m: "onSelfHost (onFS (os_MkdirAll E (Join [dir, ''agent'', ''hub-kubeconfig'']))) s2 = (Ok (), s3)"
    and r: "onSelfHost (RunAgent A (selfManagementAgent A dir info)) s3 = (Ok (), s')"
    using assms by (auto simp: EnableSelfManagement_def bindG_Ok_iff fatal_Ok)
  from w obtain h' where h: "waitForSelfManagedCluster C info (sf_hub s1) = (Ok (), h')" "s2 = s1\<lparr>sf_hub := h'\<rparr>"
    by (auto simp: onHub_def zoomG_Ok_iff)
  from m have "sf_hub s3 = sf_hub s2" by (auto simp: onSelfHost_def zoomG_Ok_iff)
  moreover from r obtain g' where "RunAgent A (selfManagementAgent A dir info) (sf_host s3) = (Ok (), g')" "s' = s3\<lparr>sf_host := g'\<rparr>"
    by (auto simp: onSelfHost_def zoomG_Ok_iff)
  ultimately show ?thesis using h by fastforce
qed


section \<open>A self-managed cluster\<close>

definition demoAggregatorSigner :: CertificateSigner where
  "demoAggregatorSigner = Signer ClientCACertDirName (demoCA ''client'' ''/s'') ''/d/cert/client-ca'' 365 []
     [(KubeAggregatorCertDirName, demoInfo KubeAggregatorCertDirName)] []"

definition demoAggregatorChains :: CertificateChains where
  "demoAggregatorChains = \<lparr>signers = [(RootCACertDirName, Signer RootCACertDirName (demoCA ''root'' ''/s'') ''/d/cert/root-ca'' 365
     [(ClientCACertDirName, demoAggregatorSigner)] [] [])], chainsSigningConfig = None\<rparr>"

definition demoBundleWorld :: world where
  "demoBundleWorld = putFile (TotalServerCABundlePath (CertsDirectory ''/d'')) (CertPEM [demoCert ''root'' 0 0]) simWorld"

lemma sim_writes:
  assumes "toKubeconfig K url tb cert key = Ok b"
  shows "KubeconfigWriteToFile simEnv K f url tb cert key s = (Ok (), (putFile f b (fst s), snd s))"
  by (simp add: KubeconfigWriteToFile_def assms Let_def bindG_def ofO_def tryG_def onFS_def zoomG_def os_Stat_def os_MkdirAll_def
      os_WriteFile_def faultG_def returnG_def simEnv_def os_IsNotExist_def split: option.splits)

lemma sim_namespace: "\<exists>ns. GetComponentNamespace simEnv K s = (Ok ns, s)"
  by (simp add: GetComponentNamespace_def tryG_def onFS_def zoomG_def os_ReadFile_def faultG_def returnG_def simEnv_def
      split: option.splits)

lemma demoApi_sel:
  "kube_NewForConfig demoApi = None" "clientcmd_Write demoApi doc = Ok (Text (CurrentContext doc))"
  "h (ns, n) = None \<Longrightarrow> api_GetSecret demoApi ns n h = (Err (ApiNotFound n), h)"
  "api_CreateSecret demoApi ns x h = (Ok (), h((ns, sec_Name x) \<mapsto> x))"
  by (simp_all add: demoApi_def)

lemma sim_secret:
  assumes "snd s = k" "\<And>ns. k (ns, n) = None"
  shows "\<exists>ns sec. KubeconfigWroteToSecret simEnv demoApi n url tb cert key s = (Ok (), (fst s, k((ns, n) \<mapsto> sec)))"
proof -
  obtain ns where ns: "GetComponentNamespace simEnv demoApi s = (Ok ns, s)" using sim_namespace by blast
  show ?thesis
    by (simp add: KubeconfigWroteToSecret_def toKubeconfig_def bindG_def ofO_def errG_def ns tryG_def onK_def zoomG_def
        returnG_def demoApi_sel assms isNotFound_def Let_def) blast
qed

lemma demo_key: "\<exists>c k. GetCertKey simEnv demoAggregatorChains [RootCACertDirName, ClientCACertDirName, KubeAggregatorCertDirName] = Ok (c, k)"
  by (simp add: GetCertKey_def demoAggregatorChains_def GetSigner_def mapGet_def GetSubCA_def demoAggregatorSigner_def
      signerGetCertKey_def simEnv_def Let_def)

lemma demo_kubeconfig:
  "\<exists>w' k'. InitKubeconfig simEnv demoApi demoCfg demoAggregatorChains (demoBundleWorld, Map.empty) = (Ok (), (w', k'))"
proof -
  obtain c k where ck: "GetCertKey simEnv demoAggregatorChains [RootCACertDirName, ClientCACertDirName, KubeAggregatorCertDirName] = Ok (c, k)"
    using demo_key by blast
  let ?tb = "CertPEM [demoCert ''root'' 0 0]" and ?d = "CertsDirectory ''/d''"
  have read: "onFS (os_ReadFile simEnv (TotalServerCABundlePath ?d)) (demoBundleWorld, kk) = (Ok ?tb, (demoBundleWorld, kk))" for kk
    by (simp add: onFS_def zoomG_def os_ReadFile_def faultG_def simEnv_def demoBundleWorld_def putFile_def)
  have t: "\<exists>b. toKubeconfig demoApi u ?tb c k = Ok b" for u by (simp add: toKubeconfig_def demoApi_def Let_def)
  then obtain f where t: "\<And>u. toKubeconfig demoApi u ?tb c k = Ok (f u)" by metis
  note w = sim_writes [OF t]
  have ns: "\<exists>g. \<forall>s. GetComponentNamespace simEnv demoApi s = (Ok (g s), s)" using sim_namespace by metis
  then obtain g where g: "\<And>s. GetComponentNamespace simEnv demoApi s = (Ok (g s), s)" by blast
  have first: "\<exists>ns sec. KubeconfigWroteToSecret simEnv demoApi ''multicluster-controlplane-svc-kubeconfig'' u ?tb c k (x, Map.empty) =
      (Ok (), (x, [(ns, ''multicluster-controlplane-svc-kubeconfig'') \<mapsto> sec]))" for u x
    using sim_secret [of "(x, Map.empty)" Map.empty] by simp
  then obtain ns1 sec1 where first: "\<And>u x. KubeconfigWroteToSecret simEnv demoApi ''multicluster-controlplane-svc-kubeconfig'' u ?tb c k (x, Map.empty) =
      (Ok (), (x, [(ns1 u x, ''multicluster-controlplane-svc-kubeconfig'') \<mapsto> sec1 u x]))" by metis
  have second: "\<exists>k'. KubeconfigWroteToSecret simEnv demoApi ''multicluster-controlplane-kubeconfig'' u ?tb c k
      (x, [(n1, ''multicluster-controlplane-svc-kubeconfig'') \<mapsto> sc]) = (Ok (), (x, k'))" for u x n1 sc
    using sim_secret [of "(x, [(n1, ''multicluster-controlplane-svc-kubeconfig'') \<mapsto> sc])" "[(n1, ''multicluster-controlplane-svc-kubeconfig'') \<mapsto> sc]"
        "''multicluster-controlplane-kubeconfig''" u ?tb c k] by fastforce
  then obtain k2 where second: "\<And>u x n1 sc. KubeconfigWroteToSecret simEnv demoApi ''multicluster-controlplane-kubeconfig'' u ?tb c k
      (x, [(n1, ''multicluster-controlplane-svc-kubeconfig'') \<mapsto> sc]) = (Ok (), (x, k2 u x n1 sc))" by metis
  have d: "DataDirectory demoCfg = ''/d''" by (simp add: demoCfg_def)
  have i: "InClusterConfig demoApi = None" by (simp add: demoApi_def)
  show ?thesis
    by (simp add: InitKubeconfig_def Let_def d i bindG_def wrapG_def read ck ofO_def w g first second)
qed

definition demoClusterApi :: "(unit, string \<times> string \<Rightarrow> secret option) clusterApi" where
  "demoClusterApi = \<lparr>ca_kubernetes_NewForConfig = None, ca_cluster_NewForConfig = None, ca_GetNamespace = (\<lambda>_. returnG ()),
     ca_CreateNamespace = (\<lambda>_. returnG ()), ca_GetManagedCluster = (\<lambda>n. failG (ApiNotFound n)),
     ca_CreateManagedCluster = (\<lambda>c. returnG (c\<lparr>mc_HubAccepted := True\<rparr>)),
     ca_PollUntilContextCancel = (\<lambda>i imm cond. attempts 3 cond), ca_GetAPIServer = returnG ''https://self'',
     ca_GetCACert = returnG (Text ''ca'')\<rparr>"

definition demoAgentLib :: "((string \<times> string \<Rightarrow> secret option) hosted, unit) agentLib" where
  "demoAgentLib = \<lparr>al_defaults = \<lparr>SpokeClusterName = [], SpokeKubeconfigFile = [], HubKubeconfigDir = [], BootstrapKubeconfig = [],
       HubKubeconfigSecret = [], WorkloadSourceDriver = [], WorkloadSourceConfig = [], KubeConfig = []\<rparr>,
     al_InClusterConfig = Ok (), al_BuildConfigFromFlags = (\<lambda>_. returnG ()), al_SpokeKubeConfig = (\<lambda>_ _. returnG ()),
     al_apiextensions_NewForConfig = (\<lambda>_. None), al_kubernetes_NewForConfig = (\<lambda>_. None), al_crds_ReadFile = Ok,
     al_CreateAssetFromTemplate = (\<lambda>f t. Ok t), al_Decode = (\<lambda>d. Ok (OtherObject d)), al_ApplyCRD = (\<lambda>_. returnG ()),
     al_RunSpokeAgent = (\<lambda>_ _. returnG ()), al_NewManager = (\<lambda>_. None), al_FeatureEnabled = (\<lambda>_. False),
     al_ResourceKinds = returnG [], al_NewCache = (\<lambda>_. None), al_AddCache = None, al_SetupTokenReconciler = (\<lambda>_ _. returnG ()),
     al_StartManager = returnG ()\<rparr>"

definition demoSelf :: "(string \<times> string \<Rightarrow> secret option, unit) selfState" where
  "demoSelf = \<lparr>sf_host = (simWorld, Map.empty), sf_hub = (), sf_ContentType = [], sf_started = None\<rparr>"

definition demoInfoSelf :: clusterInfo where
  "demoInfoSelf = \<lparr>ci_ClusterName = ''self'', ci_URL = ''https://self'', ci_CABundle = Text ''ca''\<rparr>"

lemma demo_installed:
  "\<exists>s'. InstallSelfManagementCluster demoApi demoClusterApi True ''self'' (DataDirectory demoCfg) demoSelf = (Ok (), s') \<and>
     sf_started s' = Some (''/d'', demoInfoSelf)"
proof -
  have i: "InClusterConfig demoApi = None" by (simp add: demoApi_def)
  show ?thesis
    by (simp add: InstallSelfManagementCluster_def i demoApi_sel bindG_def errG_def returnG_def onSelfHost_def onK_def zoomG_def
        demoClusterApi_def demoInfoSelf_def demoCfg_def)
qed

lemma demo_agent_runs: "RunAgent demoAgentLib o' g = (Ok (), g)"
proof -
  have "ensureCRD demoAgentLib f g = (Ok (), g)" for f g
    by (simp add: ensureCRD_def demoAgentLib_def bindG_def ofO_def returnG_def)
  then have "forG fs (ensureCRD demoAgentLib) g = (Ok (), g)" for fs g
    by (induction fs) (simp_all add: bindG_def returnG_def)
  then have e: "ensureCRDs demoAgentLib g = (Ok (), g)" for g by (simp add: ensureCRDs_def)
  have sel: "al_InClusterConfig demoAgentLib = Ok ()" "al_SpokeKubeConfig demoAgentLib x y = returnG ()"
    "al_apiextensions_NewForConfig demoAgentLib z = None" "al_RunSpokeAgent demoAgentLib x y = returnG ()" for x y z
    by (simp_all add: demoAgentLib_def)
  show ?thesis by (simp add: RunAgent_def sel errG_def bindG_def e tryG_def returnG_def)
qed

lemma demo_waits: "waitForSelfManagedCluster demoClusterApi demoInfoSelf () = (Ok (), ())"
proof -
  have "clusterAccepted demoClusterApi demoInfoSelf () = (Ok True, ())"
    by (simp add: clusterAccepted_def demoClusterApi_def tryG_def failG_def returnG_def isNotFound_def)
  then show ?thesis by (simp add: waitForSelfManagedCluster_def demoClusterApi_def numeral_3_eq_3 bindG_def returnG_def)
qed

lemma demo_enabled: "\<exists>t'. EnableSelfManagement simEnv demoAgentLib demoClusterApi ''/d'' demoInfoSelf demoSelf = (Ok (), t')"
proof -
  have n: "createNamespace demoClusterApi n () = (Ok (), ())" for n
    by (simp add: createNamespace_def demoClusterApi_def tryG_def returnG_def)
  have m: "os_MkdirAll simEnv p w = (Ok (), w)" for p w by (simp add: os_MkdirAll_def faultG_def simEnv_def returnG_def)
  have c: "ca_kubernetes_NewForConfig demoClusterApi = None" "ca_cluster_NewForConfig demoClusterApi = None"
    by (simp_all add: demoClusterApi_def)
  show ?thesis
    by (simp add: EnableSelfManagement_def c n demo_waits m demo_agent_runs errG_def fatal_def tryG_def bindG_def returnG_def
        onHub_def onSelfHost_def onFS_def zoomG_def)
qed


end
