(* ===== verification/AdmissionPlugins.thy ===== *)
theory AdmissionPlugins
  imports ServerOptions
begin

text \<open>
  The admission plugins of the control plane (\<open>plugin/admission\<close>): one that fills in the defaults of a
  managed cluster, and three that validate managed clusters, bindings of cluster sets, and manifest
  works. The conversions between unstructured and typed objects, the admission review and the webhooks
  of Open Cluster Management are libraries: the record \<open>admissionLib\<close>. A webhook may ask the API server,
  so that it runs in a state.
\<close>

section \<open>Requests and objects\<close>

record GroupVersionKind =
  gk_Group :: string
  gk_Version :: string
  gk_Kind :: string

record GroupVersionResource =
  gr_group :: string
  gr_version :: string
  gr_resource :: string

datatype admissionOp = Create | Update | Delete | Connect

text \<open>What an interface value of a request holds: nothing, an unstructured object or a typed one.\<close>

datatype 'u runtimeObject = NilObject | Unstructured 'u | Typed 'u

record 'u attributes =
  at_Kind :: GroupVersionKind
  at_Operation :: admissionOp
  at_Object :: "'u runtimeObject"
  at_OldObject :: "'u runtimeObject"

text \<open>
  The review, of which the code sets the old object. The webhooks find it in the context.
\<close>

record 'r admissionRequest =
  rq_Rest :: 'r
  rq_OldObject :: bytes

record ('s, 'u, 'r, 'c, 'b, 'w) admissionLib =
  uuid_New :: string
  CreateV1AdmissionReview :: "string \<Rightarrow> 'u attributes \<Rightarrow> GroupVersionKind \<Rightarrow> GroupVersionResource \<Rightarrow> 'r admissionRequest"
  json_Marshal :: "'u runtimeObject \<Rightarrow> bytes outcome"
  FromUnstructuredCluster :: "'u \<Rightarrow> 'c outcome"
  ToUnstructuredCluster :: "'c \<Rightarrow> 'u outcome"
  FromUnstructuredBinding :: "'u \<Rightarrow> 'b outcome"
  FromUnstructuredWork :: "'u \<Rightarrow> 'w outcome"
  clusterDefault :: "'r admissionRequest \<Rightarrow> 'c \<Rightarrow> ('s, 'c) go"
  clusterValidateCreate :: "'r admissionRequest \<Rightarrow> 'c \<Rightarrow> ('s, unit) go"
  clusterValidateUpdate :: "'r admissionRequest \<Rightarrow> 'c \<Rightarrow> 'c \<Rightarrow> ('s, unit) go"
  bindingValidateCreate :: "'r admissionRequest \<Rightarrow> 'b \<Rightarrow> ('s, unit) go"
  bindingValidateUpdate :: "'r admissionRequest \<Rightarrow> 'b \<Rightarrow> 'b \<Rightarrow> ('s, unit) go"
  workValidateCreate :: "'r admissionRequest \<Rightarrow> 'w \<Rightarrow> ('s, unit) go"
  workValidateUpdate :: "'r admissionRequest \<Rightarrow> 'w \<Rightarrow> 'w \<Rightarrow> ('s, unit) go"

definition managedClusterKind :: GroupVersionKind where
  "managedClusterKind = \<lparr>gk_Group = ''cluster.open-cluster-management.io'', gk_Version = ''v1'', gk_Kind = ''ManagedCluster''\<rparr>"

definition managedClusterResource :: GroupVersionResource where
  "managedClusterResource =
     \<lparr>gr_group = ''cluster.open-cluster-management.io'', gr_version = ''v1'', gr_resource = ''managedclusters''\<rparr>"

definition bindingKind :: GroupVersionKind where
  "bindingKind =
     \<lparr>gk_Group = ''cluster.open-cluster-management.io'', gk_Version = ''v1beta2'', gk_Kind = ''ManagedClusterSetBinding''\<rparr>"

definition bindingResource :: GroupVersionResource where
  "bindingResource =
     \<lparr>gr_group = ''cluster.open-cluster-management.io'', gr_version = ''v1beta2'', gr_resource = ''managedclustersetbindings''\<rparr>"

definition manifestWorkKind :: GroupVersionKind where
  "manifestWorkKind = \<lparr>gk_Group = ''work.open-cluster-management.io'', gk_Version = ''v1'', gk_Kind = ''ManifestWork''\<rparr>"

definition manifestWorkResource :: GroupVersionResource where
  "manifestWorkResource =
     \<lparr>gr_group = ''work.open-cluster-management.io'', gr_version = ''v1'', gr_resource = ''manifestworks''\<rparr>"

text \<open>The type assertion \<open>.(*unstructured.Unstructured)\<close>.\<close>

definition asUnstructured :: "'u runtimeObject \<Rightarrow> ('s, 'u) go" where
  "asUnstructured obj' = (case obj' of Unstructured u \<Rightarrow> returnG u | _ \<Rightarrow> panicG ''interface conversion'')"

section \<open>util.go\<close>

definition Convert_Raw :: "('s, 'u, 'r, 'c, 'b, 'w) admissionLib \<Rightarrow> 'u runtimeObject option \<Rightarrow> bytes outcome" where
  "Convert_Raw A obj' = (case obj' of None \<Rightarrow> Ok (Text ''null'') | Some ob \<Rightarrow> json_Marshal A ob)"

section \<open>The plugins\<close>

text \<open>The state of a request: the API server, and the attributes, whose object a mutation replaces.\<close>

definition getAttrs :: "('s \<times> 'u attributes, 'u attributes) go" where
  "getAttrs = (\<lambda>(s, a). (Ok a, (s, a)))"

definition onApi :: "('s, 'a) go \<Rightarrow> ('s \<times> 'u attributes, 'a) go" where
  "onApi m = zoomG fst (\<lambda>s st. (s, snd st)) m"

definition setObject :: "'u \<Rightarrow> ('s \<times> 'u attributes, unit) go" where
  "setObject u = (\<lambda>(s, a). (Ok (), (s, a\<lparr>at_Object := Unstructured u\<rparr>)))"

definition managedClusterAdmit ::
  "('s, 'u, 'r, 'c, 'b, 'w) admissionLib \<Rightarrow> ('s \<times> 'u attributes, unit) go" where
  "managedClusterAdmit A = bindG getAttrs (\<lambda>a.
     if at_Kind a \<noteq> managedClusterKind then returnG ()
     else
       let ar = CreateV1AdmissionReview A (uuid_New A) a managedClusterKind managedClusterResource in
       bindG (wrapG (\<lambda>_. Errorf ''error occured in ManagedClusterMutating: failed to convert Object to RawExtension'' [])
                (ofO (Convert_Raw A (Some (at_OldObject a))))) (\<lambda>oldRaw.
       let ar1 = ar\<lparr>rq_OldObject := oldRaw\<rparr> in
       bindG (asUnstructured (at_Object a)) (\<lambda>obj'.
       bindG (ofO (FromUnstructuredCluster A obj')) (\<lambda>cluster.
       bindG (onApi (clusterDefault A ar1 cluster)) (\<lambda>defaulted.
       bindG (ofO (ToUnstructuredCluster A defaulted)) setObject)))))"

text \<open>The three validating plugins differ in the kind and in the webhook only.\<close>

definition validateObject ::
  "GroupVersionKind \<Rightarrow> GroupVersionResource \<Rightarrow> ('u \<Rightarrow> 't outcome) \<Rightarrow> ('r admissionRequest \<Rightarrow> 't \<Rightarrow> ('s, unit) go) \<Rightarrow>
   ('r admissionRequest \<Rightarrow> 't \<Rightarrow> 't \<Rightarrow> ('s, unit) go) \<Rightarrow> ('s, 'u, 'r, 'c, 'b, 'w) admissionLib \<Rightarrow> ('s \<times> 'u attributes, unit) go" where
  "validateObject gvk gvr fromUnstructured validateCreate validateUpdate A = bindG getAttrs (\<lambda>a.
     if at_Kind a \<noteq> gvk then returnG ()
     else
       let ar = CreateV1AdmissionReview A (uuid_New A) a gvk gvr in
       bindG (asUnstructured (at_Object a)) (\<lambda>obj'.
       bindG (ofO (fromUnstructured obj')) (\<lambda>t.
       case at_Operation a of
         Create \<Rightarrow> onApi (validateCreate ar t)
       | Update \<Rightarrow>
           bindG (asUnstructured (at_OldObject a)) (\<lambda>oldObj.
           bindG (ofO (fromUnstructured oldObj)) (\<lambda>old.
           onApi (validateUpdate ar old t)))
       | _ \<Rightarrow> returnG ())))"

definition managedClusterValidate ::
  "('s, 'u, 'r, 'c, 'b, 'w) admissionLib \<Rightarrow> ('s \<times> 'u attributes, unit) go" where
  "managedClusterValidate A = validateObject managedClusterKind managedClusterResource
     (FromUnstructuredCluster A) (clusterValidateCreate A) (clusterValidateUpdate A) A"

definition bindingValidate :: "('s, 'u, 'r, 'c, 'b, 'w) admissionLib \<Rightarrow> ('s \<times> 'u attributes, unit) go" where
  "bindingValidate A = validateObject bindingKind bindingResource
     (FromUnstructuredBinding A) (bindingValidateCreate A) (bindingValidateUpdate A) A"

definition manifestWorkValidate :: "('s, 'u, 'r, 'c, 'b, 'w) admissionLib \<Rightarrow> ('s \<times> 'u attributes, unit) go" where
  "manifestWorkValidate A = validateObject manifestWorkKind manifestWorkResource
     (FromUnstructuredWork A) (workValidateCreate A) (workValidateUpdate A) A"

text \<open>
  The operations a plugin asks to be called for, and whether it is ready: the webhook is set by the
  constructor.
\<close>

definition pluginHandles :: "admissionOp set" where
  "pluginHandles = {Create, Update}"

definition ValidateInitialization :: "'h option \<Rightarrow> goerr option" where
  "ValidateInitialization webhook = (case webhook of None \<Rightarrow> Some (Errorf ''missing webhook'' []) | Some _ \<Rightarrow> None)"

text \<open>The plugins by the names under which \<open>Register\<close> puts them into the registry.\<close>

definition ocmPlugin ::
  "('s, 'u, 'r, 'c, 'b, 'w) admissionLib \<Rightarrow> string \<Rightarrow> ('s \<times> 'u attributes, unit) go option" where
  "ocmPlugin A name =
     (if name = ''ManagedClusterMutating'' then Some (managedClusterAdmit A)
      else if name = ''ManagedClusterValidating'' then Some (managedClusterValidate A)
      else if name = ''ManagedClusterSetBindingValidating'' then Some (bindingValidate A)
      else if name = ''ManifestWorkValidating'' then Some (manifestWorkValidate A)
      else None)"

end
