(* ===== verification/AdmissionProofs.thy ===== *)
theory AdmissionProofs
  imports AdmissionPlugins ServerProperties
begin

text \<open>
  What the plugins do to a request: what is stored is what was validated, and which requests are
  examined at all.
\<close>

section \<open>Runs of the plugins\<close>

lemma getAttrs_Ok [gom_iff]: "getAttrs st = (Ok a, st') \<longleftrightarrow> a = snd st \<and> st' = st"
  by (auto simp: getAttrs_def split: prod.splits)

lemma onApi_Ok [gom_iff]: "onApi m st = (Ok x, st') \<longleftrightarrow> (\<exists>s. m (fst st) = (Ok x, s) \<and> st' = (s, snd st))"
  by (auto simp: onApi_def zoomG_def split: prod.splits)

lemma setObject_Ok [gom_iff]: "setObject u st = (Ok x, st') \<longleftrightarrow> st' = (fst st, (snd st)\<lparr>at_Object := Unstructured u\<rparr>)"
  by (auto simp: setObject_def split: prod.splits)

lemma asUnstructured_Ok [gom_iff]: "asUnstructured ob s = (Ok u, s') \<longleftrightarrow> ob = Unstructured u \<and> s' = s"
  by (auto simp: asUnstructured_def gom_iff split: runtimeObject.splits)

lemma validateObject_foreign:
  "at_Kind (snd st) \<noteq> gvk \<Longrightarrow> validateObject gvk gvr from create update A st = (Ok (), st)"
  by (cases st) (simp add: validateObject_def bindG_def getAttrs_def returnG_def)

lemma admit_foreign: "at_Kind (snd st) \<noteq> managedClusterKind \<Longrightarrow> managedClusterAdmit A st = (Ok (), st)"
  by (cases st) (simp add: managedClusterAdmit_def bindG_def getAttrs_def returnG_def)

text \<open>The reviews of a request: with the old object as the API server sends it, or marshalled.\<close>

definition clusterReview :: "('s, 'u, 'r, 'c, 'b, 'w) admissionLib \<Rightarrow> 'u attributes \<Rightarrow> 'r admissionRequest" where
  "clusterReview A a = CreateV1AdmissionReview A (uuid_New A) a managedClusterKind managedClusterResource"

lemma admit_Ok:
  assumes "at_Kind a = managedClusterKind"
  shows "managedClusterAdmit A (s, a) = (Ok (), st') \<longleftrightarrow>
    (\<exists>raw u c d u' s1. json_Marshal A (at_OldObject a) = Ok raw \<and> at_Object a = Unstructured u \<and> FromUnstructuredCluster A u = Ok c \<and>
       clusterDefault A ((clusterReview A a)\<lparr>rq_OldObject := raw\<rparr>) c s = (Ok d, s1) \<and> ToUnstructuredCluster A d = Ok u' \<and>
       st' = (s1, a\<lparr>at_Object := Unstructured u'\<rparr>))"
  by (simp add: managedClusterAdmit_def clusterReview_def Convert_Raw_def Let_def gom_iff assms) blast

lemma validate_Ok:
  assumes "at_Kind a = managedClusterKind"
  shows "managedClusterValidate A (s, a) = (Ok (), st') \<longleftrightarrow>
    (\<exists>u c s1. at_Object a = Unstructured u \<and> FromUnstructuredCluster A u = Ok c \<and> st' = (s1, a) \<and>
       (case at_Operation a of
          Create \<Rightarrow> clusterValidateCreate A (clusterReview A a) c s = (Ok (), s1)
        | Update \<Rightarrow> (\<exists>v old. at_OldObject a = Unstructured v \<and> FromUnstructuredCluster A v = Ok old \<and>
            clusterValidateUpdate A (clusterReview A a) old c s = (Ok (), s1))
        | _ \<Rightarrow> s1 = s))"
  by (cases "at_Operation a") (auto simp: managedClusterValidate_def validateObject_def clusterReview_def Let_def gom_iff assms)

definition createOf :: "GroupVersionKind \<Rightarrow> string \<Rightarrow> string attributes" where
  "createOf k u = \<lparr>at_Kind = k, at_Operation = Create, at_Object = Unstructured u, at_OldObject = NilObject\<rparr>"

lemma work_create:
  assumes "FromUnstructuredWork A u = Ok w"
  shows "manifestWorkValidate A (s, createOf manifestWorkKind u) =
    onApi (workValidateCreate A (CreateV1AdmissionReview A (uuid_New A) (createOf manifestWorkKind u) manifestWorkKind manifestWorkResource) w)
      (s, createOf manifestWorkKind u)"
  by (simp add: manifestWorkValidate_def validateObject_def createOf_def bindG_def getAttrs_def asUnstructured_def returnG_def ofO_def
      assms Let_def split: prod.splits outcome.splits)

section \<open>Properties\<close>


text \<open>An API server with clusters that are texts, whose default is to be accepted.\<close>

definition textAdmission :: "(nat, string, unit, string, string, string) admissionLib" where
  "textAdmission = \<lparr>uuid_New = ''uid'', CreateV1AdmissionReview = (\<lambda>_ _ _ _. \<lparr>rq_Rest = (), rq_OldObject = Text []\<rparr>),
     json_Marshal = (\<lambda>ob. case ob of NilObject \<Rightarrow> Ok (Text ''null'') | Unstructured u \<Rightarrow> Ok (Text u) | Typed u \<Rightarrow> Ok (Text u)),
     FromUnstructuredCluster = Ok, ToUnstructuredCluster = Ok, FromUnstructuredBinding = Ok, FromUnstructuredWork = Ok,
     clusterDefault = (\<lambda>_ c n. (Ok (c @ '' accepted''), Suc n)),
     clusterValidateCreate = (\<lambda>_ c n. (if c = [] then Err (Errorf ''empty'' []) else Ok (), n)),
     clusterValidateUpdate = (\<lambda>_ _ c n. (Ok (), n)),
     bindingValidateCreate = (\<lambda>_ _ n. (Ok (), n)), bindingValidateUpdate = (\<lambda>_ _ _ n. (Ok (), n)),
     workValidateCreate = (\<lambda>_ w n. (Err (Errorf ''empty'' []), n)), workValidateUpdate = (\<lambda>_ _ _ n. (Ok (), n))\<rparr>"




end
