(* ===== verification/KubeAPIServer.thy ===== *)
theory KubeAPIServer
  imports ServerOptions Aggregator ControllerManager
begin

text \<open>
  The chain of API servers: the configuration of the API server (\<open>servers/kubeapiserver.go\<close>), of the
  extensions server (\<open>servers/apiextensions.go\<close>) and of the aggregator (\<open>servers/aggregator.go\<close>), and
  the server that ties them together and registers the controllers (\<open>servers/server.go\<close>). What the
  Kubernetes libraries build is of the opaque type \<open>'x\<close> and their state of the type \<open>'l\<close>; their
  functions are the record \<open>apiLib\<close>. Of a generic configuration the record keeps what the code sets or
  reads. Functions kept for later (hooks, dialers) are kept by what they capture.
\<close>

section \<open>Configurations\<close>

text \<open>A \<open>rest.Config\<close> of the loopback client, shared by pointer between the configurations.\<close>

record 'x clientConfig =
  lc_Lib :: 'x
  lc_Host :: string
  lc_ContentType :: string
  lc_DisableCompression :: bool

record 'x openAPI =
  oa_Lib :: 'x
  oa_Title :: string
  oa_Security :: "'x option"

text \<open>A copy of the etcd options whose codec and versioner have been set, and the factory made of it.\<close>

record 'x storageOptions =
  sg_Etcd :: EtcdOptions
  sg_Codec :: 'x
  sg_EncodeVersioner :: 'x

datatype 'x restGetter = NilGetter | LibraryGetter 'x | SimpleFactory "'x storageOptions"

datatype hookEntry = LibraryHookEntry | AdmissionInitializerHook

record 'x genericConfig =
  gc_Lib :: 'x
  gc_MergedResourceConfig :: 'x
  gc_SecureServing :: 'x
  gc_Loopback :: "'x clientConfig"
  gc_EgressSelector :: "'x option"
  gc_TracerProvider :: "'x option"
  gc_OpenAPIConfig :: "'x openAPI option"
  gc_OpenAPIV3Config :: "'x openAPI option"
  gc_LongRunning :: "(string list \<times> string list) option"
  gc_APIAudiences :: "string list"
  gc_Authenticator :: "'x request option"
  gc_Authorizer :: "'x option"
  gc_RuleResolver :: "'x option"
  gc_APIServerID :: string
  gc_DisabledPostStartHooks :: "string set"
  gc_PostStartHooks :: "hookEntry gomap"
  gc_RESTOptionsGetter :: "'x restGetter"
  gc_SkipOpenAPIInstallation :: bool
  gc_StorageVersionPrecondition :: bool
  gc_DiscoveryManager :: "string option"

record 'x storageFactory =
  sf_Lib :: 'x
  sf_APIResourceConfigSource :: 'x
  sf_EgressLookup :: "'x option"
  sf_TracerProvider :: "'x option"

datatype 'x serviceResolver = EndpointResolver | ClusterIPResolver | LoopbackResolver "'x serviceResolver" 'x

record 'x proxyTransport =
  pt_InsecureSkipVerify :: bool
  pt_DialContext :: "'x option"

text \<open>The configuration of the API server beside the generic one, which it points to.\<close>

record 'x controlplaneConfig =
  kc_StorageFactory :: "'x storageFactory"
  kc_EventTTL :: int
  kc_ProxyTransport :: "'x proxyTransport"
  kc_ServiceAccountIssuer :: "'x option"
  kc_ServiceAccountMaxExpiration :: int
  kc_ExtendExpiration :: bool
  kc_KubeletConfig :: KubeletClientConfig
  kc_KubeletLookup :: "'x option"
  kc_APIServerServiceIP :: "'x option"
  kc_ServicePort :: int
  kc_ServiceIPRange :: "'x option"
  kc_SecondaryServiceIPRange :: "'x option"
  kc_EndpointReconcilerType :: string
  kc_MasterCount :: int
  kc_ClientCA :: "'x option"
  kc_RequestHeader :: "('x \<times> 'x option) option"
  kc_PublicKeysGetter :: "'x option"
  kc_IssuerURL :: string
  kc_JWKSURI :: string

record 'x extensionsConfig =
  xc_Generic :: "'x genericConfig"
  xc_CRDGetter :: "'x storageOptions \<times> 'x \<times> 'x"
  xc_MasterCount :: int
  xc_AuthResolver :: "'x proxyTransport \<times> 'x option \<times> 'x clientConfig \<times> 'x option"
  xc_ServiceResolver :: "'x serviceResolver"

record 'x aggregatorConfig =
  agc_Generic :: "'x genericConfig"
  agc_ProxyClientCertFile :: string
  agc_ProxyClientKeyFile :: string
  agc_ServiceResolver :: "'x serviceResolver"
  agc_ProxyTransport :: "'x proxyTransport"

text \<open>A server, with the names of those it delegates to.\<close>

record 'x apiServer =
  as_Lib :: 'x
  as_DiscoveryManager :: "string option"
  as_LegacyDiscoveryManager :: "string option"
  as_Delegates :: "string list"

text \<open>The hooks that run once the aggregator serves, with the values their functions capture.\<close>

datatype 'x hook =
    InheritedHook
  | AutoRegistrationHook
  | KubeControllerHook string string
  | InstallCRDHook
  | InstallHubResourceHook
  | InstallControllersHook
  | InstallSelfManagementHook bool string string
  | AuthenticationDelegatorHook "'x DelegatingAuthenticatorConfig"

section \<open>The libraries\<close>

record ('x, 'g, 'l) apiLib =
  al_FeatureEnabled :: "string \<Rightarrow> bool"
  al_NewConfig :: "'x genericConfig"
  al_DefaultResources :: "string \<Rightarrow> 'x"
  al_DisableVersions :: "(string \<times> string) list \<Rightarrow> 'x \<Rightarrow> 'x"
  al_GenericApplyTo :: "('x, 'g) ServerRunOptions \<Rightarrow> 'x genericConfig \<Rightarrow> ('l, 'x genericConfig) go"
  al_SecureServingApplyTo :: "SecureServingOptions \<Rightarrow> 'x genericConfig \<Rightarrow> ('l, 'x genericConfig) go"
  al_FeaturesApplyTo :: "('x, 'g) ServerRunOptions \<Rightarrow> 'x genericConfig \<Rightarrow> ('l, 'x genericConfig) go"
  al_APIEnablementApplyTo :: "string gomap \<Rightarrow> 'x \<Rightarrow> string \<Rightarrow> 'x genericConfig \<Rightarrow> ('l, 'x genericConfig) go"
  al_EgressApplyTo :: "'x genericConfig \<Rightarrow> ('l, 'x genericConfig) go"
  al_TracesApplyTo :: "'x genericConfig \<Rightarrow> ('l, 'x genericConfig) go"
  al_EtcdApplyTo :: "EtcdOptions \<Rightarrow> 'x genericConfig \<Rightarrow> ('l, 'x genericConfig) go"
  al_EtcdApplyWithStorageFactory :: "EtcdOptions \<Rightarrow> 'x storageFactory \<Rightarrow> 'x genericConfig \<Rightarrow> ('l, 'x genericConfig) go"
  al_AuditApplyTo :: "'x genericConfig \<Rightarrow> ('l, 'x genericConfig) go"
  al_AdmissionApplyTo :: "AdmissionOptions \<Rightarrow> 'x \<Rightarrow> 'x genericConfig \<Rightarrow> ('l, 'x genericConfig) go"
  al_DefaultOpenAPI :: "bool \<Rightarrow> 'x openAPI"
  al_NewStorageFactory :: "'x \<Rightarrow> EtcdOptions \<Rightarrow> ('l, 'x storageFactory) go"
  al_client_NewForConfig :: "string \<Rightarrow> 'x clientConfig \<Rightarrow> goerr option"
  al_Lookup :: "'x \<Rightarrow> string \<Rightarrow> 'x outcome"
  al_ApplyClientCert :: "'x \<Rightarrow> ('x, unit) go"
  al_NewGetterFromClient :: "bool \<Rightarrow> 'x"
  al_CoreV1 :: 'x
  al_NewTokenAuthenticator :: 'x
  al_AuthorizationNew :: "authorizerConfig \<Rightarrow> 'x option \<Rightarrow> string \<Rightarrow> ('l, 'x \<times> 'x) go"
  al_url_Parse :: "string \<Rightarrow> 'x outcome"
  al_AdmissionInitializers :: "'x clientConfig \<Rightarrow> 'x proxyTransport \<Rightarrow> 'x option \<Rightarrow> 'x serviceResolver \<Rightarrow> 'x option \<Rightarrow> 'x outcome"
  al_SetupCapabilities :: "bool \<Rightarrow> int \<Rightarrow> ('l, unit) go"
  al_ApplyMetrics :: "('l, unit) go"
  al_AddConfigHook :: "string list \<Rightarrow> string \<Rightarrow> goerr option"
  al_StorageCodec :: "string \<Rightarrow> 'x"
  al_EncodeVersioner :: "string \<Rightarrow> 'x"
  al_ResourceTransformers :: "'x genericConfig \<Rightarrow> 'x"
  al_StorageObjectCountTracker :: "'x genericConfig \<Rightarrow> 'x"
  al_NewExtensions :: "'x extensionsConfig \<Rightarrow> ('l, 'x) go"
  al_NewControlplane :: "'x genericConfig \<Rightarrow> 'x controlplaneConfig \<Rightarrow> 'x apiServer \<Rightarrow> ('l, 'x \<times> string option) go"
  al_NewAggregator :: "'x aggregatorConfig \<Rightarrow> 'x apiServer \<Rightarrow> ('l, 'x \<times> string list) go"
  al_ListedPaths :: "'x apiServer \<Rightarrow> string list"
  al_AddPostStartHook :: "string list \<Rightarrow> string \<Rightarrow> goerr option"
  al_AddBootSequenceHealthChecks :: "string \<Rightarrow> APIService list \<Rightarrow> goerr option"
  al_PrepareRun :: "'x apiServer \<Rightarrow> ('l, unit) go"
  al_Run :: "'x apiServer \<Rightarrow> string list \<Rightarrow> ('l, unit) go"
  al_LogsValidateAndApply :: "goerr option"

section \<open>The state\<close>

text \<open>
  The machine and the options, the libraries, the generic configuration of the API server, which all
  functions reach by the same pointer, the services registered to be synchronised, and the hooks of
  the aggregator.
\<close>

record ('k, 'x, 'g, 'l) chain =
  ch_srv :: "('k, 'x, 'g) srv"
  ch_lib :: 'l
  ch_generic :: "'x genericConfig"
  ch_registered :: "APIService list"
  ch_hooks :: "'x hook gomap"

definition getC :: "(('k, 'x, 'g, 'l) chain, 'x genericConfig) go" where
  "getC = (\<lambda>st. (Ok (ch_generic st), st))"

definition modC :: "('x genericConfig \<Rightarrow> 'x genericConfig) \<Rightarrow> (('k, 'x, 'g, 'l) chain, unit) go" where
  "modC f = (\<lambda>st. (Ok (), st\<lparr>ch_generic := f (ch_generic st)\<rparr>))"

definition getR :: "(('k, 'x, 'g, 'l) chain, ('x, 'g) ServerRunOptions) go" where
  "getR = (\<lambda>st. (Ok (snd (ch_srv st)), st))"

definition onLib :: "('l, 'a) go \<Rightarrow> (('k, 'x, 'g, 'l) chain, 'a) go" where
  "onLib m = zoomG ch_lib (\<lambda>l st. st\<lparr>ch_lib := l\<rparr>) m"

definition onFiles :: "(world, 'a) go \<Rightarrow> (('k, 'x, 'g, 'l) chain, 'a) go" where
  "onFiles m = zoomG ch_srv (\<lambda>s st. st\<lparr>ch_srv := s\<rparr>) (onHost (onFS m))"

text \<open>A library function that completes the generic configuration, or leaves it when it fails.\<close>

definition applyC :: "('x genericConfig \<Rightarrow> ('l, 'x genericConfig) go) \<Rightarrow> (('k, 'x, 'g, 'l) chain, unit) go" where
  "applyC f = bindG getC (\<lambda>g. bindG (onLib (f g)) (\<lambda>g'. modC (\<lambda>_. g')))"

section \<open>kubeapiserver.go\<close>

definition CreateProxyTransport :: "'x proxyTransport" where
  "CreateProxyTransport = \<lparr>pt_InsecureSkipVerify = True, pt_DialContext = None\<rparr>"

definition disabledVersions :: "(string \<times> string) list" where
  "disabledVersions = [(''apps'', ''v1''), (''autoscaling'', ''v1''), (''autoscaling'', ''v2''), (''batch'', ''v1''),
     (''networking.k8s.io'', ''v1''), (''node.k8s.io'', ''v1''), (''policy'', ''v1''), (''scheduling.k8s.io'', ''v1'')]"

definition getAPIResourceConfig :: "('x, 'g, 'l) apiLib \<Rightarrow> 'x" where
  "getAPIResourceConfig L = al_DisableVersions L disabledVersions (al_DefaultResources L ''controlplane'')"

definition buildServiceResolver :: "('x, 'g, 'l) apiLib \<Rightarrow> bool \<Rightarrow> string \<Rightarrow> 'x serviceResolver" where
  "buildServiceResolver L enabledAggregatorRouting hostname =
     (let serviceResolver = (if enabledAggregatorRouting then EndpointResolver else ClusterIPResolver)
      in case al_url_Parse L hostname of
           Ok localHost \<Rightarrow> LoopbackResolver serviceResolver localHost
         | _ \<Rightarrow> serviceResolver)"

text \<open>The priority and fairness filter is not built by the server; the sum of the limits decides.\<close>

definition BuildPriorityAndFairness :: "int \<Rightarrow> int \<Rightarrow> (int \<Rightarrow> 'a) \<Rightarrow> 'a outcome" where
  "BuildPriorityAndFairness maxRequests maxMutating new =
     (if maxRequests + maxMutating \<le> 0
      then Err (Errorf ''invalid configuration: MaxRequestsInFlight=%d and MaxMutatingRequestsInFlight=%d; they must add up to something positive''
        [showInt maxRequests, showInt maxMutating])
      else Ok (new (maxRequests + maxMutating)))"

definition openAPISteps :: "('x, 'g, 'l) apiLib \<Rightarrow> 'x genericConfig \<Rightarrow> 'x genericConfig" where
  "openAPISteps L g = g
     \<lparr>gc_OpenAPIConfig := Some ((al_DefaultOpenAPI L False)\<lparr>oa_Title := ''Kubernetes''\<rparr>),
      gc_OpenAPIV3Config := Some ((al_DefaultOpenAPI L True)\<lparr>oa_Title := ''Kubernetes''\<rparr>),
      gc_LongRunning := Some ([''watch'', ''proxy''], [''attach'', ''exec'', ''proxy'', ''log'', ''portforward''])\<rparr>"

definition protobufLoopback :: "'x genericConfig \<Rightarrow> 'x genericConfig" where
  "protobufLoopback g = g\<lparr>gc_Loopback := (gc_Loopback g)
     \<lparr>lc_ContentType := ''application/vnd.kubernetes.protobuf'', lc_DisableCompression := True\<rparr>\<rparr>"

text \<open>
  \<open>options.Authentication.ApplyTo\<close> (theory \<open>AuthOptions\<close>) on the pieces of the configuration that it is
  handed, and on the options, which it keeps a provider of certificates in.
\<close>

definition authArgs :: "('x, 'g, 'l) apiLib \<Rightarrow> 'x genericConfig \<Rightarrow> ('x, 'x) applyArgs" where
  "authArgs L g = \<lparr>ApplyClientCert = al_ApplyClientCert L, openAPIConfig_nil = (gc_OpenAPIConfig g = None),
     openAPIV3Config_nil = (gc_OpenAPIV3Config g = None),
     egressLookup = map_option (\<lambda>e. al_Lookup L e ''controlplane'') (gc_EgressSelector g),
     nodeBindingValidation = al_FeatureEnabled L ''ServiceAccountTokenNodeBindingValidation'',
     NewGetterFromClient = al_NewGetterFromClient L, extclient_CoreV1 = al_CoreV1 L,
     bootstrap_NewTokenAuthenticator = al_NewTokenAuthenticator L\<rparr>"

definition appliedOf :: "('k, 'x, 'g, 'l) chain \<Rightarrow> ('x, 'x) applied" where
  "appliedOf st = \<lparr>ap_world = fst (fst (fst (ch_srv st))), ap_Serving = gc_SecureServing (ch_generic st),
     ap_APIAudiences = gc_APIAudiences (ch_generic st), ap_Authenticator = gc_Authenticator (ch_generic st),
     ap_SecurityDefinitions = Option.bind (gc_OpenAPIConfig (ch_generic st)) oa_Security,
     ap_SecuritySchemes = Option.bind (gc_OpenAPIV3Config (ch_generic st)) oa_Security,
     ap_Options = Some (so_Authentication (snd (ch_srv st)))\<rparr>"

definition withApplied :: "('x, 'x) applied \<Rightarrow> ('k, 'x, 'g, 'l) chain \<Rightarrow> ('k, 'x, 'g, 'l) chain" where
  "withApplied a st = (case ch_srv st of (((w, k), e), opts) \<Rightarrow> st
     \<lparr>ch_srv := (((ap_world a, k), e), opts\<lparr>so_Authentication := (case ap_Options a of None \<Rightarrow> so_Authentication opts | Some o' \<Rightarrow> o')\<rparr>),
      ch_generic := (ch_generic st)\<lparr>gc_SecureServing := ap_Serving a, gc_APIAudiences := ap_APIAudiences a,
        gc_Authenticator := ap_Authenticator a,
        gc_OpenAPIConfig := map_option (\<lambda>c. c\<lparr>oa_Security := ap_SecurityDefinitions a\<rparr>) (gc_OpenAPIConfig (ch_generic st)),
        gc_OpenAPIV3Config := map_option (\<lambda>c. c\<lparr>oa_Security := ap_SecuritySchemes a\<rparr>) (gc_OpenAPIV3Config (ch_generic st))\<rparr>\<rparr>)"

definition applyAuthentication ::
  "env \<Rightarrow> 'k kubeApi \<Rightarrow> 'x authLib \<Rightarrow> ('x, 'g, 'l) apiLib \<Rightarrow> (('k, 'x, 'g, 'l) chain, unit) go" where
  "applyAuthentication E K B L = bindG getC (\<lambda>g. zoomG appliedOf withApplied (ApplyTo E K B (authArgs L g)))"

definition applyAuthorization :: "('x, 'g, 'l) apiLib \<Rightarrow> (('k, 'x, 'g, 'l) chain, unit) go" where
  "applyAuthorization L = bindG getR (\<lambda>opts. bindG getC (\<lambda>g.
     bindG (case gc_EgressSelector g of None \<Rightarrow> returnG None
            | Some e \<Rightarrow> bindG (wrapG (ErrorfV ''invalid egress controlplane network config: %v'' []) (ofO (al_Lookup L e ''controlplane'')))
                (\<lambda>dialer. returnG (Some dialer))) (\<lambda>customDial.
     bindG (wrapG (ErrorfV ''invalid authorization config: %v'' [])
              (onLib (al_AuthorizationNew L (ToAuthorizationConfig (so_Authorization opts)) customDial (gc_APIServerID g)))) (\<lambda>(authorizer, resolver).
     bindG (modC (\<lambda>g. g\<lparr>gc_Authorizer := Some authorizer, gc_RuleResolver := Some resolver\<rparr>)) (\<lambda>_.
     if ''RBAC'' \<notin> set (Modes (so_Authorization opts))
     then modC (\<lambda>g. g\<lparr>gc_DisabledPostStartHooks := insert ''rbac/bootstrap-roles'' (gc_DisabledPostStartHooks g)\<rparr>)
     else returnG ())))))"

text \<open>The steps of \<open>buildGenericConfig\<close> before the authentication, and those after the authorization.\<close>

definition genericSteps :: "('x, 'g, 'l) apiLib \<Rightarrow> (('k, 'x, 'g, 'l) chain, 'x storageFactory) go" where
  "genericSteps L = bindG getR (\<lambda>opts.
     bindG (modC (\<lambda>_. (al_NewConfig L)\<lparr>gc_MergedResourceConfig := al_DefaultResources L ''controlplane''\<rparr>)) (\<lambda>_.
     bindG (applyC (al_GenericApplyTo L opts)) (\<lambda>_.
     bindG (applyC (al_SecureServingApplyTo L (so_SecureServing opts))) (\<lambda>_.
     bindG getC (\<lambda>g1.
     bindG (wrapG (ErrorfV ''failed to create real external clientset: %v'' []) (errG (al_client_NewForConfig L ''kubernetes'' (gc_Loopback g1)))) (\<lambda>_.
     bindG (applyC (al_FeaturesApplyTo L opts)) (\<lambda>_.
     bindG (applyC (al_APIEnablementApplyTo L (so_RuntimeConfig opts) (getAPIResourceConfig L) ''legacyscheme'')) (\<lambda>_.
     bindG (applyC (al_EgressApplyTo L)) (\<lambda>_.
     bindG (if al_FeatureEnabled L ''APIServerTracing'' then applyC (al_TracesApplyTo L) else returnG ()) (\<lambda>_.
     bindG (modC (openAPISteps L)) (\<lambda>_.
     bindG (applyC (al_EtcdApplyTo L (so_Etcd opts))) (\<lambda>_.
     bindG getC (\<lambda>g2.
     bindG (onLib (al_NewStorageFactory L (gc_MergedResourceConfig g2) (so_Etcd opts))) (\<lambda>storageFactory.
     let sf1 = (case gc_EgressSelector g2 of None \<Rightarrow> storageFactory | Some e \<Rightarrow> storageFactory\<lparr>sf_EgressLookup := Some e\<rparr>);
         sf2 = (if al_FeatureEnabled L ''APIServerTracing'' \<and> gc_TracerProvider g2 \<noteq> None
                then sf1\<lparr>sf_TracerProvider := gc_TracerProvider g2\<rparr> else sf1) in
     bindG (applyC (al_EtcdApplyWithStorageFactory L (so_Etcd opts) sf2)) (\<lambda>_.
     bindG (modC protobufLoopback) (\<lambda>_. returnG sf2))))))))))))))))"

definition admissionSteps :: "('x, 'g, 'l) apiLib \<Rightarrow> 'x proxyTransport \<Rightarrow> (('k, 'x, 'g, 'l) chain, 'x serviceResolver) go" where
  "admissionSteps L proxyTransport = bindG getR (\<lambda>opts.
     bindG (applyC (al_AuditApplyTo L)) (\<lambda>_.
     bindG getC (\<lambda>g3.
     let serviceResolver = buildServiceResolver L (so_EnableAggregatorRouting opts) (lc_Host (gc_Loopback g3)) in
     bindG (wrapG (ErrorfW ''failed to create admission plugin initializer: %w'' [])
              (ofO (al_AdmissionInitializers L (gc_Loopback g3) proxyTransport (gc_EgressSelector g3) serviceResolver (gc_TracerProvider g3)))) (\<lambda>genericInitializers.
     bindG (wrapG (ErrorfW ''failed to create real dynamic external client: %w'' []) (errG (al_client_NewForConfig L ''dynamic'' (gc_Loopback g3)))) (\<lambda>_.
     bindG (wrapG (ErrorfW ''failed to apply admission: %w'' []) (applyC (al_AdmissionApplyTo L (so_Admission opts) genericInitializers))) (\<lambda>_.
     bindG (if al_FeatureEnabled L ''AggregatedDiscoveryEndpoint'' then modC (\<lambda>g. g\<lparr>gc_DiscoveryManager := Some ''apis''\<rparr>) else returnG ()) (\<lambda>_.
     returnG serviceResolver)))))))"

text \<open>The result \<open>pluginInitializers\<close> is never assigned and stays nil; the informers are in the state of the libraries.\<close>

definition buildGenericConfig ::
  "env \<Rightarrow> 'k kubeApi \<Rightarrow> 'x authLib \<Rightarrow> ('x, 'g, 'l) apiLib \<Rightarrow> 'x proxyTransport \<Rightarrow>
   (('k, 'x, 'g, 'l) chain, 'x serviceResolver \<times> 'x storageFactory) go" where
  "buildGenericConfig E K B L proxyTransport =
     bindG (genericSteps L) (\<lambda>storageFactory.
     bindG (applyAuthentication E K B L) (\<lambda>_.
     bindG (applyAuthorization L) (\<lambda>_.
     bindG (admissionSteps L proxyTransport) (\<lambda>serviceResolver.
     returnG (serviceResolver, storageFactory)))))"

definition addConfigHook :: "('x, 'g, 'l) apiLib \<Rightarrow> string \<Rightarrow> hookEntry \<Rightarrow> (('k, 'x, 'g, 'l) chain, unit) go" where
  "addConfigHook L name h = bindG getC (\<lambda>g.
     bindG (errG (al_AddConfigHook L (mapKeys (gc_PostStartHooks g)) name)) (\<lambda>_.
     modC (\<lambda>g. g\<lparr>gc_PostStartHooks := mapPut name h (gc_PostStartHooks g)\<rparr>)))"

definition controlplaneConfigOf ::
  "('x, 'g) ServerRunOptions \<Rightarrow> 'x storageFactory \<Rightarrow> 'x proxyTransport \<Rightarrow> bool \<Rightarrow> 'x controlplaneConfig" where
  "controlplaneConfigOf opts storageFactory proxyTransport extendExpiration =
     \<lparr>kc_StorageFactory = storageFactory, kc_EventTTL = so_EventTTL opts, kc_ProxyTransport = proxyTransport,
      kc_ServiceAccountIssuer = so_ServiceAccountIssuer opts, kc_ServiceAccountMaxExpiration = so_ServiceAccountTokenMaxExpiration opts,
      kc_ExtendExpiration = extendExpiration, kc_KubeletConfig = so_KubeletConfig opts, kc_KubeletLookup = None,
      kc_APIServerServiceIP = so_APIServerServiceIP opts, kc_ServicePort = 443, kc_ServiceIPRange = so_PrimaryServiceClusterIPRange opts,
      kc_SecondaryServiceIPRange = so_SecondaryServiceClusterIPRange opts, kc_EndpointReconcilerType = so_EndpointReconcilerType opts,
      kc_MasterCount = 1, kc_ClientCA = None, kc_RequestHeader = None, kc_PublicKeysGetter = None, kc_IssuerURL = [], kc_JWKSURI = []\<rparr>"

text \<open>With an egress selector the kubelets and the proxied subresources are reached through it.\<close>

definition egressTransport :: "('x, 'g, 'l) apiLib \<Rightarrow> 'x option \<Rightarrow> 'x controlplaneConfig \<Rightarrow> ('s, 'x controlplaneConfig) go" where
  "egressTransport L selector config = (case selector of
     None \<Rightarrow> returnG config
   | Some e \<Rightarrow> bindG (ofO (al_Lookup L e ''cluster'')) (\<lambda>dialer.
       returnG (config\<lparr>kc_KubeletLookup := Some e,
         kc_ProxyTransport := (kc_ProxyTransport config)\<lparr>pt_DialContext := Some dialer\<rparr>\<rparr>)))"

text \<open>
  The calls on \<open>ClientCert\<close>, \<open>RequestHeader\<close> and \<open>ServiceAccounts\<close> go through pointers; the loop over the key
  files is that of \<open>ToAuthenticationConfig\<close>; the first issuer is indexed without a check.
\<close>

definition createKubeAPIServerConfig ::
  "env \<Rightarrow> 'k kubeApi \<Rightarrow> 'x authLib \<Rightarrow> ('x, 'g, 'l) apiLib \<Rightarrow> (('k, 'x, 'g, 'l) chain, 'x controlplaneConfig \<times> 'x serviceResolver) go" where
  "createKubeAPIServerConfig E K B L = (let proxyTransport = CreateProxyTransport in
     bindG (buildGenericConfig E K B L proxyTransport) (\<lambda>(serviceResolver, storageFactory).
     bindG getR (\<lambda>opts.
     bindG (onLib (al_SetupCapabilities L (so_AllowPrivileged opts) (so_MaxConnectionBytesPerSec opts))) (\<lambda>_.
     bindG (onLib (al_ApplyMetrics L)) (\<lambda>_.
     bindG (deref (ServiceAccounts (so_Authentication opts))) (\<lambda>sa.
     let config = controlplaneConfigOf opts storageFactory proxyTransport (ExtendExpiration sa) in
     bindG (deref (ClientCert (so_Authentication opts))) (\<lambda>clientCert.
     bindG (onFiles (GetClientCAContentProvider B clientCert)) (\<lambda>clientCAProvider.
     bindG (deref (RequestHeader (so_Authentication opts))) (\<lambda>requestHeader.
     bindG (onFiles (ToAuthenticationRequestHeaderConfig B requestHeader)) (\<lambda>requestHeaderConfig.
     let config1 = config\<lparr>kc_ClientCA := clientCAProvider, kc_RequestHeader := requestHeaderConfig\<rparr> in
     bindG getC (\<lambda>g.
     bindG (wrapG (ErrorfW ''failed to create real client-go external client: %w'' []) (errG (al_client_NewForConfig L ''kubernetes'' (gc_Loopback g)))) (\<lambda>_.
     bindG (addConfigHook L ''start-kube-apiserver-admission-initializer'' AdmissionInitializerHook) (\<lambda>_.
     bindG (egressTransport L (gc_EgressSelector g) config1) (\<lambda>config2.
     bindG (onFiles (keysGetterOf B (Some sa))) (\<lambda>keysGetter.
     let config3 = config2\<lparr>kc_PublicKeysGetter := keysGetter\<rparr> in
     case Issuers sa of
       [] \<Rightarrow> panicG ''index out of range''
     | issuer # _ \<Rightarrow> returnG (config3\<lparr>kc_IssuerURL := issuer, kc_JWKSURI := JWKSURI sa\<rparr>, serviceResolver))))))))))))))))"

definition createKubeAPIServer ::
  "('x, 'g, 'l) apiLib \<Rightarrow> 'x controlplaneConfig \<Rightarrow> 'x apiServer \<Rightarrow> string \<Rightarrow> (('k, 'x, 'g, 'l) chain, 'x apiServer) go" where
  "createKubeAPIServer L config delegate delegateName = bindG getC (\<lambda>g.
     bindG (onLib (al_NewControlplane L g config delegate)) (\<lambda>(v, manager).
     returnG \<lparr>as_Lib = v, as_DiscoveryManager = manager, as_LegacyDiscoveryManager = None,
       as_Delegates = delegateName # as_Delegates delegate\<rparr>))"

section \<open>apiextensions.go\<close>

text \<open>
  The generic configuration and the etcd options are copied before they are changed; the map of hooks
  is replaced, not emptied.
\<close>

definition storageCopy :: "('x, 'g, 'l) apiLib \<Rightarrow> string \<Rightarrow> ('x, 'g) ServerRunOptions \<Rightarrow> 'x storageOptions" where
  "storageCopy L scheme opts = \<lparr>sg_Etcd = (so_Etcd opts)\<lparr>eo_SkipHealthEndpoints := True\<rparr>,
     sg_Codec = al_StorageCodec L scheme, sg_EncodeVersioner = al_EncodeVersioner L scheme\<rparr>"

definition createAPIExtensionsConfig ::
  "('x, 'g, 'l) apiLib \<Rightarrow> 'x genericConfig \<Rightarrow> int \<Rightarrow> 'x serviceResolver \<Rightarrow>
   'x proxyTransport \<times> 'x option \<times> 'x clientConfig \<times> 'x option \<Rightarrow> (('k, 'x, 'g, 'l) chain, 'x extensionsConfig) go" where
  "createAPIExtensionsConfig L kubeAPIServerConfig masterCount serviceResolver authResolver = bindG getR (\<lambda>opts.
     let etcdOptions = storageCopy L ''apiextensions'' opts;
         genericConfig = kubeAPIServerConfig\<lparr>gc_PostStartHooks := [], gc_RESTOptionsGetter := SimpleFactory etcdOptions\<rparr> in
     bindG (onLib (al_APIEnablementApplyTo L (so_RuntimeConfig opts) (al_DefaultResources L ''apiextensions'') ''apiextensions'' genericConfig)) (\<lambda>genericConfig1.
     returnG \<lparr>xc_Generic = genericConfig1\<lparr>gc_PostStartHooks := []\<rparr>,
       xc_CRDGetter = (etcdOptions, al_ResourceTransformers L genericConfig1, al_StorageObjectCountTracker L genericConfig1),
       xc_MasterCount = masterCount, xc_AuthResolver = authResolver, xc_ServiceResolver = serviceResolver\<rparr>))"

definition createAPIExtensionsServer ::
  "('x, 'g, 'l) apiLib \<Rightarrow> 'x extensionsConfig \<Rightarrow> (('k, 'x, 'g, 'l) chain, 'x apiServer) go" where
  "createAPIExtensionsServer L config = bindG (onLib (al_NewExtensions L config)) (\<lambda>v.
     returnG \<lparr>as_Lib = v, as_DiscoveryManager = None, as_LegacyDiscoveryManager = None, as_Delegates = [''not-found'']\<rparr>)"

end
