(* ===== verification/ServerChain.thy ===== *)
theory ServerChain
  imports KubeAPIServer
begin

text \<open>
  The aggregator at the end of the chain (\<open>servers/aggregator.go\<close>), the chain itself and the server
  (\<open>servers/server.go\<close>), and the command that completes and validates the options and runs the server
  (\<open>cmd/controller/controller.go\<close>).
\<close>

section \<open>aggregator.go\<close>

definition createAggregatorConfig ::
  "('x, 'g, 'l) apiLib \<Rightarrow> 'x genericConfig \<Rightarrow> 'x serviceResolver \<Rightarrow> 'x proxyTransport \<Rightarrow>
   (('k, 'x, 'g, 'l) chain, 'x aggregatorConfig) go" where
  "createAggregatorConfig L kubeAPIServerConfig serviceResolver proxyTransport = bindG getR (\<lambda>opts.
     let etcdOptions = storageCopy L ''aggregator'' opts;
         genericConfig = kubeAPIServerConfig
           \<lparr>gc_PostStartHooks := [], gc_SkipOpenAPIInstallation := True,
            gc_StorageVersionPrecondition := (gc_StorageVersionPrecondition kubeAPIServerConfig \<or>
              al_FeatureEnabled L ''StorageVersionAPI'' \<and> al_FeatureEnabled L ''APIServerIdentity''),
            gc_RESTOptionsGetter := SimpleFactory etcdOptions\<rparr> in
     bindG (onLib (al_APIEnablementApplyTo L (so_RuntimeConfig opts) (al_DefaultResources L ''aggregator'') ''aggregator'' genericConfig)) (\<lambda>genericConfig1.
     returnG \<lparr>agc_Generic = genericConfig1\<lparr>gc_PostStartHooks := []\<rparr>, agc_ProxyClientCertFile = so_ProxyClientCertFile opts,
       agc_ProxyClientKeyFile = so_ProxyClientKeyFile opts, agc_ServiceResolver = serviceResolver, agc_ProxyTransport = proxyTransport\<rparr>))"

text \<open>A hook is added to the server, unless the library refuses the name.\<close>

definition AddPostStartHook :: "('x, 'g, 'l) apiLib \<Rightarrow> string \<Rightarrow> 'x hook \<Rightarrow> (('k, 'x, 'g, 'l) chain, unit) go" where
  "AddPostStartHook L name h = (\<lambda>st. case al_AddPostStartHook L (mapKeys (ch_hooks st)) name of
     Some e \<Rightarrow> (Err e, st)
   | None \<Rightarrow> (Ok (), st\<lparr>ch_hooks := ch_hooks st @ [(name, h)]\<rparr>))"

definition onRegistration :: "(APIService list, 'a) go \<Rightarrow> (('k, 'x, 'g, 'l) chain, 'a) go" where
  "onRegistration m = zoomG ch_registered (\<lambda>r st. st\<lparr>ch_registered := r\<rparr>) m"

text \<open>The new server comes with the hooks of its configuration and of its delegates.\<close>

definition createAggregatorServer ::
  "('x, 'g, 'l) apiLib \<Rightarrow> 'x aggregatorConfig \<Rightarrow> 'x apiServer \<Rightarrow> string \<Rightarrow> string \<Rightarrow> (('k, 'x, 'g, 'l) chain, 'x apiServer) go" where
  "createAggregatorServer L aggregatorConfig delegateAPIServer clientCert clientKey =
     bindG (onLib (al_NewAggregator L aggregatorConfig delegateAPIServer)) (\<lambda>(v, inherited).
     bindG (\<lambda>st. (Ok (), st\<lparr>ch_hooks := map (\<lambda>n. (n, InheritedHook)) inherited, ch_registered := []\<rparr>)) (\<lambda>_.
     bindG (errG (al_client_NewForConfig L ''apiregistration'' (gc_Loopback (agc_Generic aggregatorConfig)))) (\<lambda>_.
     bindG (onRegistration (apiServicesToRegister (al_ListedPaths L delegateAPIServer) [])) (\<lambda>apiServices.
     bindG (AddPostStartHook L ''kube-apiserver-autoregistration'' AutoRegistrationHook) (\<lambda>_.
     bindG (errG (al_AddBootSequenceHealthChecks L ''autoregister-completion'' apiServices)) (\<lambda>_.
     bindG (AddPostStartHook L ''kube-controller'' (KubeControllerHook clientCert clientKey)) (\<lambda>_.
     returnG \<lparr>as_Lib = v, as_DiscoveryManager = None, as_LegacyDiscoveryManager = None,
       as_Delegates = ''kube-apiserver'' # as_Delegates delegateAPIServer\<rparr>)))))))"

text \<open>
  The function of the hook \<open>kube-controller\<close>, which it runs in the background on a copy of the loopback
  configuration; an error is only reported.
\<close>

definition runKubeControllerHook ::
  "env \<Rightarrow> ('g, 'y) mgrLib \<Rightarrow> restConfig \<Rightarrow> string \<Rightarrow> string \<Rightarrow> (mgrState \<times> 'g KubeControllerManagerOptions, unit) go" where
  "runKubeControllerHook E M controllerConfig clientCert clientKey =
     tryG (RunKubeControllers E M controllerConfig clientCert clientKey) returnG (\<lambda>_. returnG ())"

section \<open>server.go\<close>

definition withDiscovery :: "('x, 'g, 'l) apiLib \<Rightarrow> 'x apiServer \<Rightarrow> 'x apiServer" where
  "withDiscovery L server =
     (if al_FeatureEnabled L ''AggregatedDiscoveryEndpoint''
      then server\<lparr>as_DiscoveryManager := Some (case as_DiscoveryManager server of None \<Rightarrow> ''apis'' | Some m \<Rightarrow> m),
             as_LegacyDiscoveryManager := Some ''api''\<rparr>
      else server)"

definition createServerChain ::
  "env \<Rightarrow> 'k kubeApi \<Rightarrow> 'x authLib \<Rightarrow> ('x, 'g, 'l) apiLib \<Rightarrow> (('k, 'x, 'g, 'l) chain, 'x aggregatorConfig \<times> 'x apiServer) go" where
  "createServerChain E K B L =
     bindG (wrapG (ErrorfV ''failed to create kubeapi server config, %v'' []) (createKubeAPIServerConfig E K B L)) (\<lambda>(config, serviceResolver).
     bindG getC (\<lambda>g.
     bindG (wrapG (ErrorfV ''failed to create apiextensions config, %v'' [])
              (createAPIExtensionsConfig L g 1 serviceResolver (kc_ProxyTransport config, gc_EgressSelector g, gc_Loopback g, gc_TracerProvider g))) (\<lambda>extensionsConfig.
     bindG (wrapG (ErrorfV ''failed to create apiextensions server, %v'' []) (createAPIExtensionsServer L extensionsConfig)) (\<lambda>extensionsServer.
     bindG (wrapG (ErrorfV ''failed to create kubeapi server, %v'' []) (createKubeAPIServer L config extensionsServer ''apiextensions'')) (\<lambda>kubeAPIServer0.
     let kubeAPIServer = withDiscovery L kubeAPIServer0 in
     bindG (wrapG (ErrorfV ''failed to create aggregator config, %v'' [])
              (createAggregatorConfig L g serviceResolver (kc_ProxyTransport config))) (\<lambda>aggregatorConfig.
     bindG getR (\<lambda>opts.
     bindG (deref (ClientCert (so_Authentication opts))) (\<lambda>clientCert.
     bindG (wrapG (ErrorfV ''failed to create aggregator server, %v'' [])
              (createAggregatorServer L aggregatorConfig kubeAPIServer (ClientCA clientCert) (xo_ClientKeyFile (so_ExtraOptions opts)))) (\<lambda>aggregatorServer.
     returnG (aggregatorConfig, aggregatorServer))))))))))"

text \<open>An error of a hook is only reported: the controller is left out.\<close>

definition AddController :: "('x, 'g, 'l) apiLib \<Rightarrow> string \<Rightarrow> 'x hook \<Rightarrow> (('k, 'x, 'g, 'l) chain, unit) go" where
  "AddController L name controller = tryG (AddPostStartHook L name controller) returnG (\<lambda>_. returnG ())"

definition NewServer ::
  "env \<Rightarrow> 'k kubeApi \<Rightarrow> 'x authLib \<Rightarrow> ('x, 'g, 'l) apiLib \<Rightarrow> (('k, 'x, 'g, 'l) chain, 'x apiServer) go" where
  "NewServer E K B L =
     bindG (fatal (createServerChain E K B L)) (\<lambda>(aggregatorConfig, aggregator).
     bindG getR (\<lambda>opts.
     bindG (AddController L ''multicluster-controlplane-crd'' InstallCRDHook) (\<lambda>_.
     bindG (AddController L ''multicluster-controlplane-registration-resource'' InstallHubResourceHook) (\<lambda>_.
     bindG (AddController L ''multicluster-controlplane-controllers'' InstallControllersHook) (\<lambda>_.
     bindG (AddController L ''multicluster-controlplane-selfmanagement''
              (InstallSelfManagementHook (so_EnableSelfManagement opts) (so_SelfManagementClusterName opts) (so_ControlplaneDataDir opts))) (\<lambda>_.
     bindG (case DelegatingConfig (so_Authentication opts) of
              None \<Rightarrow> returnG ()
            | Some d \<Rightarrow> AddController L ''multicluster-controlplane-authentication-delegator'' (AuthenticationDelegatorHook d)) (\<lambda>_.
     returnG aggregator)))))))"

definition serverStart :: "('x, 'g, 'l) apiLib \<Rightarrow> 'x apiServer \<Rightarrow> (('k, 'x, 'g, 'l) chain, unit) go" where
  "serverStart L s = bindG (onLib (al_PrepareRun L s)) (\<lambda>_.
     (\<lambda>st. zoomG ch_lib (\<lambda>l st. st\<lparr>ch_lib := l\<rparr>) (al_Run L s (mapKeys (ch_hooks st))) st))"

section \<open>cmd/controller/controller.go\<close>

definition onSrv :: "(('k, 'x, 'g) srv, 'a) go \<Rightarrow> (('k, 'x, 'g, 'l) chain, 'a) go" where
  "onSrv m = zoomG ch_srv (\<lambda>s st. st\<lparr>ch_srv := s\<rparr>) m"

text \<open>\<open>utilerrors.NewAggregate\<close> of the validation errors: nil when there are none.\<close>

definition validateRun :: "('x, 'g) validators \<Rightarrow> (('k, 'x, 'g, 'l) chain, unit) go" where
  "validateRun W = bindG getR (\<lambda>opts. bindG (ofO (optionsValidate W opts)) (\<lambda>errs.
     case errs of [] \<Rightarrow> returnG () | e # _ \<Rightarrow> failG (ErrorfV ''%v'' [] e)))"

definition controllerArgs :: "string \<Rightarrow> string list \<Rightarrow> goerr option" where
  "controllerArgs commandPath args =
     (if \<exists>a\<in>set args. a \<noteq> [] then Some (Errorf ''%q does not take any arguments, got %q'' (commandPath # args)) else None)"

definition controllerRunE ::
  "env \<Rightarrow> 'k kubeApi \<Rightarrow> (nat \<Rightarrow> nat) \<Rightarrow> ('x, 'g) serverLib \<Rightarrow> ('x, 'g) validators \<Rightarrow> 'x authLib \<Rightarrow> ('x, 'g, 'l) apiLib \<Rightarrow>
   (('k, 'x, 'g, 'l) chain, unit) go" where
  "controllerRunE E K grow V W B L =
     bindG (errG (al_LogsValidateAndApply L)) (\<lambda>_.
     bindG (onSrv (optionsComplete E K grow V)) (\<lambda>_.
     bindG (validateRun W) (\<lambda>_.
     bindG (NewServer E K B L) (\<lambda>s.
     serverStart L s))))"

end
