(* ===== verification/ServerChainProofs.thy ===== *)
theory ServerChainProofs
  imports ServerChain ServerProperties
begin

text \<open>
  What a server is made of when it comes up: which tokens it accepts, which hooks it runs, and that the
  three configurations of the chain do not disturb one another.
\<close>

section \<open>The steps of the chain\<close>

lemma getC_Ok [gom_iff]: "getC st = (Ok g, st') \<longleftrightarrow> g = ch_generic st \<and> st' = st"
  by (auto simp: getC_def)

lemma getR_Ok [gom_iff]: "getR st = (Ok o', st') \<longleftrightarrow> o' = snd (ch_srv st) \<and> st' = st"
  by (auto simp: getR_def)

lemma modC_Ok [gom_iff]: "modC f st = (Ok u, st') \<longleftrightarrow> st' = st\<lparr>ch_generic := f (ch_generic st)\<rparr>"
  by (auto simp: modC_def)

lemma onLib_Ok [gom_iff]: "onLib m st = (Ok x, st') \<longleftrightarrow> (\<exists>l. m (ch_lib st) = (Ok x, l) \<and> st' = st\<lparr>ch_lib := l\<rparr>)"
  by (auto simp: onLib_def zoomG_def split: prod.splits)

lemma applyC_Ok [gom_iff]:
  "applyC f st = (Ok u, st') \<longleftrightarrow> (\<exists>g l. f (ch_generic st) (ch_lib st) = (Ok g, l) \<and> st' = st\<lparr>ch_lib := l, ch_generic := g\<rparr>)"
  by (auto simp: applyC_def gom_iff)

lemma onFiles_Ok:
  "onFiles m st = (Ok x, st') \<Longrightarrow> (\<exists>w'. m (fst (fst (fst (ch_srv st)))) = (Ok x, w')) \<and>
     snd (ch_srv st') = snd (ch_srv st) \<and> ch_generic st' = ch_generic st \<and> ch_hooks st' = ch_hooks st \<and> ch_registered st' = ch_registered st"
  by (auto simp: onFiles_def onHost_def onFS_def zoomG_def split: prod.splits)

text \<open>What a step leaves alone: the options, the registered services and the hooks of the server.\<close>

definition sameServer :: "('x, 'g) ServerRunOptions \<Rightarrow> APIService list \<Rightarrow> 'x hook gomap \<Rightarrow> ('k, 'x, 'g, 'l) chain \<Rightarrow> bool" where
  "sameServer opts R H st = (snd (ch_srv st) = opts \<and> ch_registered st = R \<and> ch_hooks st = H)"

lemma keeps_getC [keep]: "keeps I getC"
  by (auto simp: keeps_def getC_def)

lemma keeps_getR [keep]: "keeps I getR"
  by (auto simp: keeps_def getR_def)

lemma keeps_ofO [keep]: "keeps I (ofO r)"
  by (auto simp: keeps_def ofO_def)

lemma keeps_errG [keep]: "keeps I (errG e)"
  by (auto simp: errG_def intro: keep)

lemma same_modC [keep]: "keeps (sameServer o' R H) (modC f)"
  by (auto simp: keeps_def modC_def sameServer_def)

lemma same_onLib [keep]: "keeps (sameServer o' R H) (onLib m)"
  by (auto simp: keeps_def onLib_def zoomG_def sameServer_def split: prod.splits)

lemma same_applyC [keep]: "keeps (sameServer o' R H) (applyC f)"
  unfolding applyC_def by (intro keep)

lemma same_onFiles [keep]: "keeps (sameServer o' R H) (onFiles m)"
  by (auto simp: keeps_def onFiles_def onHost_def onFS_def zoomG_def sameServer_def split: prod.splits)

lemma same_genericSteps: "keeps (sameServer o' R H) (genericSteps L)"
  unfolding genericSteps_def Let_def by (intro keep)

lemma same_admissionSteps: "keeps (sameServer o' R H) (admissionSteps L pt)"
  unfolding admissionSteps_def Let_def by (intro keep)

lemma same_applyAuthorization: "keeps (sameServer o' R H) (applyAuthorization L)"
  unfolding applyAuthorization_def by (auto intro!: keep split: prod.splits)

section \<open>The generic configuration\<close>

lemma genericSteps_loopback:
  assumes "genericSteps L st = (Ok sf, st')"
  shows "lc_ContentType (gc_Loopback (ch_generic st')) = ''application/vnd.kubernetes.protobuf'' \<and>
    lc_DisableCompression (gc_Loopback (ch_generic st'))"
  using assms by (auto simp: genericSteps_def Let_def bindG_Ok_iff modC_Ok returnG_Ok_iff protobufLoopback_def)

lemma applyAuthorization_fields:
  assumes "applyAuthorization L st = (Ok u, st')"
  shows "gc_Loopback (ch_generic st') = gc_Loopback (ch_generic st) \<and> gc_APIAudiences (ch_generic st') = gc_APIAudiences (ch_generic st) \<and>
    gc_Authenticator (ch_generic st') = gc_Authenticator (ch_generic st)"
  using assms by (auto simp: applyAuthorization_def gom_iff split: if_splits option.splits)

text \<open>
  The laws of the libraries: enabling APIs sets the merged resources only; audit and admission do not
  touch the loopback client and the authentication.
\<close>

definition config_law :: "('x, 'g, 'l) apiLib \<Rightarrow> bool" where
  "config_law L =
     ((\<forall>rc d sch g l g' l'. al_APIEnablementApplyTo L rc d sch g l = (Ok g', l') \<longrightarrow>
         g' = g\<lparr>gc_MergedResourceConfig := gc_MergedResourceConfig g'\<rparr>) \<and>
      (\<forall>f g l g' l'. f = al_AuditApplyTo L \<or> (\<exists>opts i. f = al_AdmissionApplyTo L opts i) \<longrightarrow> f g l = (Ok g', l') \<longrightarrow>
         gc_Loopback g' = gc_Loopback g \<and> gc_APIAudiences g' = gc_APIAudiences g \<and> gc_Authenticator g' = gc_Authenticator g))"

lemma config_lawD:
  assumes "config_law L"
  shows "al_APIEnablementApplyTo L rc d sch g l = (Ok g', l') \<Longrightarrow> g' = g\<lparr>gc_MergedResourceConfig := gc_MergedResourceConfig g'\<rparr>"
    and "al_AuditApplyTo L g l = (Ok g', l') \<or> al_AdmissionApplyTo L opts i g l = (Ok g', l') \<Longrightarrow>
      gc_Loopback g' = gc_Loopback g \<and> gc_APIAudiences g' = gc_APIAudiences g \<and> gc_Authenticator g' = gc_Authenticator g"
  using assms unfolding config_law_def by blast+

lemma admissionSteps_fields:
  assumes "config_law L" "admissionSteps L pt st = (Ok r, st')"
  shows "gc_Loopback (ch_generic st') = gc_Loopback (ch_generic st) \<and> gc_APIAudiences (ch_generic st') = gc_APIAudiences (ch_generic st) \<and>
    gc_Authenticator (ch_generic st') = gc_Authenticator (ch_generic st)"
proof -
  let ?same = "\<lambda>g g'. gc_Loopback g' = gc_Loopback g \<and> gc_APIAudiences g' = gc_APIAudiences g \<and> gc_Authenticator g' = gc_Authenticator g"
  from assms(2) obtain g1 l1 i g2 l2 where g: "al_AuditApplyTo L (ch_generic st) (ch_lib st) = (Ok g1, l1)"
    "al_AdmissionApplyTo L (so_Admission (snd (ch_srv st))) i g1 l1 = (Ok g2, l2)" "?same g2 (ch_generic st')"
    by (auto simp: admissionSteps_def Let_def gom_iff split: if_splits)
  then show ?thesis using config_lawD(2) [OF assms(1)] by metis
qed

section \<open>The configuration of the API server\<close>

lemma applyAuthentication_Ok:
  assumes "applyAuthentication E K B L st = (Ok u, st')"
  shows "gc_APIAudiences (ch_generic st') = audiencesOf (so_Authentication (snd (ch_srv st))) \<and>
    gc_Loopback (ch_generic st') = gc_Loopback (ch_generic st) \<and> ch_registered st' = ch_registered st \<and> ch_hooks st' = ch_hooks st \<and>
    (\<exists>o''. snd (ch_srv st') = (snd (ch_srv st))\<lparr>so_Authentication := o''\<rparr> \<and> delegationKept (so_Authentication (snd (ch_srv st))) o'')"
proof -
  from assms obtain a where a: "ApplyTo E K B (authArgs L (ch_generic st)) (appliedOf st) = (Ok (), a)" and st': "st' = withApplied a st"
    by (auto simp: applyAuthentication_def gom_iff zoomG_def split: prod.splits)
  have o': "ap_Options (appliedOf st) = Some (so_Authentication (snd (ch_srv st)))" by (simp add: appliedOf_def)
  from ApplyTo_Ok [OF a o'] show ?thesis
    unfolding st' withApplied_def by (auto split: prod.splits)
qed

lemma buildGenericConfig_Ok:
  assumes law: "config_law L" and run: "buildGenericConfig E K B L pt st = (Ok r, st')"
  shows "gc_APIAudiences (ch_generic st') = audiencesOf (so_Authentication (snd (ch_srv st))) \<and>
    lc_ContentType (gc_Loopback (ch_generic st')) = ''application/vnd.kubernetes.protobuf'' \<and>
    lc_DisableCompression (gc_Loopback (ch_generic st')) \<and>
    (\<exists>o''. sameServer ((snd (ch_srv st))\<lparr>so_Authentication := o''\<rparr>) (ch_registered st) (ch_hooks st) st' \<and>
       delegationKept (so_Authentication (snd (ch_srv st))) o'')"
proof -
  from run obtain sf s1 s2 s3 rs where steps: "genericSteps L st = (Ok sf, s1)" "applyAuthentication E K B L s1 = (Ok (), s2)"
    "applyAuthorization L s2 = (Ok (), s3)" "admissionSteps L pt s3 = (Ok rs, st')"
    by (auto simp: buildGenericConfig_def gom_iff)
  have s1: "sameServer (snd (ch_srv st)) (ch_registered st) (ch_hooks st) s1"
    by (rule keepsD [OF same_genericSteps _ steps(1)]) (simp add: sameServer_def)
  note a = applyAuthentication_Ok [OF steps(2)]
  from a s1 obtain o'' where o'': "sameServer ((snd (ch_srv st))\<lparr>so_Authentication := o''\<rparr>) (ch_registered st) (ch_hooks st) s2"
    "delegationKept (so_Authentication (snd (ch_srv st))) o''" by (auto simp: sameServer_def)
  have "sameServer ((snd (ch_srv st))\<lparr>so_Authentication := o''\<rparr>) (ch_registered st) (ch_hooks st) st'"
    by (rule keepsD [OF same_admissionSteps keepsD [OF same_applyAuthorization o''(1) steps(3)] steps(4)])
  with a s1 o''(2) genericSteps_loopback [OF steps(1)] applyAuthorization_fields [OF steps(3)] admissionSteps_fields [OF law steps(4)]
  show ?thesis by (auto simp: sameServer_def)
qed

lemma kept_fields:
  assumes "delegationKept o' o''"
  shows "ServiceAccounts o'' = ServiceAccounts o'" "ClientCert o'' = ClientCert o'" "audiencesOf o'' = audiencesOf o'"
    "DelegatingConfig o'' = None \<longleftrightarrow> DelegatingConfig o' = None"
  using assms by (auto simp: delegationKept_def audiencesOf_def split: option.splits)

text \<open>The state of a chain whose API server has been configured from the options of another state.\<close>

definition configuredFrom :: "('k, 'x, 'g, 'l) chain \<Rightarrow> ('k, 'x, 'g, 'l) chain \<Rightarrow> bool" where
  "configuredFrom st st' =
     (gc_APIAudiences (ch_generic st') = audiencesOf (so_Authentication (snd (ch_srv st))) \<and>
      lc_ContentType (gc_Loopback (ch_generic st')) = ''application/vnd.kubernetes.protobuf'' \<and>
      lc_DisableCompression (gc_Loopback (ch_generic st')) \<and>
      (\<exists>o''. sameServer ((snd (ch_srv st))\<lparr>so_Authentication := o''\<rparr>) (ch_registered st) (ch_hooks st) st' \<and>
         delegationKept (so_Authentication (snd (ch_srv st))) o''))"

lemma configuredFrom_step:
  assumes "configuredFrom st s1" "snd (ch_srv s2) = snd (ch_srv s1)" "ch_registered s2 = ch_registered s1" "ch_hooks s2 = ch_hooks s1"
    "gc_APIAudiences (ch_generic s2) = gc_APIAudiences (ch_generic s1)" "gc_Loopback (ch_generic s2) = gc_Loopback (ch_generic s1)"
  shows "configuredFrom st s2"
  using assms by (simp add: configuredFrom_def sameServer_def)

lemma addConfigHook_Ok:
  "addConfigHook L name h st = (Ok u, st') \<Longrightarrow>
     st' = st\<lparr>ch_generic := (ch_generic st)\<lparr>gc_PostStartHooks := mapPut name h (gc_PostStartHooks (ch_generic st))\<rparr>\<rparr>"
  by (auto simp: addConfigHook_def gom_iff)

lemma egressTransport_Ok:
  "egressTransport L e config st = (Ok c, st') \<Longrightarrow> st' = st \<and> kc_ServiceAccountIssuer c = kc_ServiceAccountIssuer config"
  by (auto simp: egressTransport_def gom_iff split: option.splits)

lemma index_first:
  "(case xs of [] \<Rightarrow> panicG p | x # _ \<Rightarrow> returnG (f x)) st = (Ok c, st') \<longleftrightarrow> xs \<noteq> [] \<and> c = f (hd xs) \<and> st' = st"
  by (cases xs) (auto simp: gom_iff)

lemma createKubeAPIServerConfig_Ok:
  assumes law: "config_law L" and run: "createKubeAPIServerConfig E K B L st = (Ok (config, resolver), st')"
  shows "configuredFrom st st' \<and> ClientCert (so_Authentication (snd (ch_srv st))) \<noteq> None \<and>
    mapGet (gc_PostStartHooks (ch_generic st')) ''start-kube-apiserver-admission-initializer'' = Some AdmissionInitializerHook \<and>
    kc_ServiceAccountIssuer config = so_ServiceAccountIssuer (snd (ch_srv st)) \<and>
    (\<exists>sa w w'. ServiceAccounts (so_Authentication (snd (ch_srv st))) = Some sa \<and> Issuers sa \<noteq> [] \<and> kc_IssuerURL config = hd (Issuers sa) \<and>
       kc_JWKSURI config = JWKSURI sa \<and> keysGetterOf B (Some sa) w = (Ok (kc_PublicKeysGetter config), w'))"
proof -
  from run obtain r sf s1 l2 sa cc ca s4 rh rhc s5 s6 c2 s7 kg where
      build: "buildGenericConfig E K B L CreateProxyTransport st = (Ok (r, sf), s1)" and steps:
      "ServiceAccounts (so_Authentication (snd (ch_srv s1))) = Some sa" "ClientCert (so_Authentication (snd (ch_srv s1))) = Some cc"
      "onFiles (GetClientCAContentProvider B cc) (s1\<lparr>ch_lib := l2\<rparr>) = (Ok ca, s4)"
      "onFiles (ToAuthenticationRequestHeaderConfig B rh) s4 = (Ok rhc, s5)"
      "addConfigHook L ''start-kube-apiserver-admission-initializer'' AdmissionInitializerHook s5 = (Ok (), s6)"
      and egress: "egressTransport L (gc_EgressSelector (ch_generic s5)) ((controlplaneConfigOf (snd (ch_srv s1)) sf CreateProxyTransport
        (ExtendExpiration sa))\<lparr>kc_ClientCA := ca, kc_RequestHeader := rhc\<rparr>) s6 = (Ok c2, s7)"
      and keys: "onFiles (keysGetterOf B (Some sa)) s7 = (Ok kg, st')" "Issuers sa \<noteq> []"
      "config = c2\<lparr>kc_PublicKeysGetter := kg, kc_IssuerURL := hd (Issuers sa), kc_JWKSURI := JWKSURI sa\<rparr>"
    unfolding createKubeAPIServerConfig_def Let_def
    by (auto simp: gom_iff index_first)
  have c1: "configuredFrom st s1" using buildGenericConfig_Ok [OF law build] unfolding configuredFrom_def .
  then obtain o'' where o'': "snd (ch_srv s1) = (snd (ch_srv st))\<lparr>so_Authentication := o''\<rparr>" "delegationKept (so_Authentication (snd (ch_srv st))) o''"
    by (auto simp: configuredFrom_def sameServer_def)
  have "configuredFrom st st'"
    by (rule configuredFrom_step [OF c1])
      (use onFiles_Ok [OF steps(3)] onFiles_Ok [OF steps(4)] addConfigHook_Ok [OF steps(5)] onFiles_Ok [OF keys(1)] egressTransport_Ok [OF egress] in simp_all)
  moreover have "kc_ServiceAccountIssuer config = so_ServiceAccountIssuer (snd (ch_srv st))"
    using egressTransport_Ok [OF egress] o''(1) keys(3) by (simp add: controlplaneConfigOf_def)
  moreover have "\<exists>w w'. keysGetterOf B (Some sa) w = (Ok (kc_PublicKeysGetter config), w')"
    using onFiles_Ok [OF keys(1)] keys(3) by auto
  moreover have "mapGet (gc_PostStartHooks (ch_generic st')) ''start-kube-apiserver-admission-initializer'' = Some AdmissionInitializerHook"
    using addConfigHook_Ok [OF steps(5)] onFiles_Ok [OF keys(1)] egressTransport_Ok [OF egress] by simp
  ultimately show ?thesis using steps(1,2) o''(1) kept_fields [OF o''(2)] keys(2,3) by auto
qed

section \<open>The chain\<close>

lemma configured_aud:
  "APIAudiences (so_Authentication (configured K cfg s)) = APIAudiences (so_Authentication s)"
  "so_EnableDelegatingAuthentication (configured K cfg s) = so_EnableDelegatingAuthentication s"
  "DelegatingConfig (so_Authentication (configured K cfg s)) = DelegatingConfig (so_Authentication s)"
  "ClientCert (so_Authentication (configured K cfg s)) =
     map_option (\<lambda>c. c\<lparr>ClientCA := ClientCACertFile (CertsDirectory (DataDirectory cfg))\<rparr>) (ClientCert (so_Authentication s))"
  "xo_ClientKeyFile (so_ExtraOptions (configured K cfg s)) = ClientCAKeyFile (CertsDirectory (DataDirectory cfg))"
  by (simp_all add: configured_def fileOptions_def aggregatorFromConfig_def etcdFromConfig_def onEmbedded_def transport_def Let_def)


lemma AddPostStartHook_Ok [gom_iff]:
  "AddPostStartHook L name h st = (Ok u, st') \<longleftrightarrow>
     al_AddPostStartHook L (mapKeys (ch_hooks st)) name = None \<and> st' = st\<lparr>ch_hooks := ch_hooks st @ [(name, h)]\<rparr>"
  by (auto simp: AddPostStartHook_def split: option.splits)

definition startHooks :: "string list \<Rightarrow> string \<Rightarrow> string \<Rightarrow> 'x hook gomap" where
  "startHooks inherited clientCert clientKey = map (\<lambda>n. (n, InheritedHook)) inherited @
     [(''kube-apiserver-autoregistration'', AutoRegistrationHook), (''kube-controller'', KubeControllerHook clientCert clientKey)]"

lemma createAggregatorServer_Ok:
  assumes "createAggregatorServer L ac ks cert key st = (Ok s, st')"
  shows "\<exists>v inherited l. al_NewAggregator L ac ks (ch_lib st) = (Ok (v, inherited), l) \<and>
    st' = st\<lparr>ch_lib := l, ch_hooks := startHooks inherited cert key, ch_registered := knownServices (al_ListedPaths L ks)\<rparr> \<and>
    as_Delegates s = ''kube-apiserver'' # as_Delegates ks"
  using assms
  by (auto simp: createAggregatorServer_def gom_iff onRegistration_def zoomG_Ok_iff apiServicesToRegister_run startHooks_def)

lemma createAggregatorConfig_Ok:
  assumes law: "config_law L" and run: "createAggregatorConfig L g r pt st = (Ok ac, st')"
  shows "(\<exists>l. st' = st\<lparr>ch_lib := l\<rparr>) \<and> (\<exists>merged. agc_Generic ac = g\<lparr>gc_SkipOpenAPIInstallation := True,
     gc_StorageVersionPrecondition := gc_StorageVersionPrecondition (agc_Generic ac),
     gc_RESTOptionsGetter := SimpleFactory (storageCopy L ''aggregator'' (snd (ch_srv st))), gc_MergedResourceConfig := merged,
     gc_PostStartHooks := []\<rparr>)"
proof -
  let ?g = "g\<lparr>gc_PostStartHooks := [], gc_SkipOpenAPIInstallation := True,
            gc_StorageVersionPrecondition := (gc_StorageVersionPrecondition g \<or>
              al_FeatureEnabled L ''StorageVersionAPI'' \<and> al_FeatureEnabled L ''APIServerIdentity''),
            gc_RESTOptionsGetter := SimpleFactory (storageCopy L ''aggregator'' (snd (ch_srv st)))\<rparr>"
  from run obtain l g1 where a: "al_APIEnablementApplyTo L (so_RuntimeConfig (snd (ch_srv st))) (al_DefaultResources L ''aggregator'') ''aggregator''
      ?g (ch_lib st) = (Ok g1, l)" and st': "st' = st\<lparr>ch_lib := l\<rparr>" and ac: "agc_Generic ac = g1\<lparr>gc_PostStartHooks := []\<rparr>"
    by (auto simp: createAggregatorConfig_def Let_def gom_iff)
  from config_lawD(1) [OF law a] have "g1 = ?g\<lparr>gc_MergedResourceConfig := gc_MergedResourceConfig g1\<rparr>" .
  then obtain m where "g1 = ?g\<lparr>gc_MergedResourceConfig := m\<rparr>" by blast
  then show ?thesis using st' by (auto simp: ac)
qed

lemma createAPIExtensionsConfig_Ok: "createAPIExtensionsConfig L g n r ar st = (Ok xc, st') \<Longrightarrow> \<exists>l. st' = st\<lparr>ch_lib := l\<rparr>"
  by (auto simp: createAPIExtensionsConfig_def Let_def gom_iff)

lemma createAPIExtensionsServer_Ok:
  "createAPIExtensionsServer L xc st = (Ok xs, st') \<Longrightarrow> (\<exists>l. st' = st\<lparr>ch_lib := l\<rparr>) \<and> as_Delegates xs = [''not-found'']"
  by (auto simp: createAPIExtensionsServer_def gom_iff)

lemma createKubeAPIServer_Ok:
  "createKubeAPIServer L config d n st = (Ok ks, st') \<Longrightarrow> (\<exists>l. st' = st\<lparr>ch_lib := l\<rparr>) \<and> as_Delegates ks = n # as_Delegates d"
  by (auto simp: createKubeAPIServer_def gom_iff)

lemma createServerChain_Ok:
  assumes law: "config_law L" and run: "createServerChain E K B L st = (Ok (ac, s), st')"
  shows "\<exists>config r s1 s4 ks cc inherited l v. createKubeAPIServerConfig E K B L st = (Ok (config, r), s1) \<and>
    snd (ch_srv st') = snd (ch_srv s1) \<and> ch_generic st' = ch_generic s1 \<and> (\<exists>l4. s4 = s1\<lparr>ch_lib := l4\<rparr>) \<and>
    createAggregatorConfig L (ch_generic s1) r (kc_ProxyTransport config) s4 = (Ok ac, s4\<lparr>ch_lib := l\<rparr>) \<and>
    ClientCert (so_Authentication (snd (ch_srv s1))) = Some cc \<and>
    fst (al_NewAggregator L ac ks l) = Ok (v, inherited) \<and>
    ch_hooks st' = startHooks inherited (ClientCA cc) (xo_ClientKeyFile (so_ExtraOptions (snd (ch_srv s1)))) \<and>
    ch_registered st' = knownServices (al_ListedPaths L ks) \<and>
    as_Delegates s = [''kube-apiserver'', ''apiextensions'', ''not-found'']"
proof -
  from run obtain config r s1 ar xc s2 xs s3 ks s4 s5 cc where steps:
    "createKubeAPIServerConfig E K B L st = (Ok (config, r), s1)"
    "createAPIExtensionsConfig L (ch_generic s1) 1 r ar s1 = (Ok xc, s2)"
    "createAPIExtensionsServer L xc s2 = (Ok xs, s3)"
    "createKubeAPIServer L config xs ''apiextensions'' s3 = (Ok ks, s4)"
    "createAggregatorConfig L (ch_generic s1) r (kc_ProxyTransport config) s4 = (Ok ac, s5)"
    "ClientCert (so_Authentication (snd (ch_srv s5))) = Some cc"
    "createAggregatorServer L ac (withDiscovery L ks) (ClientCA cc) (xo_ClientKeyFile (so_ExtraOptions (snd (ch_srv s5)))) s5 = (Ok s, st')"
    unfolding createServerChain_def Let_def
    by (auto simp: bindG_Ok_iff wrapG_Ok_iff returnG_Ok_iff getC_Ok getR_Ok deref_Ok_iff)
  have ks: "as_Delegates (withDiscovery L ks) = [''apiextensions'', ''not-found'']"
    using createKubeAPIServer_Ok [OF steps(4)] createAPIExtensionsServer_Ok [OF steps(3)] by (simp add: withDiscovery_def)
  obtain l4 where s4: "s4 = s1\<lparr>ch_lib := l4\<rparr>"
    using createAPIExtensionsConfig_Ok [OF steps(2)] createAPIExtensionsServer_Ok [OF steps(3)] createKubeAPIServer_Ok [OF steps(4)] by auto
  from createAggregatorConfig_Ok [OF law steps(5)] obtain l where s5: "s5 = s1\<lparr>ch_lib := l\<rparr>" by (auto simp: s4)
  from createAggregatorServer_Ok [OF steps(7)] obtain v inherited l6 where
    v: "al_NewAggregator L ac (withDiscovery L ks) l = (Ok (v, inherited), l6)" and
    st': "st' = s5\<lparr>ch_lib := l6, ch_hooks := startHooks inherited (ClientCA cc) (xo_ClientKeyFile (so_ExtraOptions (snd (ch_srv s5)))),
      ch_registered := knownServices (al_ListedPaths L (withDiscovery L ks))\<rparr>" and
    d: "as_Delegates s = ''kube-apiserver'' # as_Delegates (withDiscovery L ks)" by (auto simp: s5)
  show ?thesis
  proof (intro exI conjI)
    show "createKubeAPIServerConfig E K B L st = (Ok (config, r), s1)" by (rule steps)
    show "createAggregatorConfig L (ch_generic s1) r (kc_ProxyTransport config) s4 = (Ok ac, s4\<lparr>ch_lib := l\<rparr>)"
      using steps(5) by (simp add: s4 s5)
    show "fst (al_NewAggregator L ac (withDiscovery L ks) l) = Ok (v, inherited)" by (simp add: v)
    show "ClientCert (so_Authentication (snd (ch_srv s1))) = Some cc" using steps(6) by (simp add: s5)
    show "s4 = s1\<lparr>ch_lib := l4\<rparr>" by (rule s4)
  qed (simp_all add: st' s5 d ks)
qed

section \<open>The hooks of the server\<close>

text \<open>The laws of the hooks: a new name is accepted, and the library brings none of the names of the server.\<close>

definition serverHooks :: "string list" where
  "serverHooks = [''kube-apiserver-autoregistration'', ''kube-controller'', ''multicluster-controlplane-crd'',
     ''multicluster-controlplane-registration-resource'', ''multicluster-controlplane-controllers'',
     ''multicluster-controlplane-selfmanagement'']"

definition delegatorHook :: string where
  "delegatorHook = ''multicluster-controlplane-authentication-delegator''"

definition hook_law :: "('x, 'g, 'l) apiLib \<Rightarrow> bool" where
  "hook_law L = ((\<forall>names n. n \<notin> set names \<longrightarrow> al_AddPostStartHook L names n = None) \<and>
     (\<forall>c s l v inherited. fst (al_NewAggregator L c s l) = Ok (v, inherited) \<longrightarrow> set inherited \<inter> set (delegatorHook # serverHooks) = {}))"

lemma AddController_run:
  assumes "hook_law L" "n \<notin> set (mapKeys (ch_hooks st))"
  shows "AddController L n h st = (Ok (), st\<lparr>ch_hooks := ch_hooks st @ [(n, h)]\<rparr>)"
  using assms by (simp add: AddController_def tryG_def AddPostStartHook_def hook_law_def returnG_def)

lemma map_of_inherited: "n \<notin> set inherited \<Longrightarrow> map_of (map (\<lambda>n. (n, h)) inherited) n = None"
  by (induction inherited) auto

lemma server_hooks_run:
  assumes law: "hook_law L" and fresh: "set inherited \<inter> set (delegatorHook # serverHooks) = {}"
    and chain: "createServerChain E K B L st = (Ok (ac, a), s1)" and start: "ch_hooks s1 = startHooks inherited cert key"
    and server: "NewServer E K B L st = (Ok a', st')"
  shows "a' = a \<and> mapKeys (ch_hooks st') = inherited @ serverHooks @
      (if DelegatingConfig (so_Authentication (snd (ch_srv s1))) = None then [] else [delegatorHook]) \<and>
    mapGet (ch_hooks st') ''kube-controller'' = Some (KubeControllerHook cert key) \<and>
    mapGet (ch_hooks st') ''multicluster-controlplane-selfmanagement'' = Some (InstallSelfManagementHook
      (so_EnableSelfManagement (snd (ch_srv s1))) (so_SelfManagementClusterName (snd (ch_srv s1))) (so_ControlplaneDataDir (snd (ch_srv s1))))"
proof -
  let ?o = "snd (ch_srv s1)"
  let ?H = "startHooks inherited cert key @ [(''multicluster-controlplane-crd'', InstallCRDHook),
    (''multicluster-controlplane-registration-resource'', InstallHubResourceHook), (''multicluster-controlplane-controllers'', InstallControllersHook),
    (''multicluster-controlplane-selfmanagement'',
      InstallSelfManagementHook (so_EnableSelfManagement ?o) (so_SelfManagementClusterName ?o) (so_ControlplaneDataDir ?o))]"
  let ?H' = "?H @ (case DelegatingConfig (so_Authentication ?o) of None \<Rightarrow> [] | Some d \<Rightarrow> [(delegatorHook, AuthenticationDelegatorHook d)])"
  have run: "NewServer E K B L st = (Ok a, s1\<lparr>ch_hooks := ?H'\<rparr>)"
    using chain start fresh
    by (cases "DelegatingConfig (so_Authentication ?o)")
      (simp_all add: NewServer_def bindG_def fatal_def tryG_def returnG_def getR_def AddController_run [OF law] startHooks_def mapKeys_def
        serverHooks_def delegatorHook_def comp_def)
  have h: "a' = a" "ch_hooks st' = ?H'" using server [unfolded run] by auto
  show ?thesis
    unfolding h using fresh
    by (auto simp: mapKeys_def startHooks_def serverHooks_def delegatorHook_def comp_def mapGet_def map_of_inherited map_add_def
        split: option.splits)
qed

lemma default_no_delegation: "DelegatingConfig (defaultAuthentication b) = None"
  by (simp add: defaultAuthentication_def WithAll_def WithWebHook_def WithTokenFile_def WithServiceAccounts_def
      WithRequestHeader_def WithOIDC_def WithClientCert_def WithBootstrapToken_def WithAnonymous_def Let_def NewBuiltInAuthenticationOptions_def)

text \<open>The flags of the command, on the options of a new server.\<close>

definition withFlags :: "bool \<Rightarrow> bool \<Rightarrow> string \<Rightarrow> ('x, 'g) ServerRunOptions \<Rightarrow> ('x, 'g) ServerRunOptions" where
  "withFlags delegating selfManagement clusterName s = s\<lparr>so_EnableDelegatingAuthentication := delegating,
     so_EnableSelfManagement := selfManagement, so_SelfManagementClusterName := clusterName\<rparr>"

lemma withFlags_sel [simp]:
  "so_Authentication (withFlags d m n s) = so_Authentication s" "so_EnableDelegatingAuthentication (withFlags d m n s) = d"
  "so_EnableSelfManagement (withFlags d m n s) = m" "so_SelfManagementClusterName (withFlags d m n s) = n"
  by (simp_all add: withFlags_def)

lemma settled_self:
  assumes "settledOptions E V s s'"
  shows "so_EnableSelfManagement s' = so_EnableSelfManagement s \<and> so_SelfManagementClusterName s' = so_SelfManagementClusterName s \<and>
    so_ControlplaneDataDir s' = so_ControlplaneDataDir s"
  using assms by (auto simp: settledOptions_def withRanges_def authenticationDefaults_def Let_def)

lemma settled_header:
  assumes "settledOptions E V s s'"
  shows "RequestHeader (so_Authentication s') = RequestHeader (so_Authentication s)"
proof -
  have "RequestHeader (so_Authentication (authenticationDefaults V t)) = RequestHeader (so_Authentication t)" for t
    by (auto simp: authenticationDefaults_def ApplyAuthorization_def Let_def split: option.splits)
  then show ?thesis using assms by (auto simp: settledOptions_def withRanges_def)
qed

lemma configured_header:
  "RequestHeader (so_Authentication (configured K cfg s)) = None \<longleftrightarrow> RequestHeader (so_Authentication s) = None"
  by (simp add: configured_def fileOptions_def aggregatorFromConfig_def etcdFromConfig_def onEmbedded_def transport_def Let_def)

lemma defaultAuthentication_header: "RequestHeader (defaultAuthentication b) \<noteq> None"
  by (simp add: defaultAuthentication_def WithAll_def WithWebHook_def WithTokenFile_def WithServiceAccounts_def
      WithRequestHeader_def WithOIDC_def WithClientCert_def WithBootstrapToken_def WithAnonymous_def Let_def)

lemma configured_self:
  "so_EnableSelfManagement (configured K cfg s) = so_EnableSelfManagement s"
  "so_SelfManagementClusterName (configured K cfg s) = so_SelfManagementClusterName s"
  "so_ControlplaneDataDir (configured K cfg s) = DataDirectory cfg"
  by (simp_all add: configured_def fileOptions_def aggregatorFromConfig_def etcdFromConfig_def onEmbedded_def transport_def Let_def)

text \<open>A new server with its flags, configured and completed.\<close>

lemma completed_new_sa:
  assumes "NewServerRunOptions V = Ok s0"
  shows "ServiceAccounts (so_Authentication (configured K cfg (withFlags d m n s0))) =
      Some \<lparr>KeyFiles = [ServiceAccountKeyFile (CertsDirectory (DataDirectory cfg))], Lookup = True,
        Issuers = [''https://kubernetes.default.svc''], JWKSURI = [], MaxExpiration = 0, ExtendExpiration = True\<rparr>"
  by (simp add: configured_sel NewServerRunOptions_sel(1) [OF assms] defaultAuthentication_sel)

lemma completed_new:
  assumes new: "NewServerRunOptions V = Ok s0" and run: "completeRest E V (h, configured K cfg (withFlags d m n s0)) = (Ok u, st)"
  shows "settledOptions E V (configured K cfg (withFlags d m n s0)) (snd st)"
    and "ServiceAccounts (so_Authentication (configured K cfg (withFlags d m n s0))) =
      Some \<lparr>KeyFiles = [ServiceAccountKeyFile (CertsDirectory (DataDirectory cfg))], Lookup = True,
        Issuers = [''https://kubernetes.default.svc''], JWKSURI = [], MaxExpiration = 0, ExtendExpiration = True\<rparr>"
proof -
  note sa = completed_new_sa [OF new, of K cfg d m n]
  then show "ServiceAccounts (so_Authentication (configured K cfg (withFlags d m n s0))) =
      Some \<lparr>KeyFiles = [ServiceAccountKeyFile (CertsDirectory (DataDirectory cfg))], Lookup = True,
        Issuers = [''https://kubernetes.default.svc''], JWKSURI = [], MaxExpiration = 0, ExtendExpiration = True\<rparr>" .
  show "settledOptions E V (configured K cfg (withFlags d m n s0)) (snd st)"
    using completeRest_Ok [OF run] sa by (simp add: configured_sel)
qed

section \<open>A server\<close>

definition demoGeneric :: "string genericConfig" where
  "demoGeneric = \<lparr>gc_Lib = [], gc_MergedResourceConfig = [], gc_SecureServing = [],
     gc_Loopback = \<lparr>lc_Lib = [], lc_Host = ''localhost'', lc_ContentType = [], lc_DisableCompression = False\<rparr>,
     gc_EgressSelector = None, gc_TracerProvider = None, gc_OpenAPIConfig = Some \<lparr>oa_Lib = [], oa_Title = [], oa_Security = None\<rparr>,
     gc_OpenAPIV3Config = None, gc_LongRunning = None, gc_APIAudiences = [], gc_Authenticator = None, gc_Authorizer = None,
     gc_RuleResolver = None, gc_APIServerID = ''id'', gc_DisabledPostStartHooks = {}, gc_PostStartHooks = [],
     gc_RESTOptionsGetter = NilGetter, gc_SkipOpenAPIInstallation = False, gc_StorageVersionPrecondition = False, gc_DiscoveryManager = None\<rparr>"

definition demoApiLib :: "(string, unit, unit) apiLib" where
  "demoApiLib = \<lparr>al_FeatureEnabled = (\<lambda>_. True), al_NewConfig = demoGeneric, al_DefaultResources = (\<lambda>n. n), al_DisableVersions = (\<lambda>_ x. x),
     al_GenericApplyTo = (\<lambda>_. returnG), al_SecureServingApplyTo = (\<lambda>_. returnG), al_FeaturesApplyTo = (\<lambda>_. returnG),
     al_APIEnablementApplyTo = (\<lambda>_ d _ g. returnG (g\<lparr>gc_MergedResourceConfig := d\<rparr>)), al_EgressApplyTo = returnG, al_TracesApplyTo = returnG,
     al_EtcdApplyTo = (\<lambda>_. returnG), al_EtcdApplyWithStorageFactory = (\<lambda>_ _. returnG), al_AuditApplyTo = returnG,
     al_AdmissionApplyTo = (\<lambda>_ _. returnG), al_DefaultOpenAPI = (\<lambda>_. \<lparr>oa_Lib = [], oa_Title = [], oa_Security = None\<rparr>),
     al_NewStorageFactory = (\<lambda>m _. returnG \<lparr>sf_Lib = [], sf_APIResourceConfigSource = m, sf_EgressLookup = None, sf_TracerProvider = None\<rparr>),
     al_client_NewForConfig = (\<lambda>_ _. None), al_Lookup = (\<lambda>_ _. Ok []), al_ApplyClientCert = (\<lambda>_. returnG ()),
     al_NewGetterFromClient = (\<lambda>_. []), al_CoreV1 = [], al_NewTokenAuthenticator = [],
     al_AuthorizationNew = (\<lambda>_ _ _. returnG (''rbac'', ''resolver'')), al_url_Parse = Ok,
     al_AdmissionInitializers = (\<lambda>_ _ _ _ _. Ok []), al_SetupCapabilities = (\<lambda>_ _. returnG ()), al_ApplyMetrics = returnG (),
     al_AddConfigHook = (\<lambda>_ _. None), al_StorageCodec = (\<lambda>n. n), al_EncodeVersioner = (\<lambda>n. n),
     al_ResourceTransformers = (\<lambda>_. []), al_StorageObjectCountTracker = (\<lambda>_. []), al_NewExtensions = (\<lambda>_. returnG []),
     al_NewControlplane = (\<lambda>_ _ _. returnG ([], None)), al_NewAggregator = (\<lambda>_ _. returnG ([], [''start-informers''])),
     al_ListedPaths = (\<lambda>_. [''/api/v1'']), al_AddPostStartHook = (\<lambda>ns n. if n \<in> set ns then Some (Errorf n []) else None),
     al_AddBootSequenceHealthChecks = (\<lambda>_ _. None), al_PrepareRun = (\<lambda>_. returnG ()), al_Run = (\<lambda>_ _. returnG ()),
     al_LogsValidateAndApply = None\<rparr>"

lemma demoApiLib_sel:
  "al_GenericApplyTo demoApiLib = (\<lambda>_. returnG)" "al_SecureServingApplyTo demoApiLib = (\<lambda>_. returnG)"
  "al_FeaturesApplyTo demoApiLib = (\<lambda>_. returnG)" "al_EgressApplyTo demoApiLib = returnG" "al_TracesApplyTo demoApiLib = returnG"
  "al_APIEnablementApplyTo demoApiLib = (\<lambda>_ d _ g. returnG (g\<lparr>gc_MergedResourceConfig := d\<rparr>))"
  "al_EtcdApplyTo demoApiLib = (\<lambda>_. returnG)" "al_EtcdApplyWithStorageFactory demoApiLib = (\<lambda>_ _. returnG)"
  "al_AuditApplyTo demoApiLib = returnG" "al_AdmissionApplyTo demoApiLib = (\<lambda>_ _. returnG)" "al_NewConfig demoApiLib = demoGeneric"
  "al_NewStorageFactory demoApiLib = (\<lambda>m _. returnG \<lparr>sf_Lib = [], sf_APIResourceConfigSource = m, sf_EgressLookup = None, sf_TracerProvider = None\<rparr>)"
  "al_client_NewForConfig demoApiLib = (\<lambda>_ _. None)" "al_Lookup demoApiLib = (\<lambda>_ _. Ok [])"
  "al_AuthorizationNew demoApiLib = (\<lambda>_ _ _. returnG (''rbac'', ''resolver''))" "al_AdmissionInitializers demoApiLib = (\<lambda>_ _ _ _ _. Ok [])"
  "al_SetupCapabilities demoApiLib = (\<lambda>_ _. returnG ())" "al_ApplyMetrics demoApiLib = returnG ()" "al_AddConfigHook demoApiLib = (\<lambda>_ _. None)"
  "al_NewExtensions demoApiLib = (\<lambda>_. returnG [])" "al_NewControlplane demoApiLib = (\<lambda>_ _ _. returnG ([], None))"
  "al_NewAggregator demoApiLib = (\<lambda>_ _. returnG ([], [''start-informers'']))" "al_AddBootSequenceHealthChecks demoApiLib = (\<lambda>_ _. None)"
  by (simp_all add: demoApiLib_def)

lemma demoApiLib_law: "config_law demoApiLib" "hook_law demoApiLib"
  by (auto simp: config_law_def hook_law_def demoApiLib_def returnG_def serverHooks_def delegatorHook_def)

text \<open>Options from which a server comes up with these libraries.\<close>

definition startable :: "string BuiltInAuthenticationOptions \<Rightarrow> bool" where
  "startable o' = ((\<exists>sa. ServiceAccounts o' = Some sa \<and> Issuers sa \<noteq> []) \<and> ClientCert o' \<noteq> None \<and> RequestHeader o' \<noteq> None \<and>
     (\<forall>c. OIDC o' = Some c \<longrightarrow> IssuerURL c = []))"

definition startState :: "(unit, string, unit, unit) chain \<Rightarrow> bool" where
  "startState st = (startable (so_Authentication (snd (ch_srv st))) \<and> gc_OpenAPIConfig (ch_generic st) \<noteq> None \<and>
     gc_EgressSelector (ch_generic st) = None)"

lemma start_getC: "succeeds startState (\<lambda>g. gc_EgressSelector g = None) getC"
  by (simp add: succeeds_def getC_def startState_def)

lemma start_getR: "succeeds startState (\<lambda>o'. startable (so_Authentication o')) getR"
  by (simp add: succeeds_def getR_def startState_def)

lemma start_onLib: "(\<And>l. \<exists>x. m l = (Ok x, l) \<and> R x) \<Longrightarrow> succeeds startState R (onLib m)"
  by (fastforce simp: succeeds_def onLib_def zoomG_def startState_def)

lemma start_modC:
  "(\<And>g. gc_OpenAPIConfig g \<noteq> None \<Longrightarrow> gc_EgressSelector g = None \<Longrightarrow> gc_OpenAPIConfig (f g) \<noteq> None \<and> gc_EgressSelector (f g) = None) \<Longrightarrow>
     succeeds startState (\<lambda>_. True) (modC f)"
  by (simp add: succeeds_def modC_def startState_def)

lemma start_applyC:
  assumes "\<And>g. gc_OpenAPIConfig g \<noteq> None \<Longrightarrow> gc_EgressSelector g = None \<Longrightarrow>
     \<exists>g'. f g = returnG g' \<and> gc_OpenAPIConfig g' \<noteq> None \<and> gc_EgressSelector g' = None"
  shows "succeeds startState (\<lambda>_. True) (applyC f)"
  unfolding succeeds_def
proof (intro allI impI)
  fix st :: "(unit, string, unit, unit) chain"
  assume st: "startState st"
  then obtain g' where g': "f (ch_generic st) = returnG g'" "gc_OpenAPIConfig g' \<noteq> None" "gc_EgressSelector g' = None"
    using assms [of "ch_generic st"] by (auto simp: startState_def)
  then show "\<exists>x t. applyC f st = (Ok x, t) \<and> True \<and> startState t"
    using st by (simp add: applyC_def bindG_def getC_def onLib_def zoomG_def modC_def returnG_def startState_def)
qed

lemma start_onFiles: "(\<And>w. \<exists>x. m w = (Ok x, w)) \<Longrightarrow> succeeds startState (\<lambda>_. True) (onFiles m)"
proof -
  assume "\<And>w. \<exists>x. m w = (Ok x, w)"
  then obtain f where "\<And>w. m w = (Ok (f w), w)" by metis
  then show ?thesis by (simp add: succeeds_def onFiles_def onHost_def onFS_def zoomG_def startState_def)
qed

lemma start_ofO: "succeeds startState (\<lambda>_. True) (ofO (Ok x))"
  by (simp add: succeeds_def ofO_def)

lemma start_return: "succeeds startState (\<lambda>_. True) (returnG x)"
  by (simp add: succeeds_def returnG_def)

lemma start_errG: "succeeds startState (\<lambda>_. True) (errG None)"
  by (simp add: succeeds_def errG_def returnG_def)

lemma demoLib_sel:
  "GetClientCAContentProvider demoLib = (\<lambda>_. returnG None)" "ToAuthenticationRequestHeaderConfig demoLib = (\<lambda>_. returnG None)"
  "PublicKeysFromFile demoLib = (\<lambda>f. returnG [f])" "authenticator_New demoLib = (\<lambda>c. returnG (''built'', ''v2'', ''v3''))"
  by (simp_all add: demoLib_def)

lemma publicKeys_demo: "publicKeys demoLib fs w = (Ok fs, w)"
  by (induction fs) (simp_all add: demoLib_def bindG_def wrapG_def returnG_def)

lemma keysGetter_demo: "\<exists>x. keysGetterOf demoLib sas w = (Ok x, w)"
  by (auto simp: keysGetterOf_def bindG_def wrapG_def returnG_def publicKeys_demo split: option.splits)
    (simp_all add: demoLib_def)

lemma applyTo_demo:
  assumes "startable o'" "ap_Options st = Some o'" "\<not> openAPIConfig_nil R" "egressLookup R = None"
  shows "\<exists>st'. ApplyTo simEnv outsideApi demoLib R st = (Ok (), st')"
proof -
  obtain kg where kg: "\<And>w. keysGetterOf demoLib (ServiceAccounts o') w = (Ok (kg w), w)" using keysGetter_demo by metis
  have oidc: "oidcConfig simEnv outsideApi (OIDC o') w = (Ok None, w)" for w
    using assms(1) by (auto simp: oidcConfig_def startable_def returnG_def split: option.splits)
  from assms(1) obtain cc rh where "ClientCert o' = Some cc" "RequestHeader o' = Some rh" by (auto simp: startable_def)
  then have "\<exists>config. ToAuthenticationConfig simEnv outsideApi demoLib o' w = (Ok config, w) \<and>
      ac_ClientCAContentProvider config = None \<and> ac_RequestHeaderConfig config = None" for w
    by (simp add: ToAuthenticationConfig_def bindG_def demoLib_sel returnG_def oidc kg)
  then obtain cf where cf: "\<And>w. ToAuthenticationConfig simEnv outsideApi demoLib o' w = (Ok (cf w), w)"
    "\<And>w. ac_ClientCAContentProvider (cf w) = None" "\<And>w. ac_RequestHeaderConfig (cf w) = None" by metis
  have delegate: "\<exists>ds st'. delegateAuthn outsideApi demoLib s = (Ok ds, st')" for s
    by (cases "ap_Options s"; cases "DelegatingConfig (the (ap_Options s))")
      (auto simp: delegateAuthn_def delegatingNew_def outsideApi_def split: option.splits)
  obtain ds s' where d: "delegateAuthn outsideApi demoLib (st\<lparr>ap_APIAudiences := audiencesOf o'\<rparr>) = (Ok ds, s')" using delegate by blast
  show ?thesis
    using assms(2-4) d
    by (simp add: ApplyTo_def bindG_def onWorld_def zoomG_def cf applyCA_def returnG_def Let_def demoLib_sel)
qed

lemma start_authentication: "succeeds startState (\<lambda>_. True) (applyAuthentication simEnv outsideApi demoLib demoApiLib)"
  unfolding succeeds_def
proof (intro allI impI)
  fix st :: "(unit, string, unit, unit) chain"
  assume st: "startState st"
  obtain a where a: "ApplyTo simEnv outsideApi demoLib (authArgs demoApiLib (ch_generic st)) (appliedOf st) = (Ok (), a)"
    using applyTo_demo [of "so_Authentication (snd (ch_srv st))" "appliedOf st" "authArgs demoApiLib (ch_generic st)"] st
    by (auto simp: startState_def appliedOf_def authArgs_def)
  have o': "ap_Options (appliedOf st) = Some (so_Authentication (snd (ch_srv st)))" by (simp add: appliedOf_def)
  from ApplyTo_Ok(2) [OF a o'] obtain o'' where o'': "ap_Options a = Some o''" "delegationKept (so_Authentication (snd (ch_srv st))) o''" by blast
  then have "startable o''" using st by (auto simp: startState_def startable_def delegationKept_def)
  then have "startState (withApplied a st)"
    using st o''(1) by (auto simp: startState_def withApplied_def split: prod.splits)
  then show "\<exists>x t. applyAuthentication simEnv outsideApi demoLib demoApiLib st = (Ok x, t) \<and> True \<and> startState t"
    by (simp add: applyAuthentication_def bindG_def getC_def zoomG_def a)
qed

lemma start_onLib_returnG: "succeeds startState (\<lambda>_. True) (onLib (returnG x))"
  by (simp add: succeeds_def onLib_def zoomG_def returnG_def startState_def)

lemma start_applyC_returnG: "succeeds startState (\<lambda>_. True) (applyC returnG)"
  by (rule start_applyC) auto

lemma start_option:
  "succeeds startState R m \<Longrightarrow> (\<And>x. succeeds startState R (f x)) \<Longrightarrow> succeeds startState R (case z of None \<Rightarrow> m | Some x \<Rightarrow> f x)"
  by (cases z) auto

lemma start_deref: "p = Some x \<Longrightarrow> succeeds startState (\<lambda>y. y = x) (deref p)"
  by (simp add: succeeds_def deref_def returnG_def)

lemma start_pair: "(\<And>a b. p = (a, b) \<Longrightarrow> succeeds startState R (f a b)) \<Longrightarrow> succeeds startState R (case p of (a, b) \<Rightarrow> f a b)"
  by (cases p) auto

lemmas start_rules = start_return start_getC start_getR start_ofO start_errG start_onLib_returnG start_applyC_returnG
  start_option start_pair succeeds_bind succeeds_wrap succeeds_if

lemma start_genericSteps: "succeeds startState (\<lambda>_. True) (genericSteps demoApiLib)"
  unfolding genericSteps_def Let_def demoApiLib_sel
  by ((rule start_rules start_modC start_applyC | (auto simp: demoGeneric_def openAPISteps_def protobufLoopback_def; fail))+)

lemma start_applyAuthorization: "succeeds startState (\<lambda>_. True) (applyAuthorization demoApiLib)"
  unfolding applyAuthorization_def demoApiLib_sel
  by ((rule start_rules start_modC start_pair | (auto; fail))+)

lemma start_admissionSteps: "succeeds startState (\<lambda>_. True) (admissionSteps demoApiLib pt)"
  unfolding admissionSteps_def Let_def demoApiLib_sel
  by ((rule start_rules start_modC | (auto; fail))+)

lemma start_buildGenericConfig: "succeeds startState (\<lambda>_. True) (buildGenericConfig simEnv outsideApi demoLib demoApiLib pt)"
  unfolding buildGenericConfig_def
  by ((rule start_rules start_genericSteps start_authentication start_applyAuthorization start_admissionSteps | (auto; fail))+)

lemma start_addConfigHook: "succeeds startState (\<lambda>_. True) (addConfigHook demoApiLib n h)"
  unfolding addConfigHook_def demoApiLib_sel by ((rule start_rules start_modC | (auto; fail))+)

lemma start_egress: "succeeds startState (\<lambda>_. True) (egressTransport demoApiLib e c)"
  unfolding egressTransport_def demoApiLib_sel by ((rule start_rules | (auto; fail))+)

lemma start_config: "succeeds startState (\<lambda>_. True) (createKubeAPIServerConfig simEnv outsideApi demoLib demoApiLib)"
proof -
  have files: "succeeds startState (\<lambda>_. True) (onFiles (GetClientCAContentProvider demoLib c))"
    "succeeds startState (\<lambda>_. True) (onFiles (ToAuthenticationRequestHeaderConfig demoLib rh))"
    "succeeds startState (\<lambda>_. True) (onFiles (keysGetterOf demoLib sas))" for c rh sas
    by (auto intro!: start_onFiles keysGetter_demo simp: demoLib_sel returnG_def)
  have rest: "succeeds startState (\<lambda>_. True)
    (bindG (deref (ServiceAccounts o')) (\<lambda>sa. bindG (deref (ClientCert o')) (\<lambda>cc. bindG (onFiles (GetClientCAContentProvider demoLib cc)) (\<lambda>ca.
       bindG (deref (RequestHeader o')) (\<lambda>rh. bindG (onFiles (ToAuthenticationRequestHeaderConfig demoLib rh)) (\<lambda>rhc. bindG getC (\<lambda>g.
       bindG (wrapG w (errG None)) (\<lambda>_. bindG (addConfigHook demoApiLib n h) (\<lambda>_.
       bindG (egressTransport demoApiLib (gc_EgressSelector g) (c sa ca rhc)) (\<lambda>c2. bindG (onFiles (keysGetterOf demoLib (Some sa))) (\<lambda>kg.
       case Issuers sa of [] \<Rightarrow> panicG p | i # _ \<Rightarrow> returnG (fin c2 kg i sa))))))))))))"
    if o': "startable o'" for o' w n h c p and fin :: "_ \<Rightarrow> _ \<Rightarrow> _ \<Rightarrow> _ \<Rightarrow> string controlplaneConfig \<times> string serviceResolver"
  proof -
    from o' obtain sa cc rh where f: "ServiceAccounts o' = Some sa" "Issuers sa \<noteq> []" "ClientCert o' = Some cc" "RequestHeader o' = Some rh"
      by (auto simp: startable_def)
    then obtain i others where i: "Issuers sa = i # others" by (cases "Issuers sa") auto
    show ?thesis
      by ((rule succeeds_bind start_deref [OF f(1)] start_deref [OF f(3)] start_deref [OF f(4)] files start_getC succeeds_wrap start_errG
          start_addConfigHook start_egress | (simp add: i succeeds_return; fail))+)
  qed
  show ?thesis
    unfolding createKubeAPIServerConfig_def Let_def demoApiLib_sel
    by ((rule start_rules start_buildGenericConfig rest | (auto; fail))+)
qed

lemma demoApiLib_hooks: "al_AddPostStartHook demoApiLib = (\<lambda>ns n. if n \<in> set ns then Some (Errorf n []) else None)"
  by (simp add: demoApiLib_def)

lemma start_aggregator: "succeeds startState (\<lambda>_. True) (createAggregatorServer demoApiLib ac ks cert key)"
  unfolding succeeds_def
  by (simp add: createAggregatorServer_def demoApiLib_sel bindG_def onLib_def zoomG_def returnG_def errG_def onRegistration_def
      apiServicesToRegister_run AddPostStartHook_def demoApiLib_hooks mapKeys_def startState_def)

lemma start_chain: "succeeds startState (\<lambda>_. True) (createServerChain simEnv outsideApi demoLib demoApiLib)"
proof -
  have parts: "succeeds startState (\<lambda>_. True) (createAPIExtensionsConfig demoApiLib g n r ar)"
    "succeeds startState (\<lambda>_. True) (createAPIExtensionsServer demoApiLib xc)"
    "succeeds startState (\<lambda>_. True) (createKubeAPIServer demoApiLib c d nm)"
    "succeeds startState (\<lambda>_. True) (createAggregatorConfig demoApiLib g r pt)" for g n r ar xc c d nm pt
    unfolding createAPIExtensionsConfig_def createAPIExtensionsServer_def createKubeAPIServer_def createAggregatorConfig_def Let_def demoApiLib_sel
    by ((rule start_rules | (auto; fail))+)
  have client: "succeeds startState (\<lambda>_. True) (bindG (deref (ClientCert o')) f)"
    if "startable o'" "\<And>cc. succeeds startState (\<lambda>_. True) (f cc)" for o' and f :: "_ \<Rightarrow> (_, string aggregatorConfig \<times> string apiServer) go"
  proof -
    from that(1) obtain cc where "ClientCert o' = Some cc" by (auto simp: startable_def)
    from succeeds_bind [OF start_deref [OF this]] that(2) show ?thesis by blast
  qed
  show ?thesis
    unfolding createServerChain_def Let_def
    by ((rule start_rules(1-9) client start_config parts start_aggregator succeeds_bind succeeds_wrap | (auto; fail))+)
qed

lemma demo_server:
  assumes "startState st"
  shows "\<exists>a st'. NewServer simEnv outsideApi demoLib demoApiLib st = (Ok a, st')"
proof -
  obtain ac a s1 where c: "createServerChain simEnv outsideApi demoLib demoApiLib st = (Ok (ac, a), s1)"
    using succeedsD [OF start_chain assms] by auto
  obtain x s2 where a: "NewServer simEnv outsideApi demoLib demoApiLib st = (x, s2)" by force
  have "isOk x"
    using a by (auto simp: NewServer_def bindG_def fatal_def tryG_def returnG_def getR_def c AddController_def AddPostStartHook_def
        isOk_def split: option.splits prod.splits)
  with a show ?thesis by (auto simp: isOk_def split: outcome.splits)
qed

text \<open>The completed options of a new server, in the state in which the chain starts.\<close>

definition demoChain :: "(unit, string, unit) srv \<Rightarrow> (unit, string, unit, unit) chain" where
  "demoChain sr = \<lparr>ch_srv = sr, ch_lib = (), ch_generic = demoGeneric, ch_registered = [], ch_hooks = []\<rparr>"

lemma demo_start:
  assumes "completeRest E demoServerLib (h, configured K cfg (withFlags d m n demoOptions)) = (Ok u, sr)"
  shows "startState (demoChain sr)"
proof -
  have "RequestHeader (so_Authentication (snd sr)) \<noteq> None" "ClientCert (so_Authentication (snd sr)) \<noteq> None"
    using settled_header [OF completed_new(1) [OF demoOptions_new assms]] settled_client [OF completed_new(1) [OF demoOptions_new assms]]
    by (auto simp: configured_aud configured_header NewServerRunOptions_sel(1) [OF demoOptions_new] defaultAuthentication_sel defaultAuthentication_header)
  then show ?thesis
    using settled_authentication [OF completed_new(1) [OF demoOptions_new assms]] completed_new(2) [OF demoOptions_new assms]
    by (auto simp: startState_def startable_def demoChain_def demoGeneric_def configured_sel NewServerRunOptions_sel(1) [OF demoOptions_new]
        defaultAuthentication_sel)
qed

lemma demo_complete_flags:
  "\<exists>sr. completeRest simEnv demoServerLib (((simWorld, ()), demoEtcdState), configured outsideApi demoCfg (withFlags d m n demoOptions)) = (Ok (), sr)"
proof -
  have "so_ServiceClusterIPRanges (configured K cfg (withFlags d m n s)) = so_ServiceClusterIPRanges (configured K cfg s)"
    "so_ExternalHost (configured K cfg (withFlags d m n s)) = so_ExternalHost (configured K cfg s)"
    "eo_EnableWatchCache (so_Etcd (configured K cfg (withFlags d m n s))) = eo_EnableWatchCache (so_Etcd (configured K cfg s))" for K cfg s
    by (simp_all add: configured_def fileOptions_def aggregatorFromConfig_def etcdFromConfig_def onEmbedded_def transport_def Let_def withFlags_def)
  note keep = this
  have "\<exists>h' s'. completeRest simEnv demoServerLib (((simWorld, ()), demoEtcdState), configured outsideApi demoCfg (withFlags d m n demoOptions)) =
      (Ok (), (h', s'))"
    by (rule demo_completes_any [OF _ _ _ _ completed_new_sa [OF demoOptions_new], where issuer = "''https://kubernetes.default.svc''"])
      (simp_all add: keep demo_configured_sel configured_sel)
  then show ?thesis by blast
qed

section \<open>Properties\<close>







end
