(* ===== verification/OcmControllers.thy ===== *)
theory OcmControllers
  imports BootstrapProofs
begin

text \<open>
  The hook that brings up the controllers of Open Cluster Management
  (\<open>controllers/ocmcontroller/ocmcontroller.go\<close>): it waits for the definitions that the hook of theory
  \<open>Bootstrap\<close> installs, makes the clients and the informer factories, and starts the managers of the
  libraries. Every \<open>go\<close> statement adds its goroutine to the list of those started; what the goroutine
  does is the function \<open>runActivity\<close>.
\<close>

section \<open>Goroutines\<close>

text \<open>The informer factories, by the client they are made of.\<close>

datatype informerFactory =
    KubeInformers | ClusterInformers | WorkInformers | ClusterProfileInformers | AddOnInformers | DynamicInformers

text \<open>A manager with the factories it is handed, the manager of the runtime library, a started factory.\<close>

datatype activity =
    RegistrationManager "informerFactory list"
  | PlacementManager "informerFactory list"
  | WorkManager string
  | AddonManager "informerFactory list"
  | CtrlManager
  | StartInformers informerFactory

text \<open>The state: the control plane, the content type of the shared loopback configuration, the goroutines.\<close>

record 'k ocm =
  oc_hub :: 'k
  oc_ContentType :: string
  oc_started :: "activity list"

record 'k ocmLib =
  ol_NewForConfig :: "string \<Rightarrow> string \<Rightarrow> goerr option"
  ol_Enabled :: "string \<Rightarrow> bool"
  ol_RunManager :: "activity \<Rightarrow> ('k, unit) go"
  ol_NewManager :: "string \<Rightarrow> goerr option"
  ol_SetupManagedServiceAccount :: "('k, unit) go"
  ol_ManagerStart :: "('k, unit) go"
  ol_InformersStart :: "informerFactory \<Rightarrow> ('k, unit) go"

definition onHub :: "('k, 'a) go \<Rightarrow> ('k ocm, 'a) go" where
  "onHub m = zoomG oc_hub (\<lambda>k st. st\<lparr>oc_hub := k\<rparr>) m"

text \<open>The statement \<open>go\<close>.\<close>

definition goStmt :: "activity \<Rightarrow> ('k ocm, unit) go" where
  "goStmt a = (\<lambda>st. (Ok (), st\<lparr>oc_started := oc_started st @ [a]\<rparr>))"

text \<open>A client of the shared configuration, with the content type it has at that moment.\<close>

definition newClient :: "'k ocmLib \<Rightarrow> string \<Rightarrow> ('k ocm, unit) go" where
  "newClient L name = (\<lambda>st. case ol_NewForConfig L name (oc_ContentType st) of None \<Rightarrow> (Ok (), st) | Some e \<Rightarrow> (Err e, st))"

section \<open>runControllers\<close>

text \<open>The clients in the order in which they are made; the first error ends the function.\<close>

definition hubClients :: "string list" where
  "hubClients = [''kubernetes'', ''metadata'', ''cluster'', ''work'', ''addon'', ''dynamic'', ''clusterprofile'']"

definition runControllers :: "'k ocmLib \<Rightarrow> ('k ocm, unit) go" where
  "runControllers L =
     bindG (forG hubClients (newClient L)) (\<lambda>_.
     bindG (goStmt (RegistrationManager [KubeInformers, ClusterInformers, ClusterProfileInformers, WorkInformers, AddOnInformers])) (\<lambda>_.
     bindG (goStmt (PlacementManager [ClusterInformers])) (\<lambda>_.
     bindG (if ol_Enabled L ''ManifestWorkReplicaSet'' then goStmt (WorkManager ''kube'') else returnG ()) (\<lambda>_.
     bindG (if ol_Enabled L ''AddonManagement''
            then goStmt (AddonManager [ClusterInformers, AddOnInformers, WorkInformers, DynamicInformers]) else returnG ()) (\<lambda>_.
     bindG (goStmt CtrlManager) (\<lambda>_.
     forG [KubeInformers, ClusterInformers, WorkInformers, AddOnInformers, DynamicInformers] (\<lambda>f. goStmt (StartInformers f))))))))"

text \<open>
  The goroutines. An error of a manager ends the process; the runtime manager is made in any case, but
  runs only when its one controller has been set up.
\<close>

definition ctrlManager :: "'k ocmLib \<Rightarrow> ('k ocm, unit) go" where
  "ctrlManager L =
     bindG (fatal (\<lambda>st. case ol_NewManager L (oc_ContentType st) of None \<Rightarrow> (Ok (), st) | Some e \<Rightarrow> (Err e, st))) (\<lambda>_.
     bindG (if ol_Enabled L ''ManagedServiceAccountEphemeralIdentity''
            then bindG (fatal (onHub (ol_SetupManagedServiceAccount L))) (\<lambda>_. returnG True)
            else returnG False) (\<lambda>startCtrlMgr.
     if \<not> startCtrlMgr then returnG () else fatal (onHub (ol_ManagerStart L))))"

definition runActivity :: "'k ocmLib \<Rightarrow> activity \<Rightarrow> ('k ocm, unit) go" where
  "runActivity L a = (case a of
     CtrlManager \<Rightarrow> ctrlManager L
   | StartInformers f \<Rightarrow> onHub (ol_InformersStart L f)
   | _ \<Rightarrow> fatal (onHub (ol_RunManager L a)))"

section \<open>InstallControllers\<close>

text \<open>
  The hook returns at once; this is the goroutine that it starts. The result of the wait only decides
  what is logged.
\<close>

definition InstallControllers :: "'k hubApi \<Rightarrow> 'k ocmLib \<Rightarrow> ('k ocm, unit) go" where
  "InstallControllers H L =
     bindG (\<lambda>st. (Ok (), st\<lparr>oc_ContentType := ''application/json''\<rparr>)) (\<lambda>_.
     bindG (fatal (newClient L ''apiextensions'')) (\<lambda>_.
     bindG (onHub (WaitFOROCMCRDsReady H)) (\<lambda>_.
     fatal (runControllers L))))"

section \<open>Proofs\<close>

lemma goStmt_Ok [gom_iff]: "goStmt a st = (Ok u, st') \<longleftrightarrow> st' = st\<lparr>oc_started := oc_started st @ [a]\<rparr>"
  by (auto simp: goStmt_def)

lemma newClient_Ok [gom_iff]: "newClient L n st = (Ok u, st') \<longleftrightarrow> ol_NewForConfig L n (oc_ContentType st) = None \<and> st' = st"
  by (auto simp: newClient_def split: option.splits)

lemma onHub_Ok [gom_iff]: "onHub m st = (Ok x, st') \<longleftrightarrow> (\<exists>k. m (oc_hub st) = (Ok x, k) \<and> st' = st\<lparr>oc_hub := k\<rparr>)"
  by (auto simp: onHub_def zoomG_def split: prod.splits)

lemma newClients_Ok:
  "forG ns (newClient L) st = (Ok u, st') \<longleftrightarrow> (\<forall>n\<in>set ns. ol_NewForConfig L n (oc_ContentType st) = None) \<and> st' = st"
  by (induction ns arbitrary: st) (auto simp: gom_iff)

text \<open>The goroutines that run once the clients have been made.\<close>

definition hubActivities :: "(string \<Rightarrow> bool) \<Rightarrow> activity list" where
  "hubActivities enabled =
     [RegistrationManager [KubeInformers, ClusterInformers, ClusterProfileInformers, WorkInformers, AddOnInformers],
      PlacementManager [ClusterInformers]] @
     (if enabled ''ManifestWorkReplicaSet'' then [WorkManager ''kube''] else []) @
     (if enabled ''AddonManagement'' then [AddonManager [ClusterInformers, AddOnInformers, WorkInformers, DynamicInformers]] else []) @
     CtrlManager # map StartInformers [KubeInformers, ClusterInformers, WorkInformers, AddOnInformers, DynamicInformers]"

lemma runControllers_Ok:
  "runControllers L st = (Ok u, st') \<longleftrightarrow>
     (\<forall>n\<in>set hubClients. ol_NewForConfig L n (oc_ContentType st) = None) \<and>
     st' = st\<lparr>oc_started := oc_started st @ hubActivities (ol_Enabled L)\<rparr>"
  by (cases "ol_Enabled L ''ManifestWorkReplicaSet''"; cases "ol_Enabled L ''AddonManagement''")
    (auto simp: runControllers_def newClients_Ok hubActivities_def gom_iff)

text \<open>A definition is seen established at some state.\<close>

definition seenEstablished :: "'k hubApi \<Rightarrow> string \<Rightarrow> bool" where
  "seenEstablished H name = (\<exists>k k' c. h_GetCRD H name k = (Ok c, k') \<and> crd_Established c)"

lemma crdsReady_True: "crdsReady H ns k = (Ok True, k') \<Longrightarrow> \<forall>n\<in>set ns. seenEstablished H n"
  by (induction ns arbitrary: k) (auto simp: seenEstablished_def gom_iff split: if_splits)

lemma wait_Ok:
  assumes "poll_law (h_PollUntilContextCancel H)" and "WaitFOROCMCRDsReady H k = (Ok ready, k')"
  shows "if ready then \<exists>k0. crdsReady H ocmCRDs k0 = (Ok True, k') else \<exists>e. everySecond H (crdsReady H ocmCRDs) k = (Err e, k')"
proof -
  obtain n where n: "everySecond H (crdsReady H ocmCRDs) k = attempts n (crdsReady H ocmCRDs) k"
    using assms(1) unfolding poll_law_def everySecond_def by blast
  obtain r k1 where r: "everySecond H (crdsReady H ocmCRDs) k = (r, k1)" by fastforce
  show ?thesis
    using assms(2) r attempts_True [of n "crdsReady H ocmCRDs" k k1]
    by (cases r) (auto simp: WaitFOROCMCRDsReady_def tryG_def returnG_def n)
qed

section \<open>Properties\<close>

text \<open>
  C12: the hook of the controllers goes on exactly when all clients can be made and the wait for the
  definitions ends; then it has switched the shared configuration to JSON and has started exactly the
  managers that the feature gates allow, after them all informer factories but the one of the cluster
  profiles. When the wait has succeeded every definition the controllers need has been seen
  established; when it ended because the context did, the controllers are started all the same.
\<close>

theorem controllers_follow_definitions:
  assumes law: "poll_law (h_PollUntilContextCancel H)"
  shows "InstallControllers H L st = (Ok (), st') \<longleftrightarrow>
    (\<forall>n\<in>set (''apiextensions'' # hubClients). ol_NewForConfig L n ''application/json'' = None) \<and>
    (\<exists>ready k. WaitFOROCMCRDsReady H (oc_hub st) = (Ok ready, k) \<and>
       (if ready then \<forall>name\<in>set ocmCRDs. seenEstablished H name
        else \<exists>e. everySecond H (crdsReady H ocmCRDs) (oc_hub st) = (Err e, k)) \<and>
       st' = \<lparr>oc_hub = k, oc_ContentType = ''application/json'', oc_started = oc_started st @ hubActivities (ol_Enabled L)\<rparr>)"
    (is "?run \<longleftrightarrow> ?spec")
proof -
  have run: "?run \<longleftrightarrow> (\<forall>n\<in>set (''apiextensions'' # hubClients). ol_NewForConfig L n ''application/json'' = None) \<and>
      (\<exists>ready k. WaitFOROCMCRDsReady H (oc_hub st) = (Ok ready, k) \<and>
        st' = \<lparr>oc_hub = k, oc_ContentType = ''application/json'', oc_started = oc_started st @ hubActivities (ol_Enabled L)\<rparr>)"
    by (cases st; cases st') (auto simp: InstallControllers_def gom_iff runControllers_Ok)
  have "if ready then \<forall>name\<in>set ocmCRDs. seenEstablished H name
        else \<exists>e. everySecond H (crdsReady H ocmCRDs) (oc_hub st) = (Err e, k)"
    if "WaitFOROCMCRDsReady H (oc_hub st) = (Ok ready, k)" for ready k
    using wait_Ok [OF law that] by (auto dest!: crdsReady_True split: if_splits)
  with run show ?thesis by blast
qed

text \<open>A hub on which all definitions are established, and libraries without faults and with all gates open.\<close>

definition establishedApi :: "hubView hubApi" where
  "establishedApi = storeApi\<lparr>h_GetCRD := (\<lambda>n k. (Ok \<lparr>crd_Name = n, crd_Established = True\<rparr>, k))\<rparr>"

definition openLib :: "'k ocmLib" where
  "openLib = \<lparr>ol_NewForConfig = (\<lambda>_ _. None), ol_Enabled = (\<lambda>_. True), ol_RunManager = (\<lambda>_. returnG ()), ol_NewManager = (\<lambda>_. None),
     ol_SetupManagedServiceAccount = returnG (), ol_ManagerStart = returnG (), ol_InformersStart = (\<lambda>_. returnG ())\<rparr>"

definition freshHub :: hubView where
  "freshHub = \<lparr>v_namespaces = {}, v_configMaps = Map.empty, v_infoRules = False, v_secrets = Map.empty,
     v_roles = Map.empty, v_bindings = Map.empty, v_dice = (\<lambda>n. n)\<rparr>"

lemma established_all: "(\<And>n. h_GetCRD H n k = (Ok \<lparr>crd_Name = n, crd_Established = True\<rparr>, k)) \<Longrightarrow> crdsReady H ns k = (Ok True, k)"
  by (induction ns) (simp_all add: tryG_def returnG_def)

lemma established_wait: "WaitFOROCMCRDsReady establishedApi k = (Ok True, k)"
proof -
  have "crdsReady establishedApi ocmCRDs k = (Ok True, k)" by (rule established_all) (simp add: establishedApi_def)
  then show ?thesis
    by (simp add: WaitFOROCMCRDsReady_def everySecond_def tryG_def returnG_def numeral_3_eq_3 bindG_def
        establishedApi_def [THEN arg_cong, of h_PollUntilContextCancel] storeApi_def)
qed

theorem controllers_follow_definitions_witness:
  "InstallControllers establishedApi openLib \<lparr>oc_hub = freshHub, oc_ContentType = [], oc_started = []\<rparr> =
     (Ok (), \<lparr>oc_hub = freshHub, oc_ContentType = ''application/json'', oc_started = hubActivities (\<lambda>_. True)\<rparr>)"
proof -
  have law: "poll_law (h_PollUntilContextCancel establishedApi)"
    using storeApi_law(2) by (simp add: establishedApi_def)
  have seen: "seenEstablished establishedApi n" for n by (auto simp: seenEstablished_def establishedApi_def)
  show ?thesis
    by (subst controllers_follow_definitions [OF law]) (auto simp: established_wait seen openLib_def)
qed

end
