(* ===== verification/Spec2Isabelle.thy ===== *)
theory Spec2Isabelle
  imports CertProperties ClusterRoleProofs AuthProofs RestOptions ManagerOptions ServerProperties Aggregator ManagerProofs
    BootstrapProofs SelfManagementProofs AdmissionProofs ServerChainProofs OcmControllers
begin

text \<open>
  A verification of the multicluster control plane of Open Cluster Management: one process that is an API
  server for clusters, with its etcd, its certificates and the controllers that run against it.

  \<^bold>\<open>The program.\<close> The command \<open>server\<close> (\<open>src/pkg/cmd/controller\<close>) makes the options of a server, reads its
  configuration, completes and validates them, and starts the server. Applying the configuration
  (\<open>servers/options/options.go\<close>, \<open>InitServerRunOptions\<close>) makes or renews all certificates and kubeconfigs
  below the data directory (\<open>pkg/certificate\<close>, on the signer trees of \<open>pkg/certificate/certchains\<close>) and points
  the options to the files. Completing starts the embedded etcd (\<open>pkg/etcd\<close>) and makes the generator of
  service account tokens. The server (\<open>pkg/servers\<close>) is a chain of three API servers, extensions, core and
  aggregator, made of one shared configuration; requests pass the admission plugins (\<open>plugin/admission\<close>).
  When the aggregator serves it runs its hooks: the registration of API services, the controller manager
  (\<open>controllers/kubecontroller\<close>, with the aggregation of cluster roles), the installation of definitions
  and of hub resources (\<open>controllers/bootstrap\<close>), the controllers of Open Cluster Management
  (\<open>controllers/ocmcontroller\<close>), self-management, which runs an agent (\<open>pkg/agent\<close>) in the same process, and
  the delegation of authentication to a hosting cluster.

  \<^bold>\<open>How it is modelled.\<close> A Go function that can fail is a function of type \<open>('s, 'a) go\<close> (theory \<open>Prelude\<close>): from
  a state to an \<open>outcome\<close>, a value, an error or a panic, and the state then reached, so that what a failing
  function has already done is part of the model. \<open>log.Fatal\<close> is a panic. Structs are records and keep
  the names of their fields; pointers that may be nil are options; a Go map is an association list with
  distinct keys, and ranging over it takes the order of the iteration as a parameter (\<open>range_order\<close>, of
  which only \<open>range_ok\<close> is known: a permutation). Integers are \<open>int\<close>; durations, whose arithmetic may wrap,
  go through \<open>wrap64\<close>. Library code is a parameter, a record of functions on a state of their own;
  what the proofs use of it are named predicates (below). A goroutine is an element of the list of those
  started, a work queue with its workers a step relation.

  \<^bold>\<open>Theories.\<close>
  \<^item> \<open>Prelude\<close>: outcomes, the monad and its rules (collections \<open>gom_iff\<close>, \<open>keep\<close>, \<open>succeed\<close>), the methods
    \<open>keeps\<close>, \<open>succeeds\<close> and \<open>answers\<close> that carry invariants, success and absence of panics through programs, maps
    (locale \<open>go_map\<close>), text functions.
  \<^item> \<open>Paths\<close>, \<open>World\<close>, \<open>Simulation\<close>: \<open>path/filepath\<close>; the files, clock and faults of the machine (locale
    \<open>file_store\<close>) with the crypto library as the record \<open>env\<close>; a concrete \<open>env\<close> that obeys all laws.
  \<^item> \<open>Signers\<close>, \<open>SignerProofs\<close>, \<open>SignerTotal\<close>: \<open>certchains/{signers,signerbuilder,cainfo,errors,util}.go\<close>, the tree
    of signers with its builder; the footprint of a tree on disk, its invariant \<open>wfSigner\<close>, and that the
    completion returns.
  \<^item> \<open>Chains\<close>, \<open>ChainProofs\<close>: \<open>certchains/{certchains,chainsbuilder}.go\<close>, including \<open>append\<close> on slices that share a
    backing array; the walk for any visitor (locale \<open>walk_visitor\<close>, interpreted for the closures of the code).
  \<^item> \<open>Certificates\<close>, \<open>CertificateProofs\<close>, \<open>CertProperties\<close>: \<open>certificate/{certificate,certificateinfo}.go\<close>; the properties
    of the whole certificate part.
  \<^item> \<open>KubeUtil\<close> (\<open>util/util.go\<close>), \<open>Configs\<close> (\<open>servers/configs/configs.go\<close>).
  \<^item> \<open>AuthOptions\<close>, \<open>AuthProofs\<close>: \<open>servers/options/{authentication,authorization}.go\<close>.
  \<^item> \<open>WatchCache\<close>, \<open>RestOptions\<close>: the watch cache sizes of \<open>options.go\<close> and \<open>servers/simplerestoptionsfactroy.go\<close>.
  \<^item> \<open>ServerOptions\<close>, \<open>ServerProofs\<close>, \<open>ServerProperties\<close>: \<open>servers/options/{options,embeddedetcd,plugins,admission}.go\<close> and
    \<open>etcd/etcd.go\<close>.
  \<^item> \<open>ManagerOptions\<close>: \<open>controllers/kubecontroller/options\<close>. \<open>ControllerManager\<close>, \<open>ManagerProofs\<close>: the rest of
    \<open>controllers/kubecontroller\<close>, but for \<open>clusterroleaggregation.go\<close>, which is \<open>ClusterRoleAgg\<close>, \<open>ClusterRoleProofs\<close>.
  \<^item> \<open>Aggregator\<close>: the API services of \<open>servers/aggregator.go\<close> and their health check.
  \<^item> \<open>KubeAPIServer\<close>: \<open>servers/{kubeapiserver,apiextensions}.go\<close>; \<open>ServerChain\<close>, \<open>ServerChainProofs\<close>: the servers of
    \<open>aggregator.go\<close>, \<open>servers/server.go\<close> and \<open>cmd/controller/controller.go\<close>.
  \<^item> \<open>AdmissionPlugins\<close>, \<open>AdmissionProofs\<close>: \<open>plugin/admission\<close>.
  \<^item> \<open>Bootstrap\<close>, \<open>BootstrapProofs\<close>: \<open>controllers/bootstrap\<close> and the hooks \<open>ocmcrd.go\<close>, \<open>ocmhubresource.go\<close>;
    \<open>OcmControllers\<close>: \<open>ocmcontroller.go\<close>; \<open>SelfManagement\<close>, \<open>SelfManagementProofs\<close>: \<open>ocmagent.go\<close>, \<open>agent/agent.go\<close> and
    the add-on of managed service accounts.
\<close>

text \<open>
  \<^bold>\<open>What the theorems show.\<close>
  \<^item> Certificates: nothing outside the certificate directory is written, whatever fails; a completed tree is
    the one its builder describes, and the builder can be read off it again; regeneration at a path stays
    in the footprint of that path; the certificates due are found, in order; the walk ends and visits all;
    without faults the completion returns. Three flaws of the code are theorems, too.
  \<^item> Options: applying a configuration sets exactly what it describes; completed options are within bounds
    and validate; validation of the authentication and signing options is characterised exactly; the
    sizes of the watch cache survive being written and read, and decide the cache of each resource.
  \<^item> Controllers: the manager comes up under exact conditions and runs exactly the described controllers;
    the aggregation of roles writes exactly the union of the selected rules, settles, and loses no key
    under any interleaving of events and workers; a service is healthy once all have been seen.
  \<^item> Server: the tokens it issues are those it accepts, the hooks it runs are exactly those of its
    configuration, and the configurations of the chain do not disturb one another. A managed cluster
    is stored as it was validated; manifest works are not examined by the enabled plugins.
  \<^item> Bootstrap: the hub resources are there after the start and are kept by a second one, controllers
    start after the definitions are established or the wait has failed, the agent of a self-managed cluster
    finds the kubeconfig that the certificates wrote.

  \<^bold>\<open>Parameters and laws.\<close> \<open>lib_frame\<close>, \<open>lib_serials\<close>, \<open>lib_pem\<close>, \<open>lib_total\<close> state of the crypto library which files it
  writes, how it counts serial numbers, that certificates survive being written, and that it makes what it
  is asked for; \<open>os_honest\<close> that the operating system reports what it does; \<open>queue_law\<close>, \<open>lister_law\<close>, \<open>keys_law\<close>
  the work queue and the cache of the role controller; \<open>retry_law\<close>, \<open>secret_law\<close>, \<open>hub_law\<close> the clients of the
  clusters; \<open>poll_law\<close> the polling function; \<open>libWorks\<close> the libraries of the controller manager; \<open>config_law\<close>
  and \<open>hook_law\<close> those of the API server. Each is shown to hold for a concrete instance by the witnesses.

  \<^bold>\<open>Fuel and bounds.\<close> The walk over the chains recurses with the depth of the tree plus two as fuel (\<open>walkF\<close>),
  which is proved to be enough for every tree. A worker of the role controller is run for a number of
  rounds, for all numbers. A poll makes as many attempts as the context lives, for all numbers; it may end
  in an error, and then the callers are modelled as they go on. Peer and authority validity in days is
  exact below the wrap-around of durations.

  \<^bold>\<open>Not modelled.\<close> What the libraries do (Kubernetes, etcd, library-go, controller-runtime, the managers and
  webhooks of Open Cluster Management) is not under \<open>src/\<close> and stays a parameter. Logging, metrics,
  event recording (\<open>util/recorder.go\<close>), usage texts of flags, contexts beyond their ending, jitter and the
  construction of informers have no effect on the modelled state. The agent command only runs the two
  functions of the agent in goroutines until a signal; the main function and the feature gates
  (\<open>pkg/feature\<close>) are declarations; \<open>AddFlags\<close>, \<open>Validate\<close> and \<open>ApplyTo\<close> of the admission options and the flags of
  library options are calls into the libraries. Data races between hooks are outside a model
  in which a hook is a function of the state. \<open>src/test\<close> holds test tools.
\<close>

end
